(* ===== verification/Prelude.thy ===== *)
theory Prelude
  imports Main "HOL-Library.Word" "HOL-Library.List_Lexorder" "HOL-Library.Char_ord"
begin

section \<open>Prelude: machine integers, results, text and ordered maps\<close>

text \<open>
  What every component of the model shares:
  \<^item> the unsigned integers of the code at their width, with the checked and saturating
    operations of the standard library that the code calls;
  \<^item> \<open>Result<T, E>\<close> as a sum \<open>'e + 'a\<close> (\<open>Inl\<close> the error) and the \<open>?\<close> operator as
    \<open>rbind\<close>;
  \<^item> text: a \<open>String\<close> is its UTF-8 bytes, a \<open>char list\<close>, compared lexicographically by
    byte as Rust compares \<open>str\<close>; decimal rendering of unsigned integers;
  \<^item> \<open>BTreeMap\<close> as an association list in strictly increasing key order, behind the locale
    \<open>ordered_map\<close> whose laws the components use.
\<close>

named_theorems arith_model \<open>facts that read checked arithmetic through unat\<close>
named_theorems codec_simps \<open>unfolding rules of the encoders and decoders\<close>

subsection \<open>Unsigned integers\<close>

type_synonym u8 = "8 word"
type_synonym u16 = "16 word"
type_synonym u32 = "32 word"
type_synonym u64 = "64 word"

text \<open>\<open>checked_add\<close>, \<open>checked_sub\<close>, \<open>saturating_add\<close>, \<open>saturating_sub\<close> of the integer types.\<close>

definition checked_add :: "'a::len word \<Rightarrow> 'a word \<Rightarrow> 'a word option" where
  "checked_add x y = (if unat x + unat y < 2 ^ LENGTH('a) then Some (x + y) else None)"

definition checked_sub :: "'a::len word \<Rightarrow> 'a word \<Rightarrow> 'a word option" where
  "checked_sub x y = (if y \<le> x then Some (x - y) else None)"

definition saturating_add :: "'a::len word \<Rightarrow> 'a word \<Rightarrow> 'a word" where
  "saturating_add x y = (case checked_add x y of Some z \<Rightarrow> z | None \<Rightarrow> - 1)"

definition saturating_sub :: "'a::len word \<Rightarrow> 'a word \<Rightarrow> 'a word" where
  "saturating_sub x y = (case checked_sub x y of Some z \<Rightarrow> z | None \<Rightarrow> 0)"

lemma checked_add_Some_iff [arith_model]:
  "checked_add x y = Some z \<longleftrightarrow> unat z = unat x + unat y"
  for x y z :: "'a::len word"
proof
  assume "checked_add x y = Some z"
  then show "unat z = unat x + unat y"
    by (auto simp: checked_add_def unat_word_ariths split: if_splits)
next
  assume z: "unat z = unat x + unat y"
  then have lt: "unat x + unat y < 2 ^ LENGTH('a)"
    by (metis unsigned_less)
  then have "unat (x + y) = unat z"
    using z by (simp add: unat_word_ariths)
  then show "checked_add x y = Some z"
    using lt by (simp add: checked_add_def word_unat_eq_iff)
qed

lemma checked_add_None_iff [arith_model]:
  "checked_add x y = None \<longleftrightarrow> 2 ^ LENGTH('a) \<le> unat x + unat y"
  for x y :: "'a::len word"
  by (simp add: checked_add_def not_less)

lemma checked_sub_Some_iff [arith_model]:
  "checked_sub x y = Some z \<longleftrightarrow> unat x = unat z + unat y"
  for x y z :: "'a::len word"
proof -
  have "y \<le> x \<Longrightarrow> unat (x - y) = unat x - unat y"
    by (simp add: unat_sub)
  moreover have "y \<le> x \<longleftrightarrow> unat y \<le> unat x"
    by (simp add: word_le_nat_alt)
  ultimately show ?thesis
    by (auto simp: checked_sub_def) (metis diff_add_inverse2 word_unat_eq_iff)
qed

lemma checked_add_gt: "checked_add x (1::u64) = Some y \<Longrightarrow> x < y"
  by (simp add: arith_model word_less_nat_alt)

lemma checked_add_inj: "checked_add x a = Some z \<Longrightarrow> checked_add y a = Some z \<Longrightarrow> x = y"
  for x y z a :: "'a::len word"
  by (simp add: arith_model word_unat_eq_iff)

lemma checked_add_then_sub: "checked_add x a = Some y \<Longrightarrow> checked_sub y a = Some x"
  for x y a :: "'a::len word"
  by (simp add: arith_model)

lemma saturating_add_checked [simp]: "checked_add x y = Some z \<Longrightarrow> saturating_add x y = z"
  by (simp add: saturating_add_def)

subsection \<open>Results\<close>

text \<open>The \<open>?\<close> operator: continue with the value, or return the error of the call.\<close>

fun rbind :: "'e + 'a \<Rightarrow> ('a \<Rightarrow> 'e + 'b) \<Rightarrow> 'e + 'b" where
  "rbind (Inl e) f = Inl e"
| "rbind (Inr x) f = f x"

text \<open>\<open>Option::ok_or\<close> and \<open>Result::map_err\<close>.\<close>

definition ok_or :: "'a option \<Rightarrow> 'e \<Rightarrow> 'e + 'a" where
  "ok_or x e = (case x of Some v \<Rightarrow> Inr v | None \<Rightarrow> Inl e)"

fun map_err :: "('e \<Rightarrow> 'f) \<Rightarrow> 'e + 'a \<Rightarrow> 'f + 'a" where
  "map_err f (Inl e) = Inl (f e)"
| "map_err f (Inr x) = Inr x"

lemma rbind_Inr_iff [simp]: "rbind r f = Inr y \<longleftrightarrow> (\<exists>x. r = Inr x \<and> f x = Inr y)"
  by (cases r) auto

lemma ok_or_simps [simp]: "ok_or None e = Inl e" "ok_or (Some v) e = Inr v"
  by (simp_all add: ok_or_def)

lemma ok_or_Inr_iff [simp]: "ok_or x e = Inr v \<longleftrightarrow> x = Some v"
  by (auto simp: ok_or_def split: option.splits)

lemma map_err_Inr_iff [simp]: "map_err f r = Inr v \<longleftrightarrow> r = Inr v"
  by (cases r) auto

text \<open>\<open>Option::transpose\<close> after \<open>map\<close>: an absent value is accepted, a present one converted.\<close>

definition map_transpose :: "('a \<Rightarrow> 'e + 'b) \<Rightarrow> 'a option \<Rightarrow> 'e + 'b option" where
  "map_transpose f x = (case x of None \<Rightarrow> Inr None | Some v \<Rightarrow> rbind (f v) (\<lambda>w. Inr (Some w)))"

lemma map_transpose_simps [simp]:
  "map_transpose f None = Inr None"
  "f v = Inr w \<Longrightarrow> map_transpose f (Some v) = Inr (Some w)"
  "f v = Inl e \<Longrightarrow> map_transpose f (Some v) = Inl e"
  by (simp_all add: map_transpose_def)

subsection \<open>Text\<close>

text \<open>\<open>Display\<close> of an unsigned integer: its decimal digits without leading zeros.\<close>

fun show_nat :: "nat \<Rightarrow> string" where
  "show_nat n = (if n < 10 then [char_of (48 + n)] else show_nat (n div 10) @ [char_of (48 + n mod 10)])"

declare show_nat.simps [simp del]

definition show_word :: "'a::len word \<Rightarrow> string" where
  "show_word w = show_nat (unat w)"

lemma show_nat_nonempty [simp]: "show_nat n \<noteq> []" "[] \<noteq> show_nat n"
  by (subst show_nat.simps, simp)+

lemma char_of_digit_eq [simp]:
  "a < 10 \<Longrightarrow> b < 10 \<Longrightarrow> (char_of (48 + a) :: char) = char_of (48 + b) \<longleftrightarrow> a = (b::nat)"
proof -
  assume "a < 10" "b < 10"
  then have "of_char (char_of (48 + a) :: char) = 48 + a" "of_char (char_of (48 + b) :: char) = 48 + b"
    by (simp_all add: of_char_of)
  then show ?thesis by (metis add_left_cancel)
qed

lemma show_nat_small: "n < 10 \<Longrightarrow> show_nat n = [char_of (48 + n)]"
  by (subst show_nat.simps) simp

lemma show_nat_big: "\<not> n < 10 \<Longrightarrow> show_nat n = show_nat (n div 10) @ [char_of (48 + n mod 10)]"
  by (subst show_nat.simps) simp

lemma show_nat_inject [simp]: "show_nat m = show_nat n \<longleftrightarrow> m = n"
proof
  show "show_nat m = show_nat n \<Longrightarrow> m = n"
  proof (induction m arbitrary: n rule: less_induct)
    case (less m)
    consider "m < 10" "n < 10" | "m < 10" "\<not> n < 10" | "\<not> m < 10" "n < 10"
      | "\<not> m < 10" "\<not> n < 10" by blast
    then show ?case
    proof cases
      case 1
      with less.prems show ?thesis by (simp add: show_nat_small)
    next
      case 2
      with less.prems show ?thesis by (simp add: show_nat_small show_nat_big)
    next
      case 3
      with less.prems show ?thesis by (simp add: show_nat_small show_nat_big)
    next
      case 4
      with less.prems have "show_nat (m div 10) = show_nat (n div 10)" "m mod 10 = n mod 10"
        by (simp_all add: show_nat_big)
      moreover have "m div 10 < m" using 4 by simp
      ultimately show ?thesis using less.IH by (metis div_mult_mod_eq)
    qed
  qed
qed simp

text \<open>Prefix and suffix tests and removal of \<open>str\<close>.\<close>

fun strip_prefix :: "string \<Rightarrow> string \<Rightarrow> string option" where
  "strip_prefix [] s = Some s"
| "strip_prefix (p # ps) [] = None"
| "strip_prefix (p # ps) (c # cs) = (if p = c then strip_prefix ps cs else None)"

definition starts_with :: "string \<Rightarrow> string \<Rightarrow> bool" where
  "starts_with s p \<longleftrightarrow> strip_prefix p s \<noteq> None"

definition strip_suffix :: "string \<Rightarrow> string \<Rightarrow> string option" where
  "strip_suffix p s = map_option rev (strip_prefix (rev p) (rev s))"

definition ends_with :: "string \<Rightarrow> string \<Rightarrow> bool" where
  "ends_with s p \<longleftrightarrow> strip_suffix p s \<noteq> None"

lemma strip_prefix_Some_iff: "strip_prefix p s = Some r \<longleftrightarrow> s = p @ r"
  by (induction p s rule: strip_prefix.induct) auto

lemma strip_suffix_Some_iff: "strip_suffix p s = Some r \<longleftrightarrow> s = r @ p"
proof -
  have "strip_suffix p s = Some r \<longleftrightarrow> strip_prefix (rev p) (rev s) = Some (rev r)"
    by (auto simp: strip_suffix_def)
  also have "\<dots> \<longleftrightarrow> rev s = rev p @ rev r" by (rule strip_prefix_Some_iff)
  also have "\<dots> \<longleftrightarrow> s = r @ p" by (metis rev_append rev_rev_ident)
  finally show ?thesis .
qed

end
