(* ===== verification/Ordered_Map.thy ===== *)
theory Ordered_Map
  imports Prelude
begin

section \<open>Ordered maps: the interface of BTreeMap and its model\<close>

text \<open>
  The code keeps its tables in \<open>std::collections::BTreeMap\<close>. The locale \<open>ordered_map\<close>
  states what a client of the map relies on: what a lookup returns after an insertion or a
  removal, and that iteration visits each key once, in increasing order. The lemmas a client
  needs are proved once from these laws. The model of the map is an association list in
  strictly increasing key order, the interpretation \<open>bm\<close>.
\<close>

locale ordered_map =
  fixes empty :: "'m"
    and get :: "'m \<Rightarrow> 'k::linorder \<Rightarrow> 'v option"
    and insert :: "'k \<Rightarrow> 'v \<Rightarrow> 'm \<Rightarrow> 'm"
    and remove :: "'k \<Rightarrow> 'm \<Rightarrow> 'm"
    and keys :: "'m \<Rightarrow> 'k list"
    and invar :: "'m \<Rightarrow> bool"
  assumes invar_empty: "invar empty"
    and invar_insert: "invar m \<Longrightarrow> invar (insert k v m)"
    and invar_remove: "invar m \<Longrightarrow> invar (remove k m)"
    and get_empty: "get empty k = None"
    and get_insert: "invar m \<Longrightarrow> get (insert k v m) k' = (if k' = k then Some v else get m k')"
    and get_remove: "invar m \<Longrightarrow> get (remove k m) k' = (if k' = k then None else get m k')"
    and set_keys: "invar m \<Longrightarrow> k \<in> set (keys m) \<longleftrightarrow> get m k \<noteq> None"
    and sorted_keys: "invar m \<Longrightarrow> sorted_wrt (<) (keys m)"
begin

lemma distinct_keys: "invar m \<Longrightarrow> distinct (keys m)"
  using sorted_keys strict_sorted_iff by blast

lemma keys_insert: "invar m \<Longrightarrow> set (keys (insert k v m)) = Set.insert k (set (keys m))"
  by (auto simp: set_keys invar_insert get_insert split: if_splits)

lemma keys_remove: "invar m \<Longrightarrow> set (keys (remove k m)) = set (keys m) - {k}"
  by (auto simp: set_keys invar_remove get_remove split: if_splits)

text \<open>The keys are determined by the lookups: two maps that agree on every lookup iterate alike.\<close>

lemma keys_eqI:
  assumes "invar m" "invar m'" "\<And>k. get m k = get m' k"
  shows "keys m = keys m'"
proof (rule strict_sorted_equal)
  show "sorted_wrt (<) (keys m)" "sorted_wrt (<) (keys m')"
    using assms sorted_keys by blast+
  show "set (keys m) = set (keys m')"
    using assms by (auto simp: set_keys)
qed

lemma keys_insert_present: "invar m \<Longrightarrow> get m k \<noteq> None \<Longrightarrow> keys (insert k v m) = keys m"
  by (rule strict_sorted_equal)
    (auto simp: sorted_keys invar_insert keys_insert set_keys)

end

subsection \<open>The model: association lists in strictly increasing key order\<close>

type_synonym ('k, 'v) bmap = "('k \<times> 'v) list"

abbreviation bmap_get :: "('k, 'v) bmap \<Rightarrow> 'k \<Rightarrow> 'v option" where
  "bmap_get \<equiv> map_of"

fun bmap_insert :: "'k::linorder \<Rightarrow> 'v \<Rightarrow> ('k, 'v) bmap \<Rightarrow> ('k, 'v) bmap" where
  "bmap_insert k v [] = [(k, v)]"
| "bmap_insert k v ((k', v') # m) =
     (if k < k' then (k, v) # (k', v') # m
      else if k = k' then (k, v) # m
      else (k', v') # bmap_insert k v m)"

definition bmap_remove :: "'k \<Rightarrow> ('k, 'v) bmap \<Rightarrow> ('k, 'v) bmap" where
  "bmap_remove k m = filter (\<lambda>(k', v). k' \<noteq> k) m"

definition bmap_keys :: "('k, 'v) bmap \<Rightarrow> 'k list" where
  "bmap_keys m = map fst m"

definition bmap_values :: "('k, 'v) bmap \<Rightarrow> 'v list" where
  "bmap_values m = map snd m"

definition bmap_invar :: "('k::linorder, 'v) bmap \<Rightarrow> bool" where
  "bmap_invar m \<longleftrightarrow> sorted_wrt (<) (map fst m)"

lemma bmap_invar_Nil [simp]: "bmap_invar []"
  by (simp add: bmap_invar_def)

lemma fst_set_bmap_insert: "fst ` set (bmap_insert k v m) = insert k (fst ` set m)"
  by (induction k v m rule: bmap_insert.induct) auto

lemma bmap_invar_insert: "bmap_invar m \<Longrightarrow> bmap_invar (bmap_insert k v m)"
  unfolding bmap_invar_def
proof (induction k v m rule: bmap_insert.induct)
  case (2 k v k' v' m)
  then show ?case
    using fst_set_bmap_insert [of k v m] by (auto dest: order.strict_trans)
qed simp

lemma bmap_get_insert: "bmap_get (bmap_insert k v m) k' = (if k' = k then Some v else bmap_get m k')"
  by (induction k v m rule: bmap_insert.induct) auto

lemma bmap_invar_remove: "bmap_invar m \<Longrightarrow> bmap_invar (bmap_remove k m)"
  unfolding bmap_invar_def bmap_remove_def
  by (induction m) auto

lemma bmap_get_remove: "bmap_get (bmap_remove k m) k' = (if k' = k then None else bmap_get m k')"
  by (induction m) (auto simp: bmap_remove_def)

interpretation bm: ordered_map "[]" bmap_get bmap_insert bmap_remove bmap_keys bmap_invar
proof
  show "bmap_invar m \<Longrightarrow> k \<in> set (bmap_keys m) \<longleftrightarrow> bmap_get m k \<noteq> None"
    for k :: "'k::linorder" and m :: "('k, 'v) bmap"
    by (simp add: bmap_keys_def map_of_eq_None_iff)
  show "bmap_invar m \<Longrightarrow> sorted_wrt (<) (bmap_keys m)" for m :: "('k::linorder, 'v) bmap"
    by (simp add: bmap_invar_def bmap_keys_def)
qed (simp_all add: bmap_invar_insert bmap_invar_remove bmap_get_insert bmap_get_remove)

lemmas bmap_simps = bmap_get_insert bmap_get_remove bm.invar_insert bm.invar_remove

end
