(* ===== verification/Rpc_Data.thy ===== *)
theory Rpc_Data
  imports Prelude
begin

section \<open>Data of the OMP RPC protocol\<close>

text \<open>
  The payload types of \<open>crates/omp-rpc/src\<close>: \<open>types.rs\<close>, \<open>model.rs\<close>, \<open>message.rs\<close>,
  \<open>session.rs\<close>, \<open>host.rs\<close> and \<open>ui.rs\<close>. A struct is a record, or a datatype with one
  constructor and named fields where it has many fields; an enum is a datatype whose
  constructors carry the enum's name as a prefix, since HOL constructors share one name space.
  \<open>Box\<close> is transparent. \<open>f64\<close> is the value's 64 IEEE bits: the code only moves such values.
  \<open>serde_json::Value\<close> is the JSON data model it documents.
\<close>

subsection \<open>JSON values\<close>

type_synonym f64 = "64 word"
type_synonym i32 = "32 word"
type_synonym i64 = "64 word"

datatype json_number = JPosInt u64 | JNegInt i64 | JFloat f64

datatype json =
    JNull
  | JBool bool
  | JNumber json_number
  | JString string
  | JArray "json list"
  | JObject "(string \<times> json) list"

type_synonym json_object = "(string \<times> json) list"

subsection \<open>Shared types (types.rs)\<close>

record context_usage =
  cu_tokens :: u64
  cu_context_window :: u64
  cu_percent :: f64

datatype rpc_request_id = RpcRequestId (rpc_request_id_str: string)

datatype rpc_protocol_version = RpcV1 | RpcV2

datatype protocol_v2 = ProtocolV2

datatype streaming_behavior = StreamingBehavior_Steer | StreamingBehavior_FollowUp

datatype queue_mode = QueueMode_All | QueueMode_OneAtATime

datatype interrupt_mode = InterruptMode_Immediate | InterruptMode_Wait

datatype subagent_subscription_level =
  SubscriptionLevel_Off | SubscriptionLevel_Progress | SubscriptionLevel_Events

datatype agent_source = AgentSource_Bundled | AgentSource_User | AgentSource_Project

datatype schema_mode = SchemaMode_Permissive | SchemaMode_Strict

datatype message_attribution = Attribution_User | Attribution_Agent

datatype tool_load_mode = LoadMode_Essential | LoadMode_Discoverable

subsection \<open>Models and usage (model.rs)\<close>

datatype effort =
  Effort_Minimal | Effort_Low | Effort_Medium | Effort_High | Effort_XHigh | Effort_Max

datatype thinking_level =
    Thinking_Inherit | Thinking_Off | Thinking_Minimal | Thinking_Low | Thinking_Medium
  | Thinking_High | Thinking_XHigh | Thinking_Max

datatype configured_thinking_level =
    Configured_Auto | Configured_Inherit | Configured_Off | Configured_Minimal | Configured_Low
  | Configured_Medium | Configured_High | Configured_XHigh | Configured_Max

record orchestration_usage =
  ou_input :: "u64 option"
  ou_cache_read :: "u64 option"
  ou_output :: "u64 option"

record cache_write_ttl_usage =
  ttl_ephemeral5m :: "u64 option"
  ttl_ephemeral1h :: "u64 option"

record server_tool_usage =
  stu_web_search :: "u64 option"
  stu_web_fetch :: "u64 option"

record usage_cost =
  uc_input :: f64
  uc_output :: f64
  uc_cache_read :: f64
  uc_cache_write :: f64
  uc_total :: f64

datatype (plugins only: code) usage = Usage
  (usage_input: u64)
  (usage_output: u64)
  (usage_cache_read: u64)
  (usage_cache_write: u64)
  (usage_total_tokens: u64)
  (usage_orchestration: "orchestration_usage option")
  (usage_premium_requests: "f64 option")
  (usage_reasoning_tokens: "u64 option")
  (usage_cttl: "cache_write_ttl_usage option")
  (usage_server: "server_tool_usage option")
  (usage_cost: usage_cost)

datatype model_input = ModelInput_Text | ModelInput_Image

datatype thinking_control_mode =
    ThinkingControl_Effort | ThinkingControl_Budget | ThinkingControl_GoogleLevel
  | ThinkingControl_AnthropicAdaptive | ThinkingControl_AnthropicBudgetEffort

datatype (plugins only: code) thinking_config = ThinkingConfig
  (tc_mode: thinking_control_mode)
  (tc_efforts: "effort list")
  (tc_default_level: "effort option")
  (tc_effort_map: "(effort \<times> string) list option")
  (tc_supports_display: "bool option")
  (tc_effort_routing: "(string \<times> string) list option")
  (tc_effort_budgets: "(effort \<times> u64) list option")
  (tc_suppress_when_off: "bool option")
  (tc_requires_effort: "bool option")

record model_cost =
  mc_input :: f64
  mc_output :: f64
  mc_cache_read :: f64
  mc_cache_write :: f64

datatype reasoning_mode = ReasoningMode_Pro

datatype image_input_decoder = ImageInputDecoder_Stb

datatype model_transport = ModelTransport_PiNative

datatype apply_patch_tool_type = ApplyPatch_Freeform | ApplyPatch_Function

datatype (plugins only: code) model = Model
  (model_id: string)
  (model_request_model_id: "string option")
  (model_reasoning_mode: "reasoning_mode option")
  (model_name: string)
  (model_api: string)
  (model_provider: string)
  (model_base_url: string)
  (model_reasoning: bool)
  (model_inputs: "model_input list")
  (model_image_input_decoder: "image_input_decoder option")
  (model_supports_tools: "bool option")
  (model_supports_computer_use: "bool option")
  (model_supports_computer_use_config: "bool option")
  (model_gitlab_duo_workflow_root_namespace_id: "string option")
  (model_cursor_max_mode: "bool option")
  (model_model_cost: model_cost)
  (model_premium_multiplier: "f64 option")
  (model_context_window: "u64 option")
  (model_max_tokens: "u64 option")
  (model_omit_max_output_tokens: "bool option")
  (model_headers: "(string \<times> string) list option")
  (model_transport_kind: "model_transport option")
  (model_prefer_websockets: "bool option")
  (model_use_responses_lite: "bool option")
  (model_context_promotion_target: "string option")
  (model_compaction_model: "string option")
  (model_remote_compaction: "json option")
  (model_priority: "i64 option")
  (model_thinking: "thinking_config option")
  (model_compat: json)
  (model_compat_config: "json option")
  (model_apply_patch_tool_type: "apply_patch_tool_type option")
  (model_is_o_auth: "bool option")

subsection \<open>Messages (message.rs)\<close>

record text_content =
  tx_text :: string
  tx_text_signature :: "string option"

datatype image_detail = ImageDetail_Auto | ImageDetail_Low | ImageDetail_High | ImageDetail_Original

record image_content =
  img_data :: string
  img_mime_type :: string
  img_detail :: "image_detail option"

datatype user_content_block =
  UserContentBlock_Text text_content | UserContentBlock_Image image_content

datatype message_content =
  MessageContent_Text string | MessageContent_Blocks "user_content_block list"

datatype tool_result_content =
  ToolResultContent_Text text_content | ToolResultContent_Image image_content

datatype computer_mouse_button =
  MouseButton_Left | MouseButton_Right | MouseButton_Wheel | MouseButton_Back | MouseButton_Forward

record computer_point =
  cp_x :: f64
  cp_y :: f64

datatype (plugins only: code) computer_action =
    ComputerAction_Click computer_mouse_button f64 f64 "string list option"
  | ComputerAction_DoubleClick f64 f64 "string list option"
  | ComputerAction_Drag "computer_point list" "string list option"
  | ComputerAction_Keypress "string list"
  | ComputerAction_Move f64 f64 "string list option"
  | ComputerAction_Screenshot
  | ComputerAction_Scroll f64 f64 f64 f64 "string list option"
  | ComputerAction_Type string
  | ComputerAction_Wait

record computer_safety_check =
  csc_id :: string
  csc_code :: "string option"
  csc_message :: "string option"

datatype tool_call_provider_metadata =
  ToolCallMetadata_Computer string "computer_action list" "computer_safety_check list"

datatype screenshot_location = Screenshot_ImageUrl string | Screenshot_FileId string

datatype screenshot_ref = ComputerScreenshot screenshot_location

datatype tool_result_provider_metadata =
  ToolResultMetadata_Computer screenshot_ref "computer_safety_check list"

record tool_call =
  tc_id :: string
  tc_name :: string
  tc_arguments :: json_object
  tc_thought_signature :: "string option"
  tc_intent :: "string option"
  tc_raw_block :: "string option"
  tc_custom_wire_name :: "string option"
  tc_provider_metadata :: "tool_call_provider_metadata option"

type_synonym fallback_model = string

datatype (plugins only: code) assistant_content =
    AssistantContent_Text string "string option"
  | AssistantContent_Thinking string "string option" "string option"
  | AssistantContent_RedactedThinking string
  | AssistantContent_Fallback fallback_model fallback_model
  | AssistantContent_AnthropicServerTool json
  | AssistantContent_Image string string "image_detail option"
  | AssistantContent_ToolCall tool_call

record context_snapshot =
  cs_prompt_tokens :: u64
  cs_non_message_tokens :: u64
  cs_last_message_timestamp :: "u64 option"

datatype recovery_kind_marker = RecoveryMarker_AutoRetry
datatype recovery_status = RecoveryStatus_Recovered
datatype recovery_kind = Recovery_Credential | Recovery_Model | Recovery_Wait | Recovery_Plain

record superseding_response =
  sr_timestamp :: u64
  sr_response_id :: "string option"
  sr_provider :: string
  sr_model :: string

record assistant_retry_recovery =
  arr_kind :: recovery_kind_marker
  arr_status :: recovery_status
  arr_attempt :: u32
  arr_recovered_at :: string
  arr_recovery :: recovery_kind
  arr_note :: string
  arr_superseded_by :: "superseding_response option"

datatype stop_reason =
  StopReason_Stop | StopReason_Length | StopReason_ToolUse | StopReason_Error | StopReason_Aborted

datatype (plugins only: code) assistant_message_body = AssistantMessageBody
  (amb_content: "assistant_content list")
  (amb_api: string)
  (amb_provider: string)
  (amb_model: string)
  (amb_context_snapshot: "context_snapshot option")
  (amb_retry_recovery: "assistant_retry_recovery option")
  (amb_response_id: "string option")
  (amb_upstream_provider: "string option")
  (amb_usage: usage)
  (amb_stop_reason: stop_reason)
  (amb_stop_details: "json option")
  (amb_error_message: "string option")
  (amb_tool_call_abort_messages: "(string \<times> string) list option")
  (amb_error_status: "u16 option")
  (amb_error_id: "u64 option")
  (amb_disabled_features: "string list option")
  (amb_provider_payload: "json option")
  (amb_timestamp: u64)
  (amb_duration: "u64 option")
  (amb_ttft: "u64 option")

datatype assistant_message_role = AssistantMessageRole_Assistant

record assistant_message =
  am_role :: assistant_message_role
  am_body :: assistant_message_body

definition AssistantMessage_new :: "assistant_message_body \<Rightarrow> assistant_message" where
  "AssistantMessage_new body = \<lparr>am_role = AssistantMessageRole_Assistant, am_body = body\<rparr>"

datatype (plugins only: code) tool_result_message_body = ToolResultMessageBody
  (trm_tool_call_id: string)
  (trm_tool_name: string)
  (trm_content: "tool_result_content list")
  (trm_details: "json option")
  (trm_is_error: bool)
  (trm_attribution: "message_attribution option")
  (trm_pruned_at: "u64 option")
  (trm_provider_metadata: "tool_result_provider_metadata option")
  (trm_useless: "bool option")
  (trm_timestamp: u64)

datatype tool_result_message_role = ToolResultMessageRole_ToolResult

record tool_result_message =
  tr_role :: tool_result_message_role
  tr_body :: tool_result_message_body

definition ToolResultMessage_new :: "tool_result_message_body \<Rightarrow> tool_result_message" where
  "ToolResultMessage_new body = \<lparr>tr_role = ToolResultMessageRole_ToolResult, tr_body = body\<rparr>"

datatype file_mention_skipped_reason = Skipped_TooLarge | Skipped_Binary

record file_mention =
  fm_path :: string
  fm_content :: string
  fm_line_count :: "u64 option"
  fm_byte_size :: "u64 option"
  fm_skipped_reason :: "file_mention_skipped_reason option"
  fm_image :: "image_content option"

datatype (plugins only: code) agent_message =
    AgentMessage_User message_content "bool option" "bool option" "message_attribution option"
      "json option" u64
  | AgentMessage_Developer message_content "message_attribution option" "json option" u64
  | AgentMessage_Assistant assistant_message_body
  | AgentMessage_ToolResult tool_result_message_body
  | AgentMessage_BashExecution string string "i32 option" bool bool "json option" u64 "bool option"
  | AgentMessage_PythonExecution string string "i32 option" bool bool "json option" u64 "bool option"
  | AgentMessage_Custom string message_content bool "json option" "message_attribution option" u64
  | AgentMessage_HookMessage string message_content bool "json option"
      "message_attribution option" u64
  | AgentMessage_BranchSummary string string u64
  | AgentMessage_CompactionSummary string "string option" u64 "json option"
      "tool_result_content list option" "image_content list option" "string option" u64
  | AgentMessage_FileMention "file_mention list" u64

definition agent_message_of_assistant :: "assistant_message \<Rightarrow> agent_message" where
  "agent_message_of_assistant m = AgentMessage_Assistant (am_body m)"

definition agent_message_of_tool_result :: "tool_result_message \<Rightarrow> agent_message" where
  "agent_message_of_tool_result m = AgentMessage_ToolResult (tr_body m)"

datatype completed_stop_reason = Completed_Stop | Completed_Length | Completed_ToolUse
datatype failed_stop_reason = FailedStop_Aborted | FailedStop_Error

text \<open>\<open>usize\<close> is 64 bits wide on the supported targets.\<close>

datatype (plugins only: code) assistant_message_event =
    AssistantEvent_Start assistant_message
  | AssistantEvent_TextStart u64 assistant_message
  | AssistantEvent_TextDelta u64 string assistant_message
  | AssistantEvent_TextEnd u64 string assistant_message
  | AssistantEvent_ThinkingStart u64 assistant_message
  | AssistantEvent_ThinkingDelta u64 string assistant_message
  | AssistantEvent_ThinkingEnd u64 string assistant_message
  | AssistantEvent_ImageEnd u64 image_content assistant_message
  | AssistantEvent_ToolCallStart u64 assistant_message
  | AssistantEvent_ToolCallDelta u64 string assistant_message
  | AssistantEvent_ToolCallEnd u64 tool_call assistant_message
  | AssistantEvent_Done completed_stop_reason assistant_message
  | AssistantEvent_Error failed_stop_reason assistant_message

subsection \<open>Sessions (session.rs)\<close>

datatype todo_status =
  Todo_Pending | Todo_InProgress | Todo_Completed | Todo_Abandoned | Todo_Blocked

record todo_item =
  todo_content :: string
  todo_item_status :: todo_status
  todo_blocker :: "string option"

record todo_phase =
  phase_name :: string
  phase_tasks :: "todo_item list"

record dump_tool =
  dt_name :: string
  dt_description :: string
  dt_parameters :: json
  dt_examples :: "json list option"

datatype (plugins only: code) session_state = SessionState
  (ss_model: "model option")
  (ss_thinking_level: "thinking_level option")
  (ss_is_streaming: bool)
  (ss_is_compacting: bool)
  (ss_steering_mode: queue_mode)
  (ss_follow_up_mode: queue_mode)
  (ss_interrupt_mode: interrupt_mode)
  (ss_session_file: "string option")
  (ss_session_id: string)
  (ss_session_name: "string option")
  (ss_auto_compaction_enabled: bool)
  (ss_message_count: u64)
  (ss_queued_message_count: u64)
  (ss_todo_phases: "todo_phase list")
  (ss_system_prompt: "string list option")
  (ss_dump_tools: "dump_tool list option")
  (ss_context_usage: "context_usage option")

record session_token_stats =
  sts_input :: u64
  sts_output :: u64
  sts_reasoning :: u64
  sts_cache_read :: u64
  sts_cache_write :: u64
  sts_total :: u64

datatype (plugins only: code) session_stats = SessionStats
  (sst_session_file: "string option")
  (sst_session_id: string)
  (sst_user_messages: u64)
  (sst_assistant_messages: u64)
  (sst_tool_calls: u64)
  (sst_tool_results: u64)
  (sst_total_messages: u64)
  (sst_tokens: session_token_stats)
  (sst_premium_requests: f64)
  (sst_cost: f64)
  (sst_context_usage: "context_usage option")

record compaction_result =
  cr_summary :: string
  cr_short_summary :: "string option"
  cr_first_kept_entry_id :: string
  cr_tokens_before :: u64
  cr_details :: "json option"
  cr_preserve_data :: "json_object option"

datatype (plugins only: code) bash_result = BashResult
  (bash_output: string)
  (bash_exit_code: "i32 option")
  (bash_cancelled: bool)
  (bash_timed_out: "bool option")
  (bash_truncated: bool)
  (bash_total_lines: u64)
  (bash_total_bytes: u64)
  (bash_output_lines: u64)
  (bash_output_bytes: u64)
  (bash_artifact_id: "string option")
  (bash_working_dir: "string option")

datatype service_tier =
  ServiceTier_Auto | ServiceTier_Default | ServiceTier_Flex | ServiceTier_Scale | ServiceTier_Priority

record service_tier_by_family =
  tier_openai :: "service_tier option"
  tier_anthropic :: "service_tier option"
  tier_google :: "service_tier option"

datatype session_title_source = TitleSource_Auto | TitleSource_User

record session_entry_base =
  seb_id :: string
  seb_parent_id :: "string option"
  seb_timestamp :: string

datatype (plugins only: code) file_entry =
    FileEntry_Session "u32 option" string "string option" "session_title_source option" string
      string "string list option" "string option" "string option"
  | FileEntry_Message session_entry_base agent_message
  | FileEntry_ThinkingLevelChange session_entry_base "string option" "string option"
  | FileEntry_ModelChange session_entry_base string "string option"
  | FileEntry_ServiceTierChange session_entry_base "service_tier_by_family option"
  | FileEntry_Compaction session_entry_base string "string option" string u64 "json option"
      "json_object option" "bool option" "string option"
  | FileEntry_BranchSummary session_entry_base string string "json option" "bool option"
  | FileEntry_Custom session_entry_base string "json option"
  | FileEntry_CustomMessage session_entry_base string message_content "json option" bool
      "message_attribution option"
  | FileEntry_Label session_entry_base string "string option"
  | FileEntry_TitleChange session_entry_base string "string option" session_title_source
      "string option"
  | FileEntry_TtsrInjection session_entry_base "string list"
  | FileEntry_SessionInit session_entry_base string string "string list" "json option"
      "schema_mode option" "bool option" "string option" "bool option"
  | FileEntry_ModeChange session_entry_base string "(string \<times> json) list option"

record messages_page =
  mp_messages :: "agent_message list"
  mp_next_cursor :: "string option"
  mp_total_messages :: u64

record branch_message =
  bm_entry_id :: string
  bm_text :: string

subsection \<open>Host tools (host.rs)\<close>

record host_tool_definition =
  htd_name :: string
  htd_label :: "string option"
  htd_description :: string
  htd_parameters :: json_object
  htd_hidden :: "bool option"
  htd_load_mode :: "tool_load_mode option"

record host_uri_scheme_definition =
  hus_scheme :: string
  hus_description :: "string option"
  hus_writable :: "bool option"
  hus_immutable :: "bool option"

record agent_tool_result =
  atr_content :: "tool_result_content list"
  atr_details :: "json option"
  atr_is_error :: "bool option"
  atr_provider_metadata :: "tool_result_provider_metadata option"
  atr_useless :: "bool option"

datatype host_uri_operation = HostUri_Read | HostUri_Write
datatype host_uri_content_type = HostUri_Markdown | HostUri_Json | HostUri_PlainText

datatype host_request_frame =
    HostToolCall string string string json_object
  | HostToolCancel string string
  | HostUriRequest string host_uri_operation string "string option"
  | HostUriCancel string string

datatype (plugins only: code) host_response_frame =
    HostToolUpdate string agent_tool_result
  | HostToolResult string agent_tool_result "bool option"
  | HostUriResult string "string option" "host_uri_content_type option" "string list option"
      "bool option" "bool option" "string option"

subsection \<open>Extension UI (ui.rs)\<close>

datatype notification_type = Notification_Info | Notification_Warning | Notification_Error
datatype widget_placement = Widget_AboveEditor | Widget_BelowEditor

datatype (plugins only: code) extension_ui_request =
    UiRequest_Select string "string list" "u64 option"
  | UiRequest_Confirm string string "u64 option"
  | UiRequest_Input string "string option" "u64 option"
  | UiRequest_Editor string "string option" "bool option"
  | UiRequest_Cancel string
  | UiRequest_Notify string "notification_type option"
  | UiRequest_SetStatus string "string option"
  | UiRequest_SetWidget string "string list option" "widget_placement option"
  | UiRequest_SetTitle string
  | UiRequest_SetEditorText string
  | UiRequest_OpenUrl string "string option" "string option"

datatype extension_ui_request_frame = ExtensionUiRequestFrame string extension_ui_request

datatype extension_ui_response =
    UiResponse_Value string
  | UiResponse_Confirmed bool
  | UiResponse_Cancelled "bool option"

datatype extension_ui_response_frame = ExtensionUiResponseFrame string extension_ui_response

end
