(* ===== verification/Rpc_Frames.thy ===== *)
theory Rpc_Frames
  imports Rpc_Data
begin

section \<open>Frames of the OMP RPC protocol\<close>

text \<open>
  The messages that cross the pipe between the daemon and an OMP child process:
  \<open>crates/omp-rpc/src/response.rs\<close>, \<open>subagent.rs\<close>, \<open>command.rs\<close> and the frame types of
  \<open>frame.rs\<close>. \<open>server_message\<close> is what the child sends, \<open>client_message\<close> what the daemon
  sends. The chunk and ready frames are in \<open>types.rs\<close>; their validation is in \<open>Rpc_Decoder\<close>.
\<close>

subsection \<open>Responses (response.rs)\<close>

record slash_command_input =
  sci_hint :: "string option"

record slash_subcommand =
  sub_name :: string
  sub_description :: "string option"
  sub_usage :: "string option"

datatype slash_command_source =
  Source_Builtin | Source_Skill | Source_Extension | Source_Custom | Source_McpPrompt | Source_File

record available_slash_command =
  asc_name :: string
  asc_aliases :: "string list option"
  asc_description :: "string option"
  asc_input :: "slash_command_input option"
  asc_subcommands :: "slash_subcommand list option"
  asc_source :: slash_command_source

record model_cycle_result =
  mcr_model :: model
  mcr_thinking_level :: "thinking_level option"
  mcr_is_scoped :: bool

record login_provider =
  lp_id :: string
  lp_name :: string
  lp_available :: bool
  lp_authenticated :: bool

record branch_result =
  br_text :: string
  br_cancelled :: bool

subsection \<open>Subagents (subagent.rs)\<close>

datatype agent_progress_status =
  Progress_Pending | Progress_Running | Progress_Completed | Progress_Failed | Progress_Aborted

record recent_tool =
  rt_tool :: string
  rt_args :: string
  rt_end_ms :: u64

datatype model_override = ModelOverride_One string | ModelOverride_Many "string list"

record retry_state =
  rs_attempt :: u32
  rs_max_attempts :: u32
  rs_delay_ms :: u64
  rs_error_message :: string
  rs_started_at_ms :: u64

record retry_failure =
  rf_attempt :: u32
  rf_error_message :: string

datatype async_task_status = AsyncTask_Running | AsyncTask_Completed | AsyncTask_Failed
datatype async_task_type = AsyncTaskType_Task

record async_task_state =
  ats_state :: async_task_status
  ats_job_id :: string
  ats_type :: async_task_type

record subagent_output_meta =
  som_line_count :: u64
  som_char_count :: u64

datatype schema_source = SchemaSource_Caller | SchemaSource_Agent | SchemaSource_Session | SchemaSource_None
datatype validation_status = Validation_Valid | Validation_Invalid | Validation_Unavailable

record structured_subagent_output =
  sso_source :: schema_source
  sso_mode :: schema_mode
  sso_status :: validation_status
  sso_data :: "json option"
  sso_error :: "string option"

datatype (plugins only: code) single_subagent_result = SingleSubagentResult
  (ssr_index: u32)
  (ssr_id: string)
  (ssr_agent: string)
  (ssr_agent_source: agent_source)
  (ssr_task: string)
  (ssr_assignment: "string option")
  (ssr_description: "string option")
  (ssr_last_intent: "string option")
  (ssr_exit_code: i32)
  (ssr_output: string)
  (ssr_stderr: string)
  (ssr_truncated: bool)
  (ssr_structured_output: "structured_subagent_output option")
  (ssr_duration_ms: u64)
  (ssr_tokens: u64)
  (ssr_requests: u64)
  (ssr_context_tokens: "u64 option")
  (ssr_context_window: "u64 option")
  (ssr_model_override: "model_override option")
  (ssr_resolved_model: "string option")
  (ssr_resolved_model_is_fallback: "bool option")
  (ssr_error: "string option")
  (ssr_aborted: "bool option")
  (ssr_abort_reason: "string option")
  (ssr_usage: "usage option")
  (ssr_output_path: "string option")
  (ssr_patch_path: "string option")
  (ssr_branch_name: "string option")
  (ssr_branch_base_sha: "string option")
  (ssr_nested_patches: "json list option")
  (ssr_extracted_tool_data: "(string \<times> json list) list option")
  (ssr_retry_failure: "retry_failure option")
  (ssr_output_meta: "subagent_output_meta option")

text \<open>Progress and the details of an in-flight task refer to each other.\<close>

datatype (plugins only: code) agent_progress = AgentProgress
  (ap_index: u32)
  (ap_id: string)
  (ap_agent: string)
  (ap_agent_source: agent_source)
  (ap_status: agent_progress_status)
  (ap_task: string)
  (ap_assignment: "string option")
  (ap_description: "string option")
  (ap_last_intent: "string option")
  (ap_current_tool: "string option")
  (ap_current_tool_args: "string option")
  (ap_current_tool_start_ms: "u64 option")
  (ap_recent_tools: "recent_tool list")
  (ap_recent_output: "string list")
  (ap_tool_count: u64)
  (ap_requests: u64)
  (ap_tokens: u64)
  (ap_context_tokens: "u64 option")
  (ap_context_window: "u64 option")
  (ap_cost: f64)
  (ap_duration_ms: u64)
  (ap_model_override: "model_override option")
  (ap_resolved_model: "string option")
  (ap_resolved_model_is_fallback: "bool option")
  (ap_extracted_tool_data: "(string \<times> json list) list option")
  (ap_retry_state: "retry_state option")
  (ap_retry_failure: "retry_failure option")
  (ap_inflight_task_details: "task_tool_details option")
and task_tool_details = TaskToolDetails
  (ttd_project_agents_dir: "string option")
  (ttd_results: "single_subagent_result list")
  (ttd_total_duration_ms: u64)
  (ttd_usage: "usage option")
  (ttd_output_paths: "string list option")
  (ttd_progress: "agent_progress list option")
  (ttd_async: "async_task_state option")

datatype (plugins only: code) subagent_snapshot = SubagentSnapshot
  (sas_id: string)
  (sas_index: u32)
  (sas_agent: string)
  (sas_agent_source: agent_source)
  (sas_description: "string option")
  (sas_status: agent_progress_status)
  (sas_task: "string option")
  (sas_assignment: "string option")
  (sas_session_file: "string option")
  (sas_last_update: u64)
  (sas_progress: "agent_progress option")
  (sas_parent_tool_call_id: "string option")

datatype (plugins only: code) subagent_messages_result = SubagentMessagesResult
  (smr_session_file: string)
  (smr_from_byte: u64)
  (smr_next_byte: u64)
  (smr_reset: bool)
  (smr_entries: "file_entry list")
  (smr_messages: "agent_message list")

datatype subagent_lifecycle_status =
  Lifecycle_Started | Lifecycle_Completed | Lifecycle_Failed | Lifecycle_Aborted

datatype (plugins only: code) subagent_lifecycle_payload = SubagentLifecyclePayload
  (slp_id: string)
  (slp_agent: string)
  (slp_agent_source: agent_source)
  (slp_description: "string option")
  (slp_status: subagent_lifecycle_status)
  (slp_session_file: "string option")
  (slp_parent_tool_call_id: "string option")
  (slp_index: u32)
  (slp_detached: "bool option")

datatype (plugins only: code) subagent_progress_payload = SubagentProgressPayload
  (spp_index: u32)
  (spp_agent: string)
  (spp_agent_source: agent_source)
  (spp_task: string)
  (spp_parent_tool_call_id: "string option")
  (spp_assignment: "string option")
  (spp_progress: agent_progress)
  (spp_session_file: "string option")
  (spp_detached: "bool option")

subsection \<open>Results of commands (response.rs)\<close>

text \<open>
  A one-field result struct (\<open>AvailableCommands\<close>, \<open>CancelledResult\<close>, \<open>ExportHtmlResult\<close>
  and so on) is written as its field in the constructor that carries it.
\<close>

datatype (plugins only: code) success_response =
    Success_NegotiateProtocol protocol_v2
  | Success_Prompt "bool option" \<comment> \<open>\<open>data.agent_invoked\<close>\<close>
  | Success_Steer
  | Success_FollowUp
  | Success_Abort
  | Success_AbortAndPrompt
  | Success_NewSession bool
  | Success_GetState session_state
  | Success_GetAvailableCommands "available_slash_command list"
  | Success_SetTodos "todo_phase list"
  | Success_SetHostTools "string list"
  | Success_SetHostUriSchemes "string list"
  | Success_SetSubagentSubscription subagent_subscription_level
  | Success_GetSubagents "subagent_snapshot list"
  | Success_GetSubagentMessages subagent_messages_result
  | Success_SetModel model
  | Success_CycleModel "model_cycle_result option"
  | Success_GetAvailableModels "model list"
  | Success_SetThinkingLevel
  | Success_CycleThinkingLevel "effort option"
  | Success_SetSteeringMode
  | Success_SetFollowUpMode
  | Success_SetInterruptMode
  | Success_Compact compaction_result
  | Success_SetAutoCompaction
  | Success_SetAutoRetry
  | Success_AbortRetry
  | Success_Bash bash_result
  | Success_AbortBash
  | Success_GetSessionStats session_stats
  | Success_ExportHtml string
  | Success_SwitchSession bool
  | Success_Branch branch_result
  | Success_GetBranchMessages "branch_message list"
  | Success_GetLastAssistantText "string option"
  | Success_SetSessionName
  | Success_Handoff "string option option"
  | Success_GetMessages "agent_message list"
  | Success_GetMessagesPage messages_page
  | Success_GetLoginProviders "login_provider list"
  | Success_Login string

datatype (plugins only: code) rpc_response =
    RpcResponse_Success (rpc_response_id: "rpc_request_id option") success_response
  | RpcResponse_Error (rpc_response_id: "rpc_request_id option") string string "string option"

subsection \<open>Frames (frame.rs, types.rs)\<close>

record ready_frame =
  ready_max_frame_bytes :: u64
  ready_max_reassembled_frame_bytes :: u64
  ready_advertises_capabilities :: bool

record chunk_frame =
  chunk_id :: string
  chunk_index :: u32
  chunk_count :: u64
  chunk_byte_length :: u64
  chunk_data :: string

datatype transport_frame = Transport_Ready ready_frame | Transport_RpcChunk chunk_frame

datatype (plugins only: code) side_channel_frame =
    SideChannel_ExtensionError string string string
  | SideChannel_AvailableCommandsUpdate "available_slash_command list"
  | SideChannel_PromptResult "rpc_request_id option" bool
  | SideChannel_CommandOutput string
  | SideChannel_SessionInfoUpdate "string option" string
  | SideChannel_ConfigUpdate "model option" "thinking_level option"
  | SideChannel_RpcFrameError "string option" string

datatype notice_level = Notice_Info | Notice_Warning | Notice_Error
datatype auto_compaction_reason =
  Compaction_Threshold | Compaction_Overflow | Compaction_Idle | Compaction_Incomplete
datatype compaction_action =
  CompactionAction_ContextFull | CompactionAction_Handoff | CompactionAction_Shake
  | CompactionAction_Snapcompact

datatype (plugins only: code) session_event =
    Event_AgentStart
  | Event_AgentEnd "agent_message list" "u64 option" "json option" "json option" "bool option"
  | Event_TurnStart
  | Event_TurnEnd assistant_message "tool_result_message list"
  | Event_MessageStart agent_message
  | Event_MessageUpdate agent_message assistant_message_event
  | Event_MessageEnd agent_message
  | Event_ToolExecutionStart string string json "string option"
  | Event_ToolExecutionUpdate string string json json
  | Event_ToolExecutionEnd string string json "bool option"
  | Event_AutoCompactionStart auto_compaction_reason compaction_action
  | Event_AutoCompactionEnd compaction_action "compaction_result option" bool bool "string option"
      "bool option"
  | Event_AutoRetryStart u32 u32 u64 string "u64 option"
  | Event_AutoRetryEnd bool u32 "string option" "json list option"
  | Event_RetryFallbackApplied string string string
  | Event_RetryFallbackSucceeded string string
  | Event_TtsrTriggered "json list"
  | Event_TodoReminder "todo_item list" u32 u32
  | Event_TodoAutoClear
  | Event_IrcMessage agent_message
  | Event_Notice notice_level string "string option"
  | Event_ThinkingLevelChanged "thinking_level option" "configured_thinking_level option"
      "effort option"
  | Event_GoalUpdated "json option" "json option"

datatype (plugins only: code) subagent_frame =
    Subagent_Lifecycle subagent_lifecycle_payload
  | Subagent_Progress subagent_progress_payload
  | Subagent_Event string session_event

datatype (plugins only: code) server_message =
    ServerMessage_Response rpc_response
  | ServerMessage_Transport transport_frame
  | ServerMessage_ExtensionUi extension_ui_request_frame
  | ServerMessage_Host host_request_frame
  | ServerMessage_SideChannel side_channel_frame
  | ServerMessage_Subagent subagent_frame
  | ServerMessage_SessionEvent session_event

subsection \<open>Commands (command.rs)\<close>

datatype transcript_selector = Selector_SubagentId string | Selector_SessionFile string

text \<open>
  \<open>MessagePageLimit\<close> is a \<open>u16\<close> that only its checked constructor can build.
\<close>

datatype message_page_limit = MessagePageLimit (page_limit_get: u16)

datatype message_page_limit_error = MessagePageLimitError u16

definition MessagePageLimit_new :: "u16 \<Rightarrow> message_page_limit_error + message_page_limit" where
  "MessagePageLimit_new value =
     (if 1 \<le> value \<and> value \<le> 256 then Inr (MessagePageLimit value)
      else Inl (MessagePageLimitError value))"

fun show_message_page_limit_error :: "message_page_limit_error \<Rightarrow> string" where
  "show_message_page_limit_error (MessagePageLimitError value) =
     ''RPC message page limit must be between '' @ show_nat 1 @ '' and '' @ show_nat 256
       @ '', got '' @ show_word value"

datatype (plugins only: code) command_kind =
    Command_NegotiateProtocol protocol_v2
  | Command_Prompt string "image_content list option" "streaming_behavior option"
  | Command_Steer string "image_content list option"
  | Command_FollowUp string "image_content list option"
  | Command_Abort
  | Command_AbortAndPrompt string "image_content list option"
  | Command_NewSession "string option"
  | Command_GetState
  | Command_GetAvailableCommands
  | Command_SetTodos "todo_phase list"
  | Command_SetHostTools "host_tool_definition list"
  | Command_SetHostUriSchemes "host_uri_scheme_definition list"
  | Command_SetSubagentSubscription subagent_subscription_level
  | Command_GetSubagents
  | Command_GetSubagentMessages transcript_selector "u64 option"
  | Command_SetModel string string
  | Command_CycleModel
  | Command_GetAvailableModels
  | Command_SetThinkingLevel thinking_level
  | Command_CycleThinkingLevel
  | Command_SetSteeringMode queue_mode
  | Command_SetFollowUpMode queue_mode
  | Command_SetInterruptMode interrupt_mode
  | Command_Compact "string option"
  | Command_SetAutoCompaction bool
  | Command_SetAutoRetry bool
  | Command_AbortRetry
  | Command_Bash string
  | Command_AbortBash
  | Command_GetSessionStats
  | Command_ExportHtml "string option"
  | Command_SwitchSession string
  | Command_Branch string
  | Command_GetBranchMessages
  | Command_GetLastAssistantText
  | Command_SetSessionName string
  | Command_Handoff "string option"
  | Command_GetMessages
  | Command_GetMessagesPage "string option" "message_page_limit option"
  | Command_GetLoginProviders
  | Command_Login string

record rpc_command =
  command_id :: "rpc_request_id option"
  command_kind_of :: command_kind

definition Command_new :: "command_kind \<Rightarrow> rpc_command" where
  "Command_new kind = \<lparr>command_id = None, command_kind_of = kind\<rparr>"

definition Command_with_id :: "rpc_request_id \<Rightarrow> command_kind \<Rightarrow> rpc_command" where
  "Command_with_id request_id kind = \<lparr>command_id = Some request_id, command_kind_of = kind\<rparr>"

definition Command_negotiate_protocol :: "rpc_request_id \<Rightarrow> rpc_command" where
  "Command_negotiate_protocol request_id = Command_with_id request_id (Command_NegotiateProtocol ProtocolV2)"

fun thinking_level_of_effort :: "effort \<Rightarrow> thinking_level" where
  "thinking_level_of_effort Effort_Minimal = Thinking_Minimal"
| "thinking_level_of_effort Effort_Low = Thinking_Low"
| "thinking_level_of_effort Effort_Medium = Thinking_Medium"
| "thinking_level_of_effort Effort_High = Thinking_High"
| "thinking_level_of_effort Effort_XHigh = Thinking_XHigh"
| "thinking_level_of_effort Effort_Max = Thinking_Max"

datatype (plugins only: code) client_message =
    ClientMessage_Command rpc_command
  | ClientMessage_ExtensionUi extension_ui_response_frame
  | ClientMessage_Host host_response_frame

lemma MessagePageLimit_new_range:
  "MessagePageLimit_new v = Inr l \<Longrightarrow> 1 \<le> page_limit_get l \<and> page_limit_get l \<le> 256"
  by (auto simp: MessagePageLimit_new_def split: if_splits)

end
