(* ===== verification/Control_State.thy ===== *)
theory Control_State
  imports Ordered_Map Rpc_Frames
begin

section \<open>Control protocol: identifiers and replicated agent state\<close>

text \<open>
  \<open>crates/omp-control-protocol/src/id.rs\<close> and \<open>state.rs\<close>: the identifier newtypes, the
  agent snapshot, the changes and deltas that move it from one revision to the next, and the
  updates, cursors and subscription answers built from them. \<open>StateRevision\<close> and
  \<open>EventSequence\<close> are transparent wrappers of \<open>u64\<close> and are written as \<open>u64\<close>.
\<close>

subsection \<open>Identifiers (id.rs)\<close>

datatype identifier_error = IdentifierError string

text \<open>The macro \<open>string_identifier!\<close>: one wrapper per identifier, the same checked constructor.\<close>

definition string_identifier_new :: "string \<Rightarrow> (string \<Rightarrow> 'i) \<Rightarrow> string \<Rightarrow> identifier_error + 'i" where
  "string_identifier_new label wrap value =
     (if value = [] then Inl (IdentifierError label) else Inr (wrap value))"

fun show_identifier_error :: "identifier_error \<Rightarrow> string" where
  "show_identifier_error (IdentifierError label) = label @ '' cannot be empty''"

datatype agent_id = AgentId (agent_id_str: string)
datatype run_id = RunId (run_id_str: string)
datatype lease_holder_id = LeaseHolderId (lease_holder_id_str: string)
datatype server_id = ServerId (server_id_str: string)
datatype connection_id = ConnectionId (connection_id_str: string)
datatype device_id = DeviceId (device_id_str: string)
datatype pairing_id = PairingId (pairing_id_str: string)
datatype request_id = RequestId (request_id_str: string)
datatype operation_id = OperationId (operation_id_str: string)

definition AgentId_new :: "string \<Rightarrow> identifier_error + agent_id" where
  "AgentId_new = string_identifier_new ''agent ID'' AgentId"

definition RunId_new :: "string \<Rightarrow> identifier_error + run_id" where
  "RunId_new = string_identifier_new ''run ID'' RunId"

definition LeaseHolderId_new :: "string \<Rightarrow> identifier_error + lease_holder_id" where
  "LeaseHolderId_new = string_identifier_new ''lease holder ID'' LeaseHolderId"

definition ServerId_new :: "string \<Rightarrow> identifier_error + server_id" where
  "ServerId_new = string_identifier_new ''server ID'' ServerId"

definition ConnectionId_new :: "string \<Rightarrow> identifier_error + connection_id" where
  "ConnectionId_new = string_identifier_new ''connection ID'' ConnectionId"

definition DeviceId_new :: "string \<Rightarrow> identifier_error + device_id" where
  "DeviceId_new = string_identifier_new ''device ID'' DeviceId"

definition PairingId_new :: "string \<Rightarrow> identifier_error + pairing_id" where
  "PairingId_new = string_identifier_new ''pairing ID'' PairingId"

definition RequestId_new :: "string \<Rightarrow> identifier_error + request_id" where
  "RequestId_new = string_identifier_new ''request ID'' RequestId"

definition OperationId_new :: "string \<Rightarrow> identifier_error + operation_id" where
  "OperationId_new = string_identifier_new ''operation ID'' OperationId"

lemmas identifier_new_defs = string_identifier_new_def AgentId_new_def RunId_new_def
  LeaseHolderId_new_def ServerId_new_def ConnectionId_new_def DeviceId_new_def PairingId_new_def
  RequestId_new_def OperationId_new_def

text \<open>The derived order of an identifier is the order of its text.\<close>

instantiation agent_id :: linorder
begin

definition less_eq_agent_id :: "agent_id \<Rightarrow> agent_id \<Rightarrow> bool" where
  "less_eq_agent_id a b \<longleftrightarrow> agent_id_str a \<le> agent_id_str b"

definition less_agent_id :: "agent_id \<Rightarrow> agent_id \<Rightarrow> bool" where
  "less_agent_id a b \<longleftrightarrow> agent_id_str a < agent_id_str b"

instance
  by standard (auto simp: less_eq_agent_id_def less_agent_id_def intro: agent_id.expand)

end

instantiation device_id :: linorder
begin

definition less_eq_device_id :: "device_id \<Rightarrow> device_id \<Rightarrow> bool" where
  "less_eq_device_id a b \<longleftrightarrow> device_id_str a \<le> device_id_str b"

definition less_device_id :: "device_id \<Rightarrow> device_id \<Rightarrow> bool" where
  "less_device_id a b \<longleftrightarrow> device_id_str a < device_id_str b"

instance
  by standard (auto simp: less_eq_device_id_def less_device_id_def intro: device_id.expand)

end

instantiation operation_id :: linorder
begin

definition less_eq_operation_id :: "operation_id \<Rightarrow> operation_id \<Rightarrow> bool" where
  "less_eq_operation_id a b \<longleftrightarrow> operation_id_str a \<le> operation_id_str b"

definition less_operation_id :: "operation_id \<Rightarrow> operation_id \<Rightarrow> bool" where
  "less_operation_id a b \<longleftrightarrow> operation_id_str a < operation_id_str b"

instance
  by standard (auto simp: less_eq_operation_id_def less_operation_id_def intro: operation_id.expand)

end

subsection \<open>Agent state (state.rs)\<close>

type_synonym state_revision = u64
type_synonym event_sequence = u64

datatype agent_lifecycle =
    Lifecycle_Starting
  | Lifecycle_Idle
  | Lifecycle_Running
  | Lifecycle_Stopping
  | Lifecycle_Stopped
  | Lifecycle_Interrupted
  | Lifecycle_Failed_because string

datatype run_lifecycle =
    Run_Queued
  | Run_Running
  | Run_Completed
  | Run_Aborted
  | Run_Interrupted
  | Run_Failed string

fun is_terminal :: "run_lifecycle \<Rightarrow> bool" where
  "is_terminal Run_Completed = True"
| "is_terminal Run_Aborted = True"
| "is_terminal Run_Interrupted = True"
| "is_terminal (Run_Failed reason) = True"
| "is_terminal Run_Queued = False"
| "is_terminal Run_Running = False"

record session_summary =
  sum_session_id :: string
  sum_session_file :: "string option"
  sum_name :: "string option"
  sum_message_count :: u64

record run_snapshot =
  run_run_id :: run_id
  run_lifecycle :: run_lifecycle
  run_started_at_ms :: u64
  run_ended_at_ms :: "u64 option"

record interaction_lease =
  lease_holder :: lease_holder_id
  lease_expires_at_ms :: u64

datatype interaction_state = Unclaimed | Leased interaction_lease

record agent_snapshot =
  snap_agent_id :: agent_id
  snap_revision :: state_revision
  snap_event_sequence :: event_sequence
  snap_lifecycle :: agent_lifecycle
  snap_session :: "session_summary option"
  snap_active_run :: "run_snapshot option"
  snap_recent_runs :: "run_snapshot list"
  snap_interaction :: interaction_state
  snap_available_commands :: "available_slash_command list"

datatype agent_state_change =
    LifecycleChanged agent_lifecycle
  | SessionChanged session_summary
  | SessionCleared
  | RunUpserted run_snapshot
  | RunRemoved run_id
  | InteractionChanged interaction_state
  | AvailableCommandsChanged "available_slash_command list"

record state_delta =
  delta_agent_id :: agent_id
  delta_base_revision :: state_revision
  delta_revision :: state_revision
  delta_change :: agent_state_change

datatype agent_update =
    Update_Delta event_sequence state_delta
  | Update_Event agent_id event_sequence server_message

record subscription_cursor =
  cursor_agent_id :: agent_id
  cursor_revision :: state_revision
  cursor_event_sequence :: event_sequence

datatype subscription_start =
    Start_Snapshot agent_snapshot
  | Start_Replay "agent_update list"
  | Start_ResyncRequired agent_snapshot

datatype delta_apply_error =
    WrongAgent agent_id agent_id \<comment> \<open>expected, actual\<close>
  | RevisionMismatch state_revision state_revision \<comment> \<open>local, base\<close>
  | NonConsecutiveRevision state_revision state_revision \<comment> \<open>base, revision\<close>
  | StaleEventSequence event_sequence event_sequence \<comment> \<open>local, incoming\<close>

definition initial_snapshot :: "agent_id \<Rightarrow> agent_snapshot" where
  "initial_snapshot a = \<lparr>snap_agent_id = a, snap_revision = 0, snap_event_sequence = 0,
     snap_lifecycle = Lifecycle_Starting, snap_session = None, snap_active_run = None,
     snap_recent_runs = [], snap_interaction = Unclaimed, snap_available_commands = []\<rparr>"

text \<open>The cursor of a client that holds this snapshot (built in \<open>reducer.rs\<close>, \<open>cursor\<close>).\<close>

definition snapshot_cursor :: "agent_snapshot \<Rightarrow> subscription_cursor" where
  "snapshot_cursor s = \<lparr>cursor_agent_id = snap_agent_id s, cursor_revision = snap_revision s,
     cursor_event_sequence = snap_event_sequence s\<rparr>"

text \<open>The active run is the one with this identifier.\<close>

definition active_is :: "run_id \<Rightarrow> run_snapshot option \<Rightarrow> bool" where
  "active_is r active = (case active of Some a \<Rightarrow> run_run_id a = r | None \<Rightarrow> False)"

fun apply_change :: "agent_snapshot \<Rightarrow> agent_state_change \<Rightarrow> agent_snapshot" where
  "apply_change s (LifecycleChanged l) = s\<lparr>snap_lifecycle := l\<rparr>"
| "apply_change s (SessionChanged x) = s\<lparr>snap_session := Some x\<rparr>"
| "apply_change s SessionCleared = s\<lparr>snap_session := None\<rparr>"
| "apply_change s (RunUpserted run) =
     (let s = s\<lparr>snap_recent_runs :=
                filter (\<lambda>c. run_run_id c \<noteq> run_run_id run) (snap_recent_runs s)\<rparr>
      in if is_terminal (run_lifecycle run)
         then (let s = (if active_is (run_run_id run) (snap_active_run s)
                        then s\<lparr>snap_active_run := None\<rparr> else s)
               in s\<lparr>snap_recent_runs := snap_recent_runs s @ [run]\<rparr>)
         else s\<lparr>snap_active_run := Some run\<rparr>)"
| "apply_change s (RunRemoved r) =
     (let s = (if active_is r (snap_active_run s) then s\<lparr>snap_active_run := None\<rparr> else s)
      in s\<lparr>snap_recent_runs := filter (\<lambda>c. run_run_id c \<noteq> r) (snap_recent_runs s)\<rparr>)"
| "apply_change s (InteractionChanged i) = s\<lparr>snap_interaction := i\<rparr>"
| "apply_change s (AvailableCommandsChanged cs) = s\<lparr>snap_available_commands := cs\<rparr>"

definition would_change :: "agent_snapshot \<Rightarrow> agent_state_change \<Rightarrow> bool" where
  "would_change s c \<longleftrightarrow> apply_change s c \<noteq> s"

definition validate_update_cursor ::
  "agent_snapshot \<Rightarrow> agent_id \<Rightarrow> event_sequence \<Rightarrow> delta_apply_error + unit" where
  "validate_update_cursor s a q =
     (if a \<noteq> snap_agent_id s then Inl (WrongAgent (snap_agent_id s) a)
      else if q \<le> snap_event_sequence s then Inl (StaleEventSequence (snap_event_sequence s) q)
      else Inr ())"

text \<open>An error leaves the snapshot as it was, so only the result of a success is returned.\<close>

definition apply_delta ::
  "agent_snapshot \<Rightarrow> state_delta \<Rightarrow> event_sequence \<Rightarrow> delta_apply_error + agent_snapshot" where
  "apply_delta s d q =
     rbind (validate_update_cursor s (delta_agent_id d) q) (\<lambda>_.
       if delta_base_revision d \<noteq> snap_revision s
       then Inl (RevisionMismatch (snap_revision s) (delta_base_revision d))
       else if delta_revision d \<noteq> saturating_add (delta_base_revision d) 1
       then Inl (NonConsecutiveRevision (delta_base_revision d) (delta_revision d))
       else Inr ((apply_change s (delta_change d))
                   \<lparr>snap_revision := delta_revision d, snap_event_sequence := q\<rparr>))"

fun apply_update :: "agent_snapshot \<Rightarrow> agent_update \<Rightarrow> delta_apply_error + agent_snapshot" where
  "apply_update s (Update_Delta q d) = apply_delta s d q"
| "apply_update s (Update_Event a q ev) =
     rbind (validate_update_cursor s a q) (\<lambda>_. Inr (s\<lparr>snap_event_sequence := q\<rparr>))"

fun update_event_sequence :: "agent_update \<Rightarrow> event_sequence" where
  "update_event_sequence (Update_Delta q d) = q"
| "update_event_sequence (Update_Event a q ev) = q"

fun show_delta_apply_error :: "delta_apply_error \<Rightarrow> string" where
  "show_delta_apply_error (WrongAgent expected actual) =
     ''delta is for agent '' @ agent_id_str actual @ '', expected '' @ agent_id_str expected"
| "show_delta_apply_error (RevisionMismatch local base) =
     ''delta base revision '' @ show_word base @ '' does not match local revision ''
       @ show_word local"
| "show_delta_apply_error (NonConsecutiveRevision base revision) =
     ''delta revision '' @ show_word revision @ '' does not immediately follow base ''
       @ show_word base"
| "show_delta_apply_error (StaleEventSequence local incoming) =
     ''event sequence '' @ show_word incoming @ '' does not advance local sequence ''
       @ show_word local"

subsection \<open>Lemmas\<close>

lemma active_is_simps [simp]:
  "\<not> active_is r None"
  "active_is r (Some a) \<longleftrightarrow> run_run_id a = r"
  by (simp_all add: active_is_def)

text \<open>A change writes neither the identity nor the counters.\<close>

lemma apply_change_frame [simp]:
  "snap_agent_id (apply_change s c) = snap_agent_id s"
  "snap_revision (apply_change s c) = snap_revision s"
  "snap_event_sequence (apply_change s c) = snap_event_sequence s"
  by (cases c; simp add: Let_def)+

lemma apply_change_interaction:
  "snap_interaction (apply_change s c) =
     (case c of InteractionChanged i \<Rightarrow> i | _ \<Rightarrow> snap_interaction s)"
  by (cases c) (simp_all add: Let_def)

lemma apply_change_interaction_other:
  "\<forall>i. c \<noteq> InteractionChanged i \<Longrightarrow> snap_interaction (apply_change s c) = snap_interaction s"
  by (cases c) (simp_all add: Let_def)

text \<open>A change reads neither the counters it does not write.\<close>

lemma apply_change_counters:
  "apply_change (s\<lparr>snap_revision := r, snap_event_sequence := q\<rparr>) c =
     (apply_change s c)\<lparr>snap_revision := r, snap_event_sequence := q\<rparr>"
  by (cases c) (simp_all add: Let_def)

text \<open>Applying a change twice is applying it once.\<close>

lemma apply_change_idem: "apply_change (apply_change s c) c = apply_change s c"
proof (cases c)
  case (RunUpserted run)
  then show ?thesis by (cases "snap_active_run s") (auto simp: Let_def)
next
  case (RunRemoved r)
  then show ?thesis by (cases "snap_active_run s") (auto simp: Let_def)
qed simp_all

lemma would_change_after: "\<not> would_change (apply_change s c) c"
  by (simp add: would_change_def apply_change_idem)

lemma validate_update_cursor_Inr [simp]:
  "validate_update_cursor s a q = Inr u \<longleftrightarrow> a = snap_agent_id s \<and> snap_event_sequence s < q"
  by (auto simp: validate_update_cursor_def)

lemma apply_delta_Inr_iff:
  "apply_delta s d q = Inr s' \<longleftrightarrow>
     delta_agent_id d = snap_agent_id s \<and> snap_event_sequence s < q \<and>
     delta_base_revision d = snap_revision s \<and>
     delta_revision d = saturating_add (snap_revision s) 1 \<and>
     s' = (apply_change s (delta_change d))\<lparr>snap_revision := delta_revision d,
            snap_event_sequence := q\<rparr>"
  by (auto simp: apply_delta_def)

lemma apply_update_Inr_frame:
  assumes "apply_update s u = Inr s'"
  shows "snap_agent_id s' = snap_agent_id s"
    and "snap_event_sequence s' = update_event_sequence u"
    and "snap_event_sequence s < snap_event_sequence s'"
  using assms by (cases u; auto simp: apply_delta_Inr_iff)+

subsection \<open>The run history\<close>

text \<open>
  What every change keeps of the runs: the active run has not ended, the recent runs have,
  no identifier occurs twice among the recent runs, and the active run is not among them.
\<close>

definition runs_wf :: "agent_snapshot \<Rightarrow> bool" where
  "runs_wf s \<longleftrightarrow>
     (case snap_active_run s of None \<Rightarrow> True
      | Some r \<Rightarrow> \<not> is_terminal (run_lifecycle r) \<and>
                 run_run_id r \<notin> run_run_id ` set (snap_recent_runs s)) \<and>
     list_all (\<lambda>r. is_terminal (run_lifecycle r)) (snap_recent_runs s) \<and>
     distinct (map run_run_id (snap_recent_runs s))"

lemma runs_wf_initial [simp]: "runs_wf (initial_snapshot a)"
  by (simp add: runs_wf_def initial_snapshot_def)

lemma runs_wf_cong:
  "snap_active_run s = snap_active_run t \<Longrightarrow> snap_recent_runs s = snap_recent_runs t \<Longrightarrow>
     runs_wf s = runs_wf t"
  unfolding runs_wf_def by (simp cong: option.case_cong)

lemma runs_wf_counters [simp]:
  "runs_wf (s\<lparr>snap_revision := r\<rparr>) = runs_wf s"
  "runs_wf (s\<lparr>snap_event_sequence := q\<rparr>) = runs_wf s"
  by (rule runs_wf_cong; simp)+

lemma apply_change_runs_wf:
  assumes "runs_wf s"
  shows "runs_wf (apply_change s c)"
proof (cases c)
  case (RunUpserted run)
  with assms show ?thesis
    by (auto simp: runs_wf_def Let_def list_all_iff distinct_map_filter split: option.splits)
next
  case (RunRemoved r)
  with assms show ?thesis
    by (auto simp: runs_wf_def Let_def list_all_iff distinct_map_filter split: option.splits)
qed (use assms in \<open>auto simp: runs_wf_def split: option.splits\<close>)

lemma apply_update_runs_wf:
  "apply_update s u = Inr s' \<Longrightarrow> runs_wf s \<Longrightarrow> runs_wf s'"
  by (cases u) (auto simp: apply_delta_Inr_iff apply_change_runs_wf)

subsection \<open>Applying a sequence of updates\<close>

text \<open>A client applies updates one by one and stops at the first error.\<close>

fun apply_updates :: "agent_snapshot \<Rightarrow> agent_update list \<Rightarrow> delta_apply_error + agent_snapshot" where
  "apply_updates s [] = Inr s"
| "apply_updates s (u # us) = rbind (apply_update s u) (\<lambda>s. apply_updates s us)"

lemma apply_updates_append:
  "apply_updates s (us @ vs) = rbind (apply_updates s us) (\<lambda>s. apply_updates s vs)"
proof (induction us arbitrary: s)
  case (Cons u us)
  then show ?case by (cases "apply_update s u") simp_all
qed simp

lemma apply_updates_snoc_Inr:
  "apply_updates s us = Inr t \<Longrightarrow> apply_update t u = Inr t' \<Longrightarrow> apply_updates s (us @ [u]) = Inr t'"
  by (simp add: apply_updates_append)

lemma apply_updates_frame:
  "apply_updates s us = Inr s' \<Longrightarrow>
     snap_agent_id s' = snap_agent_id s \<and> snap_event_sequence s \<le> snap_event_sequence s'"
proof (induction us arbitrary: s)
  case (Cons u us)
  then obtain t where t: "apply_update s u = Inr t" "apply_updates t us = Inr s'"
    by auto
  then show ?case
    using Cons.IH [OF t(2)] apply_update_Inr_frame [OF t(1)] by (metis less_imp_le order.trans)
qed simp

end
