(* ===== verification/Agent_Actor.thy ===== *)
theory Agent_Actor
  imports Control_State
begin

section \<open>The agent actor\<close>

text \<open>
  \<open>crates/omp-control-plane/src/actor.rs\<close>: the task that owns one agent. It holds the
  authoritative snapshot, a bounded buffer of recent updates for replay, one bounded channel
  per subscriber, and the deadline of the interaction lease. Every command is a function from
  the state to the state and the reply; the loop that picks the next command or the lease
  timer is a step relation, because \<open>select!\<close> takes any branch that is ready.
\<close>

subsection \<open>Errors\<close>

datatype interaction_lease_error =
    Lease_HeldByOther interaction_lease
  | Lease_NotHeld
  | Lease_NotHolder lease_holder_id
  | Lease_ExpiryOverflow
  | Lease_DurationTooLarge

datatype agent_error =
    Agent_Stopped
  | Agent_RevisionExhausted
  | Agent_EventSequenceExhausted
  | Agent_InteractionLease interaction_lease_error

datatype subscription_error = Subscription_ResyncRequired | Subscription_Closed

fun show_subscription_error :: "subscription_error \<Rightarrow> string" where
  "show_subscription_error Subscription_ResyncRequired = ''subscriber fell behind; resync required''"
| "show_subscription_error Subscription_Closed = ''agent subscription closed''"

fun show_lease_error :: "interaction_lease_error \<Rightarrow> string" where
  "show_lease_error (Lease_HeldByOther lease) =
     ''interaction lease is held by '' @ lease_holder_id_str (lease_holder lease)
       @ '' until '' @ show_word (lease_expires_at_ms lease)"
| "show_lease_error Lease_NotHeld = ''interaction lease is not held''"
| "show_lease_error (Lease_NotHolder current) =
     ''interaction lease is held by '' @ lease_holder_id_str current"
| "show_lease_error Lease_ExpiryOverflow = ''interaction lease expiry overflowed''"
| "show_lease_error Lease_DurationTooLarge = ''interaction lease duration is too large''"

fun show_agent_error :: "agent_error \<Rightarrow> string" where
  "show_agent_error Agent_Stopped = ''agent actor stopped''"
| "show_agent_error Agent_RevisionExhausted = ''agent state revision exhausted''"
| "show_agent_error Agent_EventSequenceExhausted = ''agent event sequence exhausted''"
| "show_agent_error (Agent_InteractionLease e) = show_lease_error e"

fun agent_error_source :: "agent_error \<Rightarrow> interaction_lease_error option" where
  "agent_error_source (Agent_InteractionLease e) = Some e"
| "agent_error_source _ = None"

subsection \<open>Time\<close>

text \<open>
  \<open>Instant\<close> is a number of nanoseconds on the monotonic clock. Its \<open>checked_add\<close> fails when
  the seconds leave the \<open>i64\<close> of the platform's time value.
\<close>

type_synonym instant = nat

definition instant_checked_add :: "instant \<Rightarrow> nat \<Rightarrow> instant option" where
  "instant_checked_add t d = (if (t + d) div 10 ^ 9 < 2 ^ 63 then Some (t + d) else None)"

definition duration_from_millis :: "u64 \<Rightarrow> nat" where
  "duration_from_millis ms = unat ms * 10 ^ 6"

subsection \<open>Configuration and state\<close>

text \<open>\<open>NonZeroUsize\<close> capacities; that they are not zero is \<open>config_ok\<close>.\<close>

record agent_actor_config =
  cfg_replay_capacity :: nat
  cfg_subscriber_capacity :: nat

definition default_actor_config :: agent_actor_config where
  "default_actor_config = \<lparr>cfg_replay_capacity = 1024, cfg_subscriber_capacity = 256\<rparr>"

definition config_ok :: "agent_actor_config \<Rightarrow> bool" where
  "config_ok c \<longleftrightarrow> 0 < cfg_replay_capacity c \<and> 0 < cfg_subscriber_capacity c"

text \<open>
  A \<open>Subscriber\<close> and the \<open>AgentSubscription\<close> it feeds share one bounded channel and one
  atomic flag; a record holds both halves. \<open>sub_attached\<close>: the sender is still in the actor's
  vector; \<open>sub_open\<close>: the receiver has not been dropped.
\<close>

record subscription =
  sub_queue :: "agent_update list"
  sub_capacity :: nat
  sub_attached :: bool
  sub_open :: bool
  sub_resync_required :: bool

record actor_state =
  act_snapshot :: agent_snapshot
  act_replay :: "agent_update list"
  act_replay_capacity :: nat
  act_subscriber_capacity :: nat
  act_subscribers :: "subscription list"
  act_lease_deadline :: "instant option"

definition spawn_with_snapshot :: "agent_snapshot \<Rightarrow> agent_actor_config \<Rightarrow> actor_state" where
  "spawn_with_snapshot s cfg = \<lparr>act_snapshot = s, act_replay = [],
     act_replay_capacity = cfg_replay_capacity cfg,
     act_subscriber_capacity = cfg_subscriber_capacity cfg,
     act_subscribers = [], act_lease_deadline = None\<rparr>"

definition spawn :: "agent_id \<Rightarrow> agent_actor_config \<Rightarrow> actor_state" where
  "spawn a cfg = spawn_with_snapshot (initial_snapshot a) cfg"

subsection \<open>Recording an update\<close>

datatype try_send_result = TrySend_Ok | TrySend_Full | TrySend_Closed

definition try_send :: "subscription \<Rightarrow> agent_update \<Rightarrow> try_send_result \<times> subscription" where
  "try_send ch u =
     (if \<not> sub_open ch then (TrySend_Closed, ch)
      else if sub_capacity ch \<le> length (sub_queue ch) then (TrySend_Full, ch)
      else (TrySend_Ok, ch\<lparr>sub_queue := sub_queue ch @ [u]\<rparr>))"

text \<open>One turn of \<open>retain\<close>: a full channel raises the flag, and a full or closed one is dropped.\<close>

definition deliver :: "agent_update \<Rightarrow> subscription \<Rightarrow> subscription" where
  "deliver u ch =
     (if \<not> sub_attached ch then ch
      else case try_send ch u of
        (TrySend_Ok, ch) \<Rightarrow> ch
      | (TrySend_Full, ch) \<Rightarrow> ch\<lparr>sub_resync_required := True, sub_attached := False\<rparr>
      | (TrySend_Closed, ch) \<Rightarrow> ch\<lparr>sub_attached := False\<rparr>)"

definition record_update :: "actor_state \<Rightarrow> agent_update \<Rightarrow> actor_state" where
  "record_update a u =
     (let replay = (if length (act_replay a) = act_replay_capacity a
                    then tl (act_replay a) else act_replay a)
      in a\<lparr>act_replay := replay @ [u], act_subscribers := map (deliver u) (act_subscribers a)\<rparr>)"

definition next_event_sequence :: "actor_state \<Rightarrow> agent_error + event_sequence" where
  "next_event_sequence a =
     ok_or (checked_add (snap_event_sequence (act_snapshot a)) 1) Agent_EventSequenceExhausted"

text \<open>
  The result is \<open>None\<close> where the code would panic: \<open>expect\<close> on the delta the actor has just
  built.
\<close>

definition actor_apply_change ::
  "actor_state \<Rightarrow> agent_state_change \<Rightarrow> ((agent_error + state_delta option) \<times> actor_state) option"
where
  "actor_apply_change a c =
     (let s = act_snapshot a
      in if \<not> would_change s c then Some (Inr None, a)
         else case ok_or (checked_add (snap_revision s) 1) Agent_RevisionExhausted of
           Inl e \<Rightarrow> Some (Inl e, a)
         | Inr revision \<Rightarrow>
             (case next_event_sequence a of
                Inl e \<Rightarrow> Some (Inl e, a)
              | Inr q \<Rightarrow>
                  (let delta = \<lparr>delta_agent_id = snap_agent_id s,
                                delta_base_revision = snap_revision s,
                                delta_revision = revision, delta_change = c\<rparr>
                   in case apply_delta s delta q of
                        Inl _ \<Rightarrow> None
                      | Inr s' \<Rightarrow>
                          Some (Inr (Some delta),
                                record_update (a\<lparr>act_snapshot := s'\<rparr>) (Update_Delta q delta)))))"

definition publish_event ::
  "actor_state \<Rightarrow> server_message \<Rightarrow> (agent_error + event_sequence) \<times> actor_state" where
  "publish_event a event =
     (case next_event_sequence a of
        Inl e \<Rightarrow> (Inl e, a)
      | Inr q \<Rightarrow>
          (let s = (act_snapshot a)\<lparr>snap_event_sequence := q\<rparr>
           in (Inr q, record_update (a\<lparr>act_snapshot := s\<rparr>) (Update_Event (snap_agent_id s) q event))))"

subsection \<open>Subscribing\<close>

text \<open>The loop of \<open>replay_reaches_snapshot\<close>: the expected sequence and revision after the updates.\<close>

fun replay_scan ::
  "agent_id \<Rightarrow> event_sequence \<Rightarrow> state_revision \<Rightarrow> agent_update list \<Rightarrow>
     (event_sequence \<times> state_revision) option" where
  "replay_scan a expected revision [] = Some (expected, revision)"
| "replay_scan a expected revision (Update_Delta q d # us) =
     (if q \<noteq> expected then None
      else if delta_agent_id d \<noteq> a \<or> delta_base_revision d \<noteq> revision then None
      else case checked_add expected 1 of
        None \<Rightarrow> None
      | Some next_seq \<Rightarrow> replay_scan a next_seq (delta_revision d) us)"
| "replay_scan a expected revision (Update_Event b q ev # us) =
     (if q \<noteq> expected then None
      else if b \<noteq> a then None
      else case checked_add expected 1 of
        None \<Rightarrow> None
      | Some next_seq \<Rightarrow> replay_scan a next_seq revision us)"

definition replay_reaches_snapshot ::
  "subscription_cursor \<Rightarrow> agent_update list \<Rightarrow> agent_snapshot \<Rightarrow> bool" where
  "replay_reaches_snapshot cursor updates snapshot =
     (case checked_add (cursor_event_sequence cursor) 1 of
        None \<Rightarrow> False
      | Some expected \<Rightarrow>
          (case replay_scan (cursor_agent_id cursor) expected (cursor_revision cursor) updates of
             None \<Rightarrow> False
           | Some (expected, revision) \<Rightarrow>
               revision = snap_revision snapshot \<and>
               checked_sub expected 1 = Some (snap_event_sequence snapshot)))"

definition actor_subscription_start :: "actor_state \<Rightarrow> subscription_cursor \<Rightarrow> subscription_start" where
  "actor_subscription_start a cursor =
     (let s = act_snapshot a
      in if cursor_agent_id cursor \<noteq> snap_agent_id s
            \<or> snap_revision s < cursor_revision cursor
            \<or> snap_event_sequence s < cursor_event_sequence cursor
         then Start_ResyncRequired s
         else if cursor_revision cursor = snap_revision s
                 \<and> cursor_event_sequence cursor = snap_event_sequence s
         then Start_Replay []
         else
           (let updates = filter (\<lambda>u. cursor_event_sequence cursor < update_event_sequence u)
                            (act_replay a)
            in if replay_reaches_snapshot cursor updates s then Start_Replay updates
               else Start_ResyncRequired s))"

text \<open>The reply names the new subscription by its place in the list, and its start.\<close>

definition subscribe ::
  "actor_state \<Rightarrow> subscription_cursor option \<Rightarrow> (nat \<times> subscription_start) \<times> actor_state" where
  "subscribe a cursor =
     (let ch = \<lparr>sub_queue = [], sub_capacity = act_subscriber_capacity a, sub_attached = True,
                sub_open = True, sub_resync_required = False\<rparr>;
          a' = a\<lparr>act_subscribers := act_subscribers a @ [ch]\<rparr>;
          start = (case cursor of None \<Rightarrow> Start_Snapshot (act_snapshot a')
                   | Some c \<Rightarrow> actor_subscription_start a' c)
      in ((length (act_subscribers a), start), a'))"

text \<open>
  \<open>AgentSubscription::recv\<close> tests the flag on entry and then waits for the channel. The two
  parts are separate, since the actor may run between them: \<open>recv_entry\<close> is the test,
  \<open>recv_poll\<close> what the wait yields, \<open>None\<close> while it has to go on waiting.
\<close>

definition recv_entry :: "subscription \<Rightarrow> subscription_error option" where
  "recv_entry ch = (if sub_resync_required ch then Some Subscription_ResyncRequired else None)"

definition recv_poll ::
  "subscription \<Rightarrow> (subscription_error + agent_update) option \<times> subscription" where
  "recv_poll ch =
     (case sub_queue ch of
        u # us \<Rightarrow> (Some (Inr u), ch\<lparr>sub_queue := us\<rparr>)
      | [] \<Rightarrow>
          (if sub_attached ch then (None, ch)
           else if sub_resync_required ch then (Some (Inl Subscription_ResyncRequired), ch)
           else (Some (Inl Subscription_Closed), ch)))"

subsection \<open>Interaction leases\<close>

text \<open>\<open>now_ms\<close> is the caller's wall clock, \<open>now\<close> the actor's monotonic clock.\<close>

definition grant_lease ::
  "instant \<Rightarrow> actor_state \<Rightarrow> lease_holder_id \<Rightarrow> u64 \<Rightarrow> u64 \<Rightarrow>
     ((agent_error + interaction_lease) \<times> actor_state) option" where
  "grant_lease now a holder now_ms ttl_ms =
     (case checked_add now_ms ttl_ms of
        None \<Rightarrow> Some (Inl (Agent_InteractionLease Lease_ExpiryOverflow), a)
      | Some expires \<Rightarrow>
          (case instant_checked_add now (duration_from_millis ttl_ms) of
             None \<Rightarrow> Some (Inl (Agent_InteractionLease Lease_DurationTooLarge), a)
           | Some deadline \<Rightarrow>
               (let lease = \<lparr>lease_holder = holder, lease_expires_at_ms = expires\<rparr>
                in case actor_apply_change a (InteractionChanged (Leased lease)) of
                     None \<Rightarrow> None
                   | Some (Inl e, a) \<Rightarrow> Some (Inl e, a)
                   | Some (Inr _, a) \<Rightarrow>
                       Some (Inr lease, a\<lparr>act_lease_deadline := Some deadline\<rparr>))))"

definition acquire_lease ::
  "instant \<Rightarrow> actor_state \<Rightarrow> lease_holder_id \<Rightarrow> u64 \<Rightarrow> u64 \<Rightarrow>
     ((agent_error + interaction_lease) \<times> actor_state) option" where
  "acquire_lease now a holder now_ms ttl_ms =
     (case snap_interaction (act_snapshot a) of
        Leased lease \<Rightarrow>
          (if now_ms < lease_expires_at_ms lease \<and> lease_holder lease \<noteq> holder
           then Some (Inl (Agent_InteractionLease (Lease_HeldByOther lease)), a)
           else grant_lease now a holder now_ms ttl_ms)
      | Unclaimed \<Rightarrow> grant_lease now a holder now_ms ttl_ms)"

definition drop_lease :: "actor_state \<Rightarrow> ((agent_error + state_delta option) \<times> actor_state) option" where
  "drop_lease a =
     actor_apply_change (a\<lparr>act_lease_deadline := None\<rparr>) (InteractionChanged Unclaimed)"

definition release_lease ::
  "actor_state \<Rightarrow> lease_holder_id \<Rightarrow> ((agent_error + unit) \<times> actor_state) option" where
  "release_lease a holder =
     (case snap_interaction (act_snapshot a) of
        Unclaimed \<Rightarrow> Some (Inl (Agent_InteractionLease Lease_NotHeld), a)
      | Leased lease \<Rightarrow>
          (if lease_holder lease \<noteq> holder
           then Some (Inl (Agent_InteractionLease (Lease_NotHolder (lease_holder lease))), a)
           else case drop_lease a of
             None \<Rightarrow> None
           | Some (Inl e, a) \<Rightarrow> Some (Inl e, a)
           | Some (Inr _, a) \<Rightarrow> Some (Inr (), a)))"

subsection \<open>Commands and the actor loop\<close>

datatype actor_command =
    Cmd_Snapshot
  | Cmd_Change agent_state_change
  | Cmd_PublishEvent server_message
  | Cmd_Subscribe "subscription_cursor option"
  | Cmd_AcquireLease lease_holder_id u64 u64
  | Cmd_ReleaseLease lease_holder_id
  | Cmd_Shutdown

datatype actor_reply =
    Reply_Snapshot agent_snapshot
  | Reply_Change "agent_error + unit"
  | Reply_PublishEvent "agent_error + event_sequence"
  | Reply_Subscribe nat subscription_start
  | Reply_AcquireLease "agent_error + interaction_lease"
  | Reply_ReleaseLease "agent_error + unit"
  | Reply_Shutdown

text \<open>
  The body of the command branch; \<open>Cmd_Shutdown\<close> acknowledges and leaves the loop, which
  is a step of its own below. \<open>None\<close> is a panic.
\<close>

fun handle_command ::
  "instant \<Rightarrow> actor_state \<Rightarrow> actor_command \<Rightarrow> (actor_reply \<times> actor_state) option" where
  "handle_command now a Cmd_Snapshot = Some (Reply_Snapshot (act_snapshot a), a)"
| "handle_command now a (Cmd_Change c) =
     map_option (\<lambda>(r, a). (Reply_Change (map_sum id (\<lambda>_. ()) r), a)) (actor_apply_change a c)"
| "handle_command now a (Cmd_PublishEvent ev) =
     (let (r, a) = publish_event a ev in Some (Reply_PublishEvent r, a))"
| "handle_command now a (Cmd_Subscribe cursor) =
     (let ((i, start), a) = subscribe a cursor in Some (Reply_Subscribe i start, a))"
| "handle_command now a (Cmd_AcquireLease holder now_ms ttl_ms) =
     map_option (\<lambda>(r, a). (Reply_AcquireLease r, a)) (acquire_lease now a holder now_ms ttl_ms)"
| "handle_command now a (Cmd_ReleaseLease holder) =
     map_option (\<lambda>(r, a). (Reply_ReleaseLease r, a)) (release_lease a holder)"
| "handle_command now a Cmd_Shutdown = Some (Reply_Shutdown, a)"

text \<open>The timer branch; a failed change is ignored.\<close>

definition expire_lease :: "actor_state \<Rightarrow> actor_state option" where
  "expire_lease a = map_option snd (drop_lease a)"

text \<open>When the task ends its senders are dropped; what a channel still holds stays readable.\<close>

definition actor_stop :: "actor_state \<Rightarrow> actor_state" where
  "actor_stop a = a\<lparr>act_subscribers := map (\<lambda>ch. ch\<lparr>sub_attached := False\<rparr>) (act_subscribers a)\<rparr>"

datatype actor_task = Alive (task_state: actor_state) | Ended (task_state: actor_state)

text \<open>What can happen to an actor and its subscriptions.\<close>

datatype actor_label =
    Act_Command instant actor_command actor_reply
  | Act_Expire instant
  | Act_Closed                       \<comment> \<open>every handle has been dropped\<close>
  | Act_Recv nat agent_update        \<comment> \<open>subscription \<open>i\<close> yields an update\<close>
  | Act_Unsubscribe nat              \<comment> \<open>the receiver of subscription \<open>i\<close> is dropped\<close>

definition update_subscriber :: "nat \<Rightarrow> (subscription \<Rightarrow> subscription) \<Rightarrow> actor_state \<Rightarrow> actor_state"
where
  "update_subscriber i f a = a\<lparr>act_subscribers := (act_subscribers a)[i := f (act_subscribers a ! i)]\<rparr>"

fun on_state :: "(actor_state \<Rightarrow> actor_state) \<Rightarrow> actor_task \<Rightarrow> actor_task" where
  "on_state f (Alive a) = Alive (f a)"
| "on_state f (Ended a) = Ended (f a)"

inductive actor_step :: "actor_task \<Rightarrow> actor_label \<Rightarrow> actor_task \<Rightarrow> bool" where
  command: "cmd \<noteq> Cmd_Shutdown \<Longrightarrow> handle_command now a cmd = Some (reply, a') \<Longrightarrow>
     actor_step (Alive a) (Act_Command now cmd reply) (Alive a')"
| shutdown: "handle_command now a Cmd_Shutdown = Some (reply, a') \<Longrightarrow>
     actor_step (Alive a) (Act_Command now Cmd_Shutdown reply) (Ended (actor_stop a'))"
| expire: "act_lease_deadline a = Some deadline \<Longrightarrow> deadline \<le> now \<Longrightarrow>
     expire_lease a = Some a' \<Longrightarrow> actor_step (Alive a) (Act_Expire now) (Alive a')"
| closed: "actor_step (Alive a) Act_Closed (Ended (actor_stop a))"
| recv: "i < length (act_subscribers (task_state t)) \<Longrightarrow>
     sub_open (act_subscribers (task_state t) ! i) \<Longrightarrow>
     recv_poll (act_subscribers (task_state t) ! i) = (Some (Inr u), ch) \<Longrightarrow>
     actor_step t (Act_Recv i u) (on_state (update_subscriber i (\<lambda>_. ch)) t)"
| unsubscribe: "i < length (act_subscribers (task_state t)) \<Longrightarrow>
     actor_step t (Act_Unsubscribe i)
       (on_state (update_subscriber i (\<lambda>ch. ch\<lparr>sub_open := False\<rparr>)) t)"

inductive_cases actor_step_AliveE: "actor_step (Alive a) l t"
inductive_cases actor_step_EndedE: "actor_step (Ended a) l t"
inductive_simps actor_step_command_simp: "actor_step (Alive a) (Act_Command now cmd reply) t"

subsection \<open>Handles\<close>

text \<open>
  A method of \<open>AgentHandle\<close> sends its command and waits for the reply. To an ended actor the
  send fails, and the method returns \<open>Stopped\<close>.
\<close>

definition handle_call ::
  "instant \<Rightarrow> actor_task \<Rightarrow> actor_command \<Rightarrow> (agent_error + actor_reply) \<times> actor_task" where
  "handle_call now t cmd =
     (case t of
        Ended a \<Rightarrow> (Inl Agent_Stopped, t)
      | Alive a \<Rightarrow>
          (case handle_command now a cmd of
             None \<Rightarrow> (Inl Agent_Stopped, Ended (actor_stop a))
           | Some (reply, a') \<Rightarrow>
               (Inr reply, if cmd = Cmd_Shutdown then Ended (actor_stop a') else Alive a')))"

fun reply_snapshot :: "actor_reply \<Rightarrow> agent_error + agent_snapshot" where
  "reply_snapshot (Reply_Snapshot s) = Inr s"
| "reply_snapshot _ = Inl Agent_Stopped"

fun reply_unit :: "actor_reply \<Rightarrow> agent_error + unit" where
  "reply_unit (Reply_Change r) = r"
| "reply_unit (Reply_ReleaseLease r) = r"
| "reply_unit Reply_Shutdown = Inr ()"
| "reply_unit _ = Inl Agent_Stopped"

fun reply_sequence :: "actor_reply \<Rightarrow> agent_error + event_sequence" where
  "reply_sequence (Reply_PublishEvent r) = r"
| "reply_sequence _ = Inl Agent_Stopped"

fun reply_subscription :: "actor_reply \<Rightarrow> agent_error + (nat \<times> subscription_start)" where
  "reply_subscription (Reply_Subscribe i start) = Inr (i, start)"
| "reply_subscription _ = Inl Agent_Stopped"

fun reply_lease :: "actor_reply \<Rightarrow> agent_error + interaction_lease" where
  "reply_lease (Reply_AcquireLease r) = r"
| "reply_lease _ = Inl Agent_Stopped"

definition handle_with ::
  "(actor_reply \<Rightarrow> agent_error + 'a) \<Rightarrow> actor_task \<Rightarrow> actor_command \<Rightarrow> instant \<Rightarrow>
     (agent_error + 'a) \<times> actor_task" where
  "handle_with f t cmd now = (let (r, t) = handle_call now t cmd in (rbind r f, t))"

definition handle_snapshot where
  "handle_snapshot t = handle_with reply_snapshot t Cmd_Snapshot"

definition handle_change where
  "handle_change t c = handle_with reply_unit t (Cmd_Change c)"

definition handle_set_lifecycle where
  "handle_set_lifecycle t l = handle_change t (LifecycleChanged l)"

definition handle_set_session where
  "handle_set_session t s = handle_change t (SessionChanged s)"

definition handle_clear_session where
  "handle_clear_session t = handle_change t SessionCleared"

definition handle_upsert_run where
  "handle_upsert_run t run = handle_change t (RunUpserted run)"

definition handle_remove_run where
  "handle_remove_run t r = handle_change t (RunRemoved r)"

definition handle_set_available_commands where
  "handle_set_available_commands t cs = handle_change t (AvailableCommandsChanged cs)"

definition handle_publish_event where
  "handle_publish_event t ev = handle_with reply_sequence t (Cmd_PublishEvent ev)"

definition handle_subscribe where
  "handle_subscribe t cursor = handle_with reply_subscription t (Cmd_Subscribe cursor)"

definition handle_acquire_lease where
  "handle_acquire_lease t holder now_ms ttl_ms =
     handle_with reply_lease t (Cmd_AcquireLease holder now_ms ttl_ms)"

definition handle_release_lease where
  "handle_release_lease t holder = handle_with reply_unit t (Cmd_ReleaseLease holder)"

definition handle_shutdown where
  "handle_shutdown t = handle_with reply_unit t Cmd_Shutdown"

end
