(* ===== verification/Actor_Invariants.thy ===== *)
theory Actor_Invariants
  imports Agent_Actor "HOL-Library.Sublist"
begin

section \<open>What the agent actor keeps\<close>

text \<open>
  The abstract view of an actor is the log of every update it has recorded since it was
  spawned. \<open>actor_steps\<close> runs the step relation of \<open>Agent_Actor\<close> and collects that log. The
  lemmas show that the snapshot is the log applied to the initial snapshot, that the replay
  buffer is the last part of the log, and that a subscription's channel carries the part of
  the log recorded since it was opened.
\<close>

subsection \<open>Updates that extend a snapshot\<close>

text \<open>Updates numbered without a gap from \<open>q + 1\<close>, with no wrap-around.\<close>

fun numbered :: "event_sequence \<Rightarrow> agent_update list \<Rightarrow> bool" where
  "numbered q [] \<longleftrightarrow> True"
| "numbered q (u # us) \<longleftrightarrow>
     checked_add q 1 = Some (update_event_sequence u) \<and> numbered (update_event_sequence u) us"

definition extends :: "agent_snapshot \<Rightarrow> agent_update list \<Rightarrow> agent_snapshot \<Rightarrow> bool" where
  "extends s us s' \<longleftrightarrow> apply_updates s us = Inr s' \<and> numbered (snap_event_sequence s) us"

lemma extends_Nil [simp]: "extends s [] s' \<longleftrightarrow> s' = s"
  by (auto simp: extends_def)

lemma extends_Cons:
  "extends s (u # us) s' \<longleftrightarrow>
     (\<exists>t. apply_update s u = Inr t \<and>
       checked_add (snap_event_sequence s) 1 = Some (update_event_sequence u) \<and> extends t us s')"
proof -
  have "apply_update s u = Inr t \<Longrightarrow> snap_event_sequence t = update_event_sequence u" for t
    by (rule apply_update_Inr_frame(2))
  then show ?thesis by (fastforce simp: extends_def)
qed

lemma extends_append:
  "extends s (us @ vs) s' \<longleftrightarrow> (\<exists>t. extends s us t \<and> extends t vs s')"
  by (induction us arbitrary: s) (auto simp: extends_Cons)

lemma extends_agent: "extends s us s' \<Longrightarrow> snap_agent_id s' = snap_agent_id s"
  by (auto simp: extends_def dest: apply_updates_frame)

lemma extends_seq:
  "extends s us s' \<Longrightarrow> unat (snap_event_sequence s') = unat (snap_event_sequence s) + length us"
proof (induction us arbitrary: s)
  case (Cons u us)
  then obtain t where t: "apply_update s u = Inr t" "extends t us s'"
    "checked_add (snap_event_sequence s) 1 = Some (update_event_sequence u)"
    by (auto simp: extends_Cons)
  from Cons.IH [OF t(2)] t(1,3) show ?case
    using apply_update_Inr_frame(2) [OF t(1)] by (simp add: arith_model)
qed simp

lemma extends_prefix_det:
  assumes "extends s (us @ vs) s'" "apply_updates s us = Inr t"
  shows "extends s us t \<and> extends t vs s'"
proof -
  obtain u where u: "extends s us u" "extends u vs s'"
    using assms(1) by (auto simp: extends_append)
  then have "u = t" using assms(2) by (simp add: extends_def)
  with u show ?thesis by simp
qed

lemma saturating_add_ge: "x \<le> saturating_add x (1::u64)"
  by (auto simp: saturating_add_def word_le_nat_alt arith_model split: option.splits)
    (metis word_le_nat_alt word_order.extremum)

lemma apply_update_revision_mono: "apply_update s u = Inr s' \<Longrightarrow> snap_revision s \<le> snap_revision s'"
  by (cases u) (auto simp: apply_delta_Inr_iff saturating_add_ge)

lemma extends_revision_mono: "extends s us s' \<Longrightarrow> snap_revision s \<le> snap_revision s'"
  by (induction us arbitrary: s)
    (auto simp: extends_Cons dest!: apply_update_revision_mono intro: order.trans)

lemma extends_runs_wf: "extends s us s' \<Longrightarrow> runs_wf s \<Longrightarrow> runs_wf s'"
  by (induction us arbitrary: s) (auto simp: extends_Cons dest: apply_update_runs_wf)

lemma extends_nth_seq:
  assumes "extends s us s'" "i < length us"
  shows "unat (update_event_sequence (us ! i)) = unat (snap_event_sequence s) + Suc i"
proof -
  have "us = take i us @ us ! i # drop (Suc i) us"
    using assms(2) by (simp add: id_take_nth_drop)
  then obtain t where "extends s (take i us) t"
    "checked_add (snap_event_sequence t) 1 = Some (update_event_sequence (us ! i))"
    using assms(1) by (metis extends_append extends_Cons)
  then show ?thesis
    using extends_seq [of s "take i us" t] assms(2) by (simp add: arith_model)
qed

text \<open>Selecting the updates after a cursor selects the part of the log the cursor has not seen.\<close>

lemma filter_after_none:
  "extends s us s' \<Longrightarrow> snap_event_sequence s' \<le> q \<Longrightarrow>
     filter (\<lambda>u. q < update_event_sequence u) us = []"
proof (rule filter_False, rule ballI)
  fix u assume a: "extends s us s'" "snap_event_sequence s' \<le> q" "u \<in> set us"
  then obtain i where i: "i < length us" "u = us ! i" by (metis in_set_conv_nth)
  with extends_nth_seq [OF a(1) i(1)] extends_seq [OF a(1)] a(2)
  show "\<not> q < update_event_sequence u" by (simp add: word_less_nat_alt word_le_nat_alt)
qed

lemma filter_after_all:
  "extends s us s' \<Longrightarrow> q \<le> snap_event_sequence s \<Longrightarrow>
     filter (\<lambda>u. q < update_event_sequence u) us = us"
proof (rule filter_True, rule ballI)
  fix u assume a: "extends s us s'" "q \<le> snap_event_sequence s" "u \<in> set us"
  then obtain i where i: "i < length us" "u = us ! i" by (metis in_set_conv_nth)
  with extends_nth_seq [OF a(1) i(1)] a(2)
  show "q < update_event_sequence u" by (simp add: word_less_nat_alt word_le_nat_alt)
qed

subsection \<open>The last part of a log\<close>

definition last_n :: "nat \<Rightarrow> 'a list \<Rightarrow> 'a list" where
  "last_n n xs = drop (length xs - n) xs"

lemma length_last_n [simp]: "length (last_n n xs) = min n (length xs)"
  by (simp add: last_n_def)

lemma last_n_short [simp]: "length xs \<le> n \<Longrightarrow> last_n n xs = xs"
  by (simp add: last_n_def)

lemma last_n_append: "last_n n (xs @ ys) = last_n (n - length ys) xs @ last_n n ys"
  by (cases "length ys \<le> n") (simp_all add: last_n_def)

lemma last_n_last_n: "m \<le> n \<Longrightarrow> last_n m (last_n n xs) = last_n m xs"
  by (cases "length xs \<le> n") (simp_all add: last_n_def)

lemma last_n_last_n_append: "last_n n (last_n n xs @ ys) = last_n n (xs @ ys)"
  by (simp add: last_n_append last_n_last_n)

lemma last_n_snoc_full: "0 < n \<Longrightarrow> length xs = n \<Longrightarrow> last_n n (xs @ [x]) = tl xs @ [x]"
  by (cases n) (simp_all add: last_n_def drop_Suc)

subsection \<open>What one command records\<close>

text \<open>The actor grows by these updates: snapshot and replay buffer, everything but the channels.\<close>

definition emits :: "actor_state \<Rightarrow> agent_update list \<Rightarrow> actor_state \<Rightarrow> bool" where
  "emits a us a' \<longleftrightarrow>
     extends (act_snapshot a) us (act_snapshot a') \<and>
     act_replay a' = last_n (act_replay_capacity a) (act_replay a @ us) \<and>
     act_replay_capacity a' = act_replay_capacity a \<and>
     act_subscriber_capacity a' = act_subscriber_capacity a"

definition replay_bounded :: "actor_state \<Rightarrow> bool" where
  "replay_bounded a \<longleftrightarrow>
     0 < act_replay_capacity a \<and> length (act_replay a) \<le> act_replay_capacity a"

text \<open>How one command acts: at most one update, recorded after the snapshot has taken it.\<close>

definition advances :: "actor_state \<Rightarrow> agent_update list \<Rightarrow> actor_state \<Rightarrow> bool" where
  "advances a us a' \<longleftrightarrow>
     (us = [] \<and> act_snapshot a' = act_snapshot a \<and> act_replay a' = act_replay a \<and>
      act_subscribers a' = act_subscribers a \<or>
      (\<exists>u s'. us = [u] \<and> apply_update (act_snapshot a) u = Inr s' \<and>
        checked_add (snap_event_sequence (act_snapshot a)) 1 = Some (update_event_sequence u) \<and>
        act_snapshot a' = s' \<and> act_replay a' = act_replay (record_update a u) \<and>
        act_subscribers a' = map (deliver u) (act_subscribers a))) \<and>
     act_replay_capacity a' = act_replay_capacity a \<and>
     act_subscriber_capacity a' = act_subscriber_capacity a"

lemma record_update_simps [simp]:
  "act_snapshot (record_update a u) = act_snapshot a"
  "act_replay_capacity (record_update a u) = act_replay_capacity a"
  "act_subscriber_capacity (record_update a u) = act_subscriber_capacity a"
  "act_subscribers (record_update a u) = map (deliver u) (act_subscribers a)"
  "act_lease_deadline (record_update a u) = act_lease_deadline a"
  by (simp_all add: record_update_def Let_def)

lemma record_update_replay_cong [simp]:
  "act_replay (record_update (a\<lparr>act_snapshot := s\<rparr>) u) = act_replay (record_update a u)"
  "act_replay (record_update (a\<lparr>act_lease_deadline := d\<rparr>) u) = act_replay (record_update a u)"
  by (simp_all add: record_update_def Let_def)

lemma record_update_replay:
  "replay_bounded a \<Longrightarrow>
     act_replay (record_update a u) = last_n (act_replay_capacity a) (act_replay a @ [u])"
  by (auto simp: record_update_def Let_def replay_bounded_def last_n_snoc_full)

lemma advances_refl [simp]: "advances a [] a"
  by (simp add: advances_def)

lemma advances_deadline [simp]:
  "advances a us (a'\<lparr>act_lease_deadline := d\<rparr>) = advances a us a'"
  "advances (a\<lparr>act_lease_deadline := d\<rparr>) us a' = advances a us a'"
  by (simp_all add: advances_def)

lemma advances_emits: "advances a us a' \<Longrightarrow> replay_bounded a \<Longrightarrow> emits a us a'"
  by (auto simp: advances_def emits_def record_update_replay extends_Cons)
    (simp_all add: replay_bounded_def)

lemma advances_subscribers:
  "advances a us a' \<Longrightarrow> act_subscribers a' = map (fold deliver us) (act_subscribers a)"
  by (auto simp: advances_def)

lemma advances_length: "advances a us a' \<Longrightarrow> length us \<le> 1"
  by (auto simp: advances_def)

text \<open>The delta the actor builds always applies: the \<open>expect\<close> in the code cannot fire.\<close>

lemma actor_apply_change_unfold:
  "actor_apply_change a c =
     (let s = act_snapshot a
      in if \<not> would_change s c then Some (Inr None, a)
         else case (checked_add (snap_revision s) 1, checked_add (snap_event_sequence s) 1) of
           (None, _) \<Rightarrow> Some (Inl Agent_RevisionExhausted, a)
         | (Some r, None) \<Rightarrow> Some (Inl Agent_EventSequenceExhausted, a)
         | (Some r, Some q) \<Rightarrow>
             (let d = \<lparr>delta_agent_id = snap_agent_id s, delta_base_revision = snap_revision s,
                       delta_revision = r, delta_change = c\<rparr>;
                  s' = (apply_change s c)\<lparr>snap_revision := r, snap_event_sequence := q\<rparr>
              in Some (Inr (Some d),
                       record_update (a\<lparr>act_snapshot := s'\<rparr>) (Update_Delta q d))))"
proof -
  have "apply_delta s \<lparr>delta_agent_id = snap_agent_id s, delta_base_revision = snap_revision s,
          delta_revision = r, delta_change = c\<rparr> q =
        Inr ((apply_change s c)\<lparr>snap_revision := r, snap_event_sequence := q\<rparr>)"
    if "checked_add (snap_revision s) 1 = Some r"
       "checked_add (snap_event_sequence s) 1 = Some q" for s r q
    using that by (simp add: apply_delta_Inr_iff checked_add_gt)
  then show ?thesis
    by (auto simp: actor_apply_change_def next_event_sequence_def Let_def split: option.splits)
qed

lemma actor_apply_change_Some: "\<exists>r a'. actor_apply_change a c = Some (r, a')"
  by (auto simp: actor_apply_change_unfold Let_def split: option.splits)

lemma record_advances:
  assumes "apply_update (act_snapshot a) u = Inr s'"
    and "checked_add (snap_event_sequence (act_snapshot a)) 1 = Some (update_event_sequence u)"
  shows "advances a [u] (record_update (a\<lparr>act_snapshot := s'\<rparr>) u)"
  using assms by (simp add: advances_def)

lemma actor_apply_change_advances:
  assumes "actor_apply_change a c = Some (r, a')"
  shows "\<exists>us. advances a us a'"
proof (cases "\<exists>d. r = Inr (Some d)")
  case True
  then show ?thesis
    using assms
    by (auto simp: actor_apply_change_unfold Let_def split: option.splits if_splits)
      (rule exI, rule record_advances, simp_all add: apply_delta_Inr_iff checked_add_gt)
next
  case False
  then have "a' = a"
    using assms by (auto simp: actor_apply_change_unfold Let_def split: option.splits if_splits)
  then show ?thesis by (auto intro: advances_refl)
qed

lemma publish_event_advances:
  assumes "publish_event a ev = (r, a')"
  shows "\<exists>us. advances a us a'"
proof (cases r)
  case (Inr q)
  then show ?thesis
    using assms by (auto simp: publish_event_def next_event_sequence_def Let_def
        split: sum.splits) (rule exI, rule record_advances, simp_all add: checked_add_gt)
next
  case (Inl e)
  then show ?thesis
    using assms by (auto simp: publish_event_def Let_def split: sum.splits intro: advances_refl)
qed

subsection \<open>Commands, the timer and the task\<close>

lemma drop_lease_advances: "drop_lease a = Some (r, a') \<Longrightarrow> \<exists>us. advances a us a'"
  by (auto simp: drop_lease_def dest!: actor_apply_change_advances)

lemma grant_lease_advances: "grant_lease now a h n t = Some (r, a') \<Longrightarrow> \<exists>us. advances a us a'"
  by (auto simp: grant_lease_def Let_def dest!: actor_apply_change_advances
      split: option.splits prod.splits sum.splits intro: advances_refl)

lemma acquire_lease_advances:
  "acquire_lease now a h n t = Some (r, a') \<Longrightarrow> \<exists>us. advances a us a'"
  by (auto simp: acquire_lease_def dest!: grant_lease_advances
      split: interaction_state.splits if_splits intro: advances_refl)

lemma release_lease_advances: "release_lease a h = Some (r, a') \<Longrightarrow> \<exists>us. advances a us a'"
  by (auto simp: release_lease_def dest!: drop_lease_advances
      split: interaction_state.splits if_splits option.splits prod.splits sum.splits
      intro: advances_refl)

lemma expire_lease_advances: "expire_lease a = Some a' \<Longrightarrow> \<exists>us. advances a us a'"
  by (auto simp: expire_lease_def dest: drop_lease_advances)

text \<open>No command and no timer turn panics.\<close>

lemma drop_lease_Some: "\<exists>r a'. drop_lease a = Some (r, a')"
  by (simp add: drop_lease_def actor_apply_change_Some)

lemma grant_lease_Some: "\<exists>r a'. grant_lease now a h n t = Some (r, a')"
proof -
  have "\<exists>r a'. actor_apply_change a c = Some (r, a')" for c by (rule actor_apply_change_Some)
  then show ?thesis
    by (auto simp: grant_lease_def Let_def split: option.splits prod.splits sum.splits)
      (metis option.distinct(1) prod.exhaust)+
qed

lemma acquire_lease_Some: "\<exists>r a'. acquire_lease now a h n t = Some (r, a')"
  by (auto simp: acquire_lease_def grant_lease_Some split: interaction_state.splits)

lemma release_lease_Some: "\<exists>r a'. release_lease a h = Some (r, a')"
proof -
  obtain r a' where "drop_lease a = Some (r, a')" using drop_lease_Some by blast
  then show ?thesis
    by (cases r) (auto simp: release_lease_def split: interaction_state.splits)
qed

lemma handle_command_Some: "\<exists>reply a'. handle_command now a cmd = Some (reply, a')"
proof (cases cmd)
  case (Cmd_AcquireLease h n t)
  then show ?thesis using acquire_lease_Some [of now a h n t] by auto
next
  case (Cmd_ReleaseLease h)
  then show ?thesis using release_lease_Some [of a h] by auto
next
  case (Cmd_Change c)
  then show ?thesis using actor_apply_change_Some [of a c] by auto
qed (auto split: prod.splits)

lemma expire_lease_Some: "\<exists>a'. expire_lease a = Some a'"
  using drop_lease_Some [of a] by (auto simp: expire_lease_def)

definition new_subscription :: "nat \<Rightarrow> subscription" where
  "new_subscription cap = \<lparr>sub_queue = [], sub_capacity = cap, sub_attached = True,
     sub_open = True, sub_resync_required = False\<rparr>"

text \<open>A command records at most one update and opens at most one subscription.\<close>

definition command_effect ::
  "actor_state \<Rightarrow> agent_update list \<Rightarrow> subscription list \<Rightarrow> actor_state \<Rightarrow> bool" where
  "command_effect a us new a' \<longleftrightarrow>
     (\<exists>a1 d. advances a us a1 \<and> new \<in> {[], [new_subscription (act_subscriber_capacity a)]} \<and>
       a' = a1\<lparr>act_lease_deadline := d, act_subscribers := act_subscribers a1 @ new\<rparr>)"

lemma advances_command_effect: "advances a us a' \<Longrightarrow> command_effect a us [] a'"
  unfolding command_effect_def by (rule exI [of _ a'], rule exI [of _ "act_lease_deadline a'"]) simp

lemma subscribe_effect:
  "subscribe a cursor = (r, a') \<Longrightarrow>
     command_effect a [] [new_subscription (act_subscriber_capacity a)] a'"
  unfolding command_effect_def subscribe_def Let_def new_subscription_def
  by (rule exI [of _ a], rule exI [of _ "act_lease_deadline a"]) auto

lemma handle_command_effect:
  assumes "handle_command now a cmd = Some (reply, a')"
  shows "\<exists>us new. command_effect a us new a'"
proof (cases cmd)
  case (Cmd_Subscribe cursor)
  then show ?thesis
    using assms subscribe_effect [of a cursor] by (auto split: prod.splits)
next
  case Cmd_Snapshot
  then show ?thesis using assms advances_command_effect [OF advances_refl] by fastforce
next
  case Cmd_Shutdown
  then show ?thesis using assms advances_command_effect [OF advances_refl] by fastforce
next
  case (Cmd_Change c)
  then obtain r where "actor_apply_change a c = Some (r, a')" using assms by auto
  then show ?thesis using actor_apply_change_advances advances_command_effect by blast
next
  case (Cmd_PublishEvent ev)
  then obtain r where "publish_event a ev = (r, a')" using assms by (auto split: prod.splits)
  then show ?thesis using publish_event_advances advances_command_effect by blast
next
  case (Cmd_AcquireLease h n t)
  then obtain r where "acquire_lease now a h n t = Some (r, a')" using assms by auto
  then show ?thesis using acquire_lease_advances advances_command_effect by blast
next
  case (Cmd_ReleaseLease h)
  then obtain r where "release_lease a h = Some (r, a')" using assms by auto
  then show ?thesis using release_lease_advances advances_command_effect by blast
qed

text \<open>What a step has recorded, read off the states around it.\<close>

definition recorded :: "actor_state \<Rightarrow> actor_state \<Rightarrow> agent_update list" where
  "recorded a a' =
     (if snap_event_sequence (act_snapshot a') = snap_event_sequence (act_snapshot a) then []
      else [last (act_replay a')])"

lemma advances_recorded: "advances a us a' \<Longrightarrow> recorded a a' = us"
  unfolding advances_def recorded_def
  by (auto simp: record_update_def Let_def dest: apply_update_Inr_frame)

lemma command_effect_recorded: "command_effect a us new a' \<Longrightarrow> recorded a a' = us"
  by (auto simp: command_effect_def recorded_def dest!: advances_recorded split: if_splits)

lemma command_effect_emits: "command_effect a us new a' \<Longrightarrow> replay_bounded a \<Longrightarrow> emits a us a'"
  by (auto simp: command_effect_def emits_def dest!: advances_emits)

lemma command_effect_subscribers:
  "command_effect a us new a' \<Longrightarrow>
     act_subscribers a' = map (fold deliver us) (act_subscribers a) @ new"
  by (auto simp: command_effect_def advances_subscribers)

subsection \<open>Runs of the task\<close>

inductive actor_steps ::
  "actor_task \<Rightarrow> actor_label list \<Rightarrow> agent_update list \<Rightarrow> actor_task \<Rightarrow> bool" where
  none: "actor_steps t [] [] t"
| snoc: "actor_steps t ls log t' \<Longrightarrow> actor_step t' l t'' \<Longrightarrow>
     actor_steps t (ls @ [l]) (log @ recorded (task_state t') (task_state t'')) t''"

text \<open>A run of a freshly spawned actor.\<close>

definition actor_run ::
  "agent_snapshot \<Rightarrow> agent_actor_config \<Rightarrow> actor_label list \<Rightarrow> agent_update list \<Rightarrow> actor_task \<Rightarrow> bool"
where
  "actor_run s0 cfg ls log t \<longleftrightarrow>
     config_ok cfg \<and> actor_steps (Alive (spawn_with_snapshot s0 cfg)) ls log t"

fun is_alive :: "actor_task \<Rightarrow> bool" where
  "is_alive (Alive a) = True"
| "is_alive (Ended a) = False"

lemma update_subscriber_simps [simp]:
  "act_snapshot (update_subscriber i f a) = act_snapshot a"
  "act_replay (update_subscriber i f a) = act_replay a"
  "act_replay_capacity (update_subscriber i f a) = act_replay_capacity a"
  "act_subscriber_capacity (update_subscriber i f a) = act_subscriber_capacity a"
  "act_lease_deadline (update_subscriber i f a) = act_lease_deadline a"
  by (simp_all add: update_subscriber_def)

lemma actor_stop_simps [simp]:
  "act_snapshot (actor_stop a) = act_snapshot a"
  "act_replay (actor_stop a) = act_replay a"
  "act_replay_capacity (actor_stop a) = act_replay_capacity a"
  "act_subscriber_capacity (actor_stop a) = act_subscriber_capacity a"
  "act_lease_deadline (actor_stop a) = act_lease_deadline a"
  by (simp_all add: actor_stop_def)

lemma task_state_on_state [simp]: "task_state (on_state f t) = f (task_state t)"
  by (cases t) simp_all

lemma is_alive_on_state [simp]: "is_alive (on_state f t) = is_alive t"
  by (cases t) simp_all

lemma emits_same:
  "act_snapshot a' = act_snapshot a \<Longrightarrow> act_replay a' = act_replay a \<Longrightarrow>
   act_replay_capacity a' = act_replay_capacity a \<Longrightarrow>
   act_subscriber_capacity a' = act_subscriber_capacity a \<Longrightarrow>
   replay_bounded a \<Longrightarrow> recorded a a' = [] \<and> emits a [] a'"
  by (simp add: emits_def recorded_def replay_bounded_def)

lemma emits_recorded_stop [simp]:
  "recorded a (actor_stop a') = recorded a a'"
  "emits a us (actor_stop a') = emits a us a'"
  by (simp_all add: recorded_def emits_def)

lemma actor_step_emits:
  assumes "actor_step t l t'" "replay_bounded (task_state t)"
  shows "emits (task_state t) (recorded (task_state t) (task_state t')) (task_state t')"
  using assms
proof cases
  case (command cmd now a reply a')
  then obtain us new where "command_effect a us new a'" using handle_command_effect by blast
  then show ?thesis
    using command assms(2) command_effect_recorded command_effect_emits by fastforce
next
  case (shutdown now a reply a')
  then obtain us new where "command_effect a us new a'" using handle_command_effect by blast
  then show ?thesis
    using shutdown assms(2) command_effect_recorded command_effect_emits by fastforce
next
  case (expire a d now a')
  then obtain us where "command_effect a us [] a'"
    using expire_lease_advances advances_command_effect by blast
  then show ?thesis
    using expire assms(2) command_effect_recorded command_effect_emits by fastforce
qed (use emits_same assms(2) in \<open>simp; fastforce\<close>)+

lemma emits_bounded: "emits a us a' \<Longrightarrow> replay_bounded a \<Longrightarrow> replay_bounded a'"
  by (simp add: emits_def replay_bounded_def)

lemma emits_trans: "emits a us b \<Longrightarrow> emits b vs c \<Longrightarrow> emits a (us @ vs) c"
  by (auto simp: emits_def extends_append last_n_last_n_append)

lemma actor_steps_emits:
  assumes "actor_steps t ls log t'" "replay_bounded (task_state t)"
  shows "emits (task_state t) log (task_state t') \<and> replay_bounded (task_state t')"
  using assms
proof (induction)
  case (none t)
  then show ?case by (simp add: emits_def replay_bounded_def)
next
  case (snoc t ls log t' l t'')
  then show ?case
    using actor_step_emits emits_trans emits_bounded by blast
qed

lemma spawn_bounded: "config_ok cfg \<Longrightarrow> replay_bounded (spawn_with_snapshot s cfg)"
  by (simp add: replay_bounded_def spawn_with_snapshot_def config_ok_def)

text \<open>The facts a run supplies: the snapshot is the log applied, the buffer is its end.\<close>

lemma actor_run_facts:
  assumes "actor_run s0 cfg ls log t"
  shows "extends s0 log (act_snapshot (task_state t))"
    and "act_replay (task_state t) = last_n (cfg_replay_capacity cfg) log"
    and "act_replay_capacity (task_state t) = cfg_replay_capacity cfg"
    and "0 < cfg_replay_capacity cfg"
  using assms actor_steps_emits [of "Alive (spawn_with_snapshot s0 cfg)" ls log t] spawn_bounded
  by (auto simp: actor_run_def emits_def spawn_with_snapshot_def config_ok_def)

subsection \<open>Resuming from a cursor\<close>

lemma snapshot_cursor_simps [simp]:
  "cursor_agent_id (snapshot_cursor s) = snap_agent_id s"
  "cursor_revision (snapshot_cursor s) = snap_revision s"
  "cursor_event_sequence (snapshot_cursor s) = snap_event_sequence s"
  by (simp_all add: snapshot_cursor_def)

lemma extends_no_next:
  assumes "extends s us s'" "checked_add (snap_event_sequence s) 1 = None"
  shows "checked_add (snap_event_sequence s') 1 = None"
  using assms extends_seq [OF assms(1)] by (simp add: arith_model)

text \<open>The scan accepts an extension, unless the sequence has reached its last value.\<close>

lemma replay_scan_extends:
  "extends s us s' \<Longrightarrow> checked_add (snap_event_sequence s) 1 = Some e \<Longrightarrow>
     replay_scan (snap_agent_id s) e (snap_revision s) us =
       map_option (\<lambda>e'. (e', snap_revision s')) (checked_add (snap_event_sequence s') 1)"
proof (induction us arbitrary: s e)
  case (Cons u us)
  then obtain t where t: "apply_update s u = Inr t" "extends t us s'" "update_event_sequence u = e"
    by (auto simp: extends_Cons)
  note frame = apply_update_Inr_frame(1,2) [OF t(1)]
  show ?case
  proof (cases "checked_add e 1")
    case None
    then have "checked_add (snap_event_sequence s') 1 = None"
      using extends_no_next [OF t(2)] frame t(3) by simp
    then show ?thesis using None by (cases u) auto
  next
    case (Some e')
    then have "replay_scan (snap_agent_id s) e' (snap_revision t) us =
        map_option (\<lambda>e'. (e', snap_revision s')) (checked_add (snap_event_sequence s') 1)"
      using Cons.IH [OF t(2), of e'] frame t(3) by simp
    then show ?thesis
      using Some t(1,3) by (cases u) (auto simp: apply_delta_Inr_iff)
  qed
qed simp

lemma replay_scan_wrong_first:
  "update_event_sequence u \<noteq> e \<Longrightarrow> replay_scan a e r (u # us) = None"
  by (cases u) simp_all

lemma replay_reaches_extends:
  assumes "extends c us s" "us \<noteq> []"
  shows "replay_reaches_snapshot (snapshot_cursor c) us s \<longleftrightarrow>
           checked_add (snap_event_sequence s) 1 \<noteq> None"
proof -
  obtain e where e: "checked_add (snap_event_sequence c) 1 = Some e"
    using assms by (cases us) (auto simp: extends_Cons)
  with replay_scan_extends [OF assms(1) e] show ?thesis
    by (cases "checked_add (snap_event_sequence s) 1")
      (auto simp: replay_reaches_snapshot_def checked_add_then_sub)
qed

lemma set_last_n: "set (last_n n xs) \<subseteq> set xs"
  by (simp add: last_n_def set_drop_subset)

text \<open>Of the retained updates, those after the cursor are the retained part of what it missed.\<close>

lemma filter_retained:
  assumes "extends s0 p c" "extends c rest s"
  shows "filter (\<lambda>u. snap_event_sequence c < update_event_sequence u) (last_n n (p @ rest)) =
           last_n n rest"
proof -
  let ?P = "\<lambda>u. snap_event_sequence c < update_event_sequence u"
  have "filter ?P p = []" "filter ?P rest = rest"
    using filter_after_none [OF assms(1)] filter_after_all [OF assms(2)] by simp_all
  then have "\<forall>u \<in> set p. \<not> ?P u" "\<forall>u \<in> set rest. ?P u"
    by (simp_all add: filter_empty_conv filter_id_conv)
  then have "filter ?P (last_n (n - length rest) p) = []" "filter ?P (last_n n rest) = last_n n rest"
    using set_last_n by (fastforce simp: filter_empty_conv filter_id_conv)+
  then show ?thesis by (simp add: last_n_append)
qed

lemma replay_reaches_truncated:
  assumes "extends c rest s" "0 < n" "n < length rest"
  shows "\<not> replay_reaches_snapshot (snapshot_cursor c) (last_n n rest) s"
proof -
  let ?j = "length rest - n"
  have j: "?j < length rest" "0 < ?j" using assms by simp_all
  then have d: "last_n n rest = rest ! ?j # drop (Suc ?j) rest"
    by (simp add: last_n_def Cons_nth_drop_Suc)
  have "unat (update_event_sequence (rest ! ?j)) = unat (snap_event_sequence c) + Suc ?j"
    using extends_nth_seq [OF assms(1) j(1)] .
  then have "checked_add (snap_event_sequence c) 1 \<noteq> Some (update_event_sequence (rest ! ?j))"
    using j(2) by (simp add: arith_model)
  then show ?thesis
    by (auto simp: d replay_reaches_snapshot_def replay_scan_wrong_first split: option.splits)
qed

text \<open>The answer to a cursor, when the buffer is the end of a log that passed through it.\<close>

lemma actor_subscription_start_log:
  assumes log: "extends s0 p c" "extends c rest (act_snapshot a)"
    and buf: "act_replay a = last_n n (p @ rest)" and n: "0 < n"
  shows "actor_subscription_start a (snapshot_cursor c) =
    (if rest = [] \<or>
        length rest \<le> n \<and> checked_add (snap_event_sequence (act_snapshot a)) 1 \<noteq> None
     then Start_Replay rest else Start_ResyncRequired (act_snapshot a))"
proof (cases "rest = []")
  case True
  then show ?thesis using log(2) by (simp add: actor_subscription_start_def Let_def)
next
  case False
  let ?s = "act_snapshot a"
  have seq: "unat (snap_event_sequence ?s) = unat (snap_event_sequence c) + length rest"
    by (rule extends_seq [OF log(2)])
  then have lt: "snap_event_sequence c < snap_event_sequence ?s"
    using False by (simp add: word_less_nat_alt)
  have known: "snap_agent_id ?s = snap_agent_id c" "snap_revision c \<le> snap_revision ?s"
    using extends_agent [OF log(2)] extends_revision_mono [OF log(2)] by simp_all
  have upd: "filter (\<lambda>u. snap_event_sequence c < update_event_sequence u) (act_replay a) =
      last_n n rest"
    using filter_retained [OF log] by (simp add: buf)
  have "actor_subscription_start a (snapshot_cursor c) =
      (if replay_reaches_snapshot (snapshot_cursor c) (last_n n rest) ?s
       then Start_Replay (last_n n rest) else Start_ResyncRequired ?s)"
    using lt known by (simp add: actor_subscription_start_def Let_def upd) auto
  then show ?thesis
    using False replay_reaches_extends [OF log(2) False] replay_reaches_truncated [OF log(2) n]
    by (cases "length rest \<le> n") auto
qed

end
