(* ===== verification/Actor_Streams.thy ===== *)
theory Actor_Streams
  imports Actor_Invariants
begin

section \<open>What a subscription delivers\<close>

text \<open>
  A subscription's consumer sees, in order and without a gap, the updates the actor recorded
  since the subscription was opened, until the flag says that it fell behind. Together with
  the answer to the cursor this gives the replication theorem of the control plane.
\<close>

fun received_from :: "nat \<Rightarrow> actor_label \<Rightarrow> agent_update list" where
  "received_from i (Act_Recv j u) = (if j = i then [u] else [])"
| "received_from i _ = []"

definition received :: "nat \<Rightarrow> actor_label list \<Rightarrow> agent_update list" where
  "received i ls = concat (map (received_from i) ls)"

lemma received_simps [simp]:
  "received i [] = []"
  "received i (ls @ [l]) = received i ls @ received_from i l"
  by (simp_all add: received_def)

text \<open>
  \<open>log\<close> is what was recorded since the subscription was opened, \<open>got\<close> what its consumer has
  taken.
\<close>

definition stream_inv ::
  "bool \<Rightarrow> agent_update list \<Rightarrow> agent_update list \<Rightarrow> subscription \<Rightarrow> bool" where
  "stream_inv alive got log ch \<longleftrightarrow>
     prefix (got @ sub_queue ch) log \<and>
     (sub_attached ch \<or> sub_open ch \<and> \<not> sub_resync_required ch \<longrightarrow> got @ sub_queue ch = log) \<and>
     (alive \<and> sub_open ch \<and> \<not> sub_attached ch \<longrightarrow> sub_resync_required ch) \<and>
     length (sub_queue ch) \<le> sub_capacity ch"

lemma stream_inv_new: "stream_inv True [] [] (new_subscription cap)"
  by (simp add: stream_inv_def new_subscription_def)

lemma stream_inv_deliver:
  "stream_inv True got log ch \<Longrightarrow> stream_inv True got (log @ [u]) (deliver u ch)"
  by (auto simp: stream_inv_def deliver_def try_send_def split: if_splits)

lemma stream_inv_stop:
  "stream_inv alive got log ch \<Longrightarrow> stream_inv False got log (ch\<lparr>sub_attached := False\<rparr>)"
  by (auto simp: stream_inv_def)

lemma stream_inv_recv:
  "stream_inv alive got log ch \<Longrightarrow> recv_poll ch = (Some (Inr u), ch') \<Longrightarrow>
     stream_inv alive (got @ [u]) log ch'"
  by (auto simp: stream_inv_def recv_poll_def split: list.splits if_splits)

lemma stream_inv_unsubscribe:
  "stream_inv alive got log ch \<Longrightarrow> stream_inv alive got log (ch\<lparr>sub_open := False\<rparr>)"
  by (auto simp: stream_inv_def)

lemma stream_inv_fold_deliver:
  "stream_inv True got log ch \<Longrightarrow> stream_inv True got (log @ us) (fold deliver us ch)"
proof (induction us arbitrary: log ch)
  case (Cons u us)
  then show ?case using Cons.IH [OF stream_inv_deliver [OF Cons.prems, of u]] by simp
qed simp

lemma actor_stop_subscribers [simp]:
  "length (act_subscribers (actor_stop a)) = length (act_subscribers a)"
  "i < length (act_subscribers a) \<Longrightarrow>
     act_subscribers (actor_stop a) ! i = (act_subscribers a ! i)\<lparr>sub_attached := False\<rparr>"
  by (simp_all add: actor_stop_def)

lemma update_subscriber_subscribers [simp]:
  "length (act_subscribers (update_subscriber j f a)) = length (act_subscribers a)"
  "i < length (act_subscribers a) \<Longrightarrow> act_subscribers (update_subscriber j f a) ! i =
     (if i = j then f (act_subscribers a ! i) else act_subscribers a ! i)"
  by (simp_all add: update_subscriber_def)

definition stream_ok ::
  "nat \<Rightarrow> agent_update list \<Rightarrow> agent_update list \<Rightarrow> actor_task \<Rightarrow> bool" where
  "stream_ok i got log t \<longleftrightarrow>
     i < length (act_subscribers (task_state t)) \<and>
     stream_inv (is_alive t) got log (act_subscribers (task_state t) ! i)"

lemma command_effect_stream:
  assumes "command_effect a us new a'" "stream_ok i got log (Alive a)"
  shows "stream_ok i got (log @ recorded a a') (Alive a')"
  using assms command_effect_recorded [OF assms(1)] command_effect_subscribers [OF assms(1)]
  by (simp add: stream_ok_def stream_inv_fold_deliver nth_append)

lemma stream_ok_stop:
  "stream_ok i got log (Alive a) \<Longrightarrow> stream_ok i got log (Ended (actor_stop a))"
  by (auto simp: stream_ok_def intro: stream_inv_stop)

lemma recorded_refl [simp]: "recorded a a = []" "recorded a (update_subscriber j f a) = []"
  by (simp_all add: recorded_def)

lemma stream_ok_step:
  assumes "actor_step t l t'" "stream_ok i got log t"
  shows "stream_ok i (got @ received_from i l)
           (log @ recorded (task_state t) (task_state t')) t'"
  using assms(1)
proof cases
  case (command cmd now a reply a')
  then show ?thesis
    using handle_command_effect command_effect_stream assms(2) by fastforce
next
  case (shutdown now a reply a')
  then show ?thesis
    using handle_command_effect command_effect_stream stream_ok_stop assms(2) by fastforce
next
  case (expire a d now a')
  then show ?thesis
    using expire_lease_advances advances_command_effect command_effect_stream assms(2) by fastforce
next
  case (closed a)
  then show ?thesis using stream_ok_stop assms(2) by (fastforce simp: recorded_def)
next
  case (recv j u ch)
  then show ?thesis
    using assms(2) stream_inv_recv by (auto simp: stream_ok_def)
next
  case (unsubscribe j)
  then show ?thesis
    using assms(2) stream_inv_unsubscribe by (auto simp: stream_ok_def)
qed

lemma stream_ok_steps:
  assumes "actor_steps t ls log t'" "stream_ok i got log0 t"
  shows "stream_ok i (got @ received i ls) (log0 @ log) t'"
  using assms
proof (induction)
  case (snoc t ls log t' l t'')
  then show ?case
    using stream_ok_step [of t' l t'' i "got @ received i ls" "log0 @ log"] by simp
qed simp

text \<open>The subscription a command has just opened has the empty stream.\<close>

lemma subscribe_stream_ok:
  assumes "handle_command now a (Cmd_Subscribe cursor) = Some (Reply_Subscribe i start, a')"
  shows "stream_ok i [] [] (Alive a')" "act_snapshot a' = act_snapshot a"
    "act_replay a' = act_replay a" "act_replay_capacity a' = act_replay_capacity a"
  using assms stream_inv_new
  by (auto simp: subscribe_def Let_def stream_ok_def new_subscription_def)

text \<open>The snapshot a client holds after the answer, given the one it resumed from.\<close>

fun started_from :: "agent_snapshot \<Rightarrow> subscription_start \<Rightarrow> delta_apply_error + agent_snapshot"
where
  "started_from c (Start_Snapshot s) = Inr s"
| "started_from c (Start_ResyncRequired s) = Inr s"
| "started_from c (Start_Replay us) = apply_updates c us"

text \<open>After any answer the client's snapshot is the actor's.\<close>

lemma subscribe_start:
  assumes "actor_run s0 cfg ls (p @ rest) (Alive a)" "apply_updates s0 p = Inr c"
    and "handle_command now a (Cmd_Subscribe cursor) = Some (Reply_Subscribe i start, a')"
    and "cursor = None \<or> cursor = Some (snapshot_cursor c)"
  shows "started_from c start = Inr (act_snapshot a')"
proof -
  note facts = actor_run_facts [OF assms(1)]
  note split = extends_prefix_det [OF _ assms(2), of rest "act_snapshot a"]
  have "actor_subscription_start a' (snapshot_cursor c) =
    (if rest = [] \<or> length rest \<le> cfg_replay_capacity cfg \<and>
        checked_add (snap_event_sequence (act_snapshot a')) 1 \<noteq> None
     then Start_Replay rest else Start_ResyncRequired (act_snapshot a'))"
    using facts split subscribe_stream_ok [OF assms(3)]
    by (intro actor_subscription_start_log [where p = p and ?s0.0 = s0]) auto
  moreover have "apply_updates c rest = Inr (act_snapshot a')"
    using facts(1) split subscribe_stream_ok(2) [OF assms(3)] by (simp add: extends_def)
  moreover have "start = (case cursor of None \<Rightarrow> Start_Snapshot (act_snapshot a')
      | Some c \<Rightarrow> actor_subscription_start a' c)"
    using assms(3) by (auto simp: subscribe_def Let_def)
  ultimately show ?thesis using assms(4) by auto
qed

lemma subscription_stream:
  assumes "handle_command now a (Cmd_Subscribe cursor) = Some (Reply_Subscribe i start, a')"
    and "actor_steps (Alive a') ls log t"
  shows "stream_ok i (received i ls) log t"
  using stream_ok_steps [OF assms(2) subscribe_stream_ok(1) [OF assms(1)]] by simp

subsection \<open>An example run\<close>

text \<open>A small run that the concrete instances below share: two changes, then a subscription.\<close>

definition example_cfg :: agent_actor_config where
  "example_cfg = \<lparr>cfg_replay_capacity = 2, cfg_subscriber_capacity = 1\<rparr>"

definition example_start :: agent_snapshot where
  "example_start = initial_snapshot (AgentId ''a'')"

definition example_idle :: agent_update where
  "example_idle = Update_Delta 1 \<lparr>delta_agent_id = AgentId ''a'', delta_base_revision = 0,
     delta_revision = 1, delta_change = LifecycleChanged Lifecycle_Idle\<rparr>"

definition example_running :: agent_update where
  "example_running = Update_Delta 2 \<lparr>delta_agent_id = AgentId ''a'', delta_base_revision = 1,
     delta_revision = 2, delta_change = LifecycleChanged Lifecycle_Running\<rparr>"

definition example_actor :: "agent_update list \<Rightarrow> agent_lifecycle \<Rightarrow> u64 \<Rightarrow> actor_state" where
  "example_actor us l n = \<lparr>act_snapshot = example_start\<lparr>snap_revision := n,
     snap_event_sequence := n, snap_lifecycle := l\<rparr>, act_replay = us, act_replay_capacity = 2,
     act_subscriber_capacity = 1, act_subscribers = [], act_lease_deadline = None\<rparr>"

lemmas example_defs = example_cfg_def example_start_def example_idle_def example_running_def
  example_actor_def

lemma example_run:
  "actor_run example_start example_cfg
     [Act_Command 0 (Cmd_Change (LifecycleChanged Lifecycle_Idle)) (Reply_Change (Inr ())),
      Act_Command 0 (Cmd_Change (LifecycleChanged Lifecycle_Running)) (Reply_Change (Inr ()))]
     [example_idle, example_running]
     (Alive (example_actor [example_idle, example_running] Lifecycle_Running 2))"
proof -
  let ?a0 = "spawn_with_snapshot example_start example_cfg"
  let ?a1 = "example_actor [example_idle] Lifecycle_Idle 1"
  let ?a2 = "example_actor [example_idle, example_running] Lifecycle_Running 2"
  have 1: "handle_command 0 ?a0 (Cmd_Change (LifecycleChanged Lifecycle_Idle)) =
      Some (Reply_Change (Inr ()), ?a1)"
    by (simp add: example_defs spawn_with_snapshot_def actor_apply_change_unfold Let_def
        would_change_def initial_snapshot_def checked_add_def record_update_def)
  have 2: "handle_command 0 ?a1 (Cmd_Change (LifecycleChanged Lifecycle_Running)) =
      Some (Reply_Change (Inr ()), ?a2)"
    by (simp add: example_defs spawn_with_snapshot_def actor_apply_change_unfold Let_def
        would_change_def initial_snapshot_def checked_add_def record_update_def)
  have r: "recorded ?a0 ?a1 = [example_idle]" "recorded ?a1 ?a2 = [example_running]"
    by (simp_all add: recorded_def example_defs spawn_with_snapshot_def initial_snapshot_def)
  show ?thesis
    using actor_steps.snoc [OF actor_steps.snoc [OF actor_steps.none]
        actor_step.command [OF _ 2], OF actor_step.command [OF _ 1]] r
    by (simp add: actor_run_def config_ok_def) (simp add: example_cfg_def)
qed

end
