(* ===== verification/Actor_Properties.thy ===== *)
theory Actor_Properties
  imports Actor_Streams
begin

section \<open>Properties of the agent actor\<close>

text \<open>
  The properties of \<open>actor.rs\<close>: exact resumption, lossless subscriptions, the replication
  theorem, the invariant of every run, exclusive leases, the absence of panics, and two
  limits of the design: a cursor does not name the actor it came from, and the run history has
  no bound.
\<close>

subsection \<open>Replication\<close>

text \<open>
  C5: resuming is exact. A client that stopped after any part \<open>p\<close> of an actor's log and holds
  the snapshot \<open>c\<close> of that moment is answered with precisely the updates it missed, when the
  buffer still holds all of them; otherwise it is told to resynchronise and given the current
  snapshot. The one further exception is a sequence that has reached its last value.
\<close>

theorem resume_is_exact:
  assumes "actor_run s0 cfg ls (p @ rest) t" "apply_updates s0 p = Inr c"
  shows "actor_subscription_start (task_state t) (snapshot_cursor c) =
    (if rest = [] \<or> length rest \<le> cfg_replay_capacity cfg \<and>
        checked_add (snap_event_sequence (act_snapshot (task_state t))) 1 \<noteq> None
     then Start_Replay rest else Start_ResyncRequired (act_snapshot (task_state t)))"
  using actor_run_facts [OF assms(1)]
    extends_prefix_det [OF _ assms(2), of rest "act_snapshot (task_state t)"]
  by (intro actor_subscription_start_log [where p = p and ?s0.0 = s0]) auto

lemma resume_is_exact_witness:
  "actor_subscription_start (example_actor [example_idle, example_running] Lifecycle_Running 2)
     (snapshot_cursor example_start) = Start_Replay [example_idle, example_running]"
  using resume_is_exact [of example_start example_cfg _ "[]" "[example_idle, example_running]"
      "Alive (example_actor [example_idle, example_running] Lifecycle_Running 2)", simplified,
      OF example_run]
  by (simp add: example_defs checked_add_def)


definition example_subscribed :: actor_state where
  "example_subscribed = (example_actor [example_idle, example_running] Lifecycle_Running 2)
     \<lparr>act_subscribers := [new_subscription 1]\<rparr>"

lemma example_subscribe:
  "handle_command 0 (example_actor [example_idle, example_running] Lifecycle_Running 2)
     (Cmd_Subscribe None) =
   Some (Reply_Subscribe 0 (Start_Snapshot (act_snapshot example_subscribed)), example_subscribed)"
  by (simp add: subscribe_def Let_def example_defs example_subscribed_def new_subscription_def)


text \<open>
  C6: a subscriber replicates the actor. From the answer to its subscription (a snapshot, a
  replay of what it missed, or a fresh snapshot after a gap) a client that applies the updates
  its subscription yields never meets an error, and once it has drained its queue, and is
  open and not marked as fallen behind, it holds exactly the actor's snapshot.
\<close>

theorem subscriber_replicates_actor:
  assumes "actor_run s0 cfg ls0 (p @ rest) (Alive a)" "apply_updates s0 p = Inr c"
    and "handle_command now a (Cmd_Subscribe cursor) = Some (Reply_Subscribe i start, a')"
    and "cursor = None \<or> cursor = Some (snapshot_cursor c)"
    and "actor_steps (Alive a') ls log t"
  defines "ch \<equiv> act_subscribers (task_state t) ! i"
  shows "\<exists>s s'. started_from c start = Inr s \<and> apply_updates s (received i ls) = Inr s' \<and>
    (sub_open ch \<and> \<not> sub_resync_required ch \<and> sub_queue ch = [] \<longrightarrow>
       s' = act_snapshot (task_state t))"
proof -
  have start: "started_from c start = Inr (act_snapshot a')"
    by (rule subscribe_start [OF assms(1-4)])
  have "replay_bounded a'"
    using actor_steps_emits [OF assms(1) [unfolded actor_run_def, THEN conjunct2]]
      spawn_bounded assms(1) subscribe_stream_ok [OF assms(3)]
    by (simp add: actor_run_def replay_bounded_def)
  then have ext: "extends (act_snapshot a') log (act_snapshot (task_state t))"
    using actor_steps_emits [OF assms(5)] by (simp add: emits_def)
  have stream: "stream_inv (is_alive t) (received i ls) log ch"
    using subscription_stream [OF assms(3,5)] by (simp add: stream_ok_def ch_def)
  then obtain rest' where "log = received i ls @ rest'"
    by (auto simp: stream_inv_def prefix_def)
  then obtain s' where s': "extends (act_snapshot a') (received i ls) s'"
    "extends s' rest' (act_snapshot (task_state t))"
    using ext by (auto simp: extends_append)
  moreover have "rest' = []"
    if "sub_open ch" "\<not> sub_resync_required ch" "sub_queue ch = []"
    using stream that \<open>log = received i ls @ rest'\<close> by (simp add: stream_inv_def)
  ultimately show ?thesis using start by (auto simp: extends_def)
qed

lemma subscriber_replicates_actor_witness:
  "\<exists>s s'. started_from example_start (Start_Snapshot (act_snapshot example_subscribed)) = Inr s \<and>
     apply_updates s (received 0 []) = Inr s' \<and> s' = act_snapshot example_subscribed"
proof -
  have "actor_run example_start example_cfg
     [Act_Command 0 (Cmd_Change (LifecycleChanged Lifecycle_Idle)) (Reply_Change (Inr ())),
      Act_Command 0 (Cmd_Change (LifecycleChanged Lifecycle_Running)) (Reply_Change (Inr ()))]
     ([] @ [example_idle, example_running])
     (Alive (example_actor [example_idle, example_running] Lifecycle_Running 2))"
    using example_run by simp
  from subscriber_replicates_actor [OF this _ example_subscribe _ actor_steps.none] show ?thesis
    by (simp add: example_subscribed_def new_subscription_def)
qed

subsection \<open>The invariant of a run\<close>

lemma deliver_capacity [simp]: "sub_capacity (deliver u ch) = sub_capacity ch"
  by (simp add: deliver_def try_send_def)

lemma deliver_bounded:
  "length (sub_queue ch) \<le> sub_capacity ch \<Longrightarrow>
     length (sub_queue (deliver u ch)) \<le> sub_capacity ch"
  by (auto simp: deliver_def try_send_def)

definition channels_bounded :: "actor_state \<Rightarrow> bool" where
  "channels_bounded a \<longleftrightarrow> (\<forall>ch \<in> set (act_subscribers a).
     length (sub_queue ch) \<le> sub_capacity ch \<and> sub_capacity ch = act_subscriber_capacity a)"

lemma channels_bounded_fold:
  "length (sub_queue ch) \<le> sub_capacity ch \<Longrightarrow>
     length (sub_queue (fold deliver us ch)) \<le> sub_capacity ch \<and>
     sub_capacity (fold deliver us ch) = sub_capacity ch"
proof (induction us arbitrary: ch)
  case (Cons u us)
  then show ?case using Cons.IH [of "deliver u ch"] deliver_bounded [of ch u] by simp
qed simp

lemma command_effect_channels:
  assumes "command_effect a us new a'" "channels_bounded a"
  shows "channels_bounded a'"
proof -
  have "act_subscriber_capacity a' = act_subscriber_capacity a"
    "set new \<subseteq> {new_subscription (act_subscriber_capacity a)}"
    using assms(1) by (auto simp: command_effect_def advances_def)
  then show ?thesis
    using assms(2) command_effect_subscribers [OF assms(1)] channels_bounded_fold
    by (fastforce simp: channels_bounded_def new_subscription_def)
qed

lemma channels_bounded_stop: "channels_bounded a \<Longrightarrow> channels_bounded (actor_stop a)"
  by (auto simp: channels_bounded_def actor_stop_def)

lemma channels_bounded_update:
  assumes "channels_bounded a" "i < length (act_subscribers a)"
    and "length (sub_queue (f (act_subscribers a ! i))) \<le> length (sub_queue (act_subscribers a ! i))"
    and "sub_capacity (f (act_subscribers a ! i)) = sub_capacity (act_subscribers a ! i)"
  shows "channels_bounded (update_subscriber i f a)"
proof -
  have "length (sub_queue (act_subscribers a ! i)) \<le> sub_capacity (act_subscribers a ! i)"
    "sub_capacity (act_subscribers a ! i) = act_subscriber_capacity a"
    using assms(1,2) unfolding channels_bounded_def by (meson nth_mem)+
  then have "ch = f (act_subscribers a ! i) \<Longrightarrow>
      length (sub_queue ch) \<le> sub_capacity ch \<and> sub_capacity ch = act_subscriber_capacity a" for ch
    using assms(3,4) by simp
  moreover have "set (act_subscribers (update_subscriber i f a)) \<subseteq>
      insert (f (act_subscribers a ! i)) (set (act_subscribers a))"
    unfolding update_subscriber_def by (simp add: set_update_subset_insert)
  ultimately show ?thesis
    using assms(1) unfolding channels_bounded_def by (metis insert_iff subsetD update_subscriber_simps(4))
qed

lemma channels_bounded_step: "actor_step t l t' \<Longrightarrow> channels_bounded (task_state t) \<Longrightarrow>
    channels_bounded (task_state t')"
proof (induction rule: actor_step.induct)
  case (command cmd now a reply a')
  then show ?case using handle_command_effect command_effect_channels by fastforce
next
  case (shutdown now a reply a')
  then show ?case
    using handle_command_effect command_effect_channels channels_bounded_stop by fastforce
next
  case (expire a d now a')
  then show ?case
    using expire_lease_advances advances_command_effect command_effect_channels by fastforce
next
  case (recv i t ch u)
  then show ?case
    by (auto simp: recv_poll_def intro!: channels_bounded_update split: list.splits if_splits)
next
  case (unsubscribe i t)
  then show ?case by (auto intro!: channels_bounded_update)
qed (simp add: channels_bounded_stop)

lemma actor_run_channels:
  assumes "actor_run s0 cfg ls log t"
  shows "channels_bounded (task_state t)"
proof -
  have "actor_steps t0 ls log t \<Longrightarrow> channels_bounded (task_state t0) \<Longrightarrow>
      channels_bounded (task_state t)" for t0
    by (induction rule: actor_steps.induct) (auto dest: channels_bounded_step)
  moreover have "channels_bounded (spawn_with_snapshot s0 cfg)"
    by (simp add: channels_bounded_def spawn_with_snapshot_def)
  ultimately show ?thesis using assms by (auto simp: actor_run_def)
qed

text \<open>
  C8: the state of an actor after any run. Its snapshot is the log of recorded updates applied
  to the first snapshot, numbered without a gap (so the sequence has advanced by exactly the
  length of the log); the replay buffer is the last part of the log, never above its capacity;
  every channel is within its capacity; and the run history stays well formed: the active
  run has not ended, the recent runs have, and no run is listed twice.
\<close>

theorem actor_run_invariant:
  assumes "actor_run s0 cfg ls log t" "runs_wf s0"
  defines "a \<equiv> task_state t"
  shows "apply_updates s0 log = Inr (act_snapshot a) \<and>
    unat (snap_event_sequence (act_snapshot a)) = unat (snap_event_sequence s0) + length log \<and>
    act_replay a = drop (length log - cfg_replay_capacity cfg) log \<and>
    length (act_replay a) \<le> cfg_replay_capacity cfg \<and>
    list_all (\<lambda>ch. length (sub_queue ch) \<le> sub_capacity ch) (act_subscribers a) \<and>
    runs_wf (act_snapshot a)"
  using actor_run_facts [OF assms(1)] actor_run_channels [OF assms(1)] assms(2)
  by (auto simp: a_def extends_def extends_seq extends_runs_wf last_n_def channels_bounded_def
      list_all_iff intro: extends_seq extends_runs_wf)

lemma actor_run_invariant_witness:
  "apply_updates example_start [example_idle, example_running] =
     Inr (act_snapshot (example_actor [example_idle, example_running] Lifecycle_Running 2)) \<and>
   runs_wf (act_snapshot (example_actor [example_idle, example_running] Lifecycle_Running 2))"
  using actor_run_invariant [OF example_run] by (simp add: example_start_def)

text \<open>
  No command and no turn of the lease timer makes the actor panic: the delta the actor
  builds for a change always applies to its own snapshot.\<close>

theorem actor_never_panics:
  "handle_command now a cmd \<noteq> None \<and> expire_lease a \<noteq> None"
  using handle_command_Some [of now a cmd] expire_lease_Some [of a] by auto

subsection \<open>Interaction leases\<close>

lemma actor_apply_change_interaction:
  assumes "actor_apply_change a c = Some (r, a')" "\<forall>i. c \<noteq> InteractionChanged i"
  shows "snap_interaction (act_snapshot a') = snap_interaction (act_snapshot a)"
  using assms by (auto simp: actor_apply_change_unfold Let_def apply_change_interaction_other
      split: option.splits if_splits)

lemma publish_event_interaction:
  "publish_event a ev = (r, a') \<Longrightarrow>
     snap_interaction (act_snapshot a') = snap_interaction (act_snapshot a)"
  by (auto simp: publish_event_def Let_def split: sum.splits)

lemma interaction_change_cases:
  assumes "actor_apply_change a (InteractionChanged i) = Some (r, a')"
  shows "(\<exists>d. r = Inr d) \<and> snap_interaction (act_snapshot a') = i \<or> (\<exists>e. r = Inl e) \<and> a' = a"
  using assms
proof (cases "would_change (act_snapshot a) (InteractionChanged i)")
  case False
  then have "snap_interaction (act_snapshot a) = i"
    by (simp add: would_change_def) (metis agent_snapshot.select_convs(8)
        agent_snapshot.surjective agent_snapshot.update_convs(8))
  then show ?thesis using assms False by (auto simp: actor_apply_change_unfold)
qed (auto simp: actor_apply_change_unfold Let_def split: option.splits)

text \<open>
  C27: what acquiring a lease does on every branch. It succeeds only when the interaction is
  unclaimed, the caller already holds it, or the lease has expired on the caller's clock; then
  the lease is the caller's, ends exactly \<open>ttl\<close> milliseconds after the caller's time without
  wrap-around, and the timer is armed that long ahead on the monotonic clock. On failure the
  actor is unchanged, and while another holder's lease lasts the answer names that lease.
\<close>

theorem acquire_lease_spec:
  "case acquire_lease now a h now_ms ttl_ms of
     None \<Rightarrow> False
   | Some (Inl e, a') \<Rightarrow> a' = a
   | Some (Inr lease, a') \<Rightarrow>
       (case snap_interaction (act_snapshot a) of Unclaimed \<Rightarrow> True
        | Leased old \<Rightarrow> lease_holder old = h \<or> lease_expires_at_ms old \<le> now_ms) \<and>
       lease_holder lease = h \<and>
       unat (lease_expires_at_ms lease) = unat now_ms + unat ttl_ms \<and>
       snap_interaction (act_snapshot a') = Leased lease \<and>
       act_lease_deadline a' = Some (now + unat ttl_ms * 10 ^ 6)"
proof -
  have grant: "case grant_lease now a h now_ms ttl_ms of
       None \<Rightarrow> False
     | Some (Inl e, a') \<Rightarrow> a' = a
     | Some (Inr lease, a') \<Rightarrow> lease_holder lease = h \<and>
         unat (lease_expires_at_ms lease) = unat now_ms + unat ttl_ms \<and>
         snap_interaction (act_snapshot a') = Leased lease \<and>
         act_lease_deadline a' = Some (now + unat ttl_ms * 10 ^ 6)"
  proof (cases "checked_add now_ms ttl_ms")
    case (Some expires)
    let ?lease = "\<lparr>lease_holder = h, lease_expires_at_ms = expires\<rparr>"
    obtain r a' where "actor_apply_change a (InteractionChanged (Leased ?lease)) = Some (r, a')"
      using actor_apply_change_Some by blast
    moreover have "unat expires = unat now_ms + unat ttl_ms"
      using Some by (simp add: arith_model)
    ultimately show ?thesis
      using Some interaction_change_cases [of a "Leased ?lease" r a']
      by (cases r; auto simp: grant_lease_def Let_def instant_checked_add_def
          duration_from_millis_def)
  qed (simp add: grant_lease_def)
  show ?thesis
  proof (cases "snap_interaction (act_snapshot a)")
    case Unclaimed
    then show ?thesis using grant
      by (auto simp: acquire_lease_def split: option.splits sum.splits)
  next
    case (Leased old)
    then show ?thesis using grant
      by (auto simp: acquire_lease_def split: option.splits sum.splits)
  qed
qed

text \<open>
  Only the holder releases a lease. A release succeeds exactly when the interaction is
  leased to the caller and the counters are not exhausted, and leaves it unclaimed with the
  timer disarmed; anyone else is refused and nothing changes.
\<close>

theorem release_lease_spec:
  "case release_lease a h of
     None \<Rightarrow> False
   | Some (Inr (), a') \<Rightarrow>
       (\<exists>lease. snap_interaction (act_snapshot a) = Leased lease \<and> lease_holder lease = h) \<and>
       snap_interaction (act_snapshot a') = Unclaimed \<and> act_lease_deadline a' = None
   | Some (Inl e, a') \<Rightarrow> act_snapshot a' = act_snapshot a \<and>
       (snap_interaction (act_snapshot a) = Unclaimed \<and> a' = a \<and>
          e = Agent_InteractionLease Lease_NotHeld \<or>
        (\<exists>lease. snap_interaction (act_snapshot a) = Leased lease \<and> lease_holder lease \<noteq> h \<and>
          a' = a \<and> e = Agent_InteractionLease (Lease_NotHolder (lease_holder lease))) \<or>
        e \<in> {Agent_RevisionExhausted, Agent_EventSequenceExhausted})"
proof (cases "snap_interaction (act_snapshot a)")
  case Unclaimed
  then show ?thesis by (simp add: release_lease_def)
next
  case (Leased lease)
  let ?a = "a\<lparr>act_lease_deadline := None\<rparr>"
  obtain r a' where d: "actor_apply_change ?a (InteractionChanged Unclaimed) = Some (r, a')"
    using actor_apply_change_Some by blast
  moreover have "act_lease_deadline a' = None"
    using d by (auto simp: actor_apply_change_unfold Let_def split: option.splits if_splits)
  moreover have "r = Inl e \<Longrightarrow> e \<in> {Agent_RevisionExhausted, Agent_EventSequenceExhausted}" for e
    using d by (auto simp: actor_apply_change_unfold Let_def split: option.splits if_splits)
  ultimately show ?thesis
    using Leased interaction_change_cases [OF d]
    by (cases r; auto simp: release_lease_def drop_lease_def split: unit.splits)
qed

text \<open>
  The labels that do not end a lease: the holder neither releases nor renews it, its timer
  does not fire, nobody asks for it after it has expired on the asker's clock, and no command
  overwrites the interaction state (no method of \<open>AgentHandle\<close> sends such a change).
\<close>

fun keeps_lease :: "interaction_lease \<Rightarrow> actor_label \<Rightarrow> bool" where
  "keeps_lease lease (Act_Command now (Cmd_ReleaseLease h) r) \<longleftrightarrow> h \<noteq> lease_holder lease"
| "keeps_lease lease (Act_Command now (Cmd_AcquireLease h n ttl) r) \<longleftrightarrow>
     h \<noteq> lease_holder lease \<and> n < lease_expires_at_ms lease"
| "keeps_lease lease (Act_Command now (Cmd_Change c) r) \<longleftrightarrow>
     (case c of InteractionChanged i \<Rightarrow> False | _ \<Rightarrow> True)"
| "keeps_lease lease (Act_Expire now) \<longleftrightarrow> False"
| "keeps_lease lease _ \<longleftrightarrow> True"

lemma keeps_lease_command:
  assumes "handle_command now a cmd = Some (reply, a')"
    and "snap_interaction (act_snapshot a) = Leased lease"
    and "keeps_lease lease (Act_Command now cmd reply)"
  shows "snap_interaction (act_snapshot a') = Leased lease"
proof (cases cmd)
  case (Cmd_Change c)
  with assms obtain r where "actor_apply_change a c = Some (r, a')" by auto
  moreover have "\<forall>i. c \<noteq> InteractionChanged i"
    using assms(3) Cmd_Change by (auto split: agent_state_change.splits)
  ultimately show ?thesis using assms(2) actor_apply_change_interaction by metis
next
  case (Cmd_PublishEvent ev)
  then show ?thesis using assms by (auto split: prod.splits dest: publish_event_interaction)
next
  case (Cmd_AcquireLease h n ttl)
  then show ?thesis using assms by (auto simp: acquire_lease_def)
next
  case (Cmd_ReleaseLease h)
  then show ?thesis using assms by (auto simp: release_lease_def)
qed (use assms in \<open>auto simp: subscribe_def Let_def\<close>)

lemma keeps_lease_step:
  assumes "actor_step t l t'" "snap_interaction (act_snapshot (task_state t)) = Leased lease"
    and "keeps_lease lease l"
  shows "snap_interaction (act_snapshot (task_state t')) = Leased lease"
  using assms by cases (auto dest: keeps_lease_command simp del: handle_command.simps)

lemma keeps_lease_refused:
  assumes "actor_step t (Act_Command now (Cmd_AcquireLease h n ttl) r) t'"
    and "snap_interaction (act_snapshot (task_state t)) = Leased lease"
    and "keeps_lease lease (Act_Command now (Cmd_AcquireLease h n ttl) r)"
  shows "r = Reply_AcquireLease (Inl (Agent_InteractionLease (Lease_HeldByOther lease)))"
  using assms by cases (auto simp: acquire_lease_def)

text \<open>
  C40: a lease is exclusive. As long as its holder neither releases nor renews it, its timer has
  not fired and it has not expired on the clock of those who ask, the lease stays as it is
  through any interleaving of commands, subscriptions and receptions, and every other
  holder's request is refused with it.
\<close>

theorem lease_is_exclusive:
  assumes "actor_steps t ls log t'" "snap_interaction (act_snapshot (task_state t)) = Leased lease"
    and "list_all (keeps_lease lease) ls"
  shows "snap_interaction (act_snapshot (task_state t')) = Leased lease \<and>
    (\<forall>now h n ttl r. Act_Command now (Cmd_AcquireLease h n ttl) r \<in> set ls \<longrightarrow>
       r = Reply_AcquireLease (Inl (Agent_InteractionLease (Lease_HeldByOther lease))))"
  using assms
proof (induction)
  case (snoc t ls log t' l t'')
  then have "snap_interaction (act_snapshot (task_state t')) = Leased lease" "keeps_lease lease l"
    by simp_all
  then show ?case
    using snoc keeps_lease_step [OF snoc(2)] keeps_lease_refused snoc(2) by fastforce
qed simp

definition example_lease :: interaction_lease where
  "example_lease = \<lparr>lease_holder = LeaseHolderId ''phone'', lease_expires_at_ms = 500\<rparr>"

lemma lease_is_exclusive_witness:
  "\<exists>r t'. actor_step (Alive (spawn_with_snapshot
        (example_start\<lparr>snap_interaction := Leased example_lease\<rparr>) example_cfg))
      (Act_Command 0 (Cmd_AcquireLease (LeaseHolderId ''desk'') 400 1000) r) t' \<and>
    r = Reply_AcquireLease (Inl (Agent_InteractionLease (Lease_HeldByOther example_lease)))"
proof -
  let ?a = "spawn_with_snapshot (example_start\<lparr>snap_interaction := Leased example_lease\<rparr>) example_cfg"
  let ?cmd = "Cmd_AcquireLease (LeaseHolderId ''desk'') 400 1000"
  obtain r a' where h: "handle_command 0 ?a ?cmd = Some (r, a')"
    using handle_command_Some by blast
  have step: "actor_step (Alive ?a) (Act_Command 0 ?cmd r) (Alive a')"
    by (rule actor_step.command [OF _ h]) simp
  from lease_is_exclusive [OF actor_steps.snoc [OF actor_steps.none step], of example_lease]
  have "r = Reply_AcquireLease (Inl (Agent_InteractionLease (Lease_HeldByOther example_lease)))"
    by (simp add: spawn_with_snapshot_def example_lease_def)
  with step show ?thesis by blast
qed

text \<open>
  The lease timer ends the lease. When the deadline has passed the timer can fire, and
  once it has, the interaction is unclaimed and the timer disarmed (a change at the last
  revision or sequence is the exception, where the snapshot stays as it is).\<close>

theorem lease_expires:
  assumes "act_lease_deadline a = Some deadline" "deadline \<le> now"
  shows "\<exists>a'. actor_step (Alive a) (Act_Expire now) (Alive a') \<and> act_lease_deadline a' = None \<and>
    (snap_interaction (act_snapshot a') = Unclaimed \<or>
     act_snapshot a' = act_snapshot a \<and>
       (checked_add (snap_revision (act_snapshot a)) 1 = None \<or>
        checked_add (snap_event_sequence (act_snapshot a)) 1 = None))"
proof -
  let ?a = "a\<lparr>act_lease_deadline := None\<rparr>"
  obtain r a' where d: "actor_apply_change ?a (InteractionChanged Unclaimed) = Some (r, a')"
    using actor_apply_change_Some by blast
  then have "expire_lease a = Some a'" by (simp add: expire_lease_def drop_lease_def)
  then have "actor_step (Alive a) (Act_Expire now) (Alive a')"
    by (rule actor_step.expire [OF assms])
  moreover have "act_lease_deadline a' = None"
    using d by (auto simp: actor_apply_change_unfold Let_def split: option.splits if_splits)
  moreover have "r = Inl e \<Longrightarrow> checked_add (snap_revision (act_snapshot a)) 1 = None \<or>
        checked_add (snap_event_sequence (act_snapshot a)) 1 = None" for e
    using d by (auto simp: actor_apply_change_unfold Let_def split: option.splits if_splits)
  ultimately show ?thesis using interaction_change_cases [OF d] by fastforce
qed

lemma lease_expires_witness:
  "\<exists>a'. actor_step (Alive ((spawn_with_snapshot example_start example_cfg)
      \<lparr>act_lease_deadline := Some 5\<rparr>)) (Act_Expire 7) (Alive a')"
  using lease_expires [of "(spawn_with_snapshot example_start example_cfg)
      \<lparr>act_lease_deadline := Some 5\<rparr>" 5 7] by auto

subsection \<open>Limits of the design\<close>

text \<open>
  A cursor does not name the actor it came from. Two actors of the same agent (one
  launched after the other was stopped, or after the daemon restarted) can reach the same
  revision and sequence with different contents. A client that comes back with the cursor of
  the first is told by the second that it has missed nothing and keeps the wrong state.\<close>

theorem stale_cursor_is_accepted:
  "\<exists>cfg ls1 log1 a1 ls2 log2 a2 s0.
     actor_run s0 cfg ls1 log1 (Alive a1) \<and> actor_run s0 cfg ls2 log2 (Alive a2) \<and>
     s0 = initial_snapshot (AgentId ''a'') \<and>
     act_snapshot a1 \<noteq> act_snapshot a2 \<and>
     actor_subscription_start a2 (snapshot_cursor (act_snapshot a1)) = Start_Replay []"
proof -
  let ?a0 = "spawn_with_snapshot example_start example_cfg"
  let ?run = "\<lambda>c. \<exists>r a. handle_command 0 ?a0 (Cmd_Change c) = Some (r, a) \<and>
      act_snapshot a = (apply_change example_start c)\<lparr>snap_revision := 1, snap_event_sequence := 1\<rparr>"
  have run: "?run (LifecycleChanged l)" if "l \<noteq> Lifecycle_Starting" for l
    using that by (simp add: example_defs spawn_with_snapshot_def actor_apply_change_unfold Let_def
        would_change_def initial_snapshot_def checked_add_def)
  have steps: "\<exists>ls log. actor_run example_start example_cfg ls log (Alive a)"
    if "handle_command 0 ?a0 (Cmd_Change c) = Some (r, a)" for c r a
    using actor_steps.snoc [OF actor_steps.none actor_step.command [OF _ that]]
    by (auto simp: actor_run_def config_ok_def example_cfg_def simp del: handle_command.simps)
  obtain r1 a1 r2 a2 where
    1: "handle_command 0 ?a0 (Cmd_Change (LifecycleChanged Lifecycle_Idle)) = Some (r1, a1)"
       "act_snapshot a1 = example_start\<lparr>snap_lifecycle := Lifecycle_Idle, snap_revision := 1,
          snap_event_sequence := 1\<rparr>" and
    2: "handle_command 0 ?a0 (Cmd_Change (LifecycleChanged Lifecycle_Running)) = Some (r2, a2)"
       "act_snapshot a2 = example_start\<lparr>snap_lifecycle := Lifecycle_Running, snap_revision := 1,
          snap_event_sequence := 1\<rparr>"
    using run [of Lifecycle_Idle] run [of Lifecycle_Running] by auto
  have "act_snapshot a1 \<noteq> act_snapshot a2"
    by (simp add: 1 2 example_start_def initial_snapshot_def)
  moreover have "actor_subscription_start a2 (snapshot_cursor (act_snapshot a1)) = Start_Replay []"
    by (simp add: 1 2 actor_subscription_start_def example_start_def initial_snapshot_def)
  moreover have "example_start = initial_snapshot (AgentId ''a'')" by (rule example_start_def)
  ultimately show ?thesis using steps [OF 1(1)] steps [OF 2(1)] by metis
qed

lemma upsert_new_terminal:
  "is_terminal (run_lifecycle r) \<Longrightarrow> run_run_id r \<notin> run_run_id ` set (snap_recent_runs s) \<Longrightarrow>
     snap_recent_runs (apply_change s (RunUpserted r)) = snap_recent_runs s @ [r]"
proof -
  assume t: "is_terminal (run_lifecycle r)"
    and "run_run_id r \<notin> run_run_id ` set (snap_recent_runs s)"
  then have "filter (\<lambda>c. run_run_id c \<noteq> run_run_id r) (snap_recent_runs s) = snap_recent_runs s"
    by (intro filter_True ballI) (metis imageI)
  with t show ?thesis by (simp add: Let_def)
qed

text \<open>
  The run history has no bound. Every ended run that a snapshot is told of stays in it,
  in the order in which they ended: after any list of them the history is that list.
\<close>

theorem recent_runs_unbounded:
  assumes "list_all (\<lambda>r. is_terminal (run_lifecycle r)) rs" "distinct (map run_run_id rs)"
  shows "snap_recent_runs (fold (\<lambda>r s. apply_change s (RunUpserted r)) rs (initial_snapshot a)) = rs"
proof -
  have "snap_recent_runs (fold (\<lambda>r s. apply_change s (RunUpserted r)) rs s) = snap_recent_runs s @ rs"
    if "run_run_id ` set (snap_recent_runs s) \<inter> run_run_id ` set rs = {}" for s
    using assms that
  proof (induction rs arbitrary: s)
    case (Cons r rs)
    then have n: "snap_recent_runs (apply_change s (RunUpserted r)) = snap_recent_runs s @ [r]"
      by (intro upsert_new_terminal) auto
    have "run_run_id ` set (snap_recent_runs (apply_change s (RunUpserted r))) \<inter>
        run_run_id ` set rs = {}"
      using Cons.prems unfolding n by auto
    with Cons n show ?case by simp
  qed simp
  then show ?thesis by (simp add: initial_snapshot_def)
qed

definition ended_run :: "string \<Rightarrow> run_snapshot" where
  "ended_run n = \<lparr>run_run_id = RunId n, run_lifecycle = Run_Completed, run_started_at_ms = 1,
     run_ended_at_ms = Some 2\<rparr>"

lemma recent_runs_unbounded_witness:
  "snap_recent_runs (fold (\<lambda>r s. apply_change s (RunUpserted r)) [ended_run ''x'', ended_run ''y'']
     (initial_snapshot (AgentId ''a''))) = [ended_run ''x'', ended_run ''y'']"
  by (rule recent_runs_unbounded) (simp_all add: ended_run_def)

end
