(* ===== verification/Agent_Registry.thy ===== *)
theory Agent_Registry
  imports Actor_Invariants
begin

section \<open>The agent registry\<close>

text \<open>
  \<open>crates/omp-control-plane/src/registry.rs\<close>: the daemon's map from agent identifiers to the
  handles of their actors. Handles are cloned freely and all clones reach the same task, so a
  handle is a place in the list of the tasks that were ever spawned, and the registry's map
  holds such places. The write lock makes each operation one step.
\<close>

datatype registry_error =
    Registry_AlreadyExists agent_id
  | Registry_NotFound agent_id
  | Registry_Actor agent_error

fun show_registry_error :: "registry_error \<Rightarrow> string" where
  "show_registry_error (Registry_AlreadyExists a) = ''agent '' @ agent_id_str a @ '' already exists''"
| "show_registry_error (Registry_NotFound a) = ''agent '' @ agent_id_str a @ '' was not found''"
| "show_registry_error (Registry_Actor e) = show_agent_error e"

fun registry_error_source :: "registry_error \<Rightarrow> agent_error option" where
  "registry_error_source (Registry_Actor e) = Some e"
| "registry_error_source _ = None"

type_synonym agent_handle = nat

record agent_registry =
  reg_config :: agent_actor_config
  reg_agents :: "(agent_id, agent_handle) bmap"
  reg_tasks :: "actor_task list"

definition registry_new :: "agent_actor_config \<Rightarrow> agent_registry" where
  "registry_new cfg = \<lparr>reg_config = cfg, reg_agents = [], reg_tasks = []\<rparr>"

text \<open>The entry and the task of a fresh actor.\<close>

definition registry_add ::
  "agent_registry \<Rightarrow> agent_id \<Rightarrow> actor_state \<Rightarrow> agent_handle \<times> agent_registry" where
  "registry_add r a actor =
     (let h = length (reg_tasks r)
      in (h, r\<lparr>reg_agents := bmap_insert a h (reg_agents r),
               reg_tasks := reg_tasks r @ [Alive actor]\<rparr>))"

definition registry_create ::
  "agent_registry \<Rightarrow> agent_id \<Rightarrow> (registry_error + agent_handle) \<times> agent_registry" where
  "registry_create r a =
     (if bmap_get (reg_agents r) a \<noteq> None then (Inl (Registry_AlreadyExists a), r)
      else let (h, r) = registry_add r a (spawn a (reg_config r)) in (Inr h, r))"

definition registry_restore ::
  "agent_registry \<Rightarrow> agent_snapshot \<Rightarrow> (registry_error + agent_handle) \<times> agent_registry" where
  "registry_restore r snapshot =
     (let a = snap_agent_id snapshot
      in if bmap_get (reg_agents r) a \<noteq> None then (Inl (Registry_AlreadyExists a), r)
         else let (h, r) = registry_add r a (spawn_with_snapshot snapshot (reg_config r))
              in (Inr h, r))"

definition registry_get :: "agent_registry \<Rightarrow> agent_id \<Rightarrow> agent_handle option" where
  "registry_get r a = bmap_get (reg_agents r) a"

definition registry_list :: "agent_registry \<Rightarrow> agent_id list" where
  "registry_list r = bmap_keys (reg_agents r)"

text \<open>A method of a handle acts on the task the handle reaches.\<close>

definition registry_call ::
  "instant \<Rightarrow> agent_registry \<Rightarrow> agent_handle \<Rightarrow> actor_command \<Rightarrow>
     (agent_error + actor_reply) \<times> agent_registry" where
  "registry_call now r h cmd =
     (let (reply, t) = handle_call now (reg_tasks r ! h) cmd
      in (reply, r\<lparr>reg_tasks := (reg_tasks r)[h := t]\<rparr>))"

definition registry_remove ::
  "instant \<Rightarrow> agent_registry \<Rightarrow> agent_id \<Rightarrow> (registry_error + unit) \<times> agent_registry" where
  "registry_remove now r a =
     (case bmap_get (reg_agents r) a of
        None \<Rightarrow> (Inl (Registry_NotFound a), r)
      | Some h \<Rightarrow>
          (let r = r\<lparr>reg_agents := bmap_remove a (reg_agents r)\<rparr>;
               (reply, r) = registry_call now r h Cmd_Shutdown
           in (map_err Registry_Actor (rbind reply reply_unit), r)))"

subsection \<open>Invariant\<close>

text \<open>
  The map is ordered; every entry leads to a task whose snapshot carries the entry's
  identifier; two entries never share a task.
\<close>

definition registry_wf :: "agent_registry \<Rightarrow> bool" where
  "registry_wf r \<longleftrightarrow>
     bmap_invar (reg_agents r) \<and>
     (\<forall>a h. bmap_get (reg_agents r) a = Some h \<longrightarrow> h < length (reg_tasks r) \<and>
        snap_agent_id (act_snapshot (task_state (reg_tasks r ! h))) = a)"

lemma registry_wf_distinct:
  "registry_wf r \<Longrightarrow> bmap_get (reg_agents r) a = Some h \<Longrightarrow> bmap_get (reg_agents r) b = Some h \<Longrightarrow>
     a = b"
  by (auto simp: registry_wf_def)

lemma registry_wf_new: "registry_wf (registry_new cfg)"
  by (simp add: registry_wf_def registry_new_def)

lemma registry_add_wf:
  assumes "registry_wf r" "snap_agent_id (act_snapshot actor) = a"
    "registry_add r a actor = (h, r')"
  shows "registry_wf r'"
proof -
  have r': "h = length (reg_tasks r)" "r' = r\<lparr>reg_agents := bmap_insert a h (reg_agents r),
      reg_tasks := reg_tasks r @ [Alive actor]\<rparr>"
    using assms(3) by (auto simp: registry_add_def Let_def)
  show ?thesis
    using assms(1,2) by (force simp: registry_wf_def r' bmap_simps nth_append split: if_splits)
qed

lemma spawn_agent [simp]:
  "snap_agent_id (act_snapshot (spawn a cfg)) = a"
  "act_snapshot (spawn_with_snapshot s cfg) = s"
  by (simp_all add: spawn_def spawn_with_snapshot_def initial_snapshot_def)

lemma registry_create_wf:
  assumes "registry_wf r" "registry_create r a = (res, r')"
  shows "registry_wf r'"
proof (cases "bmap_get (reg_agents r) a")
  case None
  obtain h r1 where "registry_add r a (spawn a (reg_config r)) = (h, r1)" by fastforce
  with None assms registry_add_wf [OF assms(1) _ this] show ?thesis
    by (simp add: registry_create_def)
qed (use assms in \<open>simp add: registry_create_def\<close>)

lemma registry_restore_wf:
  assumes "registry_wf r" "registry_restore r s = (res, r')"
  shows "registry_wf r'"
proof (cases "bmap_get (reg_agents r) (snap_agent_id s)")
  case None
  obtain h r1 where
    "registry_add r (snap_agent_id s) (spawn_with_snapshot s (reg_config r)) = (h, r1)"
    by fastforce
  with None assms registry_add_wf [OF assms(1) _ this] show ?thesis
    by (simp add: registry_restore_def Let_def)
qed (use assms in \<open>simp add: registry_restore_def Let_def\<close>)

lemma command_effect_agent:
  "command_effect a us new a' \<Longrightarrow>
     snap_agent_id (act_snapshot a') = snap_agent_id (act_snapshot a)"
  by (auto simp: command_effect_def advances_def dest: apply_update_Inr_frame)

lemma handle_call_agent:
  assumes "handle_call now t cmd = (reply, t')"
  shows "snap_agent_id (act_snapshot (task_state t')) = snap_agent_id (act_snapshot (task_state t))"
proof (cases t)
  case (Alive a)
  obtain rep a' where c: "handle_command now a cmd = Some (rep, a')"
    using handle_command_Some by blast
  then have "snap_agent_id (act_snapshot a') = snap_agent_id (act_snapshot a)"
    using handle_command_effect command_effect_agent by blast
  then show ?thesis using assms Alive c by (auto simp: handle_call_def split: if_splits)
qed (use assms in \<open>simp add: handle_call_def\<close>)

lemma registry_call_wf:
  assumes "registry_wf r" "registry_call now r h cmd = (reply, r')"
  shows "registry_wf r'"
proof -
  obtain t where t: "handle_call now (reg_tasks r ! h) cmd = (reply, t)"
    "r' = r\<lparr>reg_tasks := (reg_tasks r)[h := t]\<rparr>"
    using assms(2) by (auto simp: registry_call_def split: prod.splits)
  have "snap_agent_id (act_snapshot (task_state ((reg_tasks r)[h := t] ! h'))) =
      snap_agent_id (act_snapshot (task_state (reg_tasks r ! h')))" if "h' < length (reg_tasks r)" for h'
    using handle_call_agent [OF t(1)] that by (cases "h' = h") simp_all
  then show ?thesis
    using assms(1) by (auto simp: registry_wf_def t(2))
qed

lemma registry_remove_wf:
  assumes "registry_wf r" "registry_remove now r a = (res, r')"
  shows "registry_wf r'"
proof (cases "bmap_get (reg_agents r) a")
  case (Some h)
  have "registry_wf (r\<lparr>reg_agents := bmap_remove a (reg_agents r)\<rparr>)"
    using assms(1) by (auto simp: registry_wf_def bmap_simps split: if_splits)
  with Some assms(2) show ?thesis
    by (auto simp: registry_remove_def Let_def split: prod.splits dest: registry_call_wf)
qed (use assms in \<open>simp add: registry_remove_def\<close>)

inductive registry_reachable :: "agent_actor_config \<Rightarrow> agent_registry \<Rightarrow> bool" where
  fresh: "registry_reachable cfg (registry_new cfg)"
| create: "registry_reachable cfg r \<Longrightarrow> registry_create r a = (res, r') \<Longrightarrow>
     registry_reachable cfg r'"
| restore: "registry_reachable cfg r \<Longrightarrow> registry_restore r s = (res, r') \<Longrightarrow>
     registry_reachable cfg r'"
| call: "registry_reachable cfg r \<Longrightarrow> registry_call now r h cmd = (reply, r') \<Longrightarrow>
     registry_reachable cfg r'"
| remove: "registry_reachable cfg r \<Longrightarrow> registry_remove now r a = (res', r') \<Longrightarrow>
     registry_reachable cfg r'"

lemma registry_reachable_wf: "registry_reachable cfg r \<Longrightarrow> registry_wf r"
proof (induction rule: registry_reachable.induct)
  case fresh
  show ?case by (rule registry_wf_new)
qed (erule (1) registry_create_wf registry_restore_wf registry_call_wf registry_remove_wf)+

subsection \<open>Properties\<close>

text \<open>
  In every state the registry reaches, listing names each registered agent once, in
  increasing order, and precisely those a lookup finds; a lookup leads to an actor whose
  snapshot carries the identifier that was looked up, and no two agents share an actor.\<close>

theorem registry_lookup_sound:
  assumes "registry_reachable cfg r"
  shows "sorted_wrt (<) (registry_list r) \<and> distinct (registry_list r) \<and>
    (\<forall>a. a \<in> set (registry_list r) \<longleftrightarrow> registry_get r a \<noteq> None) \<and>
    (\<forall>a h. registry_get r a = Some h \<longrightarrow>
       snap_agent_id (act_snapshot (task_state (reg_tasks r ! h))) = a) \<and>
    (\<forall>a b h. registry_get r a = Some h \<longrightarrow> registry_get r b = Some h \<longrightarrow> a = b)"
proof -
  have wf: "registry_wf r" by (rule registry_reachable_wf [OF assms])
  then have inv: "bmap_invar (reg_agents r)" by (simp add: registry_wf_def)
  show ?thesis
    using wf bm.sorted_keys [OF inv] bm.distinct_keys [OF inv] bm.set_keys [OF inv]
    by (simp add: registry_list_def registry_get_def registry_wf_def) blast
qed

lemma registry_lookup_sound_witness:
  "distinct (registry_list (snd (registry_create (registry_new default_actor_config)
     (AgentId ''a''))))"
  using registry_lookup_sound [OF registry_reachable.create [OF registry_reachable.fresh
      surjective_pairing]] by blast

text \<open>
  An agent is created once. Creating an identifier that is registered fails and changes
  nothing; otherwise the new handle is found under it, leads to a live actor in its initial
  state, and no other entry and no existing actor changes.
\<close>

theorem registry_create_spec:
  "case registry_create r a of
     (Inl e, r') \<Rightarrow> registry_get r a \<noteq> None \<and> e = Registry_AlreadyExists a \<and> r' = r
   | (Inr h, r') \<Rightarrow> registry_get r a = None \<and>
       (\<forall>b. registry_get r' b = (if b = a then Some h else registry_get r b)) \<and>
       reg_tasks r' = reg_tasks r @ [Alive (spawn a (reg_config r))] \<and> h = length (reg_tasks r)"
  by (auto simp: registry_create_def registry_get_def registry_add_def Let_def bmap_get_insert)

text \<open>
  A removed agent is gone for everyone. After a removal the identifier is free, every other
  entry is as before, the actor has ended with its subscriptions cut off, and every later call
  through any clone of its handle answers that it has stopped.\<close>

theorem registry_remove_stops_actor:
  assumes "registry_reachable cfg r" "registry_get r a = Some h"
    and "registry_remove now r a = (res, r')"
  shows "(\<forall>b. registry_get r' b = (if b = a then None else registry_get r b)) \<and>
    (\<exists>s. reg_tasks r' ! h = Ended s) \<and> fst (registry_call now' r' h cmd) = Inl Agent_Stopped \<and>
    (\<forall>h'. h' \<noteq> h \<longrightarrow> reg_tasks r' ! h' = reg_tasks r ! h')"
proof -
  have wf: "registry_wf r" by (rule registry_reachable_wf [OF assms(1)])
  then have inv: "bmap_invar (reg_agents r)" and h: "h < length (reg_tasks r)"
    using assms(2) by (auto simp: registry_wf_def registry_get_def)
  obtain reply t where t: "handle_call now (reg_tasks r ! h) Cmd_Shutdown = (reply, t)"
    by fastforce
  then have "\<exists>s. t = Ended s"
    by (auto simp: handle_call_def split: actor_task.splits) (metis actor_task.exhaust)
  moreover have "r' = r\<lparr>reg_agents := bmap_remove a (reg_agents r),
      reg_tasks := (reg_tasks r)[h := t]\<rparr>"
    using assms(2,3) t by (simp add: registry_remove_def registry_get_def registry_call_def Let_def)
  ultimately show ?thesis
    using h inv by (auto simp: registry_get_def bmap_get_remove registry_call_def handle_call_def)
qed

lemma registry_remove_stops_actor_witness:
  "fst (registry_call 9 (snd (registry_remove 3 (snd (registry_create
      (registry_new default_actor_config) (AgentId ''a''))) (AgentId ''a''))) 0 Cmd_Snapshot) =
    Inl Agent_Stopped"
proof -
  let ?r = "snd (registry_create (registry_new default_actor_config) (AgentId ''a''))"
  have "registry_reachable default_actor_config ?r"
    by (rule registry_reachable.create [OF registry_reachable.fresh surjective_pairing])
  moreover have "registry_get ?r (AgentId ''a'') = Some 0"
    by (simp add: registry_create_def registry_new_def registry_add_def registry_get_def)
  ultimately show ?thesis
    using registry_remove_stops_actor [OF _ _ surjective_pairing, of default_actor_config ?r
        "AgentId ''a''" 0 3 9 Cmd_Snapshot] by blast
qed

end
