(* ===== verification/Control_Frames.thy ===== *)
theory Control_Frames
  imports Control_State
begin

section \<open>Control protocol: frames\<close>

text \<open>
  \<open>crates/omp-control-protocol/src/frame.rs\<close>: the messages between clients and the daemon,
  version and capability negotiation, and the rule that exactly the mutating requests carry an
  operation identifier. \<open>ProtocolVersion\<close> is a transparent wrapper of \<open>u16\<close>; a
  \<open>BTreeSet\<open>String\<close>\<close> is a set; a \<open>NonZeroU64\<close> is a \<open>u64\<close> that the decoder has found not to be
  zero.
\<close>

subsection \<open>Capabilities and versions\<close>

definition CAPABILITY_STATE_DELTAS :: string where
  "CAPABILITY_STATE_DELTAS = ''state_deltas''"

definition CAPABILITY_EVENT_REPLAY :: string where
  "CAPABILITY_EVENT_REPLAY = ''event_replay''"

definition CAPABILITY_INTERACTION_LEASES :: string where
  "CAPABILITY_INTERACTION_LEASES = ''interaction_leases''"

type_synonym protocol_version = u16

definition ProtocolVersion_V1 :: protocol_version where
  "ProtocolVersion_V1 = 1"

definition ProtocolVersion_CURRENT :: protocol_version where
  "ProtocolVersion_CURRENT = ProtocolVersion_V1"

definition SUPPORTED_PROTOCOL_VERSIONS :: "protocol_version list" where
  "SUPPORTED_PROTOCOL_VERSIONS = [ProtocolVersion_V1]"

datatype protocol_negotiation_error = UnsupportedVersions | ExpectedHello

fun show_negotiation_error :: "protocol_negotiation_error \<Rightarrow> string" where
  "show_negotiation_error UnsupportedVersions =
     ''client and server have no supported protocol version in common''"
| "show_negotiation_error ExpectedHello = ''first client frame must be hello''"

definition negotiate_version ::
  "protocol_version list \<Rightarrow> protocol_negotiation_error + protocol_version" where
  "negotiate_version client_versions =
     ok_or (List.find (\<lambda>v. v \<in> set client_versions) (rev SUPPORTED_PROTOCOL_VERSIONS))
       UnsupportedVersions"

subsection \<open>Devices, credentials and hello\<close>

datatype client_platform =
    Platform_Web | Platform_Mobile | Platform_Desktop | Platform_Cli | Platform_Service

record client_descriptor =
  client_name :: string
  client_version :: string
  client_platform_of :: client_platform
  client_capabilities :: "string set"

record device_descriptor =
  desc_name :: string
  desc_platform :: client_platform

record device_scopes =
  scope_observe :: bool
  scope_prompt :: bool
  scope_mutate_session :: bool
  scope_stop_agent :: bool
  scope_answer_ui :: bool
  scope_administer_devices :: bool

definition DeviceScopes_all :: device_scopes where
  "DeviceScopes_all = \<lparr>scope_observe = True, scope_prompt = True, scope_mutate_session = True,
     scope_stop_agent = True, scope_answer_ui = True, scope_administer_devices = True\<rparr>"

record device_summary =
  ds_device_id :: device_id
  ds_name :: string
  ds_platform :: client_platform
  ds_scopes :: device_scopes
  ds_created_at_ms :: u64
  ds_last_seen_at_ms :: "u64 option"
  ds_revoked_at_ms :: "u64 option"

text \<open>The two types of \<open>secret_string!\<close>: \<open>Debug\<close> does not show what they hold.\<close>

datatype pairing_secret = PairingSecret (expose_pairing_secret: string)
datatype device_token = DeviceToken (expose_device_token: string)

definition debug_pairing_secret :: "pairing_secret \<Rightarrow> string" where
  "debug_pairing_secret s = ''PairingSecret(**redacted**)''"

definition debug_device_token :: "device_token \<Rightarrow> string" where
  "debug_device_token t = ''DeviceToken(**redacted**)''"

datatype client_authentication =
    Auth_Pair pairing_id pairing_secret device_descriptor
  | Auth_Device device_id device_token

record client_hello =
  hello_supported_versions :: "protocol_version list"
  hello_client :: client_descriptor
  hello_authentication :: client_authentication
  hello_resume :: "subscription_cursor list"

record device_credential =
  cred_server_id :: server_id
  cred_device_id :: device_id
  cred_token :: device_token
  cred_scopes :: device_scopes

record server_capabilities =
  scap_enabled :: "string set"
  scap_max_frame_bytes :: u32

definition ServerCapabilities_negotiate ::
  "string set \<Rightarrow> string set \<Rightarrow> u32 \<Rightarrow> server_capabilities" where
  "ServerCapabilities_negotiate available requested max_frame_bytes =
     \<lparr>scap_enabled = available \<inter> requested, scap_max_frame_bytes = max_frame_bytes\<rparr>"

record server_welcome =
  wel_protocol_version :: protocol_version
  wel_server_id :: server_id
  wel_connection_id :: connection_id
  wel_device_id :: device_id
  wel_capabilities :: server_capabilities
  wel_heartbeat_interval_ms :: u64
  wel_issued_credential :: "device_credential option"

datatype tls_identity_hint =
    Tls_PubliclyTrusted | Tls_InsecureDevelopment | Tls_Sha256Fingerprint string

record pairing_bundle =
  bundle_format_version :: u16
  bundle_server_id :: server_id
  bundle_endpoint :: string
  bundle_pairing_id :: pairing_id
  bundle_secret :: pairing_secret
  bundle_expires_at_ms :: u64
  bundle_tls_identity :: tls_identity_hint

subsection \<open>Requests\<close>

datatype (plugins only: code) control_request =
    Req_ListAgents
  | Req_GetAgent agent_id
  | Req_ListDevices
  | Req_RevokeDevice device_id
  | Req_LaunchAgent agent_id
  | Req_StopAgent agent_id
  | Req_Prompt agent_id string "image_content list" "streaming_behavior option"
  | Req_Steer agent_id string "image_content list"
  | Req_FollowUp agent_id string "image_content list"
  | Req_Abort agent_id
  | Req_SwitchSession agent_id string
  | Req_RespondToUi agent_id lease_holder_id extension_ui_response_frame
  | Req_AcquireInteractionLease agent_id lease_holder_id u64
  | Req_ReleaseInteractionLease agent_id lease_holder_id

definition is_mutating :: "control_request \<Rightarrow> bool" where
  "is_mutating r =
     (\<not> (case r of Req_ListAgents \<Rightarrow> True | Req_GetAgent a \<Rightarrow> True | Req_ListDevices \<Rightarrow> True
         | _ \<Rightarrow> False))"

record request_envelope =
  env_request_id :: request_id
  env_operation_id :: "operation_id option"
  env_request :: control_request

datatype request_validation_error = MissingOperationId | UnexpectedOperationId

fun show_validation_error :: "request_validation_error \<Rightarrow> string" where
  "show_validation_error MissingOperationId = ''mutating requests require an operation ID''"
| "show_validation_error UnexpectedOperationId =
     ''read-only requests cannot carry an operation ID''"

definition RequestEnvelope_validate :: "request_envelope \<Rightarrow> request_validation_error + unit" where
  "RequestEnvelope_validate e =
     (if is_mutating (env_request e) \<and> env_operation_id e = None then Inl MissingOperationId
      else if \<not> is_mutating (env_request e) \<and> env_operation_id e \<noteq> None
      then Inl UnexpectedOperationId
      else Inr ())"

record subscribe_request =
  subreq_agent_id :: agent_id
  subreq_cursor :: "subscription_cursor option"

record ui_response_envelope =
  uir_agent_id :: agent_id
  uir_request_id :: request_id
  uir_operation_id :: operation_id
  uir_holder :: lease_holder_id
  uir_response :: extension_ui_response_frame

subsection \<open>Responses and pushed frames\<close>

record protocol_error =
  perr_code :: string
  perr_message :: string
  perr_retryable :: bool

datatype (plugins only: code) control_response =
    Resp_Accepted
  | Resp_Agents "agent_snapshot list"
  | Resp_Agent agent_snapshot
  | Resp_Devices "device_summary list"
  | Resp_DeviceRevoked device_id
  | Resp_PromptAccepted run_id
  | Resp_InteractionLease interaction_lease
  | Resp_InteractionReleased

datatype response_outcome = Outcome_Success control_response | Outcome_Error protocol_error

record response_envelope =
  rsp_request_id :: request_id
  rsp_outcome :: response_outcome

record ui_interaction_envelope =
  uii_agent_id :: agent_id
  uii_event_sequence :: event_sequence
  uii_request :: extension_ui_request_frame

record delta_envelope =
  denv_event_sequence :: event_sequence
  denv_delta :: state_delta

record event_envelope =
  eenv_agent_id :: agent_id
  eenv_event_sequence :: event_sequence
  eenv_event :: server_message

datatype replay_gap_reason = Gap_BufferExpired | Gap_NonContiguousCursor | Gap_SlowConsumer

record replay_gap =
  gap_agent_id :: agent_id
  gap_current_revision :: state_revision
  gap_current_event_sequence :: event_sequence
  gap_reason :: replay_gap_reason

record server_shutdown =
  shut_reason :: string
  shut_reconnect_after_ms :: "u64 option"

text \<open>\<open>StateSnapshot\<close>, \<open>UnsubscribeRequest\<close>, \<open>Ping\<close> and \<open>Pong\<close> have one field each.\<close>

datatype (plugins only: code) client_frame =
    Client_Hello client_hello
  | Client_Request request_envelope
  | Client_Subscribe subscribe_request
  | Client_Unsubscribe agent_id
  | Client_UiResponse ui_response_envelope
  | Client_Ping u64

datatype (plugins only: code) server_frame =
    Server_Welcome server_welcome
  | Server_Response response_envelope
  | Server_Snapshot "agent_snapshot list"
  | Server_Delta delta_envelope
  | Server_Event event_envelope
  | Server_ReplayGap replay_gap
  | Server_InteractionRequest ui_interaction_envelope
  | Server_Error protocol_error
  | Server_Pong u64
  | Server_Shutdown server_shutdown

definition negotiate_client_hello ::
  "client_frame \<Rightarrow> protocol_negotiation_error + (client_hello \<times> protocol_version)" where
  "negotiate_client_hello frame =
     (case frame of
        Client_Hello hello \<Rightarrow>
          rbind (negotiate_version (hello_supported_versions hello)) (\<lambda>v. Inr (hello, v))
      | _ \<Rightarrow> Inl ExpectedHello)"

subsection \<open>Properties\<close>

text \<open>
  A request is valid exactly when an operation identifier is present precisely for the
  requests that change something; both kinds of violation are told apart.
\<close>

theorem request_validation_spec:
  "RequestEnvelope_validate e =
     (case (env_request e, env_operation_id e) of
        (Req_ListAgents, None) \<Rightarrow> Inr ()
      | (Req_GetAgent a, None) \<Rightarrow> Inr ()
      | (Req_ListDevices, None) \<Rightarrow> Inr ()
      | (Req_ListAgents, Some i) \<Rightarrow> Inl UnexpectedOperationId
      | (Req_GetAgent a, Some i) \<Rightarrow> Inl UnexpectedOperationId
      | (Req_ListDevices, Some i) \<Rightarrow> Inl UnexpectedOperationId
      | (_, None) \<Rightarrow> Inl MissingOperationId
      | (_, Some i) \<Rightarrow> Inr ())"
  by (cases "env_request e"; cases "env_operation_id e")
    (simp_all add: RequestEnvelope_validate_def is_mutating_def)

text \<open>
  Negotiation picks a version both sides speak, the newest the server supports among those
  the client offers, and fails only when there is none; anything but a hello is refused first.\<close>

theorem negotiate_client_hello_spec:
  "case negotiate_client_hello frame of
     Inl ExpectedHello \<Rightarrow> (\<forall>hello. frame \<noteq> Client_Hello hello)
   | Inl UnsupportedVersions \<Rightarrow> (\<exists>hello. frame = Client_Hello hello \<and>
       set (hello_supported_versions hello) \<inter> set SUPPORTED_PROTOCOL_VERSIONS = {})
   | Inr (hello, v) \<Rightarrow> frame = Client_Hello hello \<and>
       v \<in> set (hello_supported_versions hello) \<inter> set SUPPORTED_PROTOCOL_VERSIONS \<and>
       set (hello_supported_versions hello) \<inter> set SUPPORTED_PROTOCOL_VERSIONS \<subseteq> {..v}"
  by (cases frame)
    (auto simp: negotiate_client_hello_def negotiate_version_def SUPPORTED_PROTOCOL_VERSIONS_def
      split: option.splits)

end
