(* ===== verification/Replica.thy ===== *)
theory Replica
  imports Control_Frames
begin

section \<open>The client's replicated state\<close>

text \<open>
  \<open>crates/omp-control-client/src/reducer.rs\<close>: what a client keeps of every agent it is
  subscribed to, and the reducer that folds server frames into it. A failed frame marks its
  agent as out of step; until a fresh snapshot arrives no further update of it is accepted.
\<close>

record replicated_state =
  repl_agents :: "(agent_id, agent_snapshot) bmap"
  repl_resync_required :: "agent_id set"

definition replica_default :: replicated_state where
  "replica_default = \<lparr>repl_agents = [], repl_resync_required = {}\<rparr>"

datatype (plugins only: code) replication_effect =
    Effect_StateChanged agent_id
  | Effect_Event event_envelope
  | Effect_Interaction ui_interaction_envelope
  | Effect_ResyncRequired agent_id

datatype replication_error =
    Repl_MissingSnapshot agent_id
  | Repl_ResyncPending agent_id
  | Repl_NonContiguousEventSequence event_sequence event_sequence \<comment> \<open>local, incoming\<close>
  | Repl_EventSequenceExhausted
  | Repl_Delta delta_apply_error

fun replication_error_agent_id :: "replication_error \<Rightarrow> agent_id option" where
  "replication_error_agent_id (Repl_MissingSnapshot a) = Some a"
| "replication_error_agent_id (Repl_ResyncPending a) = Some a"
| "replication_error_agent_id (Repl_Delta (WrongAgent expected actual)) = Some actual"
| "replication_error_agent_id (Repl_NonContiguousEventSequence local incoming) = None"
| "replication_error_agent_id Repl_EventSequenceExhausted = None"
| "replication_error_agent_id (Repl_Delta _) = None"

fun show_replication_error :: "replication_error \<Rightarrow> string" where
  "show_replication_error (Repl_MissingSnapshot a) =
     ''received an update for '' @ agent_id_str a @ '' before its snapshot''"
| "show_replication_error (Repl_ResyncPending a) =
     ''updates for '' @ agent_id_str a @ '' require a fresh snapshot''"
| "show_replication_error (Repl_NonContiguousEventSequence local incoming) =
     ''event sequence '' @ show_word incoming @ '' does not immediately follow local sequence ''
       @ show_word local"
| "show_replication_error Repl_EventSequenceExhausted =
     ''event sequence cannot advance beyond u64::MAX''"
| "show_replication_error (Repl_Delta e) = show_delta_apply_error e"

fun replication_error_source :: "replication_error \<Rightarrow> delta_apply_error option" where
  "replication_error_source (Repl_Delta e) = Some e"
| "replication_error_source _ = None"

definition replica_agent :: "replicated_state \<Rightarrow> agent_id \<Rightarrow> agent_snapshot option" where
  "replica_agent st a = bmap_get (repl_agents st) a"

definition is_resync_required :: "replicated_state \<Rightarrow> agent_id \<Rightarrow> bool" where
  "is_resync_required st a \<longleftrightarrow> a \<in> repl_resync_required st"

definition replica_cursor :: "replicated_state \<Rightarrow> agent_id \<Rightarrow> subscription_cursor option" where
  "replica_cursor st a =
     (if a \<in> repl_resync_required st then None
      else map_option snapshot_cursor (bmap_get (repl_agents st) a))"

definition require_next_sequence ::
  "event_sequence \<Rightarrow> event_sequence \<Rightarrow> replication_error + unit" where
  "require_next_sequence current incoming =
     rbind (ok_or (checked_add current 1) Repl_EventSequenceExhausted) (\<lambda>expected.
       if incoming \<noteq> expected then Inl (Repl_NonContiguousEventSequence current incoming)
       else Inr ())"

text \<open>
  The three handlers share their shape: find the agent's snapshot, refuse when it is out of
  step, require the next sequence, update it; on any error mark the agent.
\<close>

definition locate_snapshot ::
  "replicated_state \<Rightarrow> agent_id \<Rightarrow> replication_error + agent_snapshot" where
  "locate_snapshot st a =
     rbind (ok_or (bmap_get (repl_agents st) a) (Repl_MissingSnapshot a)) (\<lambda>s.
       if a \<in> repl_resync_required st then Inl (Repl_ResyncPending a) else Inr s)"

definition settle ::
  "replicated_state \<Rightarrow> agent_id \<Rightarrow> replication_effect \<Rightarrow> replication_error + agent_snapshot \<Rightarrow>
     (replication_error + replication_effect list) \<times> replicated_state" where
  "settle st a effect result =
     (case result of
        Inl e \<Rightarrow> (Inl e, st\<lparr>repl_resync_required := insert a (repl_resync_required st)\<rparr>)
      | Inr s \<Rightarrow> (Inr [effect], st\<lparr>repl_agents := bmap_insert a s (repl_agents st)\<rparr>))"

definition replica_apply_delta ::
  "replicated_state \<Rightarrow> delta_envelope \<Rightarrow>
     (replication_error + replication_effect list) \<times> replicated_state" where
  "replica_apply_delta st env =
     (let a = delta_agent_id (denv_delta env)
      in settle st a (Effect_StateChanged a)
           (rbind (locate_snapshot st a) (\<lambda>s.
             rbind (require_next_sequence (snap_event_sequence s) (denv_event_sequence env)) (\<lambda>_.
               map_err Repl_Delta (apply_delta s (denv_delta env) (denv_event_sequence env))))))"

definition replica_apply_event ::
  "replicated_state \<Rightarrow> event_envelope \<Rightarrow>
     (replication_error + replication_effect list) \<times> replicated_state" where
  "replica_apply_event st env =
     settle st (eenv_agent_id env) (Effect_Event env)
       (rbind (locate_snapshot st (eenv_agent_id env)) (\<lambda>s.
         rbind (require_next_sequence (snap_event_sequence s) (eenv_event_sequence env)) (\<lambda>_.
           Inr (s\<lparr>snap_event_sequence := eenv_event_sequence env\<rparr>))))"

definition replica_apply_interaction ::
  "replicated_state \<Rightarrow> ui_interaction_envelope \<Rightarrow>
     (replication_error + replication_effect list) \<times> replicated_state" where
  "replica_apply_interaction st env =
     settle st (uii_agent_id env) (Effect_Interaction env)
       (rbind (locate_snapshot st (uii_agent_id env)) (\<lambda>s.
         rbind (require_next_sequence (snap_event_sequence s) (uii_event_sequence env)) (\<lambda>_.
           Inr (s\<lparr>snap_event_sequence := uii_event_sequence env\<rparr>))))"

fun replica_apply_snapshot ::
  "replicated_state \<Rightarrow> agent_snapshot list \<Rightarrow> replication_effect list \<times> replicated_state" where
  "replica_apply_snapshot st [] = ([], st)"
| "replica_apply_snapshot st (s # ss) =
     (let a = snap_agent_id s;
          st = st\<lparr>repl_resync_required := repl_resync_required st - {a},
                  repl_agents := bmap_insert a s (repl_agents st)\<rparr>;
          (effects, st) = replica_apply_snapshot st ss
      in (Effect_StateChanged a # effects, st))"

fun replica_apply ::
  "replicated_state \<Rightarrow> server_frame \<Rightarrow>
     (replication_error + replication_effect list) \<times> replicated_state" where
  "replica_apply st (Server_Snapshot agents) =
     (let (effects, st) = replica_apply_snapshot st agents in (Inr effects, st))"
| "replica_apply st (Server_Delta env) = replica_apply_delta st env"
| "replica_apply st (Server_Event env) = replica_apply_event st env"
| "replica_apply st (Server_InteractionRequest env) = replica_apply_interaction st env"
| "replica_apply st (Server_ReplayGap gap) =
     (Inr [Effect_ResyncRequired (gap_agent_id gap)],
      st\<lparr>repl_resync_required := insert (gap_agent_id gap) (repl_resync_required st)\<rparr>)"
| "replica_apply st _ = (Inr [], st)"

end
