(* ===== verification/Replication.thy ===== *)
theory Replication
  imports Replica Actor_Streams
begin

section \<open>Replication: from the actor's updates to the client's state\<close>

text \<open>
  How the daemon turns an actor's updates and subscription answers into frames
  (\<open>crates/ompd/src/server.rs\<close>) and what the client's reducer makes of them. The contract is
  the locale \<open>replication_source\<close>: a source hands out updates that extend its snapshot. The
  client's lemmas are proved from that contract and the actor provides it.
\<close>

subsection \<open>Frames of updates (server.rs)\<close>

text \<open>The frame \<open>emit_update\<close> queues for an update.\<close>

fun update_frame :: "agent_update \<Rightarrow> server_frame" where
  "update_frame (Update_Delta q d) =
     Server_Delta \<lparr>denv_event_sequence = q, denv_delta = d\<rparr>"
| "update_frame (Update_Event a q event) =
     (case event of
        ServerMessage_ExtensionUi request \<Rightarrow>
          Server_InteractionRequest
            \<lparr>uii_agent_id = a, uii_event_sequence = q, uii_request = request\<rparr>
      | event \<Rightarrow> Server_Event \<lparr>eenv_agent_id = a, eenv_event_sequence = q, eenv_event = event\<rparr>)"

fun update_agent :: "agent_update \<Rightarrow> agent_id" where
  "update_agent (Update_Delta q d) = delta_agent_id d"
| "update_agent (Update_Event a q event) = a"

subsection \<open>The reducer on an update's frame\<close>

definition update_effect :: "agent_update \<Rightarrow> replication_effect" where
  "update_effect u =
     (case update_frame u of
        Server_InteractionRequest env \<Rightarrow> Effect_Interaction env
      | Server_Event env \<Rightarrow> Effect_Event env
      | _ \<Rightarrow> Effect_StateChanged (update_agent u))"

lemma require_next_sequence_Inr [simp]:
  "require_next_sequence q q' = Inr x \<longleftrightarrow> checked_add q 1 = Some q'"
  by (auto simp: require_next_sequence_def ok_or_def split: option.splits)

lemma locate_snapshot_Inr [simp]:
  "locate_snapshot st a = Inr s \<longleftrightarrow>
     bmap_get (repl_agents st) a = Some s \<and> a \<notin> repl_resync_required st"
  by (auto simp: locate_snapshot_def ok_or_def split: option.splits)

text \<open>What the three handlers have in common, as one function of the update.\<close>

definition reduce_update :: "replicated_state \<Rightarrow> agent_update \<Rightarrow> replication_error + agent_snapshot" where
  "reduce_update st u =
     rbind (locate_snapshot st (update_agent u)) (\<lambda>s.
       rbind (require_next_sequence (snap_event_sequence s) (update_event_sequence u)) (\<lambda>_.
         map_err Repl_Delta (case u of Update_Delta q d \<Rightarrow> apply_delta s d q
           | Update_Event a q ev \<Rightarrow> Inr (s\<lparr>snap_event_sequence := q\<rparr>))))"

lemma replica_apply_update:
  "replica_apply st (update_frame u) =
     settle st (update_agent u) (update_effect u) (reduce_update st u)"
proof (cases u)
  case (Update_Event a q event)
  then show ?thesis
    by (cases event) (simp_all add: replica_apply_event_def replica_apply_interaction_def
        reduce_update_def update_effect_def)
qed (simp add: replica_apply_delta_def reduce_update_def update_effect_def Let_def)

text \<open>An update is accepted when it is the next one and applies.\<close>

lemma reduce_update_Inr:
  assumes "reduce_update st u = Inr s'"
  obtains s where "bmap_get (repl_agents st) (update_agent u) = Some s"
    "update_agent u \<notin> repl_resync_required st"
    "checked_add (snap_event_sequence s) 1 = Some (update_event_sequence u)"
    "snap_agent_id s = update_agent u \<Longrightarrow> apply_update s u = Inr s'"
  using assms by (cases u) (auto simp: reduce_update_def checked_add_gt)

lemma reduce_update_next:
  assumes "bmap_get (repl_agents st) (update_agent u) = Some s"
    and "update_agent u \<notin> repl_resync_required st"
    and "checked_add (snap_event_sequence s) 1 = Some (update_event_sequence u)"
    and "apply_update s u = Inr s'"
  shows "reduce_update st u = Inr s'"
  using assms by (cases u) (auto simp: reduce_update_def locate_snapshot_def require_next_sequence_def)

text \<open>The client is in step with the source: it holds this snapshot and is not marked.\<close>

definition in_step :: "agent_id \<Rightarrow> replicated_state \<Rightarrow> agent_snapshot \<Rightarrow> bool" where
  "in_step a st s \<longleftrightarrow> bmap_get (repl_agents st) a = Some s \<and> snap_agent_id s = a \<and>
     a \<notin> repl_resync_required st"

definition feed :: "server_frame list \<Rightarrow> replicated_state \<Rightarrow> replicated_state" where
  "feed frames st = fold (\<lambda>f st. snd (replica_apply st f)) frames st"

text \<open>The outcome of each frame.\<close>

fun outcomes ::
  "replicated_state \<Rightarrow> server_frame list \<Rightarrow> (replication_error + replication_effect list) list" where
  "outcomes st [] = []"
| "outcomes st (f # fs) = fst (replica_apply st f) # outcomes (snd (replica_apply st f)) fs"

lemma feed_simps [simp]:
  "feed [] st = st"
  "feed (f # fs) st = feed fs (snd (replica_apply st f))"
  by (simp_all add: feed_def)

lemma feed_append: "feed (fs @ gs) st = feed gs (feed fs st)"
  by (simp add: feed_def)

lemma apply_update_agent: "apply_update s u = Inr s' \<Longrightarrow> update_agent u = snap_agent_id s"
  by (cases u) (auto simp: apply_delta_Inr_iff)

lemma in_step_next:
  assumes "in_step a st s" "apply_update s u = Inr s'"
    and "checked_add (snap_event_sequence s) 1 = Some (update_event_sequence u)"
  shows "fst (replica_apply st (update_frame u)) = Inr [update_effect u]"
    and "in_step a (snd (replica_apply st (update_frame u))) s'"
proof -
  have agent: "update_agent u = a"
    using apply_update_agent [OF assms(2)] assms(1) by (simp add: in_step_def)
  have "reduce_update st u = Inr s'"
    using assms by (intro reduce_update_next) (auto simp: agent in_step_def)
  then show "fst (replica_apply st (update_frame u)) = Inr [update_effect u]"
    and "in_step a (snd (replica_apply st (update_frame u))) s'"
    using assms(1) apply_update_Inr_frame [OF assms(2)]
    by (simp_all add: replica_apply_update settle_def agent in_step_def bmap_get_insert)
qed

subsection \<open>The contract of a source\<close>

locale replication_source =
  fixes source :: "agent_snapshot \<Rightarrow> agent_update list \<Rightarrow> agent_snapshot \<Rightarrow> bool"
  assumes source_extends: "source s us s' \<Longrightarrow> extends s us s'"
begin

text \<open>A client in step that is fed every update in order stays in step and reports each one.\<close>

lemma follows:
  assumes "source s us s'" "in_step a st s"
  shows "in_step a (feed (map update_frame us) st) s' \<and>
    outcomes st (map update_frame us) = map (\<lambda>u. Inr [update_effect u]) us"
proof -
  have "extends s us s' \<Longrightarrow> in_step a st s \<Longrightarrow>
      in_step a (feed (map update_frame us) st) s' \<and>
      outcomes st (map update_frame us) = map (\<lambda>u. Inr [update_effect u]) us"
  proof (induction us arbitrary: s st)
    case (Cons u us)
    from Cons.prems(1) obtain t where t: "apply_update s u = Inr t"
      "checked_add (snap_event_sequence s) 1 = Some (update_event_sequence u)" "extends t us s'"
      by (auto simp: extends_Cons)
    note step = in_step_next [OF Cons.prems(2) t(1,2)]
    show ?case using Cons.IH [OF t(3) step(2)] step(1) by simp
  qed simp
  then show ?thesis using source_extends assms by blast
qed

text \<open>An update of the log is accepted only in its place.\<close>

lemma accepts_only_next:
  assumes "source s0 log s'" "log = p @ rest" "apply_updates s0 p = Inr s" "in_step a st s"
    and "i < length log" "reduce_update st (log ! i) = Inr t" "update_agent (log ! i) = a"
  shows "i = length p \<and> apply_updates s0 (take (Suc i) log) = Inr t"
proof -
  have ext: "extends s0 log s'" by (rule source_extends [OF assms(1)])
  then have "extends s0 p s"
    using extends_prefix_det [of s0 p rest s' s] assms(2,3) by simp
  then have "unat (snap_event_sequence s) = unat (snap_event_sequence s0) + length p"
    by (rule extends_seq)
  moreover have "unat (update_event_sequence (log ! i)) = unat (snap_event_sequence s0) + Suc i"
    by (rule extends_nth_seq [OF ext assms(5)])
  moreover obtain "checked_add (snap_event_sequence s) 1 = Some (update_event_sequence (log ! i))"
    and ap: "apply_update s (log ! i) = Inr t"
    using assms(4,6,7) by (auto simp: in_step_def elim!: reduce_update_Inr)
  ultimately have i: "i = length p" by (simp add: arith_model)
  then have "take (Suc i) log = p @ [log ! i]"
    using assms(2,5) by (simp add: take_Suc_conv_app_nth nth_append)
  then show ?thesis using i apply_updates_snoc_Inr [OF assms(3) ap] by simp
qed

end

text \<open>The actor is a source: every run of its task from a live state extends its snapshot.\<close>

definition actor_source :: "agent_snapshot \<Rightarrow> agent_update list \<Rightarrow> agent_snapshot \<Rightarrow> bool" where
  "actor_source s log s' \<longleftrightarrow>
     (\<exists>t ls t'. replay_bounded (task_state t) \<and> act_snapshot (task_state t) = s \<and>
        actor_steps t ls log t' \<and> act_snapshot (task_state t') = s')"

interpretation actor_src: replication_source actor_source
proof
  fix s us s'
  assume "actor_source s us s'"
  then show "extends s us s'"
    using actor_steps_emits by (fastforce simp: actor_source_def emits_def)
qed

text \<open>So is every log that extends a snapshot, for instance the rest of a log after a cursor.\<close>

interpretation log_src: replication_source extends
  by unfold_locales

lemma actor_run_source:
  "actor_run s0 cfg ls log t \<Longrightarrow> actor_source s0 log (act_snapshot (task_state t))"
  unfolding actor_run_def actor_source_def
  by (rule exI [of _ "Alive (spawn_with_snapshot s0 cfg)"])
    (auto simp: spawn_bounded, simp add: spawn_with_snapshot_def)

subsection \<open>The frames a client may see of an agent\<close>

text \<open>Whether a frame can change what the client keeps of an agent.\<close>

fun frame_about :: "agent_id \<Rightarrow> server_frame \<Rightarrow> bool" where
  "frame_about a (Server_Snapshot agents) \<longleftrightarrow> a \<in> snap_agent_id ` set agents"
| "frame_about a (Server_Delta env) \<longleftrightarrow> delta_agent_id (denv_delta env) = a"
| "frame_about a (Server_Event env) \<longleftrightarrow> eenv_agent_id env = a"
| "frame_about a (Server_InteractionRequest env) \<longleftrightarrow> uii_agent_id env = a"
| "frame_about a (Server_ReplayGap gap) \<longleftrightarrow> gap_agent_id gap = a"
| "frame_about a _ \<longleftrightarrow> False"

lemma replica_apply_snapshot_other:
  "a \<notin> snap_agent_id ` set agents \<Longrightarrow>
     bmap_get (repl_agents (snd (replica_apply_snapshot st agents))) a = bmap_get (repl_agents st) a"
  by (induction agents arbitrary: st) (auto simp: Let_def bmap_get_insert case_prod_beta)

lemma settle_other:
  "b \<noteq> a \<Longrightarrow> bmap_get (repl_agents (snd (settle st b effect r))) a = bmap_get (repl_agents st) a"
  by (cases r) (simp_all add: settle_def bmap_get_insert)

lemma replica_apply_other:
  "\<not> frame_about a f \<Longrightarrow>
     bmap_get (repl_agents (snd (replica_apply st f))) a = bmap_get (repl_agents st) a"
  by (cases f) (auto simp: replica_apply_delta_def replica_apply_event_def Let_def
      replica_apply_interaction_def settle_other replica_apply_snapshot_other case_prod_beta)

text \<open>What a frame from one actor can be: an update of its log, a snapshot of its past, a gap.\<close>

definition past_of :: "agent_snapshot \<Rightarrow> agent_update list \<Rightarrow> agent_snapshot \<Rightarrow> bool" where
  "past_of s0 log s \<longleftrightarrow> (\<exists>n. apply_updates s0 (take n log) = Inr s)"

fun frame_from :: "agent_snapshot \<Rightarrow> agent_update list \<Rightarrow> server_frame \<Rightarrow> bool" where
  "frame_from s0 log (Server_Snapshot agents) \<longleftrightarrow> (\<exists>s. agents = [s] \<and> past_of s0 log s)"
| "frame_from s0 log (Server_ReplayGap gap) \<longleftrightarrow> True"
| "frame_from s0 log f \<longleftrightarrow> f \<in> update_frame ` set log"

lemma settle_cases:
  "settle st a effect r = (out, st') \<Longrightarrow>
     (\<exists>e. r = Inl e \<and> out = Inl e \<and> repl_agents st' = repl_agents st \<and>
        repl_resync_required st' = insert a (repl_resync_required st)) \<or>
     (\<exists>s. r = Inr s \<and> out = Inr [effect] \<and> repl_agents st' = bmap_insert a s (repl_agents st) \<and>
        repl_resync_required st' = repl_resync_required st)"
  by (cases r) (auto simp: settle_def)

definition holds_past ::
  "agent_snapshot \<Rightarrow> agent_update list \<Rightarrow> agent_id \<Rightarrow> replicated_state \<Rightarrow> bool" where
  "holds_past s0 log a st \<longleftrightarrow>
     (case bmap_get (repl_agents st) a of None \<Rightarrow> True | Some s \<Rightarrow> past_of s0 log s)"

lemma past_of_agent: "past_of s0 log s \<Longrightarrow> snap_agent_id s = snap_agent_id s0"
  by (auto simp: past_of_def dest: apply_updates_frame)

lemma holds_past_update:
  assumes run: "actor_run s0 cfg ls log t" and past: "holds_past s0 log (snap_agent_id s0) st"
    and u: "u \<in> set log"
  shows "holds_past s0 log (snap_agent_id s0) (snd (replica_apply st (update_frame u)))"
proof (cases "reduce_update st u")
  case (Inl e)
  then show ?thesis using past by (simp add: replica_apply_update settle_def holds_past_def)
next
  case (Inr s')
  show ?thesis
  proof (cases "update_agent u = snap_agent_id s0")
    case False
    then show ?thesis
      using past by (simp add: replica_apply_update settle_other holds_past_def)
  next
    case True
    from Inr obtain s where s: "bmap_get (repl_agents st) (snap_agent_id s0) = Some s"
      "snap_agent_id s0 \<notin> repl_resync_required st"
      by (rule reduce_update_Inr) (simp add: True)
    from s(1) past obtain n where n: "apply_updates s0 (take n log) = Inr s"
      by (auto simp: holds_past_def past_of_def)
    moreover obtain i where i: "i < length log" "u = log ! i"
      using u by (metis in_set_conv_nth)
    moreover have "in_step (snap_agent_id s0) st s"
      using s apply_updates_frame [OF n] by (simp add: in_step_def)
    ultimately have "apply_updates s0 (take (Suc i) log) = Inr s'"
      using actor_src.accepts_only_next [OF actor_run_source [OF run], of "take n log" "drop n log"]
        Inr True by simp
    then show ?thesis
      using Inr by (auto simp: replica_apply_update settle_def holds_past_def bmap_get_insert True
          past_of_def)
  qed
qed

lemma holds_past_frame:
  assumes run: "actor_run s0 cfg ls log t" and past: "holds_past s0 log (snap_agent_id s0) st"
    and f: "frame_from s0 log f \<or> \<not> frame_about (snap_agent_id s0) f"
  shows "holds_past s0 log (snap_agent_id s0) (snd (replica_apply st f))"
proof (cases "frame_about (snap_agent_id s0) f")
  case False
  then show ?thesis using past by (simp add: holds_past_def replica_apply_other)
next
  case True
  with f have from_actor: "frame_from s0 log f" by blast
  show ?thesis
  proof (cases "\<exists>u \<in> set log. f = update_frame u")
    case True
    then show ?thesis using holds_past_update [OF run past] by blast
  next
    case False
    with from_actor consider s where "f = Server_Snapshot [s]" "past_of s0 log s"
      | gap where "f = Server_ReplayGap gap"
      by (cases f) auto
    then show ?thesis
      using past by cases (auto simp: holds_past_def Let_def bmap_get_insert past_of_agent)
  qed
qed

subsection \<open>Properties\<close>

text \<open>
  C10: a client never holds a state the agent was not in. Whatever frames of an actor reach the
  reducer, lost, repeated, delayed or out of order, mixed with frames about other agents, with
  old snapshots and with gap notices, the snapshot it keeps of the agent is one the actor has
  had: its first snapshot with some prefix of its updates applied.
\<close>

theorem replica_never_invents_state:
  assumes "actor_run s0 cfg ls log t"
    and "\<forall>f \<in> set frames. frame_from s0 log f \<or> \<not> frame_about (snap_agent_id s0) f"
    and "replica_agent (feed frames replica_default) (snap_agent_id s0) = Some s"
  shows "\<exists>n. apply_updates s0 (take n log) = Inr s"
proof -
  have "holds_past s0 log (snap_agent_id s0) (feed frames st)"
    if "holds_past s0 log (snap_agent_id s0) st" for st
    using assms(2) that
    by (induction frames arbitrary: st) (simp_all add: holds_past_frame [OF assms(1)])
  then have "holds_past s0 log (snap_agent_id s0) (feed frames replica_default)"
    by (simp add: holds_past_def replica_default_def)
  then show ?thesis using assms(3) by (simp add: holds_past_def replica_agent_def past_of_def)
qed

lemma replica_never_invents_state_witness:
  "\<exists>n. apply_updates example_start (take n [example_idle, example_running]) =
     Inr (act_snapshot (example_actor [example_idle] Lifecycle_Idle 1))"
proof (rule replica_never_invents_state [OF example_run])
  let ?frames = "[Server_Snapshot [example_start], update_frame example_idle,
      update_frame example_idle, Server_Pong 3]"
  show "\<forall>f \<in> set ?frames. frame_from example_start [example_idle, example_running] f \<or>
      \<not> frame_about (snap_agent_id example_start) f"
    by (auto simp: past_of_def example_idle_def intro: exI [of _ 0])
  show "replica_agent (feed ?frames replica_default) (snap_agent_id example_start) =
      Some (act_snapshot (example_actor [example_idle] Lifecycle_Idle 1))"
    by (simp add: example_defs initial_snapshot_def replica_default_def replica_apply_delta_def
        Let_def settle_def locate_snapshot_def require_next_sequence_def checked_add_def
        apply_delta_def validate_update_cursor_def saturating_add_def replica_agent_def)
qed

text \<open>
  C9: a client that is in step converges. If it holds the agent's snapshot after the first \<open>n\<close>
  updates and is not marked, the frames of the remaining updates are all accepted, each with
  the effect of its kind, and the client ends with exactly the actor's snapshot, still not
  marked.
\<close>

theorem replica_converges:
  assumes "actor_run s0 cfg ls log t" "apply_updates s0 (take n log) = Inr s"
    and "replica_agent st (snap_agent_id s0) = Some s"
    and "\<not> is_resync_required st (snap_agent_id s0)"
  defines "frames \<equiv> map update_frame (drop n log)"
  shows "outcomes st frames = map (\<lambda>u. Inr [update_effect u]) (drop n log) \<and>
    replica_agent (feed frames st) (snap_agent_id s0) = Some (act_snapshot (task_state t)) \<and>
    \<not> is_resync_required (feed frames st) (snap_agent_id s0)"
proof -
  have ext: "extends s (drop n log) (act_snapshot (task_state t))"
    using extends_prefix_det [of s0 "take n log" "drop n log" "act_snapshot (task_state t)" s]
      actor_run_facts(1) [OF assms(1)] assms(2) by simp
  have step: "in_step (snap_agent_id s0) st s"
    using assms(3,4) apply_updates_frame [OF assms(2)]
    by (simp add: in_step_def replica_agent_def is_resync_required_def)
  from log_src.follows [OF ext step] show ?thesis
    by (simp add: in_step_def frames_def replica_agent_def is_resync_required_def)
qed

lemma replica_converges_witness:
  "replica_agent (feed [update_frame example_running] (replica_default\<lparr>repl_agents :=
      [(AgentId ''a'', act_snapshot (example_actor [example_idle] Lifecycle_Idle 1))]\<rparr>))
     (AgentId ''a'') =
   Some (act_snapshot (example_actor [example_idle, example_running] Lifecycle_Running 2))"
proof -
  let ?st = "replica_default\<lparr>repl_agents :=
      [(AgentId ''a'', act_snapshot (example_actor [example_idle] Lifecycle_Idle 1))]\<rparr>"
  have "apply_updates example_start (take 1 [example_idle, example_running]) =
      Inr (act_snapshot (example_actor [example_idle] Lifecycle_Idle 1))"
    by (simp add: example_defs initial_snapshot_def apply_delta_def validate_update_cursor_def
        saturating_add_def checked_add_def)
  moreover have "snap_agent_id example_start = AgentId ''a''"
    by (simp add: example_start_def initial_snapshot_def)
  ultimately show ?thesis
    using replica_converges [OF example_run, of 1 _ ?st]
    by (simp add: replica_agent_def is_resync_required_def replica_default_def)
qed

lemma replica_apply_snapshot_marks:
  "repl_resync_required (snd (replica_apply_snapshot st agents)) =
     repl_resync_required st - snap_agent_id ` set agents"
  by (induction agents arbitrary: st) (auto simp: Let_def case_prod_beta)

text \<open>
  An error is contained and remembered. When the reducer rejects a frame, it changes none
  of the snapshots it holds, marks exactly the agent the frame is about, and offers no cursor
  for that agent, so that the client can only ask for a fresh snapshot.\<close>

theorem replica_error_marks_agent:
  "case replica_apply st f of
     (Inl e, st') \<Rightarrow> \<exists>a. frame_about a f \<and>
       repl_resync_required st' = insert a (repl_resync_required st) \<and>
       replica_cursor st' a = None \<and> repl_agents st' = repl_agents st
   | (Inr effects, st') \<Rightarrow>
       repl_resync_required st' \<subseteq> repl_resync_required st \<union> {a. Effect_ResyncRequired a \<in> set effects}"
  by (cases f) (auto simp: replica_apply_delta_def replica_apply_event_def Let_def settle_def
      replica_apply_interaction_def replica_apply_snapshot_marks is_resync_required_def
      replica_cursor_def case_prod_beta split: sum.splits)

text \<open>
  A marked agent waits for a snapshot. Until a snapshot frame names it, no frame changes what
  the client holds of the agent or lifts the mark, whatever else arrives.\<close>

theorem replica_waits_for_snapshot:
  assumes "is_resync_required st a"
    and "\<forall>agents. Server_Snapshot agents \<in> set frames \<longrightarrow> a \<notin> snap_agent_id ` set agents"
  shows "is_resync_required (feed frames st) a \<and>
    replica_agent (feed frames st) a = replica_agent st a \<and> replica_cursor (feed frames st) a = None"
proof -
  have step: "is_resync_required (snd (replica_apply st f)) a \<and>
      replica_agent (snd (replica_apply st f)) a = replica_agent st a"
    if "is_resync_required st a"
      "\<forall>agents. f = Server_Snapshot agents \<longrightarrow> a \<notin> snap_agent_id ` set agents" for st f
    using that
    by (cases f) (auto simp: replica_apply_delta_def replica_apply_event_def Let_def settle_def
        replica_apply_interaction_def replica_apply_snapshot_marks replica_apply_snapshot_other
        is_resync_required_def replica_agent_def case_prod_beta bmap_get_insert
        split: sum.splits)
  have "is_resync_required (feed frames st) a \<and> replica_agent (feed frames st) a = replica_agent st a"
    using assms
  proof (induction frames arbitrary: st)
    case (Cons f frames)
    then show ?case using step [of st f] Cons.IH [of "snd (replica_apply st f)"] by simp
  qed simp
  then show ?thesis by (simp add: replica_cursor_def is_resync_required_def)
qed

lemma replica_waits_for_snapshot_witness:
  "is_resync_required (feed [update_frame example_idle, Server_Snapshot []]
     (replica_default\<lparr>repl_resync_required := {AgentId ''a''}\<rparr>)) (AgentId ''a'')"
proof -
  have "\<forall>agents. Server_Snapshot agents \<in> set [update_frame example_idle, Server_Snapshot []] \<longrightarrow>
      AgentId ''a'' \<notin> snap_agent_id ` set agents"
    by (simp add: example_idle_def)
  from replica_waits_for_snapshot [OF _ this] show ?thesis
    by (simp add: is_resync_required_def)
qed

end
