(* ===== verification/Sql_Tables.thy ===== *)
theory Sql_Tables
  imports Prelude
begin

section \<open>Tables with a primary key\<close>

text \<open>
  The daemon's database is SQLite, reached through \<open>rusqlite\<close>; what the code relies on is the
  meaning of its statements. A table is the list of its rows. The locale \<open>keyed_table\<close> states
  what a client of a table with a primary key relies on: at most one row per key, lookups
  after each statement, and the number of rows a statement changed. Every table of the store
  interprets it with its own key.
\<close>

definition tbl_select :: "('r \<Rightarrow> 'k) \<Rightarrow> 'k \<Rightarrow> 'r list \<Rightarrow> 'r option" where
  "tbl_select key k t = List.find (\<lambda>r. key r = k) t"

text \<open>\<open>INSERT\<close>: \<open>None\<close> is the violation of the primary key.\<close>

definition tbl_insert :: "('r \<Rightarrow> 'k) \<Rightarrow> 'r \<Rightarrow> 'r list \<Rightarrow> 'r list option" where
  "tbl_insert key r t = (if tbl_select key (key r) t = None then Some (t @ [r]) else None)"

text \<open>\<open>UPDATE ... WHERE key = k AND p\<close>: the number of changed rows and the table.\<close>

definition tbl_update ::
  "('r \<Rightarrow> 'k) \<Rightarrow> 'k \<Rightarrow> ('r \<Rightarrow> bool) \<Rightarrow> ('r \<Rightarrow> 'r) \<Rightarrow> 'r list \<Rightarrow> nat \<times> 'r list" where
  "tbl_update key k p f t =
     (length (filter (\<lambda>r. key r = k \<and> p r) t), map (\<lambda>r. if key r = k \<and> p r then f r else r) t)"

text \<open>\<open>INSERT ... ON CONFLICT(key) DO UPDATE\<close>: \<open>f old new\<close> is the row after a conflict.\<close>

definition tbl_upsert :: "('r \<Rightarrow> 'k) \<Rightarrow> ('r \<Rightarrow> 'r \<Rightarrow> 'r) \<Rightarrow> 'r \<Rightarrow> 'r list \<Rightarrow> 'r list" where
  "tbl_upsert key f r t =
     (case tbl_insert key r t of
        Some t' \<Rightarrow> t'
      | None \<Rightarrow> snd (tbl_update key (key r) (\<lambda>_. True) (\<lambda>old. f old r) t))"

definition tbl_wf :: "('r \<Rightarrow> 'k) \<Rightarrow> 'r list \<Rightarrow> bool" where
  "tbl_wf key t \<longleftrightarrow> distinct (map key t)"

locale keyed_table =
  fixes key :: "'r \<Rightarrow> 'k"
    and select :: "'k \<Rightarrow> 't \<Rightarrow> 'r option"
    and insert :: "'r \<Rightarrow> 't \<Rightarrow> 't option"
    and update :: "'k \<Rightarrow> ('r \<Rightarrow> bool) \<Rightarrow> ('r \<Rightarrow> 'r) \<Rightarrow> 't \<Rightarrow> nat \<times> 't"
    and empty :: "'t"
    and wf :: "'t \<Rightarrow> bool"
  assumes wf_empty: "wf empty"
    and select_empty: "select k empty = None"
    and select_key: "select k t = Some r \<Longrightarrow> key r = k"
    and insert_None: "insert r t = None \<longleftrightarrow> select (key r) t \<noteq> None"
    and insert_wf: "wf t \<Longrightarrow> insert r t = Some t' \<Longrightarrow> wf t'"
    and insert_select: "insert r t = Some t' \<Longrightarrow>
      select k t' = (if k = key r then Some r else select k t)"
    and update_wf: "wf t \<Longrightarrow> (\<And>r. key (f r) = key r) \<Longrightarrow> wf (snd (update k p f t))"
    and update_select: "(\<And>r. key (f r) = key r) \<Longrightarrow> wf t \<Longrightarrow> select k' (snd (update k p f t)) =
      map_option (\<lambda>r. if k' = k \<and> p r then f r else r) (select k' t)"
    and update_count: "wf t \<Longrightarrow> fst (update k p f t) =
      (case select k t of None \<Rightarrow> 0 | Some r \<Rightarrow> if p r then 1 else 0)"
begin

lemma update_one_iff:
  "wf t \<Longrightarrow> fst (update k p f t) = 1 \<longleftrightarrow> (\<exists>r. select k t = Some r \<and> p r)"
  by (auto simp: update_count split: option.splits)

lemma update_other:
  "(\<And>r. key (f r) = key r) \<Longrightarrow> wf t \<Longrightarrow> k' \<noteq> k \<Longrightarrow> select k' (snd (update k p f t)) = select k' t"
  by (simp add: update_select option.map_ident)

lemma update_none:
  "(\<And>r. key (f r) = key r) \<Longrightarrow> wf t \<Longrightarrow> fst (update k p f t) = 0 \<Longrightarrow>
     select k' (snd (update k p f t)) = select k' t"
  by (cases "select k' t"; cases "k' = k") (auto simp: update_select update_count split: if_splits)

text \<open>A flag that an update sets and tests can be won once.\<close>

lemma update_once:
  assumes "wf t" "\<And>r. key (f r) = key r" "\<And>r. \<not> p (f r)"
  shows "fst (update k p f (snd (update k p f t))) = 0"
  using assms by (auto simp: update_count update_wf update_select split: option.splits)

end

lemma tbl_select_Some_iff:
  "tbl_wf key t \<Longrightarrow> tbl_select key k t = Some r \<longleftrightarrow> r \<in> set t \<and> key r = k"
  unfolding tbl_wf_def tbl_select_def
  by (induction t) (auto simp: image_iff)

lemma tbl_select_key: "tbl_select key k t = Some r \<Longrightarrow> key r = k"
  by (auto simp: tbl_select_def find_Some_iff)

lemma tbl_select_None_iff: "tbl_select key k t = None \<longleftrightarrow> k \<notin> key ` set t"
  by (auto simp: tbl_select_def find_None_iff)

lemma tbl_select_append:
  "tbl_select key k (t @ [r]) =
     (case tbl_select key k t of Some x \<Rightarrow> Some x | None \<Rightarrow> if key r = k then Some r else None)"
  by (induction t) (auto simp: tbl_select_def)

lemma tbl_select_update:
  "(\<And>r. key (f r) = key r) \<Longrightarrow> tbl_select key k' (snd (tbl_update key k p f t)) =
     map_option (\<lambda>r. if k' = k \<and> p r then f r else r) (tbl_select key k' t)"
  by (induction t) (auto simp: tbl_select_def tbl_update_def)

lemma tbl_update_count:
  "tbl_wf key t \<Longrightarrow> fst (tbl_update key k p f t) =
     (case tbl_select key k t of None \<Rightarrow> 0 | Some r \<Rightarrow> if p r then 1 else 0)"
proof (induction t)
  case (Cons x t)
  show ?case
  proof (cases "key x = k")
    case True
    then have "filter (\<lambda>r. key r = k \<and> p r) t = []"
      using Cons.prems by (simp add: tbl_wf_def filter_empty_conv) (metis imageI)
    then show ?thesis using True by (simp add: tbl_update_def tbl_select_def)
  next
    case False
    then show ?thesis using Cons by (simp add: tbl_update_def tbl_select_def tbl_wf_def)
  qed
qed (simp add: tbl_update_def tbl_select_def)

lemma tbl_wf_map: "(\<And>r. key (g r) = key r) \<Longrightarrow> tbl_wf key (map g t) = tbl_wf key t"
  by (simp add: tbl_wf_def comp_def)

lemma keyed_table_list:
  "keyed_table key (tbl_select key) (tbl_insert key) (tbl_update key) [] (tbl_wf key)"
proof
  show "tbl_wf key []" by (simp add: tbl_wf_def)
  show "tbl_select key k [] = None" for k by (simp add: tbl_select_def)
  show "tbl_select key k t = Some r \<Longrightarrow> key r = k" for k t r by (rule tbl_select_key)
  show "tbl_insert key r t = None \<longleftrightarrow> tbl_select key (key r) t \<noteq> None" for r t
    by (simp add: tbl_insert_def)
  show "tbl_wf key t \<Longrightarrow> tbl_insert key r t = Some t' \<Longrightarrow> tbl_wf key t'" for t r t'
    by (auto simp: tbl_insert_def tbl_wf_def tbl_select_None_iff split: if_splits)
  show "tbl_insert key r t = Some t' \<Longrightarrow>
      tbl_select key k t' = (if k = key r then Some r else tbl_select key k t)" for r t t' k
    by (auto simp: tbl_insert_def tbl_select_append split: if_splits option.splits)
  show "tbl_wf key t \<Longrightarrow> (\<And>r. key (f r) = key r) \<Longrightarrow> tbl_wf key (snd (tbl_update key k p f t))"
    for t f k p
    by (simp add: tbl_update_def tbl_wf_map)
  show "(\<And>r. key (f r) = key r) \<Longrightarrow> tbl_wf key t \<Longrightarrow> tbl_select key k' (snd (tbl_update key k p f t)) =
      map_option (\<lambda>r. if k' = k \<and> p r then f r else r) (tbl_select key k' t)" for f k p t k'
    by (rule tbl_select_update)
  show "tbl_wf key t \<Longrightarrow> fst (tbl_update key k p f t) =
      (case tbl_select key k t of None \<Rightarrow> 0 | Some r \<Rightarrow> if p r then 1 else 0)" for t k p f
    by (rule tbl_update_count)
qed

text \<open>An upsert: the key's row is the new one or the merged one, and no other row changes.\<close>

lemma tbl_upsert_select:
  assumes "\<And>old new. key new = key old \<Longrightarrow> key (f old new) = key old"
  shows "tbl_select key k (tbl_upsert key f r t) =
    (if k = key r then (case tbl_select key k t of None \<Rightarrow> Some r | Some old \<Rightarrow> Some (f old r))
     else tbl_select key k t)"
proof (cases "tbl_select key (key r) t")
  case None
  then show ?thesis
    by (auto simp: tbl_upsert_def tbl_insert_def tbl_select_append split: option.splits)
next
  case (Some old)
  let ?g = "\<lambda>x. if key x = key r then f x r else x"
  have "snd (tbl_update key (key r) (\<lambda>_. True) (\<lambda>old. f old r) t) =
      snd (tbl_update key (key r) (\<lambda>_. True) ?g t)"
    by (simp add: tbl_update_def)
  moreover have "key (?g x) = key x" for x by (simp add: assms)
  ultimately show ?thesis
    using Some by (auto simp: tbl_upsert_def tbl_insert_def tbl_select_update option.map_ident
        dest: tbl_select_key split: option.splits)
qed

lemma tbl_upsert_wf:
  assumes "\<And>old new. key new = key old \<Longrightarrow> key (f old new) = key old" "tbl_wf key t"
  shows "tbl_wf key (tbl_upsert key f r t)"
proof -
  have "tbl_wf key (map (\<lambda>x. if key x = key r then f x r else x) t)"
    using assms by (subst tbl_wf_map) simp_all
  then show ?thesis
    using assms(2) by (auto simp: tbl_upsert_def tbl_insert_def tbl_update_def tbl_wf_def
        tbl_select_None_iff split: option.splits)
qed

end
