(* ===== verification/Cbor_Codec.thy ===== *)
theory Cbor_Codec
  imports Control_Frames "HOL-Library.Sublist"
begin

section \<open>The frame codec\<close>

text \<open>
  \<open>crates/omp-control-protocol/src/codec.rs\<close>: frames are CBOR values within a byte limit that
  depends on whether the connection is authenticated. The CBOR library itself is a parameter:
  \<open>ser v\<close> is the list of buffers its serialiser writes for \<open>v\<close> and the error with which it
  ends, if any; \<open>de bytes\<close> is its error, or the value it reads from the front and how many
  bytes it took. A \<open>NonZeroU32\<close> is a \<open>u32\<close>.
\<close>

definition DEFAULT_PRE_AUTH_FRAME_BYTES :: u32 where
  "DEFAULT_PRE_AUTH_FRAME_BYTES = 16 * 1024"

definition DEFAULT_POST_AUTH_FRAME_BYTES :: u32 where
  "DEFAULT_POST_AUTH_FRAME_BYTES = 1024 * 1024"

record frame_limits =
  lim_pre_auth :: u32
  lim_post_auth :: u32

datatype frame_limit_error = PreAuthExceedsPostAuth

definition show_frame_limit_error :: "frame_limit_error \<Rightarrow> string" where
  "show_frame_limit_error e = ''pre-auth frame limit cannot exceed post-auth frame limit''"

definition FrameLimits_new :: "u32 \<Rightarrow> u32 \<Rightarrow> frame_limit_error + frame_limits" where
  "FrameLimits_new pre_auth post_auth =
     (if post_auth < pre_auth then Inl PreAuthExceedsPostAuth
      else Inr \<lparr>lim_pre_auth = pre_auth, lim_post_auth = post_auth\<rparr>)"

text \<open>\<open>None\<close> where an \<open>expect\<close> would panic.\<close>

definition FrameLimits_default :: "frame_limits option" where
  "FrameLimits_default =
     (if DEFAULT_PRE_AUTH_FRAME_BYTES = 0 \<or> DEFAULT_POST_AUTH_FRAME_BYTES = 0 then None
      else case FrameLimits_new DEFAULT_PRE_AUTH_FRAME_BYTES DEFAULT_POST_AUTH_FRAME_BYTES of
        Inl _ \<Rightarrow> None | Inr l \<Rightarrow> Some l)"

datatype connection_phase = Phase_PreAuth | Phase_Authenticated

datatype cbor_codec = CborCodec (max_frame_bytes: u32)

definition FrameLimits_codec :: "frame_limits \<Rightarrow> connection_phase \<Rightarrow> cbor_codec" where
  "FrameLimits_codec l phase =
     CborCodec (case phase of Phase_PreAuth \<Rightarrow> lim_pre_auth l
                | Phase_Authenticated \<Rightarrow> lim_post_auth l)"

datatype cbor_codec_error =
    Cbor_FrameTooLarge u32
  | Cbor_Encode string
  | Cbor_Decode string
  | Cbor_TrailingData

fun show_cbor_error :: "cbor_codec_error \<Rightarrow> string" where
  "show_cbor_error (Cbor_FrameTooLarge limit) =
     ''CBOR frame exceeds the '' @ show_word limit @ ''-byte limit''"
| "show_cbor_error (Cbor_Encode e) = ''failed to encode CBOR frame: '' @ e"
| "show_cbor_error (Cbor_Decode e) = ''failed to decode CBOR frame: '' @ e"
| "show_cbor_error Cbor_TrailingData = ''CBOR WebSocket message contains more than one frame''"

subsection \<open>Writing within a limit\<close>

record limited_writer =
  lw_output :: string
  lw_limit :: nat
  lw_exceeded :: bool

definition LimitedWriter_new :: "nat \<Rightarrow> limited_writer" where
  "LimitedWriter_new limit = \<lparr>lw_output = [], lw_limit = limit, lw_exceeded = False\<rparr>"

text \<open>\<open>Write::write\<close>: whether it succeeded, and the writer after it.\<close>

definition limited_write :: "string \<Rightarrow> limited_writer \<Rightarrow> bool \<times> limited_writer" where
  "limited_write buffer w =
     (if lw_limit w - length (lw_output w) < length buffer then (False, w\<lparr>lw_exceeded := True\<rparr>)
      else (True, w\<lparr>lw_output := lw_output w @ buffer\<rparr>))"

text \<open>The serialiser stops at the first buffer that the writer refuses.\<close>

fun write_buffers :: "string list \<Rightarrow> limited_writer \<Rightarrow> bool \<times> limited_writer" where
  "write_buffers [] w = (True, w)"
| "write_buffers (b # bs) w =
     (let (ok, w) = limited_write b w in if ok then write_buffers bs w else (False, w))"

definition cbor_encode ::
  "('a \<Rightarrow> string list \<times> string option) \<Rightarrow> cbor_codec \<Rightarrow> 'a \<Rightarrow> cbor_codec_error + string" where
  "cbor_encode ser codec v =
     (let (buffers, failure) = ser v;
          (written, w) = write_buffers buffers (LimitedWriter_new (unat (max_frame_bytes codec)))
      in if written \<and> failure = None then Inr (lw_output w)
         else if lw_exceeded w then Inl (Cbor_FrameTooLarge (max_frame_bytes codec))
         else Inl (Cbor_Encode (the failure)))"

definition cbor_decode ::
  "(string \<Rightarrow> string + ('a \<times> nat)) \<Rightarrow> cbor_codec \<Rightarrow> string \<Rightarrow> cbor_codec_error + 'a" where
  "cbor_decode de codec bytes =
     (if unat (max_frame_bytes codec) < length bytes
      then Inl (Cbor_FrameTooLarge (max_frame_bytes codec))
      else rbind (map_err Cbor_Decode (de bytes)) (\<lambda>(v, position).
        if position \<noteq> length bytes then Inl Cbor_TrailingData else Inr v))"

subsection \<open>Lemmas\<close>

definition writer_ok :: "limited_writer \<Rightarrow> bool" where
  "writer_ok w \<longleftrightarrow> length (lw_output w) \<le> lw_limit w"

lemma write_buffers_result:
  "writer_ok w \<Longrightarrow> \<not> lw_exceeded w \<Longrightarrow> write_buffers bs w = (ok, w') \<Longrightarrow>
     writer_ok w' \<and> lw_limit w' = lw_limit w \<and> lw_exceeded w' = (\<not> ok) \<and>
     (ok \<longleftrightarrow> length (lw_output w) + length (concat bs) \<le> lw_limit w) \<and>
     (ok \<longrightarrow> lw_output w' = lw_output w @ concat bs)"
proof (induction bs arbitrary: w)
  case (Cons b bs)
  show ?case
  proof (cases "lw_limit w - length (lw_output w) < length b")
    case True
    then show ?thesis using Cons.prems by (auto simp: limited_write_def writer_ok_def)
  next
    case False
    let ?w = "w\<lparr>lw_output := lw_output w @ b\<rparr>"
    have "writer_ok ?w" "\<not> lw_exceeded ?w" "write_buffers bs ?w = (ok, w')"
      using False Cons.prems by (auto simp: limited_write_def writer_ok_def)
    from Cons.IH [OF this] show ?thesis by (simp add: add.assoc)
  qed
qed (simp add: writer_ok_def)

lemma cbor_encode_result:
  "cbor_encode ser codec v =
     (if unat (max_frame_bytes codec) < length (concat (fst (ser v)))
      then Inl (Cbor_FrameTooLarge (max_frame_bytes codec))
      else case snd (ser v) of None \<Rightarrow> Inr (concat (fst (ser v))) | Some e \<Rightarrow> Inl (Cbor_Encode e))"
proof -
  let ?w0 = "LimitedWriter_new (unat (max_frame_bytes codec))"
  obtain ok w where w: "write_buffers (fst (ser v)) ?w0 = (ok, w)" by fastforce
  have w0: "writer_ok ?w0" "\<not> lw_exceeded ?w0"
    and lim: "lw_limit ?w0 = unat (max_frame_bytes codec)" "lw_output ?w0 = []"
    by (simp_all add: LimitedWriter_new_def writer_ok_def)
  have "lw_exceeded w = (\<not> ok)"
    "ok \<longleftrightarrow> length (concat (fst (ser v))) \<le> unat (max_frame_bytes codec)"
    "ok \<Longrightarrow> lw_output w = concat (fst (ser v))"
    using write_buffers_result [OF w0 w] by (simp_all add: lim)
  then show ?thesis
    by (cases "snd (ser v)") (auto simp: cbor_encode_def w case_prod_beta not_le)
qed

text \<open>
  What the codec relies on of the CBOR library: reading back what was written for a value gives
  the value and takes exactly those bytes, whatever follows them.
\<close>

definition cbor_reads_back ::
  "('a \<Rightarrow> string list \<times> string option) \<Rightarrow> (string \<Rightarrow> string + ('a \<times> nat)) \<Rightarrow> 'a \<Rightarrow> bool" where
  "cbor_reads_back ser de v \<longleftrightarrow> (snd (ser v) = None \<longrightarrow>
     (\<forall>rest. de (concat (fst (ser v)) @ rest) = Inr (v, length (concat (fst (ser v))))))"

lemma cbor_encode_Inr:
  assumes "cbor_encode ser codec v = Inr bytes"
  shows "bytes = concat (fst (ser v))" "snd (ser v) = None"
    "length bytes \<le> unat (max_frame_bytes codec)"
  using assms by (auto simp: cbor_encode_result split: if_splits option.splits)

lemma cbor_roundtrip:
  assumes "cbor_reads_back ser de v" "cbor_encode ser codec v = Inr bytes"
  shows "cbor_decode de codec bytes = Inr v"
proof -
  have "de (bytes @ []) = Inr (v, length bytes)"
    using assms(1) cbor_encode_Inr [OF assms(2)] unfolding cbor_reads_back_def by blast
  then show ?thesis using cbor_encode_Inr(3) [OF assms(2)] by (simp add: cbor_decode_def)
qed

subsection \<open>Properties\<close>

text \<open>
  An encoded frame is within its limit and decodes to what was encoded. The writer never
  holds more than the limit; a frame that is accepted is the serialiser's output, at most the
  limit long, and every codec whose limit admits it reads the same value back; bytes appended
  to a frame within the limit are refused.\<close>

theorem codec_roundtrip:
  assumes "cbor_reads_back ser de v" "cbor_encode ser codec v = Inr bytes"
    and "unat (max_frame_bytes codec) \<le> unat (max_frame_bytes codec')"
  shows "length bytes \<le> unat (max_frame_bytes codec) \<and> cbor_decode de codec' bytes = Inr v \<and>
    (extra \<noteq> [] \<longrightarrow> cbor_decode de codec' (bytes @ extra) \<in>
       {Inl Cbor_TrailingData, Inl (Cbor_FrameTooLarge (max_frame_bytes codec'))})"
proof -
  note b = cbor_encode_Inr [OF assms(2)]
  then have "de (bytes @ r) = Inr (v, length bytes)" for r
    using assms(1) unfolding cbor_reads_back_def by blast
  from this [of "[]"] this [of extra] show ?thesis
    using b(3) assms(3) by (simp add: cbor_decode_def)
qed

lemma codec_roundtrip_witness:
  "cbor_decode (\<lambda>bytes. if bytes = [] then Inl ''end'' else Inr (hd bytes, 1)) (CborCodec 16) ''x'' =
     Inr CHR ''x'' \<and>
   cbor_decode (\<lambda>bytes. if bytes = [] then Inl ''end'' else Inr (hd bytes, 1)) (CborCodec 16) ''xy'' \<in>
     {Inl Cbor_TrailingData, Inl (Cbor_FrameTooLarge 16)}"
  using codec_roundtrip [of "\<lambda>c. ([[c]], None)" "\<lambda>bytes. if bytes = [] then Inl ''end'' else
      Inr (hd bytes, 1)" "CHR ''x''" "CborCodec 16" "''x''" "CborCodec 16" "''y''"]
  by (simp add: cbor_reads_back_def cbor_encode_result)

text \<open>
  The limits are ordered. Limits exist only with the limit before authentication at most
  the one after it, so no unauthenticated peer is allowed a larger frame; the default limits
  are such limits and their construction does not panic.
\<close>

theorem frame_limits_ordered:
  "(case FrameLimits_new pre post of
      Inl e \<Rightarrow> post < pre
    | Inr l \<Rightarrow> max_frame_bytes (FrameLimits_codec l Phase_PreAuth) = pre \<and>
        max_frame_bytes (FrameLimits_codec l Phase_Authenticated) = post \<and> pre \<le> post) \<and>
   FrameLimits_default = Some \<lparr>lim_pre_auth = 16384, lim_post_auth = 1048576\<rparr>"
  by (simp add: FrameLimits_new_def FrameLimits_codec_def FrameLimits_default_def
      DEFAULT_PRE_AUTH_FRAME_BYTES_def DEFAULT_POST_AUTH_FRAME_BYTES_def not_less)

end
