(* ===== verification/Store_Records.thy ===== *)
theory Store_Records
  imports Sql_Tables Cbor_Codec
begin

section \<open>The rows and records of the store\<close>

text \<open>
  \<open>crates/ompd/src/persistence/records.rs\<close> and \<open>store.rs\<close>: what the daemon keeps across
  restarts, in one SQLite database behind a mutex, so that every method is one step on it. A
  row has the columns of the schema, an integer column is an \<open>i64\<close>. Parameters stand for the
  libraries: the hash (SHA-256), the base64 encoder, the CBOR serialiser and deserialiser of
  requests and outcomes. Random bytes and UUIDs are arguments of the operations that draw
  them. A statement fails only by violating a constraint; failures of the disk are left out.
\<close>

subsection \<open>Records (records.rs)\<close>

record agent_record =
  agr_agent_id :: agent_id
  agr_lifecycle :: agent_lifecycle
  agr_process_id :: "u32 option"
  agr_active_run_id :: "run_id option"
  agr_created_at_ms :: u64
  agr_updated_at_ms :: u64

record device_record =
  dev_device_id :: device_id
  dev_name :: string
  dev_platform :: client_platform
  dev_scopes :: device_scopes
  dev_created_at_ms :: u64
  dev_last_seen_at_ms :: "u64 option"
  dev_revoked_at_ms :: "u64 option"

record pairing_grant =
  grant_pairing_id :: pairing_id
  grant_secret :: pairing_secret
  grant_expires_at_ms :: u64

record pairing_record =
  pair_pairing_id :: pairing_id
  pair_requested_name :: string
  pair_scopes :: device_scopes
  pair_created_at_ms :: u64
  pair_expires_at_ms :: u64
  pair_consumed_at_ms :: "u64 option"

record session_resume_record =
  ses_agent_id :: agent_id
  ses_session_id :: string
  ses_session_file :: string
  ses_revision :: state_revision
  ses_event_sequence :: event_sequence
  ses_updated_at_ms :: u64

datatype operation_claim =
    Claim_Execute
  | Claim_InProgress
  | Claim_Completed response_outcome
  | Claim_Indeterminate

record operation_key =
  opk_device_id :: device_id
  opk_operation_id :: operation_id

subsection \<open>Rows (the schema)\<close>

record agent_row =
  agt_agent_id :: string
  agt_lifecycle :: string
  agt_failure_reason :: "string option"
  agt_process_id :: "i64 option"
  agt_active_run_id :: "string option"
  agt_created_at_ms :: i64
  agt_updated_at_ms :: i64

record session_row =
  srow_agent_id :: string
  srow_session_id :: string
  srow_session_file :: string
  srow_revision :: i64
  srow_event_sequence :: i64
  srow_updated_at_ms :: i64

record device_row =
  drow_device_id :: string
  drow_name :: string
  drow_platform :: string
  drow_scopes :: device_scopes
  drow_token_hash :: string
  drow_created_at_ms :: i64
  drow_last_seen_at_ms :: "i64 option"
  drow_revoked_at_ms :: "i64 option"

record pairing_row =
  prow_pairing_id :: string
  prow_requested_name :: string
  prow_scopes :: device_scopes
  prow_secret_hash :: string
  prow_created_at_ms :: i64
  prow_expires_at_ms :: i64
  prow_consumed_at_ms :: "i64 option"

record operation_row =
  orow_device_id :: string
  orow_operation_id :: string
  orow_request_hash :: string
  orow_status :: string
  orow_outcome_cbor :: "string option"
  orow_created_at_ms :: i64
  orow_completed_at_ms :: "i64 option"

definition orow_key :: "operation_row \<Rightarrow> string \<times> string" where
  "orow_key r = (orow_device_id r, orow_operation_id r)"

record database =
  db_user_version :: i64
  db_metadata :: "(string \<times> string) list"
  db_agents :: "agent_row list"
  db_sessions :: "session_row list"
  db_devices :: "device_row list"
  db_pairings :: "pairing_row list"
  db_operations :: "operation_row list"

record store =
  st_db :: database
  st_server_id :: server_id

record store_env =
  env_hash :: "string \<Rightarrow> string"
  env_base64 :: "string \<Rightarrow> string"
  env_ser_request :: "control_request \<Rightarrow> string list \<times> string option"
  env_ser_outcome :: "response_outcome \<Rightarrow> string list \<times> string option"
  env_de_outcome :: "string \<Rightarrow> string + (response_outcome \<times> nat)"

text \<open>Each table with its primary key.\<close>

interpretation metadata_tbl: keyed_table fst "tbl_select fst" "tbl_insert fst" "tbl_update fst" "[]"
    "tbl_wf fst"
  by (rule keyed_table_list)

interpretation agent_tbl: keyed_table agt_agent_id "tbl_select agt_agent_id" "tbl_insert agt_agent_id"
    "tbl_update agt_agent_id" "[]" "tbl_wf agt_agent_id"
  by (rule keyed_table_list)

interpretation session_tbl: keyed_table srow_agent_id "tbl_select srow_agent_id"
    "tbl_insert srow_agent_id" "tbl_update srow_agent_id" "[]" "tbl_wf srow_agent_id"
  by (rule keyed_table_list)

interpretation device_tbl: keyed_table drow_device_id "tbl_select drow_device_id"
    "tbl_insert drow_device_id" "tbl_update drow_device_id" "[]" "tbl_wf drow_device_id"
  by (rule keyed_table_list)

interpretation pairing_tbl: keyed_table prow_pairing_id "tbl_select prow_pairing_id"
    "tbl_insert prow_pairing_id" "tbl_update prow_pairing_id" "[]" "tbl_wf prow_pairing_id"
  by (rule keyed_table_list)

interpretation operation_tbl: keyed_table orow_key "tbl_select orow_key" "tbl_insert orow_key"
    "tbl_update orow_key" "[]" "tbl_wf orow_key"
  by (rule keyed_table_list)

subsection \<open>Errors\<close>

datatype sqlite_error = Sqlite_PrimaryKey | Sqlite_ForeignKey | Sqlite_NoRows

datatype store_error =
    Store_Database sqlite_error
  | Store_Codec cbor_codec_error
  | Store_UnsupportedDatabaseVersion i64
  | Store_IntegerOverflow string
  | Store_CorruptData string
  | Store_Random string
  | Store_Clock string

datatype device_authentication_error =
    DevAuth_InvalidCredential | DevAuth_Revoked | DevAuth_Store store_error

datatype pairing_error =
    Pairing_InvalidCredential | Pairing_Expired | Pairing_Consumed | Pairing_Store store_error

datatype operation_error =
    Operation_ConflictingRequest | Operation_NotPending | Operation_Store store_error

definition show_i64 :: "i64 \<Rightarrow> string" where
  "show_i64 v = (if sint v < 0 then ''-'' @ show_nat (nat (- sint v)) else show_nat (nat (sint v)))"

text \<open>\<open>show_sqlite\<close> is the message of the database library.\<close>

fun show_store_error :: "(sqlite_error \<Rightarrow> string) \<Rightarrow> store_error \<Rightarrow> string" where
  "show_store_error show_sqlite (Store_Database e) = ''SQLite error: '' @ show_sqlite e"
| "show_store_error show_sqlite (Store_Codec e) = show_cbor_error e"
| "show_store_error show_sqlite (Store_UnsupportedDatabaseVersion v) =
     ''database version '' @ show_i64 v @ '' is newer than supported''"
| "show_store_error show_sqlite (Store_IntegerOverflow field) = field @ '' exceeds SQLite range''"
| "show_store_error show_sqlite (Store_CorruptData message) = ''corrupt database data: '' @ message"
| "show_store_error show_sqlite (Store_Random message) =
     ''secure random generation failed: '' @ message"
| "show_store_error show_sqlite (Store_Clock message) = ''system clock failed: '' @ message"

fun show_device_authentication_error ::
  "(sqlite_error \<Rightarrow> string) \<Rightarrow> device_authentication_error \<Rightarrow> string" where
  "show_device_authentication_error f DevAuth_InvalidCredential = ''invalid device credential''"
| "show_device_authentication_error f DevAuth_Revoked = ''device credential was revoked''"
| "show_device_authentication_error f (DevAuth_Store e) = show_store_error f e"

fun show_pairing_error :: "(sqlite_error \<Rightarrow> string) \<Rightarrow> pairing_error \<Rightarrow> string" where
  "show_pairing_error f Pairing_InvalidCredential = ''invalid pairing credential''"
| "show_pairing_error f Pairing_Expired = ''pairing credential expired''"
| "show_pairing_error f Pairing_Consumed = ''pairing credential was already consumed''"
| "show_pairing_error f (Pairing_Store e) = show_store_error f e"

fun show_operation_error :: "(sqlite_error \<Rightarrow> string) \<Rightarrow> operation_error \<Rightarrow> string" where
  "show_operation_error f Operation_ConflictingRequest =
     ''operation ID was reused for a different request''"
| "show_operation_error f Operation_NotPending = ''operation is not pending''"
| "show_operation_error f (Operation_Store e) = show_store_error f e"

subsection \<open>Columns\<close>

definition sql_u64 :: "u64 \<Rightarrow> string \<Rightarrow> store_error + i64" where
  "sql_u64 v field = (if unat v < 2 ^ 63 then Inr v else Inl (Store_IntegerOverflow field))"

definition wire_u64 :: "i64 \<Rightarrow> string \<Rightarrow> store_error + u64" where
  "wire_u64 v field =
     (if 0 \<le> sint v then Inr v else Inl (Store_CorruptData (''negative '' @ field)))"

fun encode_lifecycle :: "agent_lifecycle \<Rightarrow> string \<times> string option" where
  "encode_lifecycle Lifecycle_Starting = (''starting'', None)"
| "encode_lifecycle Lifecycle_Idle = (''idle'', None)"
| "encode_lifecycle Lifecycle_Running = (''running'', None)"
| "encode_lifecycle Lifecycle_Stopping = (''stopping'', None)"
| "encode_lifecycle Lifecycle_Stopped = (''stopped'', None)"
| "encode_lifecycle Lifecycle_Interrupted = (''interrupted'', None)"
| "encode_lifecycle (Lifecycle_Failed_because reason) = (''failed'', Some reason)"

definition decode_lifecycle :: "string \<Rightarrow> string option \<Rightarrow> store_error + agent_lifecycle" where
  "decode_lifecycle l failure_reason =
     (if l = ''starting'' then Inr Lifecycle_Starting
      else if l = ''idle'' then Inr Lifecycle_Idle
      else if l = ''running'' then Inr Lifecycle_Running
      else if l = ''stopping'' then Inr Lifecycle_Stopping
      else if l = ''stopped'' then Inr Lifecycle_Stopped
      else if l = ''interrupted'' then Inr Lifecycle_Interrupted
      else if l = ''failed'' then
        rbind (ok_or failure_reason (Store_CorruptData ''failed agent has no failure reason''))
          (\<lambda>reason. Inr (Lifecycle_Failed_because reason))
      else Inl (Store_CorruptData (''unknown agent lifecycle '' @ l)))"

fun encode_platform :: "client_platform \<Rightarrow> string" where
  "encode_platform Platform_Web = ''web''"
| "encode_platform Platform_Mobile = ''mobile''"
| "encode_platform Platform_Desktop = ''desktop''"
| "encode_platform Platform_Cli = ''cli''"
| "encode_platform Platform_Service = ''service''"

definition decode_platform :: "string \<Rightarrow> store_error + client_platform" where
  "decode_platform p =
     (if p = ''web'' then Inr Platform_Web
      else if p = ''mobile'' then Inr Platform_Mobile
      else if p = ''desktop'' then Inr Platform_Desktop
      else if p = ''cli'' then Inr Platform_Cli
      else if p = ''service'' then Inr Platform_Service
      else Inl (Store_CorruptData (''unknown device platform '' @ p)))"

definition corrupt :: "identifier_error + 'a \<Rightarrow> store_error + 'a" where
  "corrupt r = map_err (\<lambda>e. Store_CorruptData (show_identifier_error e)) r"

definition decode_agent :: "agent_row \<Rightarrow> store_error + agent_record" where
  "decode_agent r =
     rbind (corrupt (AgentId_new (agt_agent_id r))) (\<lambda>a.
     rbind (decode_lifecycle (agt_lifecycle r) (agt_failure_reason r)) (\<lambda>l.
     rbind (map_transpose (\<lambda>v. if 0 \<le> sint v \<and> sint v < 2 ^ 32 then Inr (ucast v)
         else Inl (Store_CorruptData ''invalid process ID'')) (agt_process_id r)) (\<lambda>pid.
     rbind (map_transpose (\<lambda>v. corrupt (RunId_new v)) (agt_active_run_id r)) (\<lambda>run.
     rbind (wire_u64 (agt_created_at_ms r) ''agent created_at_ms'') (\<lambda>created.
     rbind (wire_u64 (agt_updated_at_ms r) ''agent updated_at_ms'') (\<lambda>updated.
       Inr \<lparr>agr_agent_id = a, agr_lifecycle = l, agr_process_id = pid, agr_active_run_id = run,
            agr_created_at_ms = created, agr_updated_at_ms = updated\<rparr>))))))"

definition decode_session :: "session_row \<Rightarrow> store_error + session_resume_record" where
  "decode_session r =
     rbind (corrupt (AgentId_new (srow_agent_id r))) (\<lambda>a.
     rbind (wire_u64 (srow_revision r) ''session revision'') (\<lambda>revision.
     rbind (wire_u64 (srow_event_sequence r) ''session event sequence'') (\<lambda>q.
     rbind (wire_u64 (srow_updated_at_ms r) ''session updated_at_ms'') (\<lambda>updated.
       Inr \<lparr>ses_agent_id = a, ses_session_id = srow_session_id r,
            ses_session_file = srow_session_file r, ses_revision = revision,
            ses_event_sequence = q, ses_updated_at_ms = updated\<rparr>))))"

definition decode_device :: "device_row \<Rightarrow> store_error + device_record" where
  "decode_device r =
     rbind (corrupt (DeviceId_new (drow_device_id r))) (\<lambda>d.
     rbind (decode_platform (drow_platform r)) (\<lambda>p.
     rbind (wire_u64 (drow_created_at_ms r) ''device created_at_ms'') (\<lambda>created.
     rbind (map_transpose (\<lambda>v. wire_u64 v ''device last_seen_at_ms'') (drow_last_seen_at_ms r)) (\<lambda>seen.
     rbind (map_transpose (\<lambda>v. wire_u64 v ''device revoked_at_ms'') (drow_revoked_at_ms r)) (\<lambda>revoked.
       Inr \<lparr>dev_device_id = d, dev_name = drow_name r, dev_platform = p, dev_scopes = drow_scopes r,
            dev_created_at_ms = created, dev_last_seen_at_ms = seen,
            dev_revoked_at_ms = revoked\<rparr>)))))"

text \<open>\<open>RawPairing\<close> is the pairing record together with the stored hash.\<close>

definition decode_pairing :: "pairing_row \<Rightarrow> store_error + (pairing_record \<times> string)" where
  "decode_pairing r =
     rbind (corrupt (PairingId_new (prow_pairing_id r))) (\<lambda>p.
     rbind (wire_u64 (prow_created_at_ms r) ''pairing created_at_ms'') (\<lambda>created.
     rbind (wire_u64 (prow_expires_at_ms r) ''pairing expires_at_ms'') (\<lambda>expires.
     rbind (map_transpose (\<lambda>v. wire_u64 v ''pairing consumed_at_ms'') (prow_consumed_at_ms r)) (\<lambda>consumed.
       Inr (\<lparr>pair_pairing_id = p, pair_requested_name = prow_requested_name r,
             pair_scopes = prow_scopes r, pair_created_at_ms = created,
             pair_expires_at_ms = expires, pair_consumed_at_ms = consumed\<rparr>,
            prow_secret_hash r)))))"

definition database_codec :: cbor_codec where
  "database_codec = CborCodec 1048576"

end
