(* ===== verification/Store.thy ===== *)
theory Store
  imports Store_Records
begin

section \<open>The operations of the store\<close>

text \<open>
  The methods of \<open>Store\<close> in \<open>crates/ompd/src/persistence/store.rs\<close>. Each takes the mutex once
  and is one step on the database. A transaction that is left early is rolled back, so its
  error keeps the database; a sequence of plain statements is not.
\<close>

subsection \<open>Opening\<close>

definition migrate :: "database \<Rightarrow> store_error + database" where
  "migrate db =
     (if 1 < sint (db_user_version db)
      then Inl (Store_UnsupportedDatabaseVersion (db_user_version db))
      else if db_user_version db = 0 then Inr (db\<lparr>db_user_version := 1\<rparr>)
      else Inr db)"

definition recover_agent :: "i64 \<Rightarrow> agent_row \<Rightarrow> agent_row" where
  "recover_agent now r =
     (if agt_lifecycle r \<in> {''starting'', ''running'', ''stopping''}
      then r\<lparr>agt_lifecycle := ''interrupted'', agt_failure_reason := None, agt_process_id := None,
             agt_active_run_id := None, agt_updated_at_ms := now\<rparr>
      else r)"

definition recover_operation :: "operation_row \<Rightarrow> operation_row" where
  "recover_operation r =
     (if orow_status r = ''pending'' then r\<lparr>orow_status := ''indeterminate''\<rparr> else r)"

definition recover_interrupted :: "u64 \<Rightarrow> database \<Rightarrow> store_error + database" where
  "recover_interrupted now_ms db =
     rbind (sql_u64 now_ms ''recovery timestamp'') (\<lambda>now.
       Inr (db\<lparr>db_agents := map (recover_agent now) (db_agents db),
               db_operations := map recover_operation (db_operations db)\<rparr>))"

definition load_or_create_server_id :: "string \<Rightarrow> database \<Rightarrow> store_error + (server_id \<times> database)"
where
  "load_or_create_server_id uuid db =
     (case tbl_select fst ''server_id'' (db_metadata db) of
        Some (_, value) \<Rightarrow> rbind (corrupt (ServerId_new value)) (\<lambda>s. Inr (s, db))
      | None \<Rightarrow>
          (case tbl_insert fst (''server_id'', uuid) (db_metadata db) of
             None \<Rightarrow> Inl (Store_Database Sqlite_PrimaryKey)
           | Some t \<Rightarrow> Inr (ServerId uuid, db\<lparr>db_metadata := t\<rparr>)))"

definition Store_initialize :: "string \<Rightarrow> u64 \<Rightarrow> database \<Rightarrow> store_error + store" where
  "Store_initialize uuid now_ms db =
     rbind (migrate db) (\<lambda>db.
     rbind (recover_interrupted now_ms db) (\<lambda>db.
     rbind (load_or_create_server_id uuid db) (\<lambda>(s, db).
       Inr \<lparr>st_db = db, st_server_id = s\<rparr>)))"

definition empty_database :: database where
  "empty_database = \<lparr>db_user_version = 0, db_metadata = [], db_agents = [], db_sessions = [],
     db_devices = [], db_pairings = [], db_operations = []\<rparr>"

definition open_in_memory_at :: "string \<Rightarrow> u64 \<Rightarrow> store_error + store" where
  "open_in_memory_at uuid now_ms = Store_initialize uuid now_ms empty_database"

subsection \<open>Agents and sessions\<close>

definition merge_agent :: "agent_row \<Rightarrow> agent_row \<Rightarrow> agent_row" where
  "merge_agent old new = old\<lparr>agt_lifecycle := agt_lifecycle new,
     agt_failure_reason := agt_failure_reason new, agt_process_id := agt_process_id new,
     agt_active_run_id := agt_active_run_id new, agt_updated_at_ms := agt_updated_at_ms new\<rparr>"

definition encode_agent :: "agent_record \<Rightarrow> store_error + agent_row" where
  "encode_agent record =
     rbind (sql_u64 (agr_created_at_ms record) ''agent created_at_ms'') (\<lambda>created.
     rbind (sql_u64 (agr_updated_at_ms record) ''agent updated_at_ms'') (\<lambda>updated.
       Inr \<lparr>agt_agent_id = agent_id_str (agr_agent_id record),
            agt_lifecycle = fst (encode_lifecycle (agr_lifecycle record)),
            agt_failure_reason = snd (encode_lifecycle (agr_lifecycle record)),
            agt_process_id = map_option ucast (agr_process_id record),
            agt_active_run_id = map_option run_id_str (agr_active_run_id record),
            agt_created_at_ms = created, agt_updated_at_ms = updated\<rparr>))"

definition upsert_agent :: "agent_record \<Rightarrow> store \<Rightarrow> (store_error + unit) \<times> store" where
  "upsert_agent record st =
     (case encode_agent record of
        Inl e \<Rightarrow> (Inl e, st)
      | Inr row \<Rightarrow> (Inr (), st\<lparr>st_db := (st_db st)\<lparr>db_agents :=
          tbl_upsert agt_agent_id merge_agent row (db_agents (st_db st))\<rparr>\<rparr>))"

definition store_agent :: "agent_id \<Rightarrow> store \<Rightarrow> store_error + agent_record option" where
  "store_agent a st =
     map_transpose decode_agent (tbl_select agt_agent_id (agent_id_str a) (db_agents (st_db st)))"

text \<open>Collecting an iterator of results stops at the first error.\<close>

fun collect :: "('e + 'a) list \<Rightarrow> 'e + 'a list" where
  "collect [] = Inr []"
| "collect (r # rs) = rbind r (\<lambda>x. rbind (collect rs) (\<lambda>xs. Inr (x # xs)))"

definition store_agents :: "store \<Rightarrow> store_error + agent_record list" where
  "store_agents st = collect (map decode_agent (sort_key agt_agent_id (db_agents (st_db st))))"

definition merge_session :: "session_row \<Rightarrow> session_row \<Rightarrow> session_row" where
  "merge_session old new = new\<lparr>srow_agent_id := srow_agent_id old\<rparr>"

definition encode_session :: "session_resume_record \<Rightarrow> store_error + session_row" where
  "encode_session record =
     rbind (sql_u64 (ses_revision record) ''session revision'') (\<lambda>revision.
     rbind (sql_u64 (ses_event_sequence record) ''session event sequence'') (\<lambda>q.
     rbind (sql_u64 (ses_updated_at_ms record) ''session updated_at_ms'') (\<lambda>updated.
       Inr \<lparr>srow_agent_id = agent_id_str (ses_agent_id record),
            srow_session_id = ses_session_id record, srow_session_file = ses_session_file record,
            srow_revision = revision, srow_event_sequence = q, srow_updated_at_ms = updated\<rparr>)))"

text \<open>The session's agent must exist: the foreign key of the table.\<close>

definition upsert_session :: "session_resume_record \<Rightarrow> store \<Rightarrow> (store_error + unit) \<times> store" where
  "upsert_session record st =
     (case encode_session record of
        Inl e \<Rightarrow> (Inl e, st)
      | Inr row \<Rightarrow>
          (if tbl_select agt_agent_id (srow_agent_id row) (db_agents (st_db st)) = None
           then (Inl (Store_Database Sqlite_ForeignKey), st)
           else (Inr (), st\<lparr>st_db := (st_db st)\<lparr>db_sessions :=
             tbl_upsert srow_agent_id merge_session row (db_sessions (st_db st))\<rparr>\<rparr>)))"

definition store_session :: "agent_id \<Rightarrow> store \<Rightarrow> store_error + session_resume_record option" where
  "store_session a st = map_transpose decode_session
     (tbl_select srow_agent_id (agent_id_str a) (db_sessions (st_db st)))"

subsection \<open>Devices\<close>

definition encode_device :: "store_env \<Rightarrow> device_record \<Rightarrow> device_token \<Rightarrow> store_error + device_row"
where
  "encode_device env record token =
     rbind (sql_u64 (dev_created_at_ms record) ''device created_at_ms'') (\<lambda>created.
     rbind (map_transpose (\<lambda>v. sql_u64 v ''device last_seen_at_ms'') (dev_last_seen_at_ms record)) (\<lambda>seen.
     rbind (map_transpose (\<lambda>v. sql_u64 v ''device revoked_at_ms'') (dev_revoked_at_ms record)) (\<lambda>revoked.
       Inr \<lparr>drow_device_id = device_id_str (dev_device_id record), drow_name = dev_name record,
            drow_platform = encode_platform (dev_platform record), drow_scopes = dev_scopes record,
            drow_token_hash = env_hash env (expose_device_token token),
            drow_created_at_ms = created, drow_last_seen_at_ms = seen,
            drow_revoked_at_ms = revoked\<rparr>)))"

definition insert_device ::
  "store_env \<Rightarrow> device_record \<Rightarrow> device_token \<Rightarrow> store \<Rightarrow> (store_error + unit) \<times> store" where
  "insert_device env record token st =
     (case encode_device env record token of
        Inl e \<Rightarrow> (Inl e, st)
      | Inr row \<Rightarrow>
          (case tbl_insert drow_device_id row (db_devices (st_db st)) of
             None \<Rightarrow> (Inl (Store_Database Sqlite_PrimaryKey), st)
           | Some t \<Rightarrow> (Inr (), st\<lparr>st_db := (st_db st)\<lparr>db_devices := t\<rparr>\<rparr>)))"

definition load_device :: "device_id \<Rightarrow> database \<Rightarrow> store_error + device_record option" where
  "load_device d db =
     map_transpose decode_device (tbl_select drow_device_id (device_id_str d) (db_devices db))"

definition store_device :: "device_id \<Rightarrow> store \<Rightarrow> store_error + device_record option" where
  "store_device d st = load_device d (st_db st)"

text \<open>\<open>ORDER BY created_at_ms, device_id\<close>: two stable sorts, the first key last.\<close>

definition store_devices :: "store \<Rightarrow> store_error + device_record list" where
  "store_devices st = collect (map decode_device
     (sort_key (\<lambda>r. sint (drow_created_at_ms r)) (sort_key drow_device_id (db_devices (st_db st)))))"

definition authenticate_device ::
  "store_env \<Rightarrow> device_id \<Rightarrow> device_token \<Rightarrow> u64 \<Rightarrow> store \<Rightarrow>
     (device_authentication_error + device_record) \<times> store" where
  "authenticate_device env d token now_ms st =
     (case tbl_select drow_device_id (device_id_str d) (db_devices (st_db st)) of
        None \<Rightarrow> (Inl DevAuth_InvalidCredential, st)
      | Some row \<Rightarrow>
          (if drow_token_hash row \<noteq> env_hash env (expose_device_token token)
           then (Inl DevAuth_InvalidCredential, st)
           else if drow_revoked_at_ms row \<noteq> None then (Inl DevAuth_Revoked, st)
           else case sql_u64 now_ms ''device last_seen_at_ms'' of
             Inl e \<Rightarrow> (Inl (DevAuth_Store e), st)
           | Inr seen \<Rightarrow>
               (let db = (st_db st)\<lparr>db_devices := snd (tbl_update drow_device_id (device_id_str d)
                      (\<lambda>_. True) (\<lambda>r. r\<lparr>drow_last_seen_at_ms := Some seen\<rparr>)
                      (db_devices (st_db st)))\<rparr>
                in (rbind (map_err DevAuth_Store (load_device d db)) (\<lambda>r.
                      ok_or r DevAuth_InvalidCredential), st\<lparr>st_db := db\<rparr>))))"

definition revoke_device :: "device_id \<Rightarrow> u64 \<Rightarrow> store \<Rightarrow> (store_error + bool) \<times> store" where
  "revoke_device d now_ms st =
     (case sql_u64 now_ms ''device revoked_at_ms'' of
        Inl e \<Rightarrow> (Inl e, st)
      | Inr now \<Rightarrow>
          (let (changed, t) = tbl_update drow_device_id (device_id_str d)
                 (\<lambda>r. drow_revoked_at_ms r = None) (\<lambda>r. r\<lparr>drow_revoked_at_ms := Some now\<rparr>)
                 (db_devices (st_db st))
           in (Inr (changed = 1), st\<lparr>st_db := (st_db st)\<lparr>db_devices := t\<rparr>\<rparr>)))"

subsection \<open>Pairing\<close>

text \<open>
  \<open>random\<close> is the result of the random generator, \<open>uuid\<close> a fresh UUID. The statements of
  \<open>create_pairing\<close> evaluate their parameters before they run.
\<close>

definition encode_pairing ::
  "store_env \<Rightarrow> string \<Rightarrow> string \<Rightarrow> device_scopes \<Rightarrow> pairing_secret \<Rightarrow> u64 \<Rightarrow> u64 \<Rightarrow>
     store_error + pairing_row" where
  "encode_pairing env uuid requested_name scopes secret now_ms expires_at_ms =
     rbind (sql_u64 now_ms ''pairing created_at_ms'') (\<lambda>created.
     rbind (sql_u64 expires_at_ms ''pairing expires_at_ms'') (\<lambda>expires.
       Inr \<lparr>prow_pairing_id = uuid, prow_requested_name = requested_name, prow_scopes = scopes,
            prow_secret_hash = env_hash env (expose_pairing_secret secret),
            prow_created_at_ms = created, prow_expires_at_ms = expires,
            prow_consumed_at_ms = None\<rparr>))"

definition create_pairing ::
  "store_env \<Rightarrow> string + string \<Rightarrow> string \<Rightarrow> string \<Rightarrow> device_scopes \<Rightarrow> u64 \<Rightarrow> u64 \<Rightarrow> store \<Rightarrow>
     (store_error + pairing_grant) \<times> store" where
  "create_pairing env random uuid requested_name scopes now_ms ttl_ms st =
     (case checked_add now_ms ttl_ms of
        None \<Rightarrow> (Inl (Store_IntegerOverflow ''pairing expiry''), st)
      | Some expires_at_ms \<Rightarrow>
          (case random of
             Inl e \<Rightarrow> (Inl (Store_Random e), st)
           | Inr bytes \<Rightarrow>
               (let secret = PairingSecret (env_base64 env bytes)
                in case encode_pairing env uuid requested_name scopes secret now_ms expires_at_ms of
                     Inl e \<Rightarrow> (Inl e, st)
                   | Inr row \<Rightarrow>
                       (case tbl_insert prow_pairing_id row (db_pairings (st_db st)) of
                          None \<Rightarrow> (Inl (Store_Database Sqlite_PrimaryKey), st)
                        | Some t \<Rightarrow>
                            (Inr \<lparr>grant_pairing_id = PairingId uuid, grant_secret = secret,
                                 grant_expires_at_ms = expires_at_ms\<rparr>,
                             st\<lparr>st_db := (st_db st)\<lparr>db_pairings := t\<rparr>\<rparr>)))))"

text \<open>The part that \<open>consume_pairing\<close> and \<open>exchange_pairing\<close> share, inside the transaction.\<close>

definition use_pairing ::
  "store_env \<Rightarrow> pairing_id \<Rightarrow> pairing_secret \<Rightarrow> u64 \<Rightarrow> database \<Rightarrow>
     pairing_error + (pairing_record \<times> database)" where
  "use_pairing env p secret now_ms db =
     rbind (map_err Pairing_Store (map_transpose decode_pairing
         (tbl_select prow_pairing_id (pairing_id_str p) (db_pairings db)))) (\<lambda>raw.
     rbind (ok_or raw Pairing_InvalidCredential) (\<lambda>(record, secret_hash).
       if secret_hash \<noteq> env_hash env (expose_pairing_secret secret)
       then Inl Pairing_InvalidCredential
       else if pair_consumed_at_ms record \<noteq> None then Inl Pairing_Consumed
       else if pair_expires_at_ms record \<le> now_ms then Inl Pairing_Expired
       else rbind (map_err Pairing_Store (sql_u64 now_ms ''pairing consumed_at_ms'')) (\<lambda>now.
         let (changed, t) = tbl_update prow_pairing_id (pairing_id_str p)
               (\<lambda>r. prow_consumed_at_ms r = None) (\<lambda>r. r\<lparr>prow_consumed_at_ms := Some now\<rparr>)
               (db_pairings db)
         in if changed \<noteq> 1 then Inl Pairing_Consumed
            else Inr (record, db\<lparr>db_pairings := t\<rparr>))))"

definition consume_pairing ::
  "store_env \<Rightarrow> pairing_id \<Rightarrow> pairing_secret \<Rightarrow> u64 \<Rightarrow> store \<Rightarrow>
     (pairing_error + pairing_record) \<times> store" where
  "consume_pairing env p secret now_ms st =
     (case use_pairing env p secret now_ms (st_db st) of
        Inl e \<Rightarrow> (Inl e, st)
      | Inr (record, db) \<Rightarrow>
          (Inr (record\<lparr>pair_consumed_at_ms := Some now_ms\<rparr>), st\<lparr>st_db := db\<rparr>))"

definition exchange_pairing ::
  "store_env \<Rightarrow> string + string \<Rightarrow> string \<Rightarrow> pairing_id \<Rightarrow> pairing_secret \<Rightarrow> device_descriptor \<Rightarrow>
     u64 \<Rightarrow> store \<Rightarrow> (pairing_error + device_credential) \<times> store" where
  "exchange_pairing env random uuid p secret descriptor now_ms st =
     (case random of
        Inl e \<Rightarrow> (Inl (Pairing_Store (Store_Random e)), st)
      | Inr bytes \<Rightarrow>
          (let token = DeviceToken (env_base64 env bytes)
           in case use_pairing env p secret now_ms (st_db st) of
                Inl e \<Rightarrow> (Inl e, st)
              | Inr (raw, db) \<Rightarrow>
                  (let name = (if pair_requested_name raw = [] then desc_name descriptor
                               else pair_requested_name raw)
                   in case sql_u64 now_ms ''device created_at_ms'' of
                        Inl e \<Rightarrow> (Inl (Pairing_Store e), st)
                      | Inr now \<Rightarrow>
                          (case tbl_insert drow_device_id
                               \<lparr>drow_device_id = uuid, drow_name = name,
                                drow_platform = encode_platform (desc_platform descriptor),
                                drow_scopes = pair_scopes raw,
                                drow_token_hash = env_hash env (expose_device_token token),
                                drow_created_at_ms = now, drow_last_seen_at_ms = Some now,
                                drow_revoked_at_ms = None\<rparr> (db_devices db) of
                             None \<Rightarrow> (Inl (Pairing_Store (Store_Database Sqlite_PrimaryKey)), st)
                           | Some t \<Rightarrow>
                               (Inr \<lparr>cred_server_id = st_server_id st,
                                     cred_device_id = DeviceId uuid, cred_token = token,
                                     cred_scopes = pair_scopes raw\<rparr>,
                                st\<lparr>st_db := db\<lparr>db_devices := t\<rparr>\<rparr>)))))"

subsection \<open>Operations\<close>

text \<open>What \<open>claim_operation\<close> answers when the operation is already recorded.\<close>

definition claim_existing ::
  "store_env \<Rightarrow> string \<times> string \<Rightarrow> string \<Rightarrow> operation_row list \<Rightarrow> operation_error + operation_claim" where
  "claim_existing env k request_hash rows =
     (case tbl_select orow_key k rows of
        None \<Rightarrow> Inl (Operation_Store (Store_Database Sqlite_NoRows))
      | Some row \<Rightarrow>
          (if orow_request_hash row \<noteq> request_hash then Inl Operation_ConflictingRequest
           else if orow_status row = ''pending'' then Inr Claim_InProgress
           else if orow_status row = ''indeterminate'' then Inr Claim_Indeterminate
           else if orow_status row = ''completed'' then
             rbind (ok_or (orow_outcome_cbor row)
                 (Operation_Store (Store_CorruptData ''completed operation has no outcome'')))
               (\<lambda>bytes. rbind (map_err (\<lambda>e. Operation_Store (Store_Codec e))
                   (cbor_decode (env_de_outcome env) database_codec bytes))
                 (\<lambda>outcome. Inr (Claim_Completed outcome)))
           else Inl (Operation_Store (Store_CorruptData
             (''unknown operation status '' @ orow_status row)))))"

definition operation_row_key :: "operation_key \<Rightarrow> string \<times> string" where
  "operation_row_key key =
     (device_id_str (opk_device_id key), operation_id_str (opk_operation_id key))"

definition pending_row :: "string \<times> string \<Rightarrow> string \<Rightarrow> i64 \<Rightarrow> operation_row" where
  "pending_row k request_hash now = \<lparr>orow_device_id = fst k, orow_operation_id = snd k,
     orow_request_hash = request_hash, orow_status = ''pending'', orow_outcome_cbor = None,
     orow_created_at_ms = now, orow_completed_at_ms = None\<rparr>"

text \<open>
  \<open>INSERT OR IGNORE\<close> skips a row whose key is there; the foreign key to the device is not
  among the constraints it ignores.
\<close>

definition claim_operation ::
  "store_env \<Rightarrow> operation_key \<Rightarrow> control_request \<Rightarrow> u64 \<Rightarrow> store \<Rightarrow>
     (operation_error + operation_claim) \<times> store" where
  "claim_operation env key request now_ms st =
     (case cbor_encode (env_ser_request env) database_codec request of
        Inl e \<Rightarrow> (Inl (Operation_Store (Store_Codec e)), st)
      | Inr encoded \<Rightarrow>
          (let request_hash = env_hash env encoded; k = operation_row_key key
           in case sql_u64 now_ms ''operation created_at_ms'' of
                Inl e \<Rightarrow> (Inl (Operation_Store e), st)
              | Inr now \<Rightarrow>
                  (case tbl_insert orow_key (pending_row k request_hash now)
                          (db_operations (st_db st)) of
                     Some t \<Rightarrow>
                       (if tbl_select drow_device_id (fst k) (db_devices (st_db st)) = None
                        then (Inl (Operation_Store (Store_Database Sqlite_ForeignKey)), st)
                        else (Inr Claim_Execute,
                              st\<lparr>st_db := (st_db st)\<lparr>db_operations := t\<rparr>\<rparr>))
                   | None \<Rightarrow> (claim_existing env k request_hash (db_operations (st_db st)), st))))"

definition complete_row :: "string \<Rightarrow> i64 \<Rightarrow> operation_row \<Rightarrow> operation_row" where
  "complete_row encoded now r = r\<lparr>orow_status := ''completed'', orow_outcome_cbor := Some encoded,
     orow_completed_at_ms := Some now\<rparr>"

definition complete_operation ::
  "store_env \<Rightarrow> operation_key \<Rightarrow> response_outcome \<Rightarrow> u64 \<Rightarrow> store \<Rightarrow>
     (operation_error + unit) \<times> store" where
  "complete_operation env key outcome now_ms st =
     (case cbor_encode (env_ser_outcome env) database_codec outcome of
        Inl e \<Rightarrow> (Inl (Operation_Store (Store_Codec e)), st)
      | Inr encoded \<Rightarrow>
          (case sql_u64 now_ms ''operation completed_at_ms'' of
             Inl e \<Rightarrow> (Inl (Operation_Store e), st)
           | Inr now \<Rightarrow>
               (let (changed, t) = tbl_update orow_key (operation_row_key key)
                      (\<lambda>r. orow_status r = ''pending'') (complete_row encoded now)
                      (db_operations (st_db st));
                    st' = st\<lparr>st_db := (st_db st)\<lparr>db_operations := t\<rparr>\<rparr>
                in (if changed = 1 then Inr () else Inl Operation_NotPending, st'))))"

text \<open>
  The newest first: by time and, within one time, by identifier, both descending. The excess
  is what lies beyond the first \<open>max_count\<close>.
\<close>

definition newest_first :: "operation_row list \<Rightarrow> operation_row list" where
  "newest_first rows =
     rev (sort_key (\<lambda>r. sint (orow_created_at_ms r)) (sort_key orow_operation_id rows))"

definition prune_operations ::
  "device_id \<Rightarrow> u64 \<Rightarrow> nat \<Rightarrow> store \<Rightarrow> (store_error + nat) \<times> store" where
  "prune_operations d older_than_ms max_count st =
     (case sql_u64 older_than_ms ''operation prune cutoff'' of
        Inl e \<Rightarrow> (Inl e, st)
      | Inr cutoff \<Rightarrow>
          (let mine = (\<lambda>r. orow_device_id r = device_id_str d);
               rows = db_operations (st_db st);
               old = (\<lambda>r. mine r \<and> sint (orow_created_at_ms r) < sint cutoff);
               kept = filter (\<lambda>r. \<not> old r) rows;
               st1 = st\<lparr>st_db := (st_db st)\<lparr>db_operations := kept\<rparr>\<rparr>
           in if 2 ^ 63 \<le> max_count
              then (Inl (Store_IntegerOverflow ''operation max count''), st1)
              else
                (let excess = map orow_key (drop max_count (newest_first (filter mine kept)));
                     final = filter (\<lambda>r. orow_key r \<notin> set excess) kept
                 in (Inr (length (filter old rows) + (length kept - length final)),
                     st1\<lparr>st_db := (st_db st1)\<lparr>db_operations := final\<rparr>\<rparr>))))"

end
