(* ===== verification/Store_Invariants.thy ===== *)
theory Store_Invariants
  imports Store
begin

section \<open>Histories of the store\<close>

text \<open>
  The methods as steps of one relation, with restarts of the daemon between them. The lemmas
  follow one operation, one pairing and one device through any history, resting on the laws of
  \<open>keyed_table\<close> for the table each of them lives in.
\<close>

text \<open>An \<open>i64\<close> is not negative when its bits as a \<open>u64\<close> are below the sign bit.\<close>

lemma sint_nonneg_iff: "0 \<le> sint w \<longleftrightarrow> unat w < 2 ^ 63" for w :: "64 word"
proof -
  have lt: "unat w < 2 ^ 64" using unsigned_less [of w] by simp
  have "0 \<le> sint w \<longleftrightarrow> \<not> bit (unat w) 63"
    by (simp add: sint_uint bit_uint_iff bit_unsigned_iff)
  also have "\<dots> \<longleftrightarrow> even (unat w div 2 ^ 63)"
    by (simp only: bit_iff_odd not_not)
  also have "\<dots> \<longleftrightarrow> unat w < 2 ^ 63"
  proof (cases "unat w < 2 ^ 63")
    case False
    with lt have "unat w div 2 ^ 63 = 1" by (intro div_nat_eqI) simp_all
    with False show ?thesis by (simp only: odd_one)
  qed simp
  finally show ?thesis .
qed
subsection \<open>Well-formed databases\<close>

definition db_wf :: "database \<Rightarrow> bool" where
  "db_wf db \<longleftrightarrow> tbl_wf fst (db_metadata db) \<and> tbl_wf agt_agent_id (db_agents db) \<and>
     tbl_wf srow_agent_id (db_sessions db) \<and> tbl_wf drow_device_id (db_devices db) \<and>
     tbl_wf prow_pairing_id (db_pairings db) \<and> tbl_wf orow_key (db_operations db)"

definition store_wf :: "store \<Rightarrow> bool" where
  "store_wf st \<longleftrightarrow> db_wf (st_db st)"

subsection \<open>Events\<close>

datatype (plugins only: code) store_event =
    Ev_Claim operation_key control_request "operation_error + operation_claim"
  | Ev_Complete operation_key response_outcome "operation_error + unit"
  | Ev_Prune device_id
  | Ev_CreatePairing "store_error + pairing_grant"
  | Ev_Consume pairing_id "pairing_error + pairing_record"
  | Ev_Exchange pairing_id "pairing_error + device_credential"
  | Ev_InsertDevice device_record
  | Ev_Authenticate device_id device_token "device_authentication_error + device_record"
  | Ev_Revoke device_id "store_error + bool"
  | Ev_UpsertAgent agent_record
  | Ev_UpsertSession session_resume_record
  | Ev_Restart

inductive store_step :: "store_env \<Rightarrow> store \<Rightarrow> store_event \<Rightarrow> store \<Rightarrow> bool" for env where
  claim: "claim_operation env key request now st = (r, st') \<Longrightarrow>
     store_step env st (Ev_Claim key request r) st'"
| complete: "complete_operation env key outcome now st = (r, st') \<Longrightarrow>
     store_step env st (Ev_Complete key outcome r) st'"
| prune: "prune_operations d older n st = (r, st') \<Longrightarrow> store_step env st (Ev_Prune d) st'"
| create: "create_pairing env random uuid name scopes now ttl st = (r, st') \<Longrightarrow>
     store_step env st (Ev_CreatePairing r) st'"
| consume: "consume_pairing env p secret now st = (r, st') \<Longrightarrow>
     store_step env st (Ev_Consume p r) st'"
| exchange: "exchange_pairing env random uuid p secret descriptor now st = (r, st') \<Longrightarrow>
     store_step env st (Ev_Exchange p r) st'"
| insert: "insert_device env record token st = (r, st') \<Longrightarrow>
     store_step env st (Ev_InsertDevice record) st'"
| authenticate: "authenticate_device env d token now st = (r, st') \<Longrightarrow>
     store_step env st (Ev_Authenticate d token r) st'"
| revoke: "revoke_device d now st = (r, st') \<Longrightarrow> store_step env st (Ev_Revoke d r) st'"
| upsert_agent: "upsert_agent arecord st = (r, st') \<Longrightarrow>
     store_step env st (Ev_UpsertAgent arecord) st'"
| upsert_session: "upsert_session srecord st = (r, st') \<Longrightarrow>
     store_step env st (Ev_UpsertSession srecord) st'"
| restart: "Store_initialize uuid now (st_db st) = Inr st' \<Longrightarrow> store_step env st Ev_Restart st'"

inductive store_steps :: "store_env \<Rightarrow> store \<Rightarrow> store_event list \<Rightarrow> store \<Rightarrow> bool" for env where
  none: "store_steps env st [] st"
| cons: "store_step env st e st' \<Longrightarrow> store_steps env st' es st'' \<Longrightarrow>
     store_steps env st (e # es) st''"

inductive_cases store_steps_NilE: "store_steps env st [] st'"
inductive_cases store_steps_ConsE: "store_steps env st (e # es) st'"

subsection \<open>What each method does to the tables\<close>

definition mark_consumed :: "pairing_id \<Rightarrow> i64 \<Rightarrow> pairing_row list \<Rightarrow> nat \<times> pairing_row list" where
  "mark_consumed p now t = tbl_update prow_pairing_id (pairing_id_str p)
     (\<lambda>r. prow_consumed_at_ms r = None) (\<lambda>r. r\<lparr>prow_consumed_at_ms := Some now\<rparr>) t"

definition mark_revoked :: "device_id \<Rightarrow> i64 \<Rightarrow> device_row list \<Rightarrow> nat \<times> device_row list" where
  "mark_revoked d now t = tbl_update drow_device_id (device_id_str d)
     (\<lambda>r. drow_revoked_at_ms r = None) (\<lambda>r. r\<lparr>drow_revoked_at_ms := Some now\<rparr>) t"

definition mark_seen :: "device_id \<Rightarrow> i64 \<Rightarrow> device_row list \<Rightarrow> nat \<times> device_row list" where
  "mark_seen d seen t = tbl_update drow_device_id (device_id_str d) (\<lambda>_. True)
     (\<lambda>r. r\<lparr>drow_last_seen_at_ms := Some seen\<rparr>) t"

definition mark_completed ::
  "operation_key \<Rightarrow> string \<Rightarrow> i64 \<Rightarrow> operation_row list \<Rightarrow> nat \<times> operation_row list" where
  "mark_completed key encoded now t = tbl_update orow_key (operation_row_key key)
     (\<lambda>r. orow_status r = ''pending'') (complete_row encoded now) t"

lemma orow_key_simps [simp]:
  "orow_key (pending_row k h now) = k"
  "orow_key (complete_row bytes now r) = orow_key r"
  "orow_key (recover_operation r) = orow_key r"
  by (simp_all add: orow_key_def pending_row_def complete_row_def recover_operation_def)

lemma claim_existing_not_execute: "claim_existing env k h rows \<noteq> Inr Claim_Execute"
  by (auto simp: claim_existing_def split: option.splits)

lemma complete_row_simps [simp]:
  "orow_request_hash (complete_row bytes now r) = orow_request_hash r"
  "orow_status (complete_row bytes now r) = ''completed''"
  "orow_outcome_cbor (complete_row bytes now r) = Some bytes"
  by (simp_all add: complete_row_def)

text \<open>What a lookup finds after each of the marking updates.\<close>

lemma mark_select:
  "tbl_select orow_key k (snd (mark_completed key bytes now os)) =
     map_option (\<lambda>r. if k = operation_row_key key \<and> orow_status r = ''pending''
       then complete_row bytes now r else r) (tbl_select orow_key k os)"
  "tbl_select prow_pairing_id i (snd (mark_consumed p now ps)) =
     map_option (\<lambda>r. if i = pairing_id_str p \<and> prow_consumed_at_ms r = None
       then r\<lparr>prow_consumed_at_ms := Some now\<rparr> else r) (tbl_select prow_pairing_id i ps)"
  "tbl_select drow_device_id j (snd (mark_revoked d now ds)) =
     map_option (\<lambda>r. if j = device_id_str d \<and> drow_revoked_at_ms r = None
       then r\<lparr>drow_revoked_at_ms := Some now\<rparr> else r) (tbl_select drow_device_id j ds)"
  "tbl_select drow_device_id j (snd (mark_seen d now ds)) =
     map_option (\<lambda>r. if j = device_id_str d then r\<lparr>drow_last_seen_at_ms := Some now\<rparr> else r)
       (tbl_select drow_device_id j ds)"
  unfolding mark_completed_def mark_consumed_def mark_revoked_def mark_seen_def
  by (subst tbl_select_update; simp)+

text \<open>A claim that executes inserts the pending row; any other leaves the store as it is.\<close>

lemma claim_executes:
  assumes "claim_operation env key request now st = (Inr Claim_Execute, st')"
  shows "\<exists>encoded now' t.
    cbor_encode (env_ser_request env) database_codec request = Inr encoded \<and>
    tbl_insert orow_key (pending_row (operation_row_key key) (env_hash env encoded) now')
      (db_operations (st_db st)) = Some t \<and>
    st' = st\<lparr>st_db := (st_db st)\<lparr>db_operations := t\<rparr>\<rparr>"
  using assms
  by (auto simp: claim_operation_def Let_def claim_existing_not_execute
      split: sum.splits option.splits if_splits)

lemma claim_keeps:
  assumes "claim_operation env key request now st = (r, st')" "r \<noteq> Inr Claim_Execute"
  shows "st' = st"
  using assms by (auto simp: claim_operation_def Let_def split: sum.splits option.splits if_splits)

lemma complete_cases:
  assumes "complete_operation env key outcome now st = (r, st')"
  shows "st' = st \<and> r \<noteq> Inr () \<or>
    (\<exists>encoded now'. cbor_encode (env_ser_outcome env) database_codec outcome = Inr encoded \<and>
       (r = Inr () \<longleftrightarrow> fst (mark_completed key encoded now' (db_operations (st_db st))) = 1) \<and>
       st' = st\<lparr>st_db := (st_db st)\<lparr>db_operations :=
         snd (mark_completed key encoded now' (db_operations (st_db st)))\<rparr>\<rparr>)"
proof (cases "cbor_encode (env_ser_outcome env) database_codec outcome")
  case (Inl e)
  then show ?thesis using assms by (auto simp: complete_operation_def)
next
  case encoded: (Inr encoded)
  show ?thesis
  proof (cases "sql_u64 now ''operation completed_at_ms''")
    case (Inl e)
    then show ?thesis using assms encoded by (auto simp: complete_operation_def)
  next
    case (Inr now')
    let ?u = "mark_completed key encoded now' (db_operations (st_db st))"
    have "st' = st\<lparr>st_db := (st_db st)\<lparr>db_operations := snd ?u\<rparr>\<rparr>"
      "r = (if fst ?u = 1 then Inr () else Inl Operation_NotPending)"
      using assms encoded Inr
      by (simp_all add: complete_operation_def Let_def case_prod_beta mark_completed_def)
    then show ?thesis using encoded by (intro disjI2 exI conjI) auto
  qed
qed

lemma prune_cases:
  assumes "prune_operations d older n st = (r, st')"
  shows "\<exists>p. st' = st\<lparr>st_db := (st_db st)\<lparr>db_operations := filter p (db_operations (st_db st))\<rparr>\<rparr> \<and>
    (\<forall>r \<in> set (db_operations (st_db st)). orow_device_id r \<noteq> device_id_str d \<longrightarrow> p r)"
proof (cases "sql_u64 older ''operation prune cutoff''")
  case (Inl e)
  then have "st' = st" using assms by (simp add: prune_operations_def)
  then show ?thesis by (intro exI [of _ "\<lambda>_. True"]) simp
next
  case (Inr cutoff)
  let ?rows = "db_operations (st_db st)"
  let ?mine = "\<lambda>r. orow_device_id r = device_id_str d"
  let ?old = "\<lambda>r. ?mine r \<and> sint (orow_created_at_ms r) < sint cutoff"
  let ?kept = "filter (\<lambda>r. \<not> ?old r) ?rows"
  let ?excess = "map orow_key (drop n (newest_first (filter ?mine ?kept)))"
  have other: "orow_key r \<notin> set ?excess" if "\<not> ?mine r" for r
  proof
    assume "orow_key r \<in> set ?excess"
    then obtain x where x: "x \<in> set (newest_first (filter ?mine ?kept))" "orow_key x = orow_key r"
      by (auto dest: in_set_dropD)
    then have "?mine x" by (simp add: newest_first_def)
    with x(2) that show False by (simp add: orow_key_def)
  qed
  show ?thesis
  proof (cases "2 ^ 63 \<le> n")
    case True
    with assms Inr show ?thesis
      by (intro exI [of _ "\<lambda>r. \<not> ?old r"]) (auto simp: prune_operations_def Let_def)
  next
    case False
    with assms Inr have "st' = st\<lparr>st_db := (st_db st)\<lparr>db_operations :=
        filter (\<lambda>r. orow_key r \<notin> set ?excess) ?kept\<rparr>\<rparr>"
      by (simp add: prune_operations_def Let_def)
    then show ?thesis
      using other by (intro exI [of _ "\<lambda>r. orow_key r \<notin> set ?excess \<and> \<not> ?old r"])
        (auto simp: conj_commute)
  qed
qed

subsection \<open>The other tables of each method\<close>

lemma migrate_keeps:
  "migrate db = Inr db' \<Longrightarrow> \<exists>v. db' = db\<lparr>db_user_version := v\<rparr>"
  by (auto simp: migrate_def split: if_splits) (metis database.surjective database.update_convs(1))

lemma server_id_keeps:
  "load_or_create_server_id uuid db = Inr (s, db') \<Longrightarrow>
     \<exists>t. db' = db\<lparr>db_metadata := t\<rparr> \<and> (tbl_wf fst (db_metadata db) \<longrightarrow> tbl_wf fst t) \<and>
       tbl_select fst ''server_id'' t = Some (''server_id'', server_id_str s)"
proof (cases "tbl_select fst ''server_id'' (db_metadata db)")
  case None
  assume a: "load_or_create_server_id uuid db = Inr (s, db')"
  with None obtain t where t: "tbl_insert fst (''server_id'', uuid) (db_metadata db) = Some t"
    "s = ServerId uuid" "db' = db\<lparr>db_metadata := t\<rparr>"
    by (auto simp: load_or_create_server_id_def split: option.splits)
  then show ?thesis
    using metadata_tbl.insert_wf [OF _ t(1)] metadata_tbl.insert_select [OF t(1)] by auto
next
  case (Some kv)
  assume a: "load_or_create_server_id uuid db = Inr (s, db')"
  have "fst kv = ''server_id''" using Some by (rule tbl_select_key)
  with a Some have "db' = db\<lparr>db_metadata := db_metadata db\<rparr>" "kv = (''server_id'', server_id_str s)"
    by (auto simp: load_or_create_server_id_def corrupt_def identifier_new_defs
        split: if_splits prod.splits)
  with Some show ?thesis by (intro exI [of _ "db_metadata db"]) simp
qed

lemma initialize_db:
  assumes "Store_initialize uuid now db = Inr st'"
  shows "\<exists>now' v t. st_db st' = db\<lparr>db_user_version := v, db_metadata := t,
      db_agents := map (recover_agent now') (db_agents db),
      db_operations := map recover_operation (db_operations db)\<rparr> \<and>
    (tbl_wf fst (db_metadata db) \<longrightarrow> tbl_wf fst t) \<and>
    tbl_select fst ''server_id'' t = Some (''server_id'', server_id_str (st_server_id st'))"
proof -
  obtain db1 db2 s db3 where 1: "migrate db = Inr db1" "recover_interrupted now db1 = Inr db2"
    "load_or_create_server_id uuid db2 = Inr (s, db3)" "st' = \<lparr>st_db = db3, st_server_id = s\<rparr>"
    using assms by (auto simp: Store_initialize_def)
  obtain v where v: "db1 = db\<lparr>db_user_version := v\<rparr>" using migrate_keeps [OF 1(1)] by blast
  obtain now' where r: "db2 = db1\<lparr>db_agents := map (recover_agent now') (db_agents db1),
      db_operations := map recover_operation (db_operations db1)\<rparr>"
    using 1(2) by (auto simp: recover_interrupted_def)
  obtain t where t: "db3 = db2\<lparr>db_metadata := t\<rparr>"
    "tbl_wf fst (db_metadata db2) \<longrightarrow> tbl_wf fst t"
    "tbl_select fst ''server_id'' t = Some (''server_id'', server_id_str s)"
    using server_id_keeps [OF 1(3)] by blast
  show ?thesis
    using t by (intro exI [of _ now'] exI [of _ v] exI [of _ t]) (simp add: 1(4) v r)
qed

lemma use_pairing_tables:
  assumes "use_pairing env p secret now db = Inr (record, db')"
  shows "\<exists>row raw now'. tbl_select prow_pairing_id (pairing_id_str p) (db_pairings db) = Some row \<and>
    decode_pairing row = Inr raw \<and> record = fst raw \<and>
    snd raw = env_hash env (expose_pairing_secret secret) \<and>
    pair_consumed_at_ms record = None \<and> now < pair_expires_at_ms record \<and>
    fst (mark_consumed p now' (db_pairings db)) = 1 \<and>
    db' = db\<lparr>db_pairings := snd (mark_consumed p now' (db_pairings db))\<rparr>"
  using assms
  by (cases "tbl_select prow_pairing_id (pairing_id_str p) (db_pairings db)")
    (auto simp: use_pairing_def map_transpose_def Let_def not_le mark_consumed_def case_prod_beta
      split: if_splits)

lemma consume_cases:
  assumes "consume_pairing env p secret now st = (r, st')"
  shows "(\<exists>record db. use_pairing env p secret now (st_db st) = Inr (record, db) \<and>
      r = Inr (record\<lparr>pair_consumed_at_ms := Some now\<rparr>) \<and> st' = st\<lparr>st_db := db\<rparr>) \<or>
    (\<exists>e. r = Inl e) \<and> st' = st"
  using assms by (auto simp: consume_pairing_def split: sum.splits prod.splits)

definition credential_row ::
  "store_env \<Rightarrow> device_credential \<Rightarrow> string \<Rightarrow> device_descriptor \<Rightarrow> i64 \<Rightarrow> device_row" where
  "credential_row env cred name descriptor now =
     \<lparr>drow_device_id = device_id_str (cred_device_id cred), drow_name = name,
      drow_platform = encode_platform (desc_platform descriptor), drow_scopes = cred_scopes cred,
      drow_token_hash = env_hash env (expose_device_token (cred_token cred)),
      drow_created_at_ms = now, drow_last_seen_at_ms = Some now, drow_revoked_at_ms = None\<rparr>"

lemma exchange_cases:
  assumes "exchange_pairing env random uuid p secret descriptor now st = (r, st')"
  shows "(\<exists>record db cred t name. use_pairing env p secret now (st_db st) = Inr (record, db) \<and>
      r = Inr cred \<and> cred_device_id cred = DeviceId uuid \<and> cred_scopes cred = pair_scopes record \<and>
      unat now < 2 ^ 63 \<and>
      tbl_insert drow_device_id (credential_row env cred name descriptor now) (db_devices db) = Some t \<and>
      st' = st\<lparr>st_db := db\<lparr>db_devices := t\<rparr>\<rparr>) \<or>
    (\<exists>e. r = Inl e) \<and> st' = st"
  using assms
  by (auto simp: exchange_pairing_def Let_def sql_u64_def credential_row_def
      split: sum.splits prod.splits option.splits if_splits) blast+

lemma create_cases:
  assumes "create_pairing env random uuid name scopes now ttl st = (r, st')"
  shows "st' = st \<or> (\<exists>row t. prow_consumed_at_ms row = None \<and>
    tbl_insert prow_pairing_id row (db_pairings (st_db st)) = Some t \<and>
    st' = st\<lparr>st_db := (st_db st)\<lparr>db_pairings := t\<rparr>\<rparr>)"
  using assms
proof -
  have "encode_pairing env uuid name scopes secret now e = Inr row \<Longrightarrow>
      prow_consumed_at_ms row \<noteq> Some y" for secret e row y
    by (auto simp: encode_pairing_def)
  then show ?thesis
    using assms by (auto simp: create_pairing_def Let_def split: sum.splits option.splits) blast
qed

lemma insert_device_cases:
  assumes "insert_device env record token st = (r, st')"
  shows "st' = st \<or> (\<exists>row t. tbl_insert drow_device_id row (db_devices (st_db st)) = Some t \<and>
    st' = st\<lparr>st_db := (st_db st)\<lparr>db_devices := t\<rparr>\<rparr>)"
  using assms by (auto simp: insert_device_def split: sum.splits option.splits)

lemma authenticate_cases:
  assumes "authenticate_device env d token now st = (r, st')"
  shows "st' = st \<and> (\<exists>e. r = Inl e) \<or> (\<exists>row seen.
    tbl_select drow_device_id (device_id_str d) (db_devices (st_db st)) = Some row \<and>
    drow_token_hash row = env_hash env (expose_device_token token) \<and> drow_revoked_at_ms row = None \<and>
    st' = st\<lparr>st_db := (st_db st)\<lparr>db_devices := snd (mark_seen d seen (db_devices (st_db st)))\<rparr>\<rparr>)"
  using assms
  by (auto simp: authenticate_device_def Let_def mark_seen_def split: sum.splits option.splits if_splits)

lemma revoke_cases:
  assumes "revoke_device d now st = (r, st')"
  shows "(\<exists>e. r = Inl e) \<and> st' = st \<or>
    (\<exists>now'. r = Inr (fst (mark_revoked d now' (db_devices (st_db st))) = 1) \<and>
      st' = st\<lparr>st_db := (st_db st)\<lparr>db_devices := snd (mark_revoked d now' (db_devices (st_db st)))\<rparr>\<rparr>)"
  using assms
  by (auto simp: revoke_device_def Let_def case_prod_beta mark_revoked_def split: sum.splits)

subsection \<open>Every step keeps the tables well formed\<close>

lemma recover_simps [simp]:
  "agt_agent_id (recover_agent now r) = agt_agent_id r"
  "orow_request_hash (recover_operation q) = orow_request_hash q"
  "orow_device_id (recover_operation q) = orow_device_id q"
  by (simp_all add: recover_agent_def recover_operation_def)

lemma tbl_wf_filter: "tbl_wf key t \<Longrightarrow> tbl_wf key (filter p t)"
  by (simp add: tbl_wf_def distinct_map_filter)

lemma mark_wf:
  "tbl_wf prow_pairing_id ps \<Longrightarrow> tbl_wf prow_pairing_id (snd (mark_consumed p now ps))"
  "tbl_wf drow_device_id ds \<Longrightarrow> tbl_wf drow_device_id (snd (mark_revoked d now ds))"
  "tbl_wf drow_device_id ds \<Longrightarrow> tbl_wf drow_device_id (snd (mark_seen d now ds))"
  "tbl_wf orow_key os \<Longrightarrow> tbl_wf orow_key (snd (mark_completed key bytes now os))"
  unfolding mark_consumed_def mark_revoked_def mark_seen_def mark_completed_def
  by (rule pairing_tbl.update_wf device_tbl.update_wf operation_tbl.update_wf; simp)+

lemma claim_wf: "claim_operation env key request now st = (r, st') \<Longrightarrow> store_wf st \<Longrightarrow> store_wf st'"
  by (cases "r = Inr Claim_Execute")
    (auto simp: store_wf_def db_wf_def dest!: claim_executes claim_keeps
      intro: operation_tbl.insert_wf)

lemma store_wf_step: "store_step env st e st' \<Longrightarrow> store_wf st \<Longrightarrow> store_wf st'"
proof (induction rule: store_step.induct)
  case (claim key request now st r st')
  then show ?case using claim_wf by blast
next
  case (complete key outcome now st r st')
  then show ?case
    using complete_cases [OF complete.hyps] by (auto simp: store_wf_def db_wf_def mark_wf)
next
  case (prune d older n st r st')
  then show ?case
    using prune_cases [OF prune.hyps] by (auto simp: store_wf_def db_wf_def tbl_wf_filter)
next
  case (create random uuid name scopes now ttl st r st')
  then show ?case using create_cases [OF create.hyps]
    by (auto simp: store_wf_def db_wf_def intro: pairing_tbl.insert_wf)
next
  case (consume p secret now st r st')
  then show ?case using consume_cases [OF consume.hyps]
    by (auto simp: store_wf_def db_wf_def mark_wf dest!: use_pairing_tables)
next
  case (exchange random uuid p secret descriptor now st r st')
  then show ?case using exchange_cases [OF exchange.hyps]
    by (auto simp: store_wf_def db_wf_def mark_wf dest!: use_pairing_tables
        intro: device_tbl.insert_wf)
next
  case (insert drec token st r st')
  then show ?case using insert_device_cases [OF insert.hyps]
    by (auto simp: store_wf_def db_wf_def intro: device_tbl.insert_wf)
next
  case (authenticate d token now st r st')
  then show ?case using authenticate_cases [OF authenticate.hyps]
    by (auto simp: store_wf_def db_wf_def mark_wf)
next
  case (revoke d now st r st')
  then show ?case using revoke_cases [OF revoke.hyps]
    by (auto simp: store_wf_def db_wf_def mark_wf)
next
  case (upsert_agent arecord st r st')
  then show ?case
    by (auto simp: upsert_agent_def store_wf_def db_wf_def merge_agent_def
        intro!: tbl_upsert_wf split: sum.splits)
next
  case (upsert_session srecord st r st')
  then show ?case
    by (auto simp: upsert_session_def store_wf_def db_wf_def merge_session_def
        intro!: tbl_upsert_wf split: sum.splits if_splits)
next
  case (restart uuid now st st')
  then obtain now' v t where "st_db st' = (st_db st)\<lparr>db_user_version := v, db_metadata := t,
      db_agents := map (recover_agent now') (db_agents (st_db st)),
      db_operations := map recover_operation (db_operations (st_db st))\<rparr>"
    "tbl_wf fst (db_metadata (st_db st)) \<longrightarrow> tbl_wf fst t"
    using initialize_db by blast
  then show ?case using restart.prems by (simp add: store_wf_def db_wf_def tbl_wf_map)
qed

subsection \<open>One operation through a history\<close>

definition op_row :: "store \<Rightarrow> operation_key \<Rightarrow> operation_row option" where
  "op_row st key = tbl_select orow_key (operation_row_key key) (db_operations (st_db st))"

text \<open>The request never changes, and a row that is not pending does not change at all.\<close>

definition op_follows :: "operation_row \<Rightarrow> operation_row \<Rightarrow> bool" where
  "op_follows r r' \<longleftrightarrow> orow_request_hash r' = orow_request_hash r \<and>
     (orow_status r = ''pending'' \<or> r' = r)"

lemma op_follows_refl [simp]: "op_follows r r"
  by (simp add: op_follows_def)

lemma op_follows_trans: "op_follows r r' \<Longrightarrow> op_follows r' r'' \<Longrightarrow> op_follows r r''"
  by (auto simp: op_follows_def)

lemma tbl_select_map:
  "(\<And>r. key (g r) = key r) \<Longrightarrow> tbl_select key k (map g t) = map_option g (tbl_select key k t)"
  by (induction t) (auto simp: tbl_select_def)

lemma recover_select:
  "tbl_select orow_key k (map recover_operation t) =
     map_option recover_operation (tbl_select orow_key k t)"
  by (rule tbl_select_map) simp

lemma recover_follows: "op_follows r (recover_operation r)"
  by (simp add: recover_operation_def op_follows_def)

lemma tbl_select_filter:
  "tbl_select key k t = Some r \<Longrightarrow> p r \<Longrightarrow> tbl_wf key t \<Longrightarrow> tbl_select key k (filter p t) = Some r"
  by (simp add: tbl_select_Some_iff tbl_wf_filter)

lemma operations_kept:
  "create_pairing env random uuid name scopes now ttl st = (r1, st1) \<Longrightarrow>
     db_operations (st_db st1) = db_operations (st_db st)"
  "consume_pairing env p secret now st = (r2, st2) \<Longrightarrow>
     db_operations (st_db st2) = db_operations (st_db st)"
  "exchange_pairing env random uuid p secret descriptor now st = (r3, st3) \<Longrightarrow>
     db_operations (st_db st3) = db_operations (st_db st)"
  "insert_device env record token st = (r4, st4) \<Longrightarrow>
     db_operations (st_db st4) = db_operations (st_db st)"
  "authenticate_device env d token now st = (r5, st5) \<Longrightarrow>
     db_operations (st_db st5) = db_operations (st_db st)"
  "revoke_device d now st = (r6, st6) \<Longrightarrow> db_operations (st_db st6) = db_operations (st_db st)"
  "upsert_agent arecord st = (r7, st7) \<Longrightarrow> db_operations (st_db st7) = db_operations (st_db st)"
  "upsert_session srecord st = (r8, st8) \<Longrightarrow>
     db_operations (st_db st8) = db_operations (st_db st)"
  by (auto dest!: create_cases consume_cases exchange_cases insert_device_cases authenticate_cases
      revoke_cases use_pairing_tables)
    (auto simp: upsert_agent_def upsert_session_def split: sum.splits if_splits)

lemma tbl_insert_keeps:
  "tbl_insert key row t = Some t' \<Longrightarrow> tbl_select key k t = Some r \<Longrightarrow> tbl_select key k t' = Some r"
  by (auto simp: tbl_insert_def tbl_select_append split: if_splits)

lemma op_row_step:
  assumes "store_step env st e st'" "store_wf st" "op_row st key = Some r"
    and "e \<noteq> Ev_Prune (opk_device_id key)"
  shows "\<exists>r'. op_row st' key = Some r' \<and> op_follows r r'"
  using assms
proof (induction rule: store_step.induct)
  case (claim key' request now st res st')
  show ?case
  proof (cases "res = Inr Claim_Execute")
    case True
    then obtain encoded now' t where ins:
      "tbl_insert orow_key (pending_row (operation_row_key key') (env_hash env encoded) now')
        (db_operations (st_db st)) = Some t" "st' = st\<lparr>st_db := (st_db st)\<lparr>db_operations := t\<rparr>\<rparr>"
      using claim.hyps claim_executes by blast
    show ?thesis using claim.prems tbl_insert_keeps [OF ins(1)] by (auto simp: op_row_def ins(2))
  next
    case False
    then have "st' = st" using claim.hyps claim_keeps by blast
    then show ?thesis using claim.prems by simp
  qed
next
  case (complete key' outcome now st res st')
  then show ?case
    using complete_cases [OF complete.hyps] by (auto simp: op_row_def mark_select op_follows_def)
next
  case (prune d older n st res st')
  have "orow_device_id r = device_id_str (opk_device_id key)"
    using prune.prems tbl_select_key by (fastforce simp: op_row_def orow_key_def operation_row_key_def)
  moreover have "device_id_str (opk_device_id key) \<noteq> device_id_str d"
    using prune.prems device_id.expand by blast
  moreover have "r \<in> set (db_operations (st_db st))" "tbl_wf orow_key (db_operations (st_db st))"
    using prune.prems by (auto simp: op_row_def store_wf_def db_wf_def tbl_select_Some_iff)
  ultimately show ?case
    using prune_cases [OF prune.hyps] prune.prems by (auto simp: op_row_def tbl_select_filter)
next
  case (restart uuid now st st')
  then show ?case
    using initialize_db [OF restart.hyps]
    by (auto simp: op_row_def recover_select recover_follows)
qed (auto simp: op_row_def dest!: operations_kept)

lemma store_wf_steps: "store_steps env st es st' \<Longrightarrow> store_wf st \<Longrightarrow> store_wf st'"
  by (induction rule: store_steps.induct) (auto dest: store_wf_step)

lemma op_row_steps:
  assumes "store_steps env st es st'" "store_wf st" "op_row st key = Some r"
    and "Ev_Prune (opk_device_id key) \<notin> set es"
  shows "\<exists>r'. op_row st' key = Some r' \<and> op_follows r r'"
  using assms
proof (induction arbitrary: r rule: store_steps.induct)
  case (cons st e st1 es st2)
  then have "e \<noteq> Ev_Prune (opk_device_id key)" by auto
  with cons obtain r1 where "op_row st1 key = Some r1" "op_follows r r1"
    using op_row_step by blast
  moreover have "store_wf st1" using cons store_wf_step by blast
  ultimately show ?case using cons op_follows_trans by fastforce
qed simp

lemma claim_of_recorded:
  assumes "op_row st key = Some r" "claim_operation env key request now st = (res, st')"
  shows "res \<noteq> Inr Claim_Execute"
proof
  assume "res = Inr Claim_Execute"
  then obtain encoded now' t where
    "tbl_insert orow_key (pending_row (operation_row_key key) (env_hash env encoded) now')
      (db_operations (st_db st)) = Some t"
    using claim_executes assms(2) by blast
  then show False using assms(1) by (simp add: op_row_def tbl_insert_def split: if_splits)
qed

lemma claim_records:
  assumes "claim_operation env key request now st = (Inr Claim_Execute, st')"
  shows "\<exists>r encoded. op_row st' key = Some r \<and> orow_status r = ''pending'' \<and>
    cbor_encode (env_ser_request env) database_codec request = Inr encoded \<and>
    orow_request_hash r = env_hash env encoded"
proof -
  obtain encoded now' t where
    "cbor_encode (env_ser_request env) database_codec request = Inr encoded"
    "tbl_insert orow_key (pending_row (operation_row_key key) (env_hash env encoded) now')
      (db_operations (st_db st)) = Some t"
    "st' = st\<lparr>st_db := (st_db st)\<lparr>db_operations := t\<rparr>\<rparr>"
    using claim_executes [OF assms] by blast
  then show ?thesis
    using operation_tbl.insert_select [of _ _ t "operation_row_key key"]
    by (simp add: op_row_def) (simp add: pending_row_def)
qed

text \<open>The claims of a history that were told to execute.\<close>

fun is_execution :: "operation_key \<Rightarrow> store_event \<Rightarrow> bool" where
  "is_execution key (Ev_Claim k request (Inr Claim_Execute)) \<longleftrightarrow> k = key"
| "is_execution key _ \<longleftrightarrow> False"

lemma no_execution_after:
  assumes "store_steps env st es st'" "store_wf st" "op_row st key = Some r"
    and "Ev_Prune (opk_device_id key) \<notin> set es"
  shows "filter (is_execution key) es = []"
  using assms
proof (induction arbitrary: r rule: store_steps.induct)
  case (cons st e st1 es st2)
  have "\<not> is_execution key e"
  proof
    assume "is_execution key e"
    then obtain request where "e = Ev_Claim key request (Inr Claim_Execute)"
      by (elim is_execution.elims) auto
    with cons(1) obtain now where "claim_operation env key request now st = (Inr Claim_Execute, st1)"
      by (auto elim: store_step.cases)
    with claim_of_recorded cons.prems show False by blast
  qed
  moreover obtain r1 where "op_row st1 key = Some r1"
    using op_row_step [OF cons(1)] cons.prems by auto
  moreover have "store_wf st1" using cons store_wf_step by blast
  ultimately show ?case using cons by simp
qed simp

subsection \<open>One pairing through a history\<close>

definition pair_row :: "store \<Rightarrow> pairing_id \<Rightarrow> pairing_row option" where
  "pair_row st p = tbl_select prow_pairing_id (pairing_id_str p) (db_pairings (st_db st))"

definition pair_consumed :: "store \<Rightarrow> pairing_id \<Rightarrow> bool" where
  "pair_consumed st p \<longleftrightarrow> (\<exists>r. pair_row st p = Some r \<and> prow_consumed_at_ms r \<noteq> None)"

lemma decode_pairing_simps:
  assumes "decode_pairing row = Inr (record, h)"
  shows "h = prow_secret_hash row" "pair_scopes record = prow_scopes row"
    "pair_expires_at_ms record = prow_expires_at_ms row"
    "pair_consumed_at_ms record = None \<longleftrightarrow> prow_consumed_at_ms row = None"
  using assms
  by (auto simp: decode_pairing_def map_transpose_def wire_u64_def split: option.splits if_splits)

lemma use_pairing_consumes:
  assumes "use_pairing env p secret now (st_db st) = Inr (record, db)"
  shows "\<not> pair_consumed st p" "pair_consumed (st\<lparr>st_db := db\<rparr>) p"
    "db_devices db = db_devices (st_db st)"
proof -
  obtain row raw now' where u: "tbl_select prow_pairing_id (pairing_id_str p) (db_pairings (st_db st)) = Some row"
    "decode_pairing row = Inr raw" "record = fst raw" "pair_consumed_at_ms record = None"
    "db = (st_db st)\<lparr>db_pairings := snd (mark_consumed p now' (db_pairings (st_db st)))\<rparr>"
    using use_pairing_tables [OF assms] by blast
  then have "prow_consumed_at_ms row = None"
    using decode_pairing_simps(4) [of row "record" "snd raw"] by simp
  with u show "\<not> pair_consumed st p" "pair_consumed (st\<lparr>st_db := db\<rparr>) p"
    "db_devices db = db_devices (st_db st)"
    by (auto simp: pair_consumed_def pair_row_def mark_select)
qed

lemma pairings_kept:
  "claim_operation env key request now st = (r1, st1) \<Longrightarrow>
     db_pairings (st_db st1) = db_pairings (st_db st)"
  "complete_operation env key outcome now st = (r2, st2) \<Longrightarrow>
     db_pairings (st_db st2) = db_pairings (st_db st)"
  "prune_operations d older n st = (r3, st3) \<Longrightarrow> db_pairings (st_db st3) = db_pairings (st_db st)"
  "insert_device env record token st = (r4, st4) \<Longrightarrow>
     db_pairings (st_db st4) = db_pairings (st_db st)"
  "authenticate_device env d token now st = (r5, st5) \<Longrightarrow>
     db_pairings (st_db st5) = db_pairings (st_db st)"
  "revoke_device d now st = (r6, st6) \<Longrightarrow> db_pairings (st_db st6) = db_pairings (st_db st)"
  "upsert_agent arecord st = (r7, st7) \<Longrightarrow> db_pairings (st_db st7) = db_pairings (st_db st)"
  "upsert_session srecord st = (r8, st8) \<Longrightarrow> db_pairings (st_db st8) = db_pairings (st_db st)"
  "Store_initialize uuid now (st_db st) = Inr st9 \<Longrightarrow>
     db_pairings (st_db st9) = db_pairings (st_db st)"
proof -
  show "claim_operation env key request now st = (r1, st1) \<Longrightarrow>
     db_pairings (st_db st1) = db_pairings (st_db st)"
    by (cases "r1 = Inr Claim_Execute") (auto dest!: claim_executes claim_keeps)
qed (auto dest!: complete_cases prune_cases insert_device_cases authenticate_cases revoke_cases
      initialize_db simp: upsert_agent_def upsert_session_def split: sum.splits if_splits)

lemma pair_consumed_step:
  assumes "store_step env st e st'" "pair_consumed st p"
  shows "pair_consumed st' p"
proof -
  show ?thesis
    using assms
  proof (induction rule: store_step.induct)
    case (create random uuid name scopes now ttl st r st')
    then show ?case
      using create_cases [OF create.hyps] tbl_insert_keeps
      by (fastforce simp: pair_consumed_def pair_row_def)
  next
    case (consume q secret now st r st')
    show ?case
      using consume_cases [OF consume.hyps] consume.prems
      by (auto simp: pair_consumed_def pair_row_def mark_select dest!: use_pairing_tables)
  next
    case (exchange random uuid q secret descriptor now st r st')
    show ?case
      using exchange_cases [OF exchange.hyps] exchange.prems
      by (auto simp: pair_consumed_def pair_row_def mark_select dest!: use_pairing_tables)
  qed (simp_all add: pair_consumed_def pair_row_def pairings_kept)
qed

text \<open>The successful uses of a pairing.\<close>

fun is_pairing_use :: "pairing_id \<Rightarrow> store_event \<Rightarrow> bool" where
  "is_pairing_use p (Ev_Consume q (Inr record)) \<longleftrightarrow> q = p"
| "is_pairing_use p (Ev_Exchange q (Inr cred)) \<longleftrightarrow> q = p"
| "is_pairing_use p _ \<longleftrightarrow> False"

lemma pairing_use_consumes:
  assumes "store_step env st e st'" "is_pairing_use p e"
  shows "\<not> pair_consumed st p" "pair_consumed st' p"
proof -
  have "\<not> pair_consumed st p \<and> pair_consumed st' p"
    using assms
  proof (induction rule: store_step.induct)
    case (consume q secret now st r st')
    then obtain rec db where "use_pairing env q secret now (st_db st) = Inr (rec, db)"
      "st' = st\<lparr>st_db := db\<rparr>" "q = p"
      using consume_cases [OF consume.hyps] by (cases r) auto
    then show ?case using use_pairing_consumes by blast
  next
    case (exchange random uuid q secret descriptor now st r st')
    then obtain rec db t where u: "use_pairing env q secret now (st_db st) = Inr (rec, db)"
      "st' = st\<lparr>st_db := db\<lparr>db_devices := t\<rparr>\<rparr>" "q = p"
      using exchange_cases [OF exchange.hyps] by (cases r) auto
    from use_pairing_consumes [OF u(1)] u(2,3) show ?case by (simp add: pair_consumed_def pair_row_def)
  qed simp_all
  then show "\<not> pair_consumed st p" "pair_consumed st' p" by blast+
qed

lemma no_use_after:
  assumes "store_steps env st es st'" "pair_consumed st p"
  shows "filter (is_pairing_use p) es = []"
  using assms
  by (induction rule: store_steps.induct) (auto dest: pairing_use_consumes pair_consumed_step)

subsection \<open>One device through a history\<close>

definition dev_row :: "store \<Rightarrow> device_id \<Rightarrow> device_row option" where
  "dev_row st d = tbl_select drow_device_id (device_id_str d) (db_devices (st_db st))"

text \<open>A device keeps its credential, its scopes and, once revoked, its revocation.\<close>

definition dev_follows :: "device_row \<Rightarrow> device_row \<Rightarrow> bool" where
  "dev_follows r r' \<longleftrightarrow> drow_device_id r' = drow_device_id r \<and>
     drow_token_hash r' = drow_token_hash r \<and> drow_scopes r' = drow_scopes r \<and>
     drow_platform r' = drow_platform r \<and> drow_created_at_ms r' = drow_created_at_ms r \<and>
     (drow_revoked_at_ms r \<noteq> None \<longrightarrow> drow_revoked_at_ms r' \<noteq> None)"

lemma dev_follows_refl [simp]: "dev_follows r r"
  by (simp add: dev_follows_def)

lemma dev_follows_trans: "dev_follows r r' \<Longrightarrow> dev_follows r' r'' \<Longrightarrow> dev_follows r r''"
  by (auto simp: dev_follows_def)

lemma dev_follows_marks [simp]:
  "dev_follows r (r\<lparr>drow_last_seen_at_ms := s\<rparr>)"
  "drow_revoked_at_ms r = None \<Longrightarrow> dev_follows r (r\<lparr>drow_revoked_at_ms := s\<rparr>)"
  by (simp_all add: dev_follows_def)

lemma devices_kept:
  "claim_operation env key request now st = (r1, st1) \<Longrightarrow>
     db_devices (st_db st1) = db_devices (st_db st)"
  "complete_operation env key outcome now st = (r2, st2) \<Longrightarrow>
     db_devices (st_db st2) = db_devices (st_db st)"
  "prune_operations d older n st = (r3, st3) \<Longrightarrow> db_devices (st_db st3) = db_devices (st_db st)"
  "create_pairing env random uuid name scopes now ttl st = (r4, st4) \<Longrightarrow>
     db_devices (st_db st4) = db_devices (st_db st)"
  "consume_pairing env p secret now st = (r5, st5) \<Longrightarrow>
     db_devices (st_db st5) = db_devices (st_db st)"
  "upsert_agent arecord st = (r7, st7) \<Longrightarrow> db_devices (st_db st7) = db_devices (st_db st)"
  "upsert_session srecord st = (r8, st8) \<Longrightarrow> db_devices (st_db st8) = db_devices (st_db st)"
  "Store_initialize uuid now (st_db st) = Inr st9 \<Longrightarrow>
     db_devices (st_db st9) = db_devices (st_db st)"
proof -
  show "claim_operation env key request now st = (r1, st1) \<Longrightarrow>
     db_devices (st_db st1) = db_devices (st_db st)"
    by (cases "r1 = Inr Claim_Execute") (auto dest!: claim_executes claim_keeps)
qed (auto dest!: complete_cases prune_cases create_cases consume_cases use_pairing_tables
      initialize_db simp: upsert_agent_def upsert_session_def split: sum.splits if_splits)

lemma device_id_str_inject: "device_id_str a = device_id_str b \<longleftrightarrow> a = b"
  by (cases a; cases b) simp

lemma dev_row_step:
  assumes "store_step env st e st'" "dev_row st d = Some r"
  shows "\<exists>r'. dev_row st' d = Some r' \<and> dev_follows r r' \<and>
    ((\<forall>b. e \<noteq> Ev_Revoke d (Inr b)) \<longrightarrow> drow_revoked_at_ms r' = drow_revoked_at_ms r)"
  using assms
proof (induction rule: store_step.induct)
  case (exchange random uuid p secret descriptor now st res st')
  show ?case
    using exchange_cases [OF exchange.hyps]
  proof (elim disjE exE conjE)
    fix rec db cred t name
    assume u: "use_pairing env p secret now (st_db st) = Inr (rec, db)"
      "tbl_insert drow_device_id (credential_row env cred name descriptor now) (db_devices db) = Some t"
      "st' = st\<lparr>st_db := db\<lparr>db_devices := t\<rparr>\<rparr>"
    have "tbl_select drow_device_id (device_id_str d) (db_devices db) = Some r"
      using exchange.prems use_pairing_consumes(3) [OF u(1)] by (simp add: dev_row_def)
    from tbl_insert_keeps [OF u(2) this] show ?thesis by (simp add: dev_row_def u(3))
  next
    assume "st' = st"
    then show ?thesis using exchange.prems by simp
  qed
next
  case (insert drec token st res st')
  show ?case
    using insert_device_cases [OF insert.hyps]
  proof (elim disjE exE conjE)
    fix row t
    assume u: "tbl_insert drow_device_id row (db_devices (st_db st)) = Some t"
      "st' = st\<lparr>st_db := (st_db st)\<lparr>db_devices := t\<rparr>\<rparr>"
    have "tbl_select drow_device_id (device_id_str d) (db_devices (st_db st)) = Some r"
      using insert.prems by (simp add: dev_row_def)
    from tbl_insert_keeps [OF u(1) this] show ?thesis by (simp add: dev_row_def u(2))
  next
    assume "st' = st"
    then show ?thesis using insert.prems by simp
  qed
next
  case (authenticate d' token now st res st')
  show ?case
    using authenticate_cases [OF authenticate.hyps] authenticate.prems
    by (auto simp: dev_row_def mark_select)
next
  case (revoke d' now st res st')
  show ?case
    using revoke_cases [OF revoke.hyps] revoke.prems
    by (auto simp: dev_row_def mark_select device_id_str_inject)
qed (auto simp: dev_row_def dest!: devices_kept)

lemma dev_row_steps:
  assumes "store_steps env st es st'" "dev_row st d = Some r"
  shows "\<exists>r'. dev_row st' d = Some r' \<and> dev_follows r r' \<and>
    ((\<forall>b. Ev_Revoke d (Inr b) \<notin> set es) \<longrightarrow> drow_revoked_at_ms r' = drow_revoked_at_ms r)"
  using assms
proof (induction arbitrary: r rule: store_steps.induct)
  case (cons st e st1 es st2)
  obtain r1 where 1: "dev_row st1 d = Some r1" "dev_follows r r1"
    "(\<forall>b. e \<noteq> Ev_Revoke d (Inr b)) \<longrightarrow> drow_revoked_at_ms r1 = drow_revoked_at_ms r"
    using dev_row_step [OF cons(1) cons.prems] by blast
  obtain r2 where 2: "dev_row st2 d = Some r2" "dev_follows r1 r2"
    "(\<forall>b. Ev_Revoke d (Inr b) \<notin> set es) \<longrightarrow> drow_revoked_at_ms r2 = drow_revoked_at_ms r1"
    using cons.IH [OF 1(1)] by blast
  have "dev_follows r r2" using 1(2) 2(2) by (rule dev_follows_trans)
  then show ?case using 1(3) 2(1,3) by auto
qed simp

text \<open>What authentication answers for a row that is there.\<close>

lemma authenticate_row:
  assumes "dev_row st d = Some row" "drow_token_hash row = env_hash env (expose_device_token token)"
  shows "drow_revoked_at_ms row \<noteq> None \<Longrightarrow>
      authenticate_device env d token now st = (Inl DevAuth_Revoked, st)"
    and "drow_revoked_at_ms row = None \<Longrightarrow> unat now < 2 ^ 63 \<Longrightarrow> device_id_str d \<noteq> [] \<Longrightarrow>
      decode_platform (drow_platform row) = Inr p \<Longrightarrow> 0 \<le> sint (drow_created_at_ms row) \<Longrightarrow>
      \<exists>rec. fst (authenticate_device env d token now st) = Inr rec \<and> dev_device_id rec = d \<and>
        dev_scopes rec = drow_scopes row \<and> dev_last_seen_at_ms rec = Some now"
proof -
  show "drow_revoked_at_ms row \<noteq> None \<Longrightarrow>
      authenticate_device env d token now st = (Inl DevAuth_Revoked, st)"
    using assms by (simp add: authenticate_device_def dev_row_def)
next
  assume a: "drow_revoked_at_ms row = None" "unat now < 2 ^ 63" "device_id_str d \<noteq> []"
    "decode_platform (drow_platform row) = Inr p" "0 \<le> sint (drow_created_at_ms row)"
  have key: "drow_device_id row = device_id_str d"
    using assms(1) by (auto simp: dev_row_def dest: tbl_select_key)
  have "0 \<le> sint now"
    using a(2) by (simp add: sint_nonneg_iff)
  then show "\<exists>rec. fst (authenticate_device env d token now st) = Inr rec \<and> dev_device_id rec = d \<and>
        dev_scopes rec = drow_scopes row \<and> dev_last_seen_at_ms rec = Some now"
    using assms a mark_select(4) [of "device_id_str d" d now "db_devices (st_db st)"]
    by (simp add: authenticate_device_def dev_row_def sql_u64_def Let_def load_device_def
        mark_seen_def decode_device_def corrupt_def identifier_new_defs key wire_u64_def)
qed

end
