(* ===== verification/Store_Properties.thy ===== *)
theory Store_Properties
  imports Store_Invariants
begin

section \<open>Properties of the store\<close>

text \<open>
  What the rest of the daemon relies on: an operation is executed once and its outcome replayed,
  a pairing is used once, a credential works until it is revoked, and records survive a
  restart.
\<close>

subsection \<open>A concrete store\<close>

text \<open>
  The libraries of the concrete instances: the identity as hash and encoder, and a codec that
  writes and reads one outcome.
\<close>

definition example_outcome :: response_outcome where
  "example_outcome = Outcome_Success Resp_Accepted"

definition example_env :: store_env where
  "example_env = \<lparr>env_hash = (\<lambda>s. s), env_base64 = (\<lambda>s. s),
     env_ser_request = (\<lambda>r. ([if is_mutating r then ''m'' else ''q''], None)),
     env_ser_outcome = (\<lambda>v. ([''o''], None)),
     env_de_outcome = (\<lambda>bytes. Inr (example_outcome, 1))\<rparr>"

definition example_device :: device_row where
  "example_device = \<lparr>drow_device_id = ''d'', drow_name = ''phone'', drow_platform = ''mobile'',
     drow_scopes = DeviceScopes_all, drow_token_hash = ''t'', drow_created_at_ms = 1,
     drow_last_seen_at_ms = None, drow_revoked_at_ms = None\<rparr>"

definition example_pairing :: pairing_row where
  "example_pairing = \<lparr>prow_pairing_id = ''p'', prow_requested_name = [],
     prow_scopes = DeviceScopes_all, prow_secret_hash = ''s'', prow_created_at_ms = 1,
     prow_expires_at_ms = 100, prow_consumed_at_ms = None\<rparr>"

definition example_store :: store where
  "example_store = \<lparr>st_db = empty_database\<lparr>db_devices := [example_device],
     db_pairings := [example_pairing]\<rparr>, st_server_id = ServerId ''server''\<rparr>"

definition example_key :: operation_key where
  "example_key = \<lparr>opk_device_id = DeviceId ''d'', opk_operation_id = OperationId ''op''\<rparr>"

definition example_request :: control_request where
  "example_request = Req_Abort (AgentId ''a'')"

definition example_claimed :: store where
  "example_claimed = example_store\<lparr>st_db := (st_db example_store)
     \<lparr>db_operations := [pending_row (''d'', ''op'') ''m'' 5]\<rparr>\<rparr>"

lemma example_store_wf: "store_wf example_store"
  by (simp add: store_wf_def db_wf_def example_store_def empty_database_def tbl_wf_def)

lemma example_claim:
  "claim_operation example_env example_key example_request 5 example_store =
     (Inr Claim_Execute, example_claimed)"
  by (simp add: claim_operation_def example_env_def example_key_def example_request_def
      example_store_def example_claimed_def cbor_encode_result database_codec_def is_mutating_def
      sql_u64_def tbl_insert_def tbl_select_def empty_database_def operation_row_key_def
      example_device_def Let_def)

subsection \<open>Operations\<close>

lemma execution_records:
  assumes "store_step env st e st'" "is_execution key e"
  shows "\<exists>r. op_row st' key = Some r"
proof -
  obtain request where "e = Ev_Claim key request (Inr Claim_Execute)"
    using assms(2) by (elim is_execution.elims) auto
  with assms(1) obtain now where "claim_operation env key request now st = (Inr Claim_Execute, st')"
    by (auto elim: store_step.cases)
  then show ?thesis using claim_records by blast
qed

lemma executions_at_most_one:
  assumes "store_steps env st es st'" "store_wf st" "Ev_Prune (opk_device_id key) \<notin> set es"
  shows "length (filter (is_execution key) es) \<le> 1"
  using assms
proof (induction rule: store_steps.induct)
  case (cons st e st1 es st2)
  have wf: "store_wf st1" using cons store_wf_step by blast
  show ?case
  proof (cases "is_execution key e")
    case True
    then obtain r where "op_row st1 key = Some r" using execution_records cons(1) by blast
    then have "filter (is_execution key) es = []"
      using no_execution_after cons wf by auto
    then show ?thesis by simp
  qed (use cons wf in simp)
qed simp

lemma completed_row:
  assumes "complete_operation env key outcome now st = (Inr (), st')" "store_wf st"
  shows "\<exists>r bytes. op_row st' key = Some r \<and> orow_status r = ''completed'' \<and>
    orow_outcome_cbor r = Some bytes \<and>
    cbor_encode (env_ser_outcome env) database_codec outcome = Inr bytes \<and>
    (\<forall>r0. op_row st key = Some r0 \<longrightarrow> orow_request_hash r = orow_request_hash r0)"
proof -
  have wf: "tbl_wf orow_key (db_operations (st_db st))"
    using assms(2) by (simp add: store_wf_def db_wf_def)
  obtain bytes now' where c: "cbor_encode (env_ser_outcome env) database_codec outcome = Inr bytes"
    "fst (mark_completed key bytes now' (db_operations (st_db st))) = 1"
    "st' = st\<lparr>st_db := (st_db st)\<lparr>db_operations :=
       snd (mark_completed key bytes now' (db_operations (st_db st)))\<rparr>\<rparr>"
    using complete_cases [OF assms(1)] by auto
  then obtain r0 where "tbl_select orow_key (operation_row_key key) (db_operations (st_db st)) = Some r0"
    "orow_status r0 = ''pending''"
    using operation_tbl.update_one_iff [OF wf, THEN iffD1, OF c(2) [unfolded mark_completed_def]]
    by (elim exE conjE)
  then show ?thesis using c(1) by (simp add: op_row_def c(3) mark_select)
qed

lemma claim_answer:
  assumes "op_row st key = Some r" "cbor_encode (env_ser_request env) database_codec request = Inr encoded"
    and "unat now < 2 ^ 63"
  shows "claim_operation env key request now st =
    (claim_existing env (operation_row_key key) (env_hash env encoded) (db_operations (st_db st)), st)"
proof -
  have "tbl_insert orow_key (pending_row (operation_row_key key) (env_hash env encoded) now)
      (db_operations (st_db st)) = None"
    using assms(1) by (simp add: tbl_insert_def op_row_def)
  then show ?thesis using assms(2,3) by (simp add: claim_operation_def sql_u64_def Let_def)
qed

text \<open>
  After an operation was claimed and completed, a later claim of it, however much the store went
  through since, returns exactly the recorded outcome.
\<close>

lemma completed_claim:
  assumes "store_wf st0"
    and "claim_operation env key request t0 st0 = (Inr Claim_Execute, st1)"
    and "store_steps env st1 es1 st2" "Ev_Prune (opk_device_id key) \<notin> set es1"
    and "complete_operation env key outcome t1 st2 = (Inr (), st3)"
    and "store_steps env st3 es2 st4" "Ev_Prune (opk_device_id key) \<notin> set es2"
    and "cbor_reads_back (env_ser_outcome env) (env_de_outcome env) outcome" "unat t2 < 2 ^ 63"
  shows "claim_operation env key request t2 st4 = (Inr (Claim_Completed outcome), st4) \<and>
    (\<forall>other a b. cbor_encode (env_ser_request env) database_codec request = Inr a \<longrightarrow>
       cbor_encode (env_ser_request env) database_codec other = Inr b \<longrightarrow>
       env_hash env a \<noteq> env_hash env b \<longrightarrow>
       claim_operation env key other t2 st4 = (Inl Operation_ConflictingRequest, st4))"
proof -
  obtain r1 encoded where r1: "op_row st1 key = Some r1"
    "cbor_encode (env_ser_request env) database_codec request = Inr encoded"
    "orow_request_hash r1 = env_hash env encoded"
    using claim_records [OF assms(2)] by blast
  have wf1: "store_wf st1" by (rule claim_wf [OF assms(2,1)])
  obtain r2 where r2: "op_row st2 key = Some r2" "op_follows r1 r2"
    using op_row_steps [OF assms(3) wf1 r1(1) assms(4)] by blast
  have wf2: "store_wf st2" by (rule store_wf_steps [OF assms(3) wf1])
  obtain r3 bytes where r3: "op_row st3 key = Some r3" "orow_status r3 = ''completed''"
    "orow_outcome_cbor r3 = Some bytes"
    "cbor_encode (env_ser_outcome env) database_codec outcome = Inr bytes"
    "orow_request_hash r3 = env_hash env encoded"
    using completed_row [OF assms(5) wf2] r2 r1(3) by (auto simp: op_follows_def)
  have "store_wf st3" by (rule store_wf_step [OF store_step.complete [OF assms(5)] wf2])
  then have r4: "op_row st4 key = Some r3"
    using op_row_steps [OF assms(6) _ r3(1) assms(7)] r3(2) by (auto simp: op_follows_def)
  have "claim_existing env (operation_row_key key) h (db_operations (st_db st4)) =
      (if h = env_hash env encoded then Inr (Claim_Completed outcome)
       else Inl Operation_ConflictingRequest)" for h
    using r4 r3 cbor_roundtrip [OF assms(8) r3(4)] by (simp add: claim_existing_def op_row_def)
  then show ?thesis
    using claim_answer [OF r4 r1(2) assms(9)] claim_answer [OF r4 _ assms(9)] r1(2) by auto
qed

text \<open>An operation whose outcome was not recorded stays pending or becomes indeterminate.\<close>

definition unfinished :: "store \<Rightarrow> operation_key \<Rightarrow> string \<Rightarrow> bool" where
  "unfinished st key h \<longleftrightarrow> (\<exists>r. op_row st key = Some r \<and> orow_request_hash r = h \<and>
     orow_status r \<in> {''pending'', ''indeterminate''})"

lemma operation_row_key_inject: "operation_row_key a = operation_row_key b \<longleftrightarrow> a = b"
proof
  assume "operation_row_key a = operation_row_key b"
  then have "opk_device_id a = opk_device_id b" "opk_operation_id a = opk_operation_id b"
    by (auto simp: operation_row_key_def device_id_str_inject intro: operation_id.expand)
  then show "a = b" by (cases a; cases b) simp
qed simp

lemma unfinished_step:
  assumes "store_step env st e st'" "store_wf st" "unfinished st key h"
    and "e \<noteq> Ev_Prune (opk_device_id key)" "\<forall>outcome. e \<noteq> Ev_Complete key outcome (Inr ())"
  shows "unfinished st' key h"
proof -
  obtain r where r: "op_row st key = Some r" "orow_request_hash r = h"
    "orow_status r \<in> {''pending'', ''indeterminate''}"
    using assms(3) by (auto simp: unfinished_def)
  obtain r' where r': "op_row st' key = Some r'" "op_follows r r'"
    using op_row_step [OF assms(1,2) r(1) assms(4)] by blast
  have "orow_status r' \<in> {''pending'', ''indeterminate''}"
    using assms(1)
  proof cases
    case (claim k request now res)
    then have "res = Inr Claim_Execute \<or> st' = st" using claim_keeps by blast
    moreover have "res = Inr Claim_Execute \<Longrightarrow> r' = r"
    proof -
      assume "res = Inr Claim_Execute"
      then obtain row t where "tbl_insert orow_key row (db_operations (st_db st)) = Some t"
        "st' = st\<lparr>st_db := (st_db st)\<lparr>db_operations := t\<rparr>\<rparr>"
        using claim claim_executes by blast
      then show "r' = r"
        using r(1) r'(1) tbl_insert_keeps [of orow_key row "db_operations (st_db st)" t]
        by (simp add: op_row_def)
    qed
    ultimately show ?thesis using r r'(1) by auto
  next
    case (complete k outcome now res)
    from complete_cases [OF complete(2)] show ?thesis
    proof (elim disjE exE conjE)
      assume "st' = st"
      then show ?thesis using r r'(1) by simp
    next
      fix bytes now'
      assume m: "res = Inr () \<longleftrightarrow> fst (mark_completed k bytes now' (db_operations (st_db st))) = 1"
        "st' = st\<lparr>st_db := (st_db st)\<lparr>db_operations :=
          snd (mark_completed k bytes now' (db_operations (st_db st)))\<rparr>\<rparr>"
      have wf: "tbl_wf orow_key (db_operations (st_db st))"
        using assms(2) by (simp add: store_wf_def db_wf_def)
      show ?thesis
      proof (cases "k = key \<and> orow_status r = ''pending''")
        case True
        then have "res = Inr ()"
          using m(1) r(1) operation_tbl.update_one_iff [OF wf]
          by (simp add: mark_completed_def op_row_def)
        then show ?thesis using assms(5) complete(1) True by simp
      next
        case False
        then have "r' = r"
          using r(1) r'(1) by (auto simp: op_row_def m(2) mark_select operation_row_key_inject)
        then show ?thesis using r by simp
      qed
    qed
  next
    case (prune d older n res)
    then show ?thesis
      using r r' prune_cases [OF prune(2)] assms(2)
      by (auto simp: op_row_def store_wf_def db_wf_def tbl_select_Some_iff tbl_wf_filter)
        (metis tbl_select_Some_iff option.inject)+
  next
    case (restart uuid now)
    then show ?thesis
      using r r'(1) initialize_db [OF restart(2)]
      by (auto simp: op_row_def recover_select recover_operation_def)
  qed (use r r'(1) in \<open>auto simp: op_row_def dest!: operations_kept\<close>)
  then show ?thesis using r'(1,2) r(2) by (auto simp: unfinished_def op_follows_def)
qed

lemma unfinished_steps:
  assumes "store_steps env st es st'" "store_wf st" "unfinished st key h"
    and "Ev_Prune (opk_device_id key) \<notin> set es"
    and "\<forall>outcome. Ev_Complete key outcome (Inr ()) \<notin> set es"
  shows "unfinished st' key h"
  using assms
proof (induction rule: store_steps.induct)
  case (cons st e st1 es st2)
  then have "unfinished st1 key h" by (intro unfinished_step [OF cons(1)]) auto
  then show ?case using cons store_wf_step by auto
qed

text \<open>
  C39: an operation that was interrupted is never executed again and never silently finished.
  If its outcome was not recorded before the daemon restarted, then from the restart on every
  claim of it answers that the outcome is unknown, and its late outcome can no longer be
  recorded.
\<close>

theorem interrupted_operation_is_indeterminate:
  assumes "store_wf st0"
    and "claim_operation env key request t0 st0 = (Inr Claim_Execute, st1)"
    and "store_steps env st1 es1 st2"
    and "Ev_Prune (opk_device_id key) \<notin> set es1"
    and "\<forall>outcome. Ev_Complete key outcome (Inr ()) \<notin> set es1"
    and "Store_initialize uuid t1 (st_db st2) = Inr st3"
    and "store_steps env st3 es2 st4" "Ev_Prune (opk_device_id key) \<notin> set es2"
    and "unat t2 < 2 ^ 63"
  shows "claim_operation env key request t2 st4 = (Inr Claim_Indeterminate, st4) \<and>
    fst (complete_operation env key outcome t3 st4) \<noteq> Inr ()"
proof -
  obtain r1 encoded where r1: "op_row st1 key = Some r1" "orow_status r1 = ''pending''"
    "cbor_encode (env_ser_request env) database_codec request = Inr encoded"
    "orow_request_hash r1 = env_hash env encoded"
    using claim_records [OF assms(2)] by blast
  have wf1: "store_wf st1" by (rule claim_wf [OF assms(2,1)])
  have wf2: "store_wf st2" by (rule store_wf_steps [OF assms(3) wf1])
  have wf3: "store_wf st3" by (rule store_wf_step [OF store_step.restart [OF assms(6)] wf2])
  have wf4: "store_wf st4" by (rule store_wf_steps [OF assms(7) wf3])
  have "unfinished st1 key (env_hash env encoded)"
    using r1 by (simp add: unfinished_def)
  then have "unfinished st2 key (env_hash env encoded)"
    by (rule unfinished_steps [OF assms(3) wf1 _ assms(4,5)])
  then obtain r2 where r2: "op_row st2 key = Some r2" "orow_request_hash r2 = env_hash env encoded"
    "orow_status r2 \<in> {''pending'', ''indeterminate''}"
    by (auto simp: unfinished_def)
  have r3: "op_row st3 key = Some (recover_operation r2)"
    "orow_status (recover_operation r2) = ''indeterminate''"
    using initialize_db [OF assms(6)] r2(1,3)
    by (auto simp: op_row_def recover_select) (auto simp: recover_operation_def)
  then have r4: "op_row st4 key = Some (recover_operation r2)"
    using op_row_steps [OF assms(7) wf3 r3(1) assms(8)] by (auto simp: op_follows_def)
  have "fst (complete_operation env key outcome t3 st4) \<noteq> Inr ()"
  proof
    assume "fst (complete_operation env key outcome t3 st4) = Inr ()"
    then obtain st5 where "complete_operation env key outcome t3 st4 = (Inr (), st5)"
      by (metis prod.collapse)
    from complete_cases [OF this] obtain bytes now' where
      "fst (mark_completed key bytes now' (db_operations (st_db st4))) = 1" by auto
    moreover have "tbl_wf orow_key (db_operations (st_db st4))"
      using wf4 by (simp add: store_wf_def db_wf_def)
    ultimately show False
      using r4 r3(2) operation_tbl.update_one_iff by (simp add: mark_completed_def op_row_def)
  qed
  then show ?thesis
    using claim_answer [OF r4 r1(3) assms(9)] r4 r3(2) r2(2)
    by (simp add: claim_existing_def op_row_def)
qed

lemma example_restart:
  "\<exists>st'. Store_initialize ''u'' 6 (st_db example_claimed) = Inr st'"
  by (simp add: Store_initialize_def migrate_def recover_interrupted_def sql_u64_def
      load_or_create_server_id_def tbl_select_def tbl_insert_def example_claimed_def
      example_store_def empty_database_def)

lemma interrupted_operation_is_indeterminate_witness:
  "\<exists>st'. Store_initialize ''u'' 6 (st_db example_claimed) = Inr st' \<and>
     claim_operation example_env example_key example_request 9 st' = (Inr Claim_Indeterminate, st')"
proof -
  obtain st' where i: "Store_initialize ''u'' 6 (st_db example_claimed) = Inr st'"
    using example_restart by blast
  from interrupted_operation_is_indeterminate [OF example_store_wf example_claim store_steps.none
      _ _ i store_steps.none, of 9] i
  show ?thesis by simp
qed

subsection \<open>Pairing and credentials\<close>


lemma example_consume:
  "\<exists>r st'. consume_pairing example_env (PairingId ''p'') (PairingSecret ''s'') 50 example_store =
     (Inr r, st')"
  by (simp add: consume_pairing_def use_pairing_def example_store_def example_env_def
      example_pairing_def tbl_select_def tbl_update_def decode_pairing_def corrupt_def
      identifier_new_defs wire_u64_def sql_u64_def Let_def word_less_nat_alt word_le_nat_alt)


text \<open>
  What exchanging a pairing takes and gives. It succeeds only with the secret whose hash was
  stored, before the expiry, on an unused pairing; the credential is for this server and a new
  device with exactly the scopes the pairing grants. A failed exchange changes nothing, so
  neither the pairing nor a device row is left half done.\<close>

theorem exchange_pairing_spec:
  "case exchange_pairing env random uuid p secret descriptor now st of
     (Inl e, st') \<Rightarrow> st' = st
   | (Inr cred, st') \<Rightarrow> (\<exists>row drow. pair_row st p = Some row \<and>
       prow_secret_hash row = env_hash env (expose_pairing_secret secret) \<and>
       prow_consumed_at_ms row = None \<and> now < prow_expires_at_ms row \<and> pair_consumed st' p \<and>
       cred_server_id cred = st_server_id st \<and> cred_device_id cred = DeviceId uuid \<and>
       cred_scopes cred = prow_scopes row \<and>
       dev_row st (DeviceId uuid) = None \<and> dev_row st' (DeviceId uuid) = Some drow \<and>
       drow_token_hash drow = env_hash env (expose_device_token (cred_token cred)) \<and>
       drow_scopes drow = cred_scopes cred \<and> drow_revoked_at_ms drow = None)"
proof (cases "fst (exchange_pairing env random uuid p secret descriptor now st)")
  case (Inl e)
  then show ?thesis
    using exchange_cases [of env random uuid p secret descriptor now st "Inl e"]
    by (cases "exchange_pairing env random uuid p secret descriptor now st") auto
next
  case (Inr cred)
  then obtain st' where x: "exchange_pairing env random uuid p secret descriptor now st = (Inr cred, st')"
    by (metis prod.collapse)
  from exchange_cases [OF x] obtain rec db t name where
    u: "use_pairing env p secret now (st_db st) = Inr (rec, db)"
    "cred_device_id cred = DeviceId uuid" "cred_scopes cred = pair_scopes rec"
    "tbl_insert drow_device_id (credential_row env cred name descriptor now) (db_devices db) = Some t"
    "st' = st\<lparr>st_db := db\<lparr>db_devices := t\<rparr>\<rparr>" by auto
  have server: "cred_server_id cred = st_server_id st"
    using x by (auto simp: exchange_pairing_def Let_def split: sum.splits prod.splits option.splits)
  obtain row raw where r: "pair_row st p = Some row" "decode_pairing row = Inr raw" "rec = fst raw"
    "snd raw = env_hash env (expose_pairing_secret secret)" "pair_consumed_at_ms rec = None"
    "now < pair_expires_at_ms rec"
    using use_pairing_tables [OF u(1)] by (auto simp: pair_row_def)
  then have d: "decode_pairing row = Inr (rec, snd raw)" by (simp add: prod_eq_iff)
  note dec = decode_pairing_simps [OF d]
  have key: "drow_device_id (credential_row env cred name descriptor now) = uuid"
    by (simp add: credential_row_def u(2))
  have "dev_row st (DeviceId uuid) = None"
    using u(4) use_pairing_consumes(3) [OF u(1)] key
    by (simp add: dev_row_def tbl_insert_def split: if_splits)
  moreover have "dev_row st' (DeviceId uuid) = Some (credential_row env cred name descriptor now)"
    using device_tbl.insert_select [OF u(4)] key by (simp add: dev_row_def u(5))
  moreover have "pair_consumed st' p"
    using use_pairing_consumes(2) [OF u(1)] by (simp add: pair_consumed_def pair_row_def u(5))
  ultimately show ?thesis
    using x r u(2,3) dec server by (auto simp: credential_row_def)
qed

lemma platform_roundtrip: "decode_platform (encode_platform p) = Inr p"
  by (cases p) (simp_all add: decode_platform_def)

text \<open>
  C38: a credential works until it is revoked. The credential a pairing was exchanged for
  authenticates its device, with exactly the scopes it was issued with, through any history of
  the store in which the device is not revoked.
\<close>

theorem credential_works_until_revoked:
  assumes "exchange_pairing env random uuid p secret descriptor now st = (Inr cred, st1)"
    and "store_steps env st1 es st2" "\<forall>b. Ev_Revoke (DeviceId uuid) (Inr b) \<notin> set es"
    and "uuid \<noteq> []" "unat now' < 2 ^ 63"
  shows "\<exists>rec. fst (authenticate_device env (cred_device_id cred) (cred_token cred) now' st2) = Inr rec \<and>
    dev_device_id rec = cred_device_id cred \<and> dev_scopes rec = cred_scopes cred \<and>
    dev_last_seen_at_ms rec = Some now'"
proof -
  obtain rec db t name where u: "cred_device_id cred = DeviceId uuid" "unat now < 2 ^ 63"
    "tbl_insert drow_device_id (credential_row env cred name descriptor now) (db_devices db) = Some t"
    "st1 = st\<lparr>st_db := db\<lparr>db_devices := t\<rparr>\<rparr>"
    using exchange_cases [OF assms(1)] by auto
  have "dev_row st1 (DeviceId uuid) = Some (credential_row env cred name descriptor now)"
    using device_tbl.insert_select [OF u(3)] by (simp add: dev_row_def u(1,4) credential_row_def)
  then obtain row where row: "dev_row st2 (DeviceId uuid) = Some row"
    "dev_follows (credential_row env cred name descriptor now) row" "drow_revoked_at_ms row = None"
    using dev_row_steps [OF assms(2)] assms(3) by (fastforce simp: credential_row_def)
  then show ?thesis
    using authenticate_row(2) [OF row(1) _ row(3) assms(5), of env "cred_token cred"
        "desc_platform descriptor"] assms(4) u(1,2)
    by (simp add: dev_follows_def credential_row_def platform_roundtrip sint_nonneg_iff)
qed

definition example_descriptor :: device_descriptor where
  "example_descriptor = \<lparr>desc_name = ''tablet'', desc_platform = Platform_Mobile\<rparr>"

lemma example_exchange:
  "\<exists>cred st'. exchange_pairing example_env (Inr ''token'') ''new'' (PairingId ''p'') (PairingSecret ''s'')
     example_descriptor 50 example_store = (Inr cred, st')"
  by (simp add: exchange_pairing_def use_pairing_def example_store_def example_env_def
      example_pairing_def example_device_def tbl_select_def tbl_update_def tbl_insert_def
      decode_pairing_def corrupt_def identifier_new_defs wire_u64_def sql_u64_def Let_def
      word_less_nat_alt word_le_nat_alt)

lemma credential_works_until_revoked_witness:
  "\<exists>cred st' rec. exchange_pairing example_env (Inr ''token'') ''new'' (PairingId ''p'')
     (PairingSecret ''s'') example_descriptor 50 example_store = (Inr cred, st') \<and>
   fst (authenticate_device example_env (cred_device_id cred) (cred_token cred) 60 st') = Inr rec"
proof -
  obtain cred st' where x: "exchange_pairing example_env (Inr ''token'') ''new'' (PairingId ''p'')
     (PairingSecret ''s'') example_descriptor 50 example_store = (Inr cred, st')"
    using example_exchange by blast
  from credential_works_until_revoked [OF x store_steps.none, of 60] x show ?thesis by auto
qed

text \<open>
  C37: a revoked device is locked out. After a revocation that took effect no token
  authenticates the device, whatever happens to the store afterwards.
\<close>

theorem revoked_device_is_locked_out:
  assumes "revoke_device d now st = (Inr True, st1)" "store_steps env st1 es st2"
  shows "fst (authenticate_device env d token now' st2) \<in>
    {Inl DevAuth_Revoked, Inl DevAuth_InvalidCredential}"
proof -
  obtain now'' where m: "fst (mark_revoked d now'' (db_devices (st_db st))) = 1"
    "st1 = st\<lparr>st_db := (st_db st)\<lparr>db_devices := snd (mark_revoked d now'' (db_devices (st_db st)))\<rparr>\<rparr>"
    using revoke_cases [OF assms(1)] by auto
  then have "filter (\<lambda>r. drow_device_id r = device_id_str d \<and> drow_revoked_at_ms r = None)
      (db_devices (st_db st)) \<noteq> []"
    by (auto simp: mark_revoked_def tbl_update_def simp del: filter_empty_conv)
  then obtain r where "r \<in> set (db_devices (st_db st))" "drow_device_id r = device_id_str d"
    by (auto simp: filter_empty_conv)
  then obtain r0 where "tbl_select drow_device_id (device_id_str d) (db_devices (st_db st)) = Some r0"
    by (metis image_eqI not_None_eq tbl_select_None_iff)
  then obtain r1 where "dev_row st1 d = Some r1" "drow_revoked_at_ms r1 \<noteq> None"
    by (auto simp: dev_row_def m(2) mark_select)
  then obtain r2 where "dev_row st2 d = Some r2" "drow_revoked_at_ms r2 \<noteq> None"
    using dev_row_steps [OF assms(2)] by (fastforce simp: dev_follows_def)
  then show ?thesis by (auto simp: authenticate_device_def dev_row_def)
qed

lemma revoked_device_is_locked_out_witness:
  "fst (authenticate_device example_env (DeviceId ''d'') (DeviceToken ''t'') 70
     (snd (revoke_device (DeviceId ''d'') 60 example_store))) \<in>
   {Inl DevAuth_Revoked, Inl DevAuth_InvalidCredential}"
proof -
  have "revoke_device (DeviceId ''d'') 60 example_store =
      (Inr True, snd (revoke_device (DeviceId ''d'') 60 example_store))"
    by (simp add: revoke_device_def sql_u64_def example_store_def example_device_def
        tbl_update_def Let_def)
  from revoked_device_is_locked_out [OF this store_steps.none] show ?thesis .
qed

subsection \<open>Agents\<close>

lemma lifecycle_roundtrip:
  "decode_lifecycle (fst (encode_lifecycle l)) (snd (encode_lifecycle l)) = Inr l"
  by (cases l) (simp_all add: decode_lifecycle_def)

lemma sql_u64_Inr: "sql_u64 v field = Inr w \<longleftrightarrow> w = v \<and> 0 \<le> sint v"
  by (auto simp: sql_u64_def sint_nonneg_iff)

lemma process_id_roundtrip:
  "0 \<le> sint (ucast v :: i64) \<and> sint (ucast v :: i64) < 2 ^ 32 \<and> ucast (ucast v :: i64) = v"
  for v :: u32
proof -
  have lt: "0 \<le> uint v" "uint v < 2 ^ 32" using unsigned_less [of v] by simp_all
  then have u: "uint (ucast v :: i64) = uint v"
    by (simp add: unsigned_ucast_eq take_bit_int_eq_self)
  then have "sint (ucast v :: i64) = uint v"
    using lt by (simp add: sint_uint)
      (rule signed_take_bit_int_eq_self; simp add: order.trans [OF _ lt(1)])
  moreover have "uint (ucast (ucast v :: i64) :: u32) = uint v"
    using lt u by (simp add: unsigned_ucast_eq take_bit_int_eq_self unsigned_take_bit_eq)
  ultimately show ?thesis using lt by (simp add: word_uint_eq_iff)
qed

text \<open>What a stored agent reads back as: the record with the time of creation of its row.\<close>

lemma decode_encoded_agent:
  assumes "encode_agent rec = Inr row" "agent_id_str (agr_agent_id rec) \<noteq> []"
    and "agr_active_run_id rec \<noteq> Some (RunId [])" "0 \<le> sint created"
  shows "decode_agent (row\<lparr>agt_created_at_ms := created\<rparr>) = Inr (rec\<lparr>agr_created_at_ms := created\<rparr>)"
proof -
  have row: "row = \<lparr>agt_agent_id = agent_id_str (agr_agent_id rec),
      agt_lifecycle = fst (encode_lifecycle (agr_lifecycle rec)),
      agt_failure_reason = snd (encode_lifecycle (agr_lifecycle rec)),
      agt_process_id = map_option ucast (agr_process_id rec),
      agt_active_run_id = map_option run_id_str (agr_active_run_id rec),
      agt_created_at_ms = agr_created_at_ms rec, agt_updated_at_ms = agr_updated_at_ms rec\<rparr>"
    "0 \<le> sint (agr_updated_at_ms rec)"
    using assms(1) by (auto simp: encode_agent_def sql_u64_Inr)
  have pid: "map_transpose (\<lambda>v. if 0 \<le> sint v \<and> sint v < 2 ^ 32 then Inr (ucast v)
      else Inl (Store_CorruptData ''invalid process ID'')) (map_option (ucast :: u32 \<Rightarrow> i64) p) = Inr p" for p
    using process_id_roundtrip by (cases p) simp_all
  have run: "map_transpose (\<lambda>v. corrupt (RunId_new v)) (map_option run_id_str r) = Inr r"
    if "r \<noteq> Some (RunId [])" for r
    using that by (cases r; cases "the r") (auto simp: corrupt_def identifier_new_defs)
  show ?thesis
    using assms(2,4) row(2) pid run [OF assms(3)]
    by (simp add: row(1) decode_agent_def corrupt_def identifier_new_defs lifecycle_roundtrip wire_u64_def)
qed

lemma agent_id_str_inject: "agent_id_str a = agent_id_str b \<longleftrightarrow> a = b"
  by (cases a; cases b) simp

text \<open>
  Agent records round trip. After a record was stored it reads back exactly, lifecycle with
  its failure reason, process and run included, except that an existing row keeps its time of
  creation; every other agent reads back as before.\<close>

theorem agent_record_roundtrip:
  assumes "upsert_agent rec st = (Inr (), st')" "store_agent (agr_agent_id rec) st = Inr prior"
    and "agent_id_str (agr_agent_id rec) \<noteq> []" "agr_active_run_id rec \<noteq> Some (RunId [])"
  shows "store_agent b st' =
    (if b = agr_agent_id rec
     then Inr (Some (rec\<lparr>agr_created_at_ms :=
       (case prior of None \<Rightarrow> agr_created_at_ms rec | Some old \<Rightarrow> agr_created_at_ms old)\<rparr>))
     else store_agent b st)"
proof -
  obtain row where row: "encode_agent rec = Inr row" "st' = st\<lparr>st_db := (st_db st)\<lparr>db_agents :=
      tbl_upsert agt_agent_id merge_agent row (db_agents (st_db st))\<rparr>\<rparr>"
    using assms(1) by (auto simp: upsert_agent_def split: sum.splits)
  have key: "agt_agent_id row = agent_id_str (agr_agent_id rec)"
    and created: "agt_created_at_ms row = agr_created_at_ms rec" "0 \<le> sint (agr_created_at_ms rec)"
    using row(1) by (auto simp: encode_agent_def sql_u64_Inr)
  have sel: "tbl_select agt_agent_id k (db_agents (st_db st')) =
      (if k = agt_agent_id row then (case tbl_select agt_agent_id k (db_agents (st_db st)) of
         None \<Rightarrow> Some row | Some old \<Rightarrow> Some (merge_agent old row))
       else tbl_select agt_agent_id k (db_agents (st_db st)))" for k
    by (simp add: row(2) tbl_upsert_select merge_agent_def)
  show ?thesis
  proof (cases "b = agr_agent_id rec")
    case False
    then show ?thesis by (simp add: store_agent_def sel key agent_id_str_inject)
  next
    case b: True
    show ?thesis
    proof (cases "tbl_select agt_agent_id (agt_agent_id row) (db_agents (st_db st))")
      case None
      then have "prior = None" using assms(2) by (simp add: store_agent_def key)
      moreover have "row\<lparr>agt_created_at_ms := agr_created_at_ms rec\<rparr> = row"
        using created(1) by (cases row) simp
      moreover have "rec\<lparr>agr_created_at_ms := agr_created_at_ms rec\<rparr> = rec" by simp
      ultimately show ?thesis
        using None b decode_encoded_agent [OF row(1) assms(3,4) created(2)]
        by (simp add: store_agent_def sel key)
    next
      case (Some old)
      then obtain orec where o: "prior = Some orec" "decode_agent old = Inr orec"
        using assms(2) by (auto simp: store_agent_def key map_transpose_def)
      then have c: "agr_created_at_ms orec = agt_created_at_ms old" "0 \<le> sint (agt_created_at_ms old)"
        by (auto simp: decode_agent_def wire_u64_def split: if_splits)
      have "agt_agent_id old = agt_agent_id row" using Some by (rule tbl_select_key)
      then have "merge_agent old row = row\<lparr>agt_created_at_ms := agt_created_at_ms old\<rparr>"
        by (simp add: merge_agent_def)
      then show ?thesis
        using Some b o(1) c decode_encoded_agent [OF row(1) assms(3,4) c(2)]
        by (simp add: store_agent_def sel key)
    qed
  qed
qed

definition example_agent :: agent_record where
  "example_agent = \<lparr>agr_agent_id = AgentId ''a'', agr_lifecycle = Lifecycle_Failed_because ''crash'',
     agr_process_id = Some 77, agr_active_run_id = Some (RunId ''r''), agr_created_at_ms = 3,
     agr_updated_at_ms = 4\<rparr>"

lemma agent_record_roundtrip_witness:
  "store_agent (AgentId ''a'') (snd (upsert_agent example_agent example_store)) =
     Inr (Some example_agent)"
proof -
  have "upsert_agent example_agent example_store =
      (Inr (), snd (upsert_agent example_agent example_store))"
    by (simp add: upsert_agent_def encode_agent_def example_agent_def sql_u64_def)
  moreover have "store_agent (agr_agent_id example_agent) example_store = Inr None"
    by (simp add: store_agent_def example_store_def empty_database_def tbl_select_def)
  ultimately show ?thesis
    using agent_record_roundtrip [of example_agent example_store _ None "AgentId ''a''"]
    by (simp add: example_agent_def)
qed

subsection \<open>Restarts and pruning\<close>

lemma restart_identity:
  assumes "Store_initialize uuid now db = Inr st"
    "tbl_select fst ''server_id'' (db_metadata db) = Some (''server_id'', v)"
  shows "server_id_str (st_server_id st) = v"
proof -
  obtain db1 db2 s db3 where 1: "migrate db = Inr db1" "recover_interrupted now db1 = Inr db2"
    "load_or_create_server_id uuid db2 = Inr (s, db3)" "st = \<lparr>st_db = db3, st_server_id = s\<rparr>"
    using assms(1) by (auto simp: Store_initialize_def)
  have "db_metadata db1 = db_metadata db" using migrate_keeps [OF 1(1)] by auto
  moreover have "db_metadata db2 = db_metadata db1" using 1(2) by (auto simp: recover_interrupted_def)
  ultimately show ?thesis
    using 1(3,4) assms(2)
    by (auto simp: load_or_create_server_id_def corrupt_def identifier_new_defs split: if_splits)
qed

text \<open>The identity of a store is what its metadata table holds, and no method writes that table.\<close>

definition identified :: "store \<Rightarrow> bool" where
  "identified st \<longleftrightarrow> tbl_select fst ''server_id'' (db_metadata (st_db st)) =
     Some (''server_id'', server_id_str (st_server_id st))"

lemma initialize_identified: "Store_initialize uuid now db = Inr st \<Longrightarrow> identified st"
  using initialize_db [of uuid now db st] by (auto simp: identified_def)

lemma metadata_kept:
  "claim_operation env key request now st = (r1, st1) \<Longrightarrow>
     db_metadata (st_db st1) = db_metadata (st_db st) \<and> st_server_id st1 = st_server_id st"
  "complete_operation env key outcome now st = (r2, st2) \<Longrightarrow>
     db_metadata (st_db st2) = db_metadata (st_db st) \<and> st_server_id st2 = st_server_id st"
  "prune_operations d older n st = (r3, st3) \<Longrightarrow>
     db_metadata (st_db st3) = db_metadata (st_db st) \<and> st_server_id st3 = st_server_id st"
  "create_pairing env random uuid name scopes now ttl st = (r4, st4) \<Longrightarrow>
     db_metadata (st_db st4) = db_metadata (st_db st) \<and> st_server_id st4 = st_server_id st"
  "consume_pairing env p secret now st = (r5, st5) \<Longrightarrow>
     db_metadata (st_db st5) = db_metadata (st_db st) \<and> st_server_id st5 = st_server_id st"
  "exchange_pairing env random uuid p secret descriptor now st = (r6, st6) \<Longrightarrow>
     db_metadata (st_db st6) = db_metadata (st_db st) \<and> st_server_id st6 = st_server_id st"
  "insert_device env drec token st = (r7, st7) \<Longrightarrow>
     db_metadata (st_db st7) = db_metadata (st_db st) \<and> st_server_id st7 = st_server_id st"
  "authenticate_device env d token now st = (r8, st8) \<Longrightarrow>
     db_metadata (st_db st8) = db_metadata (st_db st) \<and> st_server_id st8 = st_server_id st"
  "revoke_device d now st = (r9, st9) \<Longrightarrow>
     db_metadata (st_db st9) = db_metadata (st_db st) \<and> st_server_id st9 = st_server_id st"
  "upsert_agent arecord st = (r10, st10) \<Longrightarrow>
     db_metadata (st_db st10) = db_metadata (st_db st) \<and> st_server_id st10 = st_server_id st"
  "upsert_session srecord st = (r11, st11) \<Longrightarrow>
     db_metadata (st_db st11) = db_metadata (st_db st) \<and> st_server_id st11 = st_server_id st"
proof -
  show "claim_operation env key request now st = (r1, st1) \<Longrightarrow>
     db_metadata (st_db st1) = db_metadata (st_db st) \<and> st_server_id st1 = st_server_id st"
    by (cases "r1 = Inr Claim_Execute") (auto dest!: claim_executes claim_keeps)
qed (auto dest!: complete_cases prune_cases create_cases consume_cases exchange_cases
      use_pairing_tables insert_device_cases authenticate_cases revoke_cases
      simp: upsert_agent_def upsert_session_def split: sum.splits if_splits)

lemma identity_step:
  "store_step env st e st' \<Longrightarrow> identified st \<Longrightarrow> identified st' \<and> st_server_id st' = st_server_id st"
proof (induction rule: store_step.induct)
  case (restart uuid now st st')
  have "server_id_str (st_server_id st') = server_id_str (st_server_id st)"
    using restart_identity [OF restart.hyps] restart.prems by (simp add: identified_def)
  then show ?case
    using initialize_identified [OF restart.hyps] by (simp add: server_id.expand)
qed (auto simp: identified_def dest!: metadata_kept)

text \<open>
  The daemon keeps its identity. Once a store has been opened, its server identifier is the
  same through every later step and every restart.\<close>

theorem server_identity_is_stable:
  assumes "Store_initialize uuid now db = Inr st" "store_steps env st es st'"
  shows "st_server_id st' = st_server_id st"
proof -
  have "identified st \<Longrightarrow> st_server_id st' = st_server_id st"
    using assms(2) by (induction rule: store_steps.induct) (auto dest: identity_step)
  then show ?thesis using initialize_identified [OF assms(1)] .
qed

lemma server_identity_is_stable_witness:
  "\<exists>st st'. Store_initialize ''one'' 6 (st_db example_claimed) = Inr st \<and>
     Store_initialize ''two'' 7 (st_db st) = Inr st' \<and> st_server_id st' = st_server_id st"
proof -
  define st where "st = projr (Store_initialize ''one'' 6 (st_db example_claimed))"
  have st: "Store_initialize ''one'' 6 (st_db example_claimed) = Inr st"
    "\<exists>st'. Store_initialize ''two'' 7 (st_db st) = Inr st'"
    by (simp_all add: st_def Store_initialize_def migrate_def recover_interrupted_def sql_u64_def
        load_or_create_server_id_def tbl_select_def tbl_insert_def example_claimed_def
        example_store_def empty_database_def corrupt_def identifier_new_defs)
  then obtain st' where "Store_initialize ''two'' 7 (st_db st) = Inr st'" by blast
  from server_identity_is_stable [OF st(1) store_steps.cons [OF store_step.restart [OF this]
      store_steps.none]] this st(1)
  show ?thesis by blast
qed

text \<open>
  Opening the store recovers from a crash. Afterwards no agent is recorded as starting,
  running or stopping, none of those keeps a process or a run, and no operation is pending;
  agents in any other state and finished operations are as they were.\<close>

theorem restart_recovers:
  assumes "Store_initialize uuid now db = Inr st"
  shows "agt_lifecycle ` set (db_agents (st_db st)) \<inter> {''starting'', ''running'', ''stopping''} = {} \<and>
    ''pending'' \<notin> orow_status ` set (db_operations (st_db st)) \<and>
    filter (\<lambda>r. agt_lifecycle r \<notin> {''starting'', ''running'', ''stopping''}) (db_agents db) =
      map snd (filter (\<lambda>(old, new). agt_lifecycle old \<notin> {''starting'', ''running'', ''stopping''})
        (zip (db_agents db) (db_agents (st_db st)))) \<and>
    map orow_key (db_operations (st_db st)) = map orow_key (db_operations db)"
proof -
  obtain now' v t where "st_db st = db\<lparr>db_user_version := v, db_metadata := t,
      db_agents := map (recover_agent now') (db_agents db),
      db_operations := map recover_operation (db_operations db)\<rparr>"
    using initialize_db [OF assms] by blast
  then have a: "db_agents (st_db st) = map (recover_agent now') (db_agents db)"
    and o: "db_operations (st_db st) = map recover_operation (db_operations db)"
    by simp_all
  have "filter (\<lambda>r. agt_lifecycle r \<notin> {''starting'', ''running'', ''stopping''}) rows =
      map snd (filter (\<lambda>(old, new). agt_lifecycle old \<notin> {''starting'', ''running'', ''stopping''})
        (zip rows (map (recover_agent now') rows)))" for rows
    by (induction rows) (auto simp: recover_agent_def)
  then show ?thesis
    by (auto simp: a o recover_agent_def recover_operation_def orow_key_def)
qed

lemma restart_recovers_witness:
  "\<exists>st. Store_initialize ''u'' 6 (st_db example_claimed) = Inr st \<and>
     ''pending'' \<notin> orow_status ` set (db_operations (st_db st))"
proof -
  obtain st where "Store_initialize ''u'' 6 (st_db example_claimed) = Inr st"
    using example_restart by blast
  with restart_recovers [OF this] show ?thesis by blast
qed

lemma newest_first_props:
  "set (newest_first rows) = set rows" "length (newest_first rows) = length rows"
  "sorted_wrt (\<lambda>a b. sint (orow_created_at_ms b) \<le> sint (orow_created_at_ms a)) (newest_first rows)"
proof -
  have "sorted (map (\<lambda>r. sint (orow_created_at_ms r))
      (sort_key (\<lambda>r. sint (orow_created_at_ms r)) (sort_key orow_operation_id rows)))"
    by simp
  then show "sorted_wrt (\<lambda>a b. sint (orow_created_at_ms b) \<le> sint (orow_created_at_ms a))
      (newest_first rows)"
    by (simp add: newest_first_def sorted_wrt_rev sorted_wrt_map)
qed (simp_all add: newest_first_def)

definition operations_of :: "device_id \<Rightarrow> store \<Rightarrow> operation_row list" where
  "operations_of d st = filter (\<lambda>r. orow_device_id r = device_id_str d) (db_operations (st_db st))"

lemma prune_result:
  assumes "prune_operations d older n st = (Inr k, st')"
  defines "kept \<equiv> filter (\<lambda>r. \<not> (orow_device_id r = device_id_str d \<and>
      sint (orow_created_at_ms r) < sint older)) (db_operations (st_db st))"
  defines "mine \<equiv> filter (\<lambda>r. orow_device_id r = device_id_str d) kept"
  shows "db_operations (st_db st') =
      filter (\<lambda>r. orow_key r \<notin> orow_key ` set (drop n (newest_first mine))) kept \<and>
    k = length (db_operations (st_db st)) - length (db_operations (st_db st'))"
proof -
  let ?rows = "db_operations (st_db st)"
  let ?old = "\<lambda>r. orow_device_id r = device_id_str d \<and> sint (orow_created_at_ms r) < sint older"
  define final where "final = filter (\<lambda>r. orow_key r \<notin> orow_key ` set (drop n (newest_first mine))) kept"
  have eq: "sql_u64 older ''operation prune cutoff'' = Inr older" "n < 2 ^ 63"
    using assms(1) by (auto simp: prune_operations_def Let_def sql_u64_def split: if_splits)
  have shape: "st\<lparr>st_db := (st_db st)\<lparr>db_operations := a\<rparr>,
        st_db := (st_db (st\<lparr>st_db := (st_db st)\<lparr>db_operations := a\<rparr>\<rparr>))\<lparr>db_operations := b\<rparr>\<rparr> =
      st\<lparr>st_db := (st_db st)\<lparr>db_operations := b\<rparr>\<rparr>" for a b
    by simp
  have "prune_operations d older n st =
      (Inr (length (filter ?old ?rows) + (length kept - length final)),
       st\<lparr>st_db := (st_db st)\<lparr>db_operations := final\<rparr>\<rparr>)"
    unfolding prune_operations_def eq(1) final_def mine_def kept_def
    by (simp only: sum.case if_not_P [OF eq(2) [folded linorder_not_le]] Let_def shape set_map)
  then have res: "k = length (filter ?old ?rows) + (length kept - length final)"
    "db_operations (st_db st') = final"
    using assms(1) by (auto simp del: filter_filter)
  have "length final \<le> length kept" by (simp add: final_def)
  moreover have "length (filter ?old ?rows) + length kept = length ?rows"
    unfolding kept_def by (rule sum_length_filter_compl)
  ultimately have "k = length ?rows - length final" using res(1) by linarith
  then show ?thesis using res(2) by (simp add: final_def)
qed

text \<open>
  Pruning keeps the newest operations of a device. Afterwards the device has at most the
  given number of operations, none older than the cutoff, and none that was dropped without
  being too old is newer than one that was kept; operations of other devices stay, and the
  number returned is the number of rows removed.\<close>

theorem prune_keeps_newest:
  assumes "prune_operations d older n st = (Inr k, st')" "store_wf st"
  shows "length (operations_of d st') \<le> n \<and>
    list_all (\<lambda>r. sint older \<le> sint (orow_created_at_ms r)) (operations_of d st') \<and>
    (\<forall>q \<in> set (operations_of d st) - set (operations_of d st'). \<forall>r \<in> set (operations_of d st').
       sint (orow_created_at_ms q) < sint older \<or>
       sint (orow_created_at_ms q) \<le> sint (orow_created_at_ms r)) \<and>
    filter (\<lambda>r. orow_device_id r \<noteq> device_id_str d) (db_operations (st_db st')) =
      filter (\<lambda>r. orow_device_id r \<noteq> device_id_str d) (db_operations (st_db st)) \<and>
    k = length (db_operations (st_db st)) - length (db_operations (st_db st'))"
proof -
  let ?rows = "db_operations (st_db st)"
  let ?me = "\<lambda>r. orow_device_id r = device_id_str d"
  let ?old = "\<lambda>r. sint (orow_created_at_ms r) < sint older"
  define kept where "kept = filter (\<lambda>r. \<not> (?me r \<and> ?old r)) ?rows"
  define L where "L = newest_first (filter ?me kept)"
  note result = prune_result [OF assms(1), folded kept_def, folded L_def]
  have final: "db_operations (st_db st') = filter (\<lambda>r. orow_key r \<notin> orow_key ` set (drop n L)) kept"
    using result by blast
  have setL: "set L = set (filter ?me kept)" by (simp add: L_def newest_first_props)
  have dist: "distinct ?rows"
    using assms(2) by (simp add: store_wf_def db_wf_def tbl_wf_def distinct_map)
  have sub: "set (operations_of d st') \<subseteq> set (take n L)"
  proof
    fix r assume "r \<in> set (operations_of d st')"
    then have "r \<in> set L" "r \<notin> set (drop n L)"
      by (auto simp: operations_of_def final setL)
    then show "r \<in> set (take n L)" by (metis Un_iff append_take_drop_id set_append)
  qed
  have "distinct (operations_of d st')"
    using dist by (simp add: operations_of_def final kept_def)
  then have "length (operations_of d st') = card (set (operations_of d st'))"
    by (simp add: distinct_card)
  also have "\<dots> \<le> card (set (take n L))" by (rule card_mono [OF _ sub]) simp
  also have "\<dots> \<le> n" using card_length [of "take n L"] by simp
  finally have bound: "length (operations_of d st') \<le> n" .
  have newest: "?old q \<or> sint (orow_created_at_ms q) \<le> sint (orow_created_at_ms r)"
    if "q \<in> set (operations_of d st) - set (operations_of d st')" "r \<in> set (operations_of d st')" for q r
  proof (cases "?old q")
    case False
    then have "q \<in> set kept" "?me q" using that(1) by (auto simp: operations_of_def kept_def)
    then have "orow_key q \<in> orow_key ` set (drop n L)"
      using that(1) by (auto simp: operations_of_def final)
    then obtain x where x: "x \<in> set (drop n L)" "orow_key x = orow_key q" by auto
    then have "x \<in> set ?rows" "q \<in> set ?rows"
      using setL \<open>q \<in> set kept\<close> by (auto simp: kept_def dest: in_set_dropD)
    then have "x = q"
      using x(2) assms(2) by (auto simp: store_wf_def db_wf_def tbl_wf_def distinct_map inj_on_def)
    moreover have "sorted_wrt (\<lambda>a b. sint (orow_created_at_ms b) \<le> sint (orow_created_at_ms a))
        (take n L @ drop n L)"
      by (simp add: L_def newest_first_props)
    ultimately show ?thesis
      using x(1) sub that(2) unfolding sorted_wrt_append by blast
  qed simp
  have "orow_key r \<notin> orow_key ` set (drop n L)" if "\<not> ?me r" for r
  proof
    assume "orow_key r \<in> orow_key ` set (drop n L)"
    then obtain x where x: "x \<in> set (drop n L)" "orow_key r = orow_key x" by blast
    then have "?me x" using setL in_set_dropD [OF x(1)] by simp
    with x(2) that show False by (simp add: orow_key_def)
  qed
  then have others: "filter (\<lambda>r. \<not> ?me r) (db_operations (st_db st')) = filter (\<lambda>r. \<not> ?me r) ?rows"
    by (auto simp: final kept_def intro!: filter_cong)
  have "sint older \<le> sint (orow_created_at_ms r)" if "r \<in> set (operations_of d st')" for r
  proof -
    have "r \<in> set kept" "?me r" using that by (simp_all add: operations_of_def final)
    then show ?thesis by (simp add: kept_def)
  qed
  then have "list_all (\<lambda>r. sint older \<le> sint (orow_created_at_ms r)) (operations_of d st')"
    by (simp add: list_all_iff)
  then show ?thesis using bound newest others result by blast
qed

lemma prune_keeps_newest_witness:
  "\<exists>st'. prune_operations (DeviceId ''d'') 0 0 example_claimed = (Inr 1, st') \<and>
     length (operations_of (DeviceId ''d'') st') \<le> 0"
proof -
  have r: "prune_operations (DeviceId ''d'') 0 0 example_claimed =
      (Inr 1, snd (prune_operations (DeviceId ''d'') 0 0 example_claimed))"
    by (simp add: prune_operations_def sql_u64_def example_claimed_def example_store_def
        empty_database_def pending_row_def operation_row_key_def newest_first_def orow_key_def
        example_key_def Let_def image_def)
  have "store_wf example_claimed"
    by (simp add: store_wf_def db_wf_def example_claimed_def example_store_def empty_database_def
        tbl_wf_def)
  from prune_keeps_newest [OF r this] r show ?thesis by blast
qed

end
