(* ===== verification/Rpc_Decoder.thy ===== *)
theory Rpc_Decoder
  imports Rpc_Frames
begin

section \<open>Reassembling RPC frames\<close>

text \<open>
  The decoder of \<open>crates/omp-rpc/src/frame.rs\<close> and the two transport frames it handles, with
  their checked constructors and their deserialisation (\<open>crates/omp-rpc/src/types.rs\<close>).
  \<open>NonZeroU64\<close> is a \<open>u64\<close>; that it is not zero is part of \<open>chunk_ok\<close>. JSON and Base64 are third-party:
  the record \<open>json_env\<close> holds the parser of a line and the two Base64 functions.
\<close>

subsection \<open>UTF-8\<close>

text \<open>\<open>String::from_utf8\<close> and \<open>chars().count()\<close> of the standard library, on bytes.\<close>

definition byte_of :: "char \<Rightarrow> nat" where
  "byte_of c = of_char c"

definition utf8_cont :: "char \<Rightarrow> bool" where
  "utf8_cont c \<longleftrightarrow> 0x80 \<le> byte_of c \<and> byte_of c < 0xC0"

fun utf8_valid :: "string \<Rightarrow> bool" where
  "utf8_valid [] = True"
| "utf8_valid (a # s) =
     (let n = byte_of a
      in if n < 0x80 then utf8_valid s
         else case s of
           [] \<Rightarrow> False
         | b # s \<Rightarrow>
             (let m = byte_of b
              in if 0xC2 \<le> n \<and> n < 0xE0 then utf8_cont b \<and> utf8_valid s
                 else case s of
                   [] \<Rightarrow> False
                 | c # s \<Rightarrow>
                     (if 0xE0 \<le> n \<and> n < 0xF0
                      then utf8_cont b \<and> utf8_cont c \<and> (n = 0xE0 \<longrightarrow> 0xA0 \<le> m)
                             \<and> (n = 0xED \<longrightarrow> m < 0xA0) \<and> utf8_valid s
                      else case s of
                        [] \<Rightarrow> False
                      | d # s \<Rightarrow>
                          0xF0 \<le> n \<and> n < 0xF5 \<and> utf8_cont b \<and> utf8_cont c \<and> utf8_cont d
                            \<and> (n = 0xF0 \<longrightarrow> 0x90 \<le> m) \<and> (n = 0xF4 \<longrightarrow> m < 0x90)
                            \<and> utf8_valid s)))"

definition chars_count :: "string \<Rightarrow> nat" where
  "chars_count s = length (filter (\<lambda>c. \<not> utf8_cont c) s)"

subsection \<open>The transport frames\<close>

definition DEFAULT_MAX_FRAME_BYTES :: u64 where
  "DEFAULT_MAX_FRAME_BYTES = 1048576"

definition DEFAULT_MAX_REASSEMBLED_FRAME_BYTES :: u64 where
  "DEFAULT_MAX_REASSEMBLED_FRAME_BYTES = 67108864"

datatype ready_frame_error = ReassemblyLimitBelowFrameLimit

definition show_ready_frame_error :: "ready_frame_error \<Rightarrow> string" where
  "show_ready_frame_error e = ''RPC reassembly limit is smaller than the frame limit''"

definition ReadyFrame_new :: "u64 \<Rightarrow> u64 \<Rightarrow> ready_frame_error + ready_frame" where
  "ReadyFrame_new max_frame max_reassembled =
     (if max_reassembled < max_frame then Inl ReassemblyLimitBelowFrameLimit
      else Inr \<lparr>ready_max_frame_bytes = max_frame,
                ready_max_reassembled_frame_bytes = max_reassembled,
                ready_advertises_capabilities = True\<rparr>)"

definition ReadyFrame_legacy :: ready_frame where
  "ReadyFrame_legacy = \<lparr>ready_max_frame_bytes = DEFAULT_MAX_FRAME_BYTES,
     ready_max_reassembled_frame_bytes = DEFAULT_MAX_REASSEMBLED_FRAME_BYTES,
     ready_advertises_capabilities = False\<rparr>"

definition ReadyFrame_default :: ready_frame where
  "ReadyFrame_default = ReadyFrame_legacy\<lparr>ready_advertises_capabilities := True\<rparr>"

record ready_frame_wire =
  rw_protocol_version :: "rpc_protocol_version option"
  rw_supported_protocol_versions :: "(rpc_protocol_version \<times> rpc_protocol_version) option"
  rw_max_frame_bytes :: "u64 option"
  rw_max_reassembled_frame_bytes :: "u64 option"

text \<open>\<open>Serialize\<close> and \<open>Deserialize\<close> of \<open>ReadyFrame\<close>, on the fields of the object.\<close>

definition ready_to_wire :: "ready_frame \<Rightarrow> ready_frame_wire" where
  "ready_to_wire r =
     (let advertised = (\<lambda>x. if ready_advertises_capabilities r then Some x else None)
      in \<lparr>rw_protocol_version =
            (if ready_advertises_capabilities r then Some RpcV1 else None),
          rw_supported_protocol_versions =
            (if ready_advertises_capabilities r then Some (RpcV1, RpcV2) else None),
          rw_max_frame_bytes = advertised (ready_max_frame_bytes r),
          rw_max_reassembled_frame_bytes = advertised (ready_max_reassembled_frame_bytes r)\<rparr>)"

definition ready_of_wire :: "ready_frame_wire \<Rightarrow> string + ready_frame" where
  "ready_of_wire w =
     (case (rw_protocol_version w, rw_supported_protocol_versions w, rw_max_frame_bytes w,
            rw_max_reassembled_frame_bytes w) of
        (None, None, None, None) \<Rightarrow> Inr ReadyFrame_legacy
      | (Some RpcV1, Some (RpcV1, RpcV2), Some max_frame, Some max_reassembled) \<Rightarrow>
          map_err show_ready_frame_error (ReadyFrame_new max_frame max_reassembled)
      | (Some RpcV2, _) \<Rightarrow> Inl ''ready frame protocolVersion must be 1''
      | (_, Some supported, _) \<Rightarrow>
          (if supported \<noteq> (RpcV1, RpcV2)
           then Inl ''ready frame supportedProtocolVersions must be [1, 2]''
           else Inl ''ready frame capabilities must be either complete or absent'')
      | _ \<Rightarrow> Inl ''ready frame capabilities must be either complete or absent'')"

definition MAX_CHUNK_ID_CHARS :: nat where "MAX_CHUNK_ID_CHARS = 128"
definition MAX_CHUNK_COUNT :: u64 where "MAX_CHUNK_COUNT = 256"
definition MIN_BYTE_LENGTH :: u64 where "MIN_BYTE_LENGTH = DEFAULT_MAX_FRAME_BYTES"
definition MAX_BYTE_LENGTH :: u64 where "MAX_BYTE_LENGTH = DEFAULT_MAX_REASSEMBLED_FRAME_BYTES"
definition MAX_PAYLOAD_BYTES :: nat where "MAX_PAYLOAD_BYTES = 262144"

datatype chunk_frame_error =
    Chunk_EmptyChunkId | Chunk_ChunkIdTooLong | Chunk_InvalidCount | Chunk_IndexOutOfBounds
  | Chunk_InvalidByteLength | Chunk_EmptyData | Chunk_InvalidData | Chunk_PayloadTooLarge

fun show_chunk_frame_error :: "chunk_frame_error \<Rightarrow> string" where
  "show_chunk_frame_error Chunk_EmptyChunkId = ''RPC chunk ID cannot be empty''"
| "show_chunk_frame_error Chunk_ChunkIdTooLong = ''RPC chunk ID exceeds 128 characters''"
| "show_chunk_frame_error Chunk_InvalidCount = ''RPC chunk count must be between 2 and 256''"
| "show_chunk_frame_error Chunk_IndexOutOfBounds = ''RPC chunk index must be below count''"
| "show_chunk_frame_error Chunk_InvalidByteLength =
     ''RPC chunk byte length must be between 1 MiB and 64 MiB''"
| "show_chunk_frame_error Chunk_EmptyData = ''RPC chunk data cannot be empty''"
| "show_chunk_frame_error Chunk_InvalidData = ''RPC chunk data must be canonical base64''"
| "show_chunk_frame_error Chunk_PayloadTooLarge = ''RPC chunk payload exceeds 256 KiB''"

text \<open>What a line can parse to, before the transport frames are checked.\<close>

datatype (plugins only: code) wire_message =
    Wire_Ready ready_frame_wire
  | Wire_Chunk chunk_frame
  | Wire_Message server_message

record json_env =
  je_parse :: "string \<Rightarrow> string + wire_message"
  je_b64_decode :: "string \<Rightarrow> string option"
  je_b64_encode :: "string \<Rightarrow> string"

definition ChunkFrame_new ::
  "json_env \<Rightarrow> string \<Rightarrow> u32 \<Rightarrow> u64 \<Rightarrow> u64 \<Rightarrow> string \<Rightarrow> chunk_frame_error + chunk_frame" where
  "ChunkFrame_new env cid index count byte_length data =
     (if count < 2 \<or> MAX_CHUNK_COUNT < count then Inl Chunk_InvalidCount
      else if count \<le> ucast index then Inl Chunk_IndexOutOfBounds
      else if cid = [] then Inl Chunk_EmptyChunkId
      else if MAX_CHUNK_ID_CHARS < chars_count cid then Inl Chunk_ChunkIdTooLong
      else if \<not> (MIN_BYTE_LENGTH \<le> byte_length \<and> byte_length \<le> MAX_BYTE_LENGTH)
      then Inl Chunk_InvalidByteLength
      else if data = [] then Inl Chunk_EmptyData
      else rbind (ok_or (je_b64_decode env data) Chunk_InvalidData) (\<lambda>decoded.
        if MAX_PAYLOAD_BYTES < length decoded then Inl Chunk_PayloadTooLarge
        else if je_b64_encode env decoded \<noteq> data then Inl Chunk_InvalidData
        else Inr \<lparr>chunk_id = cid, chunk_index = index, chunk_count = count,
                  chunk_byte_length = byte_length, chunk_data = data\<rparr>))"

text \<open>\<open>None\<close> would be the panic of the \<open>expect\<close>.\<close>

definition append_decoded_data :: "json_env \<Rightarrow> chunk_frame \<Rightarrow> string \<Rightarrow> string option" where
  "append_decoded_data env c output = map_option (\<lambda>d. output @ d) (je_b64_decode env (chunk_data c))"

definition chunk_of_wire :: "json_env \<Rightarrow> chunk_frame \<Rightarrow> string + chunk_frame" where
  "chunk_of_wire env w = map_err show_chunk_frame_error
     (ChunkFrame_new env (chunk_id w) (chunk_index w) (chunk_count w) (chunk_byte_length w)
       (chunk_data w))"

text \<open>
  \<open>ServerMessage::from_json_line\<close>. The enum is untagged, and no other variant accepts the tags
  of the transport frames, so a transport frame that is refused is a JSON error.
\<close>

definition from_json_line :: "json_env \<Rightarrow> string \<Rightarrow> string + server_message" where
  "from_json_line env line = rbind (je_parse env line) (\<lambda>w.
     case w of
       Wire_Ready r \<Rightarrow>
         rbind (ready_of_wire r) (\<lambda>r. Inr (ServerMessage_Transport (Transport_Ready r)))
     | Wire_Chunk c \<Rightarrow>
         rbind (chunk_of_wire env c) (\<lambda>c. Inr (ServerMessage_Transport (Transport_RpcChunk c)))
     | Wire_Message m \<Rightarrow>
         (case m of ServerMessage_Transport t \<Rightarrow> Inl ''data did not match any variant''
          | _ \<Rightarrow> Inr m))"

subsection \<open>The decoder\<close>

record pending_chunks =
  pend_chunk_id :: string
  pend_count :: u64
  pend_byte_length :: u64
  pend_next_index :: u32
  pend_data :: string

record rpc_frame_decoder =
  dec_pending :: "pending_chunks option"
  dec_max_reassembled :: u64

datatype rpc_frame_decode_error =
    Decode_SequenceInterrupted | Decode_SequenceMustStartAtZero | Decode_SequenceMismatch
  | Decode_SequenceExceedsDeclaredLength | Decode_SequenceLengthMismatch
  | Decode_DeclaredLengthExceedsLimit | Decode_InvalidUtf8 | Decode_InvalidJson string
  | Decode_NestedChunkFrame

fun show_decode_error :: "rpc_frame_decode_error \<Rightarrow> string" where
  "show_decode_error Decode_SequenceInterrupted = ''RPC chunk sequence was interrupted''"
| "show_decode_error Decode_SequenceMustStartAtZero = ''RPC chunk sequence must start at index zero''"
| "show_decode_error Decode_SequenceMismatch = ''RPC chunk sequence metadata mismatch''"
| "show_decode_error Decode_SequenceExceedsDeclaredLength =
     ''RPC chunk sequence exceeds its declared byte length''"
| "show_decode_error Decode_SequenceLengthMismatch = ''RPC chunk sequence byte length mismatch''"
| "show_decode_error Decode_DeclaredLengthExceedsLimit =
     ''RPC chunk sequence exceeds the advertised reassembly limit''"
| "show_decode_error Decode_InvalidUtf8 = ''reassembled RPC frame is not valid UTF-8''"
| "show_decode_error (Decode_InvalidJson e) = ''RPC frame is not valid JSON''"
| "show_decode_error Decode_NestedChunkFrame =
     ''reassembled RPC frame cannot contain another chunk frame''"

definition RpcFrameDecoder_new :: "u64 \<Rightarrow> rpc_frame_decoder" where
  "RpcFrameDecoder_new limit = \<lparr>dec_pending = None, dec_max_reassembled = limit\<rparr>"

definition RpcFrameDecoder_default :: rpc_frame_decoder where
  "RpcFrameDecoder_default = RpcFrameDecoder_new DEFAULT_MAX_REASSEMBLED_FRAME_BYTES"

definition is_reassembling :: "rpc_frame_decoder \<Rightarrow> bool" where
  "is_reassembling d \<longleftrightarrow> dec_pending d \<noteq> None"

definition is_chunk :: "server_message \<Rightarrow> bool" where
  "is_chunk m \<longleftrightarrow> (case m of ServerMessage_Transport (Transport_RpcChunk c) \<Rightarrow> True | _ \<Rightarrow> False)"

text \<open>The part of \<open>push\<close> after the last chunk: the bytes are a line of their own.\<close>

definition finish_chunks ::
  "json_env \<Rightarrow> string \<Rightarrow> rpc_frame_decode_error + server_message option" where
  "finish_chunks env data =
     (if \<not> utf8_valid data then Inl Decode_InvalidUtf8
      else rbind (map_err Decode_InvalidJson (from_json_line env data)) (\<lambda>m.
        if is_chunk m then Inl Decode_NestedChunkFrame else Inr (Some m)))"

definition start_pending :: "chunk_frame \<Rightarrow> pending_chunks" where
  "start_pending c = \<lparr>pend_chunk_id = chunk_id c, pend_count = chunk_count c,
     pend_byte_length = chunk_byte_length c, pend_next_index = 0, pend_data = []\<rparr>"

text \<open>
  The result is \<open>None\<close> where the code would panic: the \<open>expect\<close> on the chunk's data and the
  overflow of \<open>next_index\<close>. The state of the decoder after an error is the one the code leaves.
\<close>

definition push_chunk ::
  "json_env \<Rightarrow> rpc_frame_decoder \<Rightarrow> chunk_frame \<Rightarrow>
     ((rpc_frame_decode_error + server_message option) \<times> rpc_frame_decoder) option" where
  "push_chunk env d c =
     (if dec_max_reassembled d < chunk_byte_length c
      then Some (Inl Decode_DeclaredLengthExceedsLimit, d)
      else if dec_pending d = None \<and> chunk_index c \<noteq> 0
      then Some (Inl Decode_SequenceMustStartAtZero, d)
      else
        (let p = (case dec_pending d of None \<Rightarrow> start_pending c | Some p \<Rightarrow> p);
             d = d\<lparr>dec_pending := Some p\<rparr>
         in if pend_chunk_id p \<noteq> chunk_id c \<or> pend_count p \<noteq> chunk_count c
               \<or> pend_byte_length p \<noteq> chunk_byte_length c \<or> pend_next_index p \<noteq> chunk_index c
            then Some (Inl Decode_SequenceMismatch, d)
            else case (append_decoded_data env c (pend_data p), checked_add (pend_next_index p) 1) of
              (Some data, Some next_index) \<Rightarrow>
                (let d = d\<lparr>dec_pending := Some (p\<lparr>pend_data := data, pend_next_index := next_index\<rparr>)\<rparr>
                 in if unat (pend_byte_length p) < length data
                    then Some (Inl Decode_SequenceExceedsDeclaredLength, d)
                    else if (ucast next_index :: u64) < pend_count p then Some (Inr None, d)
                    else if length data \<noteq> unat (pend_byte_length p)
                    then Some (Inl Decode_SequenceLengthMismatch, d)
                    else Some (finish_chunks env data, d\<lparr>dec_pending := None\<rparr>))
            | _ \<Rightarrow> None))"

definition push ::
  "json_env \<Rightarrow> rpc_frame_decoder \<Rightarrow> server_message \<Rightarrow>
     ((rpc_frame_decode_error + server_message option) \<times> rpc_frame_decoder) option" where
  "push env d m =
     (case m of
        ServerMessage_Transport (Transport_RpcChunk c) \<Rightarrow> push_chunk env d c
      | _ \<Rightarrow>
          (if dec_pending d \<noteq> None then Some (Inl Decode_SequenceInterrupted, d)
           else Some (Inr (Some m),
             case m of
               ServerMessage_Transport (Transport_Ready ready) \<Rightarrow>
                 d\<lparr>dec_max_reassembled := ready_max_reassembled_frame_bytes ready\<rparr>
             | _ \<Rightarrow> d)))"

definition push_json_line ::
  "json_env \<Rightarrow> rpc_frame_decoder \<Rightarrow> string \<Rightarrow>
     ((rpc_frame_decode_error + server_message option) \<times> rpc_frame_decoder) option" where
  "push_json_line env d line =
     (case from_json_line env line of
        Inl e \<Rightarrow> Some (Inl (Decode_InvalidJson e), d)
      | Inr m \<Rightarrow> push env d m)"

text \<open>A run of the decoder over lines: the frames it yields, up to the first error.\<close>

fun push_lines ::
  "json_env \<Rightarrow> rpc_frame_decoder \<Rightarrow> string list \<Rightarrow>
     ((rpc_frame_decode_error + server_message list) \<times> rpc_frame_decoder) option" where
  "push_lines env d [] = Some (Inr [], d)"
| "push_lines env d (l # ls) =
     (case push_json_line env d l of
        None \<Rightarrow> None
      | Some (Inl e, d) \<Rightarrow> Some (Inl e, d)
      | Some (Inr None, d) \<Rightarrow> push_lines env d ls
      | Some (Inr (Some m), d) \<Rightarrow>
          map_option (\<lambda>(r, d). (rbind r (\<lambda>ms. Inr (m # ms)), d)) (push_lines env d ls))"

subsection \<open>The invariant of the decoder\<close>

text \<open>
  What the constructor guarantees of a chunk, and what holds between two lines: no more
  chunks were taken than announced, and the buffer holds at most their payloads.
\<close>

definition chunk_ok :: "json_env \<Rightarrow> chunk_frame \<Rightarrow> bool" where
  "chunk_ok env c \<longleftrightarrow>
     2 \<le> unat (chunk_count c) \<and> unat (chunk_count c) \<le> 256 \<and> unat (chunk_index c) < unat (chunk_count c) \<and>
     unat MIN_BYTE_LENGTH \<le> unat (chunk_byte_length c) \<and>
     unat (chunk_byte_length c) \<le> unat MAX_BYTE_LENGTH \<and>
     (\<exists>p. je_b64_decode env (chunk_data c) = Some p \<and> length p \<le> MAX_PAYLOAD_BYTES)"

definition pending_ok :: "pending_chunks \<Rightarrow> bool" where
  "pending_ok p \<longleftrightarrow>
     2 \<le> unat (pend_count p) \<and> unat (pend_count p) \<le> 256 \<and>
     unat (pend_next_index p) \<le> unat (pend_count p) \<and>
     unat (pend_byte_length p) \<le> unat MAX_BYTE_LENGTH \<and>
     length (pend_data p) \<le> unat (pend_next_index p) * MAX_PAYLOAD_BYTES"

definition decoder_ok :: "rpc_frame_decoder \<Rightarrow> bool" where
  "decoder_ok d \<longleftrightarrow> (case dec_pending d of None \<Rightarrow> True | Some p \<Rightarrow> pending_ok p)"

lemma ChunkFrame_new_ok:
  assumes "ChunkFrame_new env cid i n len data = Inr c"
  shows "chunk_ok env c"
proof -
  have "unat (ucast i :: u64) = unat i"
    by (simp add: unsigned_ucast_eq take_bit_nat_eq_self unsigned_less [of i, THEN order.strict_trans])
  then show ?thesis
    using assms
    by (auto simp: ChunkFrame_new_def chunk_ok_def MAX_CHUNK_COUNT_def word_le_nat_alt
        word_less_nat_alt split: if_splits)
qed

lemma from_json_line_chunk_ok:
  assumes "from_json_line env line = Inr (ServerMessage_Transport (Transport_RpcChunk c))"
  shows "chunk_ok env c"
proof -
  obtain w where w: "je_parse env line = Inr w"
    using assms by (auto simp: from_json_line_def)
  show ?thesis
  proof (cases w)
    case (Wire_Chunk k)
    then show ?thesis
      using assms w ChunkFrame_new_ok by (auto simp: from_json_line_def chunk_of_wire_def)
  next
    case (Wire_Message m)
    then show ?thesis
      using assms w by (cases m) (simp_all add: from_json_line_def)
  qed (use assms w in \<open>simp add: from_json_line_def\<close>)
qed

lemma push_chunk_ok:
  assumes "decoder_ok d" "chunk_ok env c"
  shows "\<exists>r d'. push_chunk env d c = Some (r, d') \<and> decoder_ok d'"
proof -
  define p where "p = (case dec_pending d of None \<Rightarrow> start_pending c | Some p \<Rightarrow> p)"
  have p: "pending_ok p"
    using assms by (auto simp: p_def pending_ok_def decoder_ok_def start_pending_def chunk_ok_def
        split: option.splits)
  obtain q where q: "je_b64_decode env (chunk_data c) = Some q" "length q \<le> MAX_PAYLOAD_BYTES"
    using assms(2) by (auto simp: chunk_ok_def)
  show ?thesis
  proof (cases "pend_chunk_id p = chunk_id c \<and> pend_count p = chunk_count c \<and>
      pend_byte_length p = chunk_byte_length c \<and> pend_next_index p = chunk_index c")
    case False
    with assms(1) p show ?thesis
      by (auto simp: push_chunk_def p_def [symmetric] Let_def decoder_ok_def)
  next
    case True
    then have lt: "unat (pend_next_index p) < unat (pend_count p)" "unat (pend_count p) \<le> 256"
      using assms(2) by (auto simp: chunk_ok_def)
    then obtain n where n: "checked_add (pend_next_index p) 1 = Some n"
      "unat n = unat (pend_next_index p) + 1"
      by (cases "checked_add (pend_next_index p) 1") (auto simp: arith_model)
    have "pending_ok (p\<lparr>pend_data := pend_data p @ q, pend_next_index := n\<rparr>)"
      using p lt n(2) q(2) by (simp add: pending_ok_def)
    with assms(1) True n(1) q(1) show ?thesis
      by (auto simp: push_chunk_def p_def [symmetric] Let_def decoder_ok_def append_decoded_data_def)
  qed
qed

lemma push_ok:
  assumes "decoder_ok d" "\<And>c. m = ServerMessage_Transport (Transport_RpcChunk c) \<Longrightarrow> chunk_ok env c"
  shows "\<exists>r d'. push env d m = Some (r, d') \<and> decoder_ok d'"
proof (cases "is_chunk m")
  case True
  then show ?thesis
    using push_chunk_ok [OF assms(1)] assms(2)
    by (auto simp: push_def is_chunk_def split: server_message.splits transport_frame.splits)
next
  case False
  then show ?thesis
    using assms(1)
    by (auto simp: push_def is_chunk_def decoder_ok_def
        split: server_message.splits transport_frame.splits)
qed

lemma push_json_line_ok:
  assumes "decoder_ok d"
  shows "\<exists>r d'. push_json_line env d line = Some (r, d') \<and> decoder_ok d'"
proof (cases "from_json_line env line")
  case (Inr m)
  then show ?thesis
    using push_ok [OF assms, of m env] from_json_line_chunk_ok [of env line]
    by (simp add: push_json_line_def)
qed (use assms in \<open>simp add: push_json_line_def\<close>)

lemma finish_chunks_yields: "finish_chunks env data = Inr (Some m) \<Longrightarrow> \<not> is_chunk m"
  by (auto simp: finish_chunks_def split: if_splits)

lemma push_json_line_yields:
  assumes "push_json_line env d line = Some (Inr (Some m), d')"
  shows "\<not> is_chunk m"
proof -
  obtain m' where m': "push env d m' = Some (Inr (Some m), d')"
    using assms by (auto simp: push_json_line_def split: sum.splits)
  show ?thesis
  proof (cases "is_chunk m'")
    case True
    then obtain c where "push_chunk env d c = Some (Inr (Some m), d')"
      using m' by (auto simp: push_def is_chunk_def split: server_message.splits transport_frame.splits)
    then show ?thesis
      using finish_chunks_yields
      by (fastforce simp: push_chunk_def Let_def split: if_splits option.splits)
  next
    case False
    then show ?thesis
      using m' by (auto simp: push_def is_chunk_def
          split: server_message.splits transport_frame.splits if_splits)
  qed
qed

text \<open>
  C30: whatever a peer sends, the decoder neither panics nor exceeds its memory. Over any
  lines it returns; the bytes it buffers are at most 64 MiB; and what it yields is
  never a chunk, so the rest of the program sees whole frames only.
\<close>

theorem decoder_bounded:
  "\<exists>r d. push_lines env RpcFrameDecoder_default lines = Some (r, d) \<and>
     (case dec_pending d of None \<Rightarrow> True | Some p \<Rightarrow> length (pend_data p) \<le> 67108864) \<and>
     (case r of Inl e \<Rightarrow> True | Inr ms \<Rightarrow> list_all (\<lambda>m. \<not> is_chunk m) ms)"
proof -
  have bound: "case dec_pending d of None \<Rightarrow> True | Some p \<Rightarrow> length (pend_data p) \<le> 67108864"
    if "decoder_ok d" for d
  proof (cases "dec_pending d")
    case (Some p)
    then have "length (pend_data p) \<le> unat (pend_next_index p) * MAX_PAYLOAD_BYTES"
      "unat (pend_next_index p) \<le> 256"
      using that by (auto simp: decoder_ok_def pending_ok_def)
    then have "length (pend_data p) \<le> 256 * MAX_PAYLOAD_BYTES"
      by (meson le_trans mult_le_mono1)
    with Some show ?thesis by (simp add: MAX_PAYLOAD_BYTES_def)
  qed simp
  have "decoder_ok d \<Longrightarrow> \<exists>r d'. push_lines env d lines = Some (r, d') \<and> decoder_ok d' \<and>
      (case r of Inl e \<Rightarrow> True | Inr ms \<Rightarrow> list_all (\<lambda>m. \<not> is_chunk m) ms)" for d
  proof (induction lines arbitrary: d)
    case (Cons l ls)
    obtain r d1 where r: "push_json_line env d l = Some (r, d1)" "decoder_ok d1"
      using push_json_line_ok [OF Cons.prems] by blast
    obtain r2 d2 where r2: "push_lines env d1 ls = Some (r2, d2)" "decoder_ok d2"
      "case r2 of Inl e \<Rightarrow> True | Inr ms \<Rightarrow> list_all (\<lambda>m. \<not> is_chunk m) ms"
      using Cons.IH [OF r(2)] by blast
    show ?case
      using r r2 push_json_line_yields [of env d l _ d1]
      by (cases r; cases r2) (auto split: option.splits)
  qed simp
  moreover have "decoder_ok RpcFrameDecoder_default"
    by (simp add: RpcFrameDecoder_default_def RpcFrameDecoder_new_def decoder_ok_def)
  ultimately show ?thesis using bound by blast
qed

subsection \<open>A frame in chunks\<close>

text \<open>
  The chunks of a frame whose bytes are \<open>concat ps\<close>, the way a sender cuts it, and the state
  of the decoder after the first \<open>k\<close> of them.
\<close>

definition chunk_at :: "json_env \<Rightarrow> string \<Rightarrow> string list \<Rightarrow> nat \<Rightarrow> chunk_frame" where
  "chunk_at env cid ps i = \<lparr>chunk_id = cid, chunk_index = of_nat i, chunk_count = of_nat (length ps),
     chunk_byte_length = of_nat (length (concat ps)), chunk_data = je_b64_encode env (ps ! i)\<rparr>"

definition pending_after :: "string \<Rightarrow> string list \<Rightarrow> nat \<Rightarrow> pending_chunks" where
  "pending_after cid ps k = \<lparr>pend_chunk_id = cid, pend_count = of_nat (length ps),
     pend_byte_length = of_nat (length (concat ps)), pend_next_index = of_nat k,
     pend_data = concat (take k ps)\<rparr>"

definition cut_ok :: "json_env \<Rightarrow> string \<Rightarrow> string list \<Rightarrow> bool" where
  "cut_ok env cid ps \<longleftrightarrow>
     2 \<le> length ps \<and> length ps \<le> 256 \<and> cid \<noteq> [] \<and> chars_count cid \<le> 128 \<and>
     1048576 \<le> length (concat ps) \<and> length (concat ps) \<le> 67108864 \<and>
     list_all (\<lambda>p. length p \<le> 262144 \<and> je_b64_encode env p \<noteq> [] \<and>
       je_b64_decode env (je_b64_encode env p) = Some p) ps"

lemma chunk_at_accepted:
  assumes "cut_ok env cid ps" "k < length ps"
  shows "chunk_of_wire env (chunk_at env cid ps k) = Inr (chunk_at env cid ps k)"
proof -
  have p: "length (ps ! k) \<le> 262144" "je_b64_encode env (ps ! k) \<noteq> []"
    "je_b64_decode env (je_b64_encode env (ps ! k)) = Some (ps ! k)"
    and n: "2 \<le> length ps" "length ps \<le> 256" "1048576 \<le> length (concat ps)"
      "length (concat ps) \<le> 67108864" "cid \<noteq> []" "chars_count cid \<le> 128"
    using assms by (auto simp: cut_ok_def list_all_length)
  have "unat (of_nat (length ps) :: u64) = length ps"
    "unat (of_nat (length (concat ps)) :: u64) = length (concat ps)"
    "unat (ucast (of_nat k :: u32) :: u64) = k"
    using n assms(2) by (simp_all add: unsigned_of_nat unsigned_ucast_eq take_bit_nat_eq_self)
  with n assms(2) p show ?thesis
    by (simp add: chunk_of_wire_def ChunkFrame_new_def chunk_at_def MAX_CHUNK_COUNT_def
        MIN_BYTE_LENGTH_def MAX_BYTE_LENGTH_def DEFAULT_MAX_FRAME_BYTES_def
        DEFAULT_MAX_REASSEMBLED_FRAME_BYTES_def MAX_PAYLOAD_BYTES_def MAX_CHUNK_ID_CHARS_def
        word_le_nat_alt word_less_nat_alt)
qed

lemma push_chunk_at:
  assumes "cut_ok env cid ps" "k < length ps"
    "length (concat ps) \<le> unat (dec_max_reassembled d)"
    "dec_pending d = Some (pending_after cid ps k) \<or> k = 0 \<and> dec_pending d = None"
  shows "push_chunk env d (chunk_at env cid ps k) =
    (if Suc k < length ps then Some (Inr None, d\<lparr>dec_pending := Some (pending_after cid ps (Suc k))\<rparr>)
     else Some (finish_chunks env (concat ps), d\<lparr>dec_pending := None\<rparr>))"
proof -
  have n: "length ps \<le> 256" "length (concat ps) \<le> 67108864"
    "je_b64_decode env (je_b64_encode env (ps ! k)) = Some (ps ! k)"
    using assms(1,2) by (auto simp: cut_ok_def list_all_length)
  have w: "unat (of_nat (length ps) :: u64) = length ps"
    "unat (of_nat (length (concat ps)) :: u64) = length (concat ps)"
    "unat (of_nat k :: u32) = k" "unat (ucast (of_nat (Suc k) :: u32) :: u64) = Suc k"
    using n assms(2)
    by (simp_all add: unsigned_of_nat unsigned_ucast_eq take_bit_nat_eq_self del: of_nat_Suc)
  have next_index: "checked_add (of_nat k :: u32) 1 = Some (of_nat (Suc k))"
  proof -
    have "(of_nat k :: u32) + 1 = of_nat (Suc k)" by simp
    with w(3) n(1) assms(2) show ?thesis by (simp add: checked_add_def del: of_nat_Suc)
  qed
  have pend: "(case dec_pending d of None \<Rightarrow> start_pending (chunk_at env cid ps k) | Some p \<Rightarrow> p) =
      pending_after cid ps k"
    using assms(4) by (auto simp: start_pending_def chunk_at_def pending_after_def)
  have data: "concat (take (Suc k) ps) = concat (take k ps) @ ps ! k"
    using assms(2) by (simp add: take_Suc_conv_app_nth)
  have split: "length (concat ps) = length (concat (take (Suc k) ps)) + length (concat (drop (Suc k) ps))"
    by (metis append_take_drop_id concat_append length_append)
  have idx: "dec_pending d = None \<Longrightarrow> k = 0" using assms(4) by auto
  have first: "\<not> (dec_pending d = None \<and> chunk_index (chunk_at env cid ps k) \<noteq> 0)"
    using assms(4) by (auto simp: chunk_at_def)
  have short: "\<not> dec_max_reassembled d < of_nat (length (concat ps))"
    using assms(3) w(2) by (simp add: word_less_nat_alt)
  have "push_chunk env d (chunk_at env cid ps k) =
      (let data = concat (take k ps) @ ps ! k;
           d = d\<lparr>dec_pending := Some ((pending_after cid ps k)\<lparr>pend_data := data,
                 pend_next_index := of_nat (Suc k)\<rparr>)\<rparr>
       in if length (concat ps) < length data then Some (Inl Decode_SequenceExceedsDeclaredLength, d)
          else if Suc k < length ps then Some (Inr None, d)
          else if length data \<noteq> length (concat ps) then Some (Inl Decode_SequenceLengthMismatch, d)
          else Some (finish_chunks env data, d\<lparr>dec_pending := None\<rparr>))"
    using w short first pend [unfolded chunk_at_def] next_index n(3)
    by (cases "dec_pending d") (simp_all add: push_chunk_def Let_def append_decoded_data_def
        chunk_at_def pending_after_def word_less_nat_alt del: of_nat_Suc length_concat)
  also have "\<dots> = (if Suc k < length ps
      then Some (Inr None, d\<lparr>dec_pending := Some (pending_after cid ps (Suc k))\<rparr>)
      else Some (finish_chunks env (concat ps), d\<lparr>dec_pending := None\<rparr>))"
  proof (cases "Suc k < length ps")
    case True
    with split show ?thesis
      unfolding data [symmetric] Let_def pending_after_def
      by (simp del: of_nat_Suc length_concat)
  next
    case False
    then have "concat (take (Suc k) ps) = concat ps" using assms(2) by simp
    with False show ?thesis
      unfolding data [symmetric] Let_def by simp
  qed
  finally show ?thesis .
qed

lemma push_lines_chunks:
  assumes cut: "cut_ok env cid ps" and lines: "length lines = length ps"
    "\<And>k. k < length ps \<Longrightarrow> je_parse env (lines ! k) = Inr (Wire_Chunk (chunk_at env cid ps k))"
    and "length (concat ps) \<le> unat (dec_max_reassembled d)" "k < length ps"
    "dec_pending d = Some (pending_after cid ps k) \<or> k = 0 \<and> dec_pending d = None"
  shows "push_lines env d (drop k lines) =
    Some (rbind (finish_chunks env (concat ps)) (\<lambda>m. Inr (case m of None \<Rightarrow> [] | Some m \<Rightarrow> [m])),
          d\<lparr>dec_pending := None\<rparr>)"
  using assms(4-)
proof (induction "length ps - k" arbitrary: k d)
  case (Suc n)
  have l: "drop k lines = lines ! k # drop (Suc k) lines"
    using lines(1) Suc.prems(2) by (simp add: Cons_nth_drop_Suc)
  have j: "push_json_line env d (lines ! k) = push_chunk env d (chunk_at env cid ps k)"
    using lines(2) [OF Suc.prems(2)] chunk_at_accepted [OF cut Suc.prems(2)]
    by (simp add: push_json_line_def from_json_line_def push_def)
  note p = push_chunk_at [OF cut Suc.prems(2,1,3)]
  show ?case
  proof (cases "Suc k < length ps")
    case True
    let ?d = "d\<lparr>dec_pending := Some (pending_after cid ps (Suc k))\<rparr>"
    have "push_lines env ?d (drop (Suc k) lines) =
        Some (rbind (finish_chunks env (concat ps)) (\<lambda>m. Inr (case m of None \<Rightarrow> [] | Some m \<Rightarrow> [m])),
          ?d\<lparr>dec_pending := None\<rparr>)"
      using Suc.hyps(2) Suc.prems True by (intro Suc.hyps(1)) simp_all
    with True p l j show ?thesis by simp
  next
    case False
    then have "drop (Suc k) lines = []" using lines(1) by simp
    moreover have "finish_chunks env (concat ps) \<noteq> Inr None"
      by (auto simp: finish_chunks_def)
    ultimately show ?thesis
      using False p l j by (cases "finish_chunks env (concat ps)") (auto split: option.splits)
  qed
qed simp

text \<open>
  C29: a frame sent in chunks is received as if it had been sent whole. However a sender cuts a
  frame within the protocol's limits, the decoder answers the chunks exactly as it answers the
  one long line, with nothing left in its buffer; a reassembled transport frame is the
  exception (a chunk is refused, and the limits of a ready frame are not taken over).
\<close>

theorem chunked_frame_is_whole_frame:
  assumes "cut_ok env cid ps" "length lines = length ps"
    "\<And>k. k < length ps \<Longrightarrow> je_parse env (lines ! k) = Inr (Wire_Chunk (chunk_at env cid ps k))"
    "utf8_valid (concat ps)" "dec_pending d = None"
    "length (concat ps) \<le> unat (dec_max_reassembled d)"
    "\<And>t. from_json_line env (concat ps) \<noteq> Inr (ServerMessage_Transport t)"
  shows "push_lines env d lines = push_lines env d [concat ps]"
proof -
  have "0 < length ps" using assms(1) by (auto simp: cut_ok_def)
  then have "push_lines env d (drop 0 lines) =
    Some (rbind (finish_chunks env (concat ps)) (\<lambda>m. Inr (case m of None \<Rightarrow> [] | Some m \<Rightarrow> [m])),
          d\<lparr>dec_pending := None\<rparr>)"
    using assms(5) by (intro push_lines_chunks [OF assms(1,2,3,6)]) simp_all
  moreover have "d\<lparr>dec_pending := None\<rparr> = d" using assms(5) by simp
  ultimately show ?thesis
    using assms(4,5,7)
    by (cases "from_json_line env (concat ps)")
      (auto simp: finish_chunks_def push_json_line_def push_def is_chunk_def
        split: server_message.splits)
qed

text \<open>One MiB of text in four chunks, with an encoding that leaves bytes as they are.\<close>

definition example_payload :: string where
  "example_payload = replicate 262144 (CHR ''a'')"

definition example_plain :: json_env where
  "example_plain = \<lparr>je_parse = (\<lambda>l. Inl []), je_b64_decode = Some, je_b64_encode = id\<rparr>"

definition example_json :: json_env where
  "example_json = example_plain\<lparr>je_parse := (\<lambda>l. if length l = 1
     then Inr (Wire_Chunk (chunk_at example_plain ''c'' (replicate 4 example_payload) (byte_of (hd l))))
     else Inr (Wire_Message (ServerMessage_SessionEvent Event_AgentStart)))\<rparr>"

lemma utf8_valid_replicate: "byte_of c < 0x80 \<Longrightarrow> utf8_valid (replicate n c @ s) = utf8_valid s"
  by (induction n) (simp_all add: Let_def)

lemma utf8_valid_blocks: "byte_of c < 0x80 \<Longrightarrow> utf8_valid (concat (replicate m (replicate n c)))"
  by (induction m) (simp_all add: utf8_valid_replicate)

lemma chunked_frame_is_whole_frame_witness:
  "push_lines example_json RpcFrameDecoder_default (map (\<lambda>i. [char_of i]) [0..<4]) =
     Some (Inr [ServerMessage_SessionEvent Event_AgentStart], RpcFrameDecoder_default)"
proof -
  let ?ps = "replicate 4 example_payload"
  let ?lines = "map (\<lambda>i. [char_of i]) [0..<4]"
  have len: "length example_payload = 262144" by (simp add: example_payload_def)
  then have total: "length (concat ?ps) = 1048576"
    by (simp add: length_concat map_replicate_const sum_list_replicate)
  have utf8: "utf8_valid (concat ?ps)"
    unfolding example_payload_def by (rule utf8_valid_blocks) (simp add: byte_of_def)
  have cut: "cut_ok example_json ''c'' ?ps"
    using len total
    by (auto simp: cut_ok_def example_json_def example_plain_def list_all_length chars_count_def)
  have parse: "je_parse example_json (?lines ! k) = Inr (Wire_Chunk (chunk_at example_json ''c'' ?ps k))"
    if "k < length ?ps" for k
    using that by (simp add: example_json_def chunk_at_def byte_of_def)
  have whole: "from_json_line example_json (concat ?ps) =
      Inr (ServerMessage_SessionEvent Event_AgentStart)"
    using total by (simp add: from_json_line_def example_json_def)
  have "push_lines example_json RpcFrameDecoder_default ?lines =
      push_lines example_json RpcFrameDecoder_default [concat ?ps]"
    using whole total
    by (intro chunked_frame_is_whole_frame [OF cut _ parse])
      (simp_all add: utf8 RpcFrameDecoder_default_def RpcFrameDecoder_new_def
        DEFAULT_MAX_REASSEMBLED_FRAME_BYTES_def del: upt_Suc)
  then show ?thesis
    using whole by (simp add: push_json_line_def push_def RpcFrameDecoder_default_def
        RpcFrameDecoder_new_def)
qed

end
