(* ===== verification/Runtime_Actor.thy ===== *)
theory Runtime_Actor
  imports Rpc_Decoder
begin

section \<open>The runtime: one OMP process and its requests\<close>

text \<open>
  \<open>crates/omp-runtime/src\<close>: \<open>OmpRuntime\<close> owns a child process, writes commands to its standard
  input, reads frames from its standard output and matches responses to requests. The task of
  \<open>run_actor\<close> is a state and one function per branch of its \<open>select!\<close>; what the process, the
  reader and the callers do is the input of a turn. A oneshot sender is a number; what is sent
  on it is recorded in \<open>rt_answers\<close>, and the broadcast channel is the list of what was sent on it.
\<close>

subsection \<open>State types (state.rs, error.rs, config.rs)\<close>

record runtime_exit =
  exit_code :: "i32 option"
  exit_success :: bool
  exit_forced :: bool

datatype runtime_status =
  RuntimeStatus_Running u32 | RuntimeStatus_Exited runtime_exit | RuntimeStatus_Failed string

datatype (plugins only: code) runtime_event =
    RuntimeEvent_Frame server_message
  | RuntimeEvent_Stderr string
  | RuntimeEvent_Exited runtime_exit
  | RuntimeEvent_Failed string

datatype prompt_completion = PromptCompletion_Local | PromptCompletion_Agent

datatype prompt_phase =
    PromptPhase_Submitted | PromptPhase_Running | PromptPhase_Completed prompt_completion
  | PromptPhase_Failed string

record prompt_status =
  prompt_request_id :: rpc_request_id
  prompt_phase_of :: prompt_phase

datatype request_error =
    Request_RuntimeStopped
  | Request_TimedOut rpc_request_id
  | Request_FrameTooLarge nat nat
  | Request_Transport string

fun show_request_error :: "request_error \<Rightarrow> string" where
  "show_request_error Request_RuntimeStopped = ''OMP runtime is not running''"
| "show_request_error (Request_TimedOut i) = ''request '' @ rpc_request_id_str i @ '' timed out''"
| "show_request_error (Request_FrameTooLarge bytes limit) =
     ''RPC command is '' @ show_nat bytes @ '' bytes; limit is '' @ show_nat limit @ '' bytes''"
| "show_request_error (Request_Transport message) = ''OMP transport failed: '' @ message"

text \<open>An I/O error is its message.\<close>

datatype runtime_spawn_error =
    Spawn_Spawn string string
  | Spawn_MissingPipe string
  | Spawn_StartupTimedOut
  | Spawn_StartupEof
  | Spawn_StartupIo string
  | Spawn_StartupProtocol string
  | Spawn_ExpectedReadyFrame
  | Spawn_ProtocolNegotiation string

fun show_runtime_spawn_error :: "runtime_spawn_error \<Rightarrow> string" where
  "show_runtime_spawn_error (Spawn_Spawn program source) = ''failed to spawn '' @ program"
| "show_runtime_spawn_error (Spawn_MissingPipe pipe) =
     ''spawned OMP process has no '' @ pipe @ '' pipe''"
| "show_runtime_spawn_error Spawn_StartupTimedOut = ''OMP RPC startup timed out''"
| "show_runtime_spawn_error Spawn_StartupEof =
     ''OMP RPC process exited before its ready frame''"
| "show_runtime_spawn_error (Spawn_StartupIo source) =
     ''failed to communicate with OMP during startup''"
| "show_runtime_spawn_error (Spawn_StartupProtocol message) =
     ''invalid OMP startup frame: '' @ message"
| "show_runtime_spawn_error Spawn_ExpectedReadyFrame = ''first OMP RPC frame was not ready''"
| "show_runtime_spawn_error (Spawn_ProtocolNegotiation message) =
     ''OMP RPC protocol-v2 negotiation failed: '' @ message"

fun spawn_error_source :: "runtime_spawn_error \<Rightarrow> string option" where
  "spawn_error_source (Spawn_Spawn program source) = Some source"
| "spawn_error_source (Spawn_StartupIo source) = Some source"
| "spawn_error_source _ = None"

text \<open>Durations are in nanoseconds.\<close>

record runtime_config =
  rcfg_program :: string
  rcfg_args :: "string list"
  rcfg_current_dir :: "string option"
  rcfg_startup_timeout :: nat
  rcfg_request_timeout :: nat
  rcfg_shutdown_timeout :: nat
  rcfg_event_capacity :: nat

definition RuntimeConfig_new :: "string \<Rightarrow> runtime_config" where
  "RuntimeConfig_new program = \<lparr>rcfg_program = program, rcfg_args = [], rcfg_current_dir = None,
     rcfg_startup_timeout = 10 * 10 ^ 9, rcfg_request_timeout = 60 * 10 ^ 9,
     rcfg_shutdown_timeout = 5 * 10 ^ 9, rcfg_event_capacity = 256\<rparr>"

definition RuntimeConfig_arg :: "string \<Rightarrow> runtime_config \<Rightarrow> runtime_config" where
  "RuntimeConfig_arg a c = c\<lparr>rcfg_args := rcfg_args c @ [a]\<rparr>"

definition RuntimeConfig_args :: "string list \<Rightarrow> runtime_config \<Rightarrow> runtime_config" where
  "RuntimeConfig_args as c = c\<lparr>rcfg_args := rcfg_args c @ as\<rparr>"

text \<open>The arguments of the process that \<open>spawn\<close> starts.\<close>

definition process_args :: "runtime_config \<Rightarrow> string list" where
  "process_args c = rcfg_args c @ [''--mode'', ''rpc'']"

subsection \<open>Reading lines\<close>

datatype line_read_error = Line_Io string | Line_TooLarge nat | Line_UnexpectedEof

fun show_line_read_error :: "line_read_error \<Rightarrow> string" where
  "show_line_read_error (Line_Io e) = e"
| "show_line_read_error (Line_TooLarge limit) = ''RPC frame exceeds '' @ show_nat limit @ '' bytes''"
| "show_line_read_error Line_UnexpectedEof = ''OMP stdout ended in the middle of a frame''"

text \<open>
  \<open>read_limited_line\<close>. The reader is what \<open>fill_buf\<close> will present, one buffer after another (what
  is not consumed of a buffer is presented again), and how the stream ends: at its end, or with
  an error. A buffer that is presented is not empty.
\<close>

definition consumed_of :: "string \<Rightarrow> nat" where
  "consumed_of available =
     (let n = length (takeWhile (\<lambda>c. c \<noteq> CHR 0x0A) available)
      in if n < length available then n + 1 else length available)"

fun read_limited_line ::
  "nat \<Rightarrow> string option \<Rightarrow> string list \<Rightarrow> string \<Rightarrow>
     (line_read_error + string option) \<times> string list" where
  "read_limited_line limit ending [] line =
     (case ending of
        Some e \<Rightarrow> (Inl (Line_Io e), [])
      | None \<Rightarrow> (if line = [] then Inr None else Inl Line_UnexpectedEof, []))"
| "read_limited_line limit ending (available # bufs) line =
     (let consumed = consumed_of available
      in if limit < length line + consumed then (Inl (Line_TooLarge limit), available # bufs)
         else
           (let line = line @ take consumed available;
                rest = (if consumed < length available then drop consumed available # bufs else bufs)
            in if last (take consumed available) = CHR 0x0A then (Inr (Some line), rest)
               else read_limited_line limit ending bufs line))"

subsection \<open>The state of the actor\<close>

datatype (plugins only: code) runtime_answer =
    Answer_Response "request_error + rpc_response"
  | Answer_Sent "request_error + unit"
  | Answer_Exit "request_error + runtime_exit"

text \<open>\<open>rt_pending\<close> is a hash map: no key twice, and its order means nothing.\<close>

record runtime_state =
  rt_pending :: "(rpc_request_id \<times> nat) list"
  rt_reader_open :: bool
  rt_status :: runtime_status
  rt_prompt :: "prompt_status option"
  rt_events :: "runtime_event list"
  rt_written :: "string list"
  rt_answers :: "(nat \<times> runtime_answer) list"

definition runtime_start :: "u32 \<Rightarrow> runtime_state" where
  "runtime_start process_id = \<lparr>rt_pending = [], rt_reader_open = True,
     rt_status = RuntimeStatus_Running process_id, rt_prompt = None, rt_events = [],
     rt_written = [], rt_answers = []\<rparr>"

definition pending_insert ::
  "rpc_request_id \<Rightarrow> nat \<Rightarrow> (rpc_request_id \<times> nat) list \<Rightarrow> (rpc_request_id \<times> nat) list" where
  "pending_insert i r ps = (i, r) # filter (\<lambda>p. fst p \<noteq> i) ps"

definition pending_remove ::
  "rpc_request_id \<Rightarrow> (rpc_request_id \<times> nat) list \<Rightarrow> nat option \<times> (rpc_request_id \<times> nat) list" where
  "pending_remove i ps = (map_of ps i, filter (\<lambda>p. fst p \<noteq> i) ps)"

definition rt_send_event :: "runtime_event \<Rightarrow> runtime_state \<Rightarrow> runtime_state" where
  "rt_send_event ev st = st\<lparr>rt_events := rt_events st @ [ev]\<rparr>"

definition rt_answer :: "nat \<Rightarrow> runtime_answer \<Rightarrow> runtime_state \<Rightarrow> runtime_state" where
  "rt_answer r a st = st\<lparr>rt_answers := rt_answers st @ [(r, a)]\<rparr>"

text \<open>
  \<open>write_message\<close>: \<open>ser\<close> is the JSON serialiser, \<open>io\<close> the error of writing or flushing, if any.
\<close>

definition to_json_line :: "(client_message \<Rightarrow> string + string) \<Rightarrow> client_message \<Rightarrow> string + string" where
  "to_json_line ser m = rbind (ser m) (\<lambda>s. Inr (s @ [CHR 0x0A]))"

definition write_message ::
  "(client_message \<Rightarrow> string + string) \<Rightarrow> nat \<Rightarrow> client_message \<Rightarrow> string option \<Rightarrow> runtime_state \<Rightarrow>
     (request_error + unit) \<times> runtime_state" where
  "write_message ser limit m io st =
     (case map_err Request_Transport (to_json_line ser m) of
        Inl e \<Rightarrow> (Inl e, st)
      | Inr encoded \<Rightarrow>
          (if limit < length encoded
           then (Inl (Request_FrameTooLarge (length encoded) limit), st)
           else case io of
             Some e \<Rightarrow> (Inl (Request_Transport e), st)
           | None \<Rightarrow> (Inr (), st\<lparr>rt_written := rt_written st @ [encoded]\<rparr>)))"

definition is_prompt_command :: "command_kind \<Rightarrow> bool" where
  "is_prompt_command k =
     (case k of Command_Prompt m images b \<Rightarrow> True | Command_AbortAndPrompt m images \<Rightarrow> True | _ \<Rightarrow> False)"

definition fail_prompt :: "rpc_request_id \<Rightarrow> string \<Rightarrow> runtime_state \<Rightarrow> runtime_state" where
  "fail_prompt i e st =
     (case rt_prompt st of
        None \<Rightarrow> st
      | Some current \<Rightarrow>
          (if prompt_request_id current = i
           then st\<lparr>rt_prompt := Some (current\<lparr>prompt_phase_of := PromptPhase_Failed e\<rparr>)\<rparr>
           else st))"

text \<open>The match of \<open>update_prompt_status\<close>.\<close>

definition next_prompt_phase :: "prompt_status \<Rightarrow> server_message \<Rightarrow> prompt_phase option" where
  "next_prompt_phase current frame =
     (case frame of
        ServerMessage_Response (RpcResponse_Error i command error code) \<Rightarrow>
          (if i = Some (prompt_request_id current) then Some (PromptPhase_Failed error) else None)
      | ServerMessage_Response (RpcResponse_Success i result) \<Rightarrow>
          (if i = Some (prompt_request_id current)
           then (case result of
                   Success_Prompt (Some False) \<Rightarrow> Some (PromptPhase_Completed PromptCompletion_Local)
                 | Success_Prompt (Some True) \<Rightarrow>
                     (if prompt_phase_of current = PromptPhase_Submitted
                      then Some PromptPhase_Running else None)
                 | _ \<Rightarrow> None)
           else None)
      | ServerMessage_SideChannel (SideChannel_PromptResult i agent_invoked) \<Rightarrow>
          (if i = Some (prompt_request_id current)
           then Some (if agent_invoked then PromptPhase_Running
                      else PromptPhase_Completed PromptCompletion_Local)
           else None)
      | ServerMessage_SessionEvent Event_AgentStart \<Rightarrow>
          (if prompt_phase_of current = PromptPhase_Submitted then Some PromptPhase_Running else None)
      | ServerMessage_SessionEvent (Event_AgentEnd ms n t c terminal) \<Rightarrow>
          (if prompt_phase_of current \<in> {PromptPhase_Submitted, PromptPhase_Running}
           then Some (PromptPhase_Completed PromptCompletion_Agent) else None)
      | _ \<Rightarrow> None)"

definition update_prompt_status :: "server_message \<Rightarrow> runtime_state \<Rightarrow> runtime_state" where
  "update_prompt_status frame st =
     (case rt_prompt st of
        None \<Rightarrow> st
      | Some current \<Rightarrow>
          (case next_prompt_phase current frame of
             None \<Rightarrow> st
           | Some phase \<Rightarrow> st\<lparr>rt_prompt := Some (current\<lparr>prompt_phase_of := phase\<rparr>)\<rparr>))"

definition handle_frame :: "server_message \<Rightarrow> runtime_state \<Rightarrow> runtime_state" where
  "handle_frame frame st =
     (let st = update_prompt_status frame st
      in case frame of
        ServerMessage_Response response \<Rightarrow>
          (case rpc_response_id response of
             None \<Rightarrow> rt_send_event (RuntimeEvent_Frame frame) st
           | Some i \<Rightarrow>
               (case pending_remove i (rt_pending st) of
                  (Some r, ps) \<Rightarrow> rt_answer r (Answer_Response (Inr response)) (st\<lparr>rt_pending := ps\<rparr>)
                | (None, ps) \<Rightarrow> rt_send_event (RuntimeEvent_Frame frame) (st\<lparr>rt_pending := ps\<rparr>)))
      | _ \<Rightarrow> rt_send_event (RuntimeEvent_Frame frame) st)"

subsection \<open>The loop\<close>

datatype (plugins only: code) reader_item =
  Reader_Frame server_message | Reader_Error string | Reader_Eof

record exit_status =
  es_code :: "i32 option"
  es_success :: bool

text \<open>
  What \<open>select!\<close> can take. A request carries its responder and the error of writing to the
  process, if any; \<open>In_ReaderDropped\<close> is the end of the reader's channel.
\<close>

datatype (plugins only: code) runtime_input =
    In_ChildExit "string + exit_status"
  | In_HandlesDropped
  | In_Request rpc_request_id command_kind nat "string option"
  | In_Cancel rpc_request_id
  | In_Send client_message nat "string option"
  | In_Shutdown nat
  | In_Reader reader_item
  | In_ReaderDropped

datatype runtime_stop_reason =
    Stop_Shutdown "nat option"
  | Stop_ChildExited "string + exit_status"
  | Stop_TransportFailed string

definition submit_prompt :: "rpc_request_id \<Rightarrow> command_kind \<Rightarrow> runtime_state \<Rightarrow> runtime_state" where
  "submit_prompt i kind st =
     (if is_prompt_command kind
      then st\<lparr>rt_prompt := Some \<lparr>prompt_request_id = i, prompt_phase_of = PromptPhase_Submitted\<rparr>\<rparr>
      else st)"

fun runtime_turn ::
  "(client_message \<Rightarrow> string + string) \<Rightarrow> nat \<Rightarrow> runtime_input \<Rightarrow> runtime_state \<Rightarrow>
     runtime_state \<times> runtime_stop_reason option" where
  "runtime_turn ser limit (In_ChildExit status) st = (st, Some (Stop_ChildExited status))"
| "runtime_turn ser limit In_HandlesDropped st = (st, Some (Stop_Shutdown None))"
| "runtime_turn ser limit (In_Request i kind r io) st =
     (case write_message ser limit (ClientMessage_Command (Command_with_id i kind)) io
             (submit_prompt i kind st) of
        (Inr _, st) \<Rightarrow> (st\<lparr>rt_pending := pending_insert i r (rt_pending st)\<rparr>, None)
      | (Inl (Request_FrameTooLarge bytes l), st) \<Rightarrow>
          (rt_answer r (Answer_Response (Inl (Request_FrameTooLarge bytes l)))
             (fail_prompt i (show_request_error (Request_FrameTooLarge bytes l)) st), None)
      | (Inl e, st) \<Rightarrow>
          (rt_answer r (Answer_Response (Inl e)) st, Some (Stop_TransportFailed (show_request_error e))))"
| "runtime_turn ser limit (In_Cancel i) st =
     (st\<lparr>rt_pending := snd (pending_remove i (rt_pending st))\<rparr>, None)"
| "runtime_turn ser limit (In_Send m r io) st =
     (case write_message ser limit m io st of
        (Inr _, st) \<Rightarrow> (rt_answer r (Answer_Sent (Inr ())) st, None)
      | (Inl (Request_FrameTooLarge bytes l), st) \<Rightarrow>
          (rt_answer r (Answer_Sent (Inl (Request_FrameTooLarge bytes l))) st, None)
      | (Inl e, st) \<Rightarrow>
          (rt_answer r (Answer_Sent (Inl e)) st, Some (Stop_TransportFailed (show_request_error e))))"
| "runtime_turn ser limit (In_Shutdown r) st = (st, Some (Stop_Shutdown (Some r)))"
| "runtime_turn ser limit (In_Reader (Reader_Frame frame)) st = (handle_frame frame st, None)"
| "runtime_turn ser limit (In_Reader (Reader_Error e)) st = (st, Some (Stop_TransportFailed e))"
| "runtime_turn ser limit (In_Reader Reader_Eof) st = (st\<lparr>rt_reader_open := False\<rparr>, None)"
| "runtime_turn ser limit In_ReaderDropped st = (st\<lparr>rt_reader_open := False\<rparr>, None)"

text \<open>
  A run of the loop: its inputs, the last of which ends it. The reader's branch is disabled once
  the reader has ended.
\<close>

fun reader_input :: "runtime_input \<Rightarrow> bool" where
  "reader_input (In_Reader item) = True"
| "reader_input In_ReaderDropped = True"
| "reader_input _ = False"

fun runtime_loop ::
  "(client_message \<Rightarrow> string + string) \<Rightarrow> nat \<Rightarrow> runtime_input list \<Rightarrow> runtime_state \<Rightarrow>
     (runtime_stop_reason \<times> runtime_state) option" where
  "runtime_loop ser limit [] st = None"
| "runtime_loop ser limit (i # is) st =
     (if reader_input i \<and> \<not> rt_reader_open st then None
      else case runtime_turn ser limit i st of
        (st, None) \<Rightarrow> runtime_loop ser limit is st
      | (st, Some reason) \<Rightarrow> (if is = [] then Some (reason, st) else None))"

subsection \<open>Stopping\<close>

definition publish_exit :: "runtime_exit \<Rightarrow> runtime_state \<Rightarrow> runtime_state" where
  "publish_exit e st = rt_send_event (RuntimeEvent_Exited e) (st\<lparr>rt_status := RuntimeStatus_Exited e\<rparr>)"

definition publish_failure :: "string \<Rightarrow> runtime_state \<Rightarrow> runtime_state" where
  "publish_failure m st = rt_send_event (RuntimeEvent_Failed m) (st\<lparr>rt_status := RuntimeStatus_Failed m\<rparr>)"

definition exit_from_status :: "exit_status \<Rightarrow> bool \<Rightarrow> runtime_exit" where
  "exit_from_status s forced =
     \<lparr>exit_code = es_code s, exit_success = es_success s, exit_forced = forced\<rparr>"

fun fail_pending :: "request_error \<Rightarrow> runtime_state \<Rightarrow> runtime_state" where
  "fail_pending e st = st\<lparr>rt_pending := [], rt_answers := rt_answers st @
     map (\<lambda>p. (snd p, Answer_Response (Inl e))) (rt_pending st)\<rparr>"

fun drain_reader :: "reader_item list \<Rightarrow> runtime_state \<Rightarrow> runtime_state" where
  "drain_reader [] st = st"
| "drain_reader (Reader_Frame frame # items) st = drain_reader items (handle_frame frame st)"
| "drain_reader (Reader_Error e # items) st = rt_send_event (RuntimeEvent_Failed e) st"
| "drain_reader (Reader_Eof # items) st = st"

text \<open>
  What can happen while the actor waits for the child: the child exits, a frame is read, the
  reader ends, or the time is up, with the results of killing the child and of waiting for it.
\<close>

datatype (plugins only: code) shutdown_input =
    Sd_Exit "string + exit_status"
  | Sd_Item reader_item
  | Sd_ReaderDropped
  | Sd_Timeout "string option" "string + exit_status"

fun shutdown_child ::
  "shutdown_input list \<Rightarrow> reader_item list \<Rightarrow> bool \<Rightarrow> runtime_state \<Rightarrow>
     ((string + runtime_exit) \<times> runtime_state) option" where
  "shutdown_child [] rest reader_open st = None"
| "shutdown_child (Sd_Exit (Inl e) # is) rest reader_open st = Some (Inl e, st)"
| "shutdown_child (Sd_Exit (Inr s) # is) rest reader_open st =
     Some (Inr (exit_from_status s False), drain_reader rest st)"
| "shutdown_child (Sd_Item item # is) rest reader_open st =
     (if \<not> reader_open then None
      else case item of
        Reader_Frame frame \<Rightarrow> shutdown_child is rest True (handle_frame frame st)
      | Reader_Error e \<Rightarrow> Some (Inl e, st)
      | Reader_Eof \<Rightarrow> shutdown_child is rest False st)"
| "shutdown_child (Sd_ReaderDropped # is) rest reader_open st =
     (if \<not> reader_open then None else shutdown_child is rest False st)"
| "shutdown_child (Sd_Timeout (Some e) w # is) rest reader_open st = Some (Inl e, st)"
| "shutdown_child (Sd_Timeout None (Inl e) # is) rest reader_open st = Some (Inl e, st)"
| "shutdown_child (Sd_Timeout None (Inr s) # is) rest reader_open st =
     Some (Inr (exit_from_status s True), drain_reader rest st)"

text \<open>
  The rest of \<open>run_actor\<close>: \<open>is\<close> is what happens during a shutdown, \<open>rest\<close> what the reader's channel
  still holds at the end.
\<close>

definition stop_answer :: "nat option \<Rightarrow> request_error + runtime_exit \<Rightarrow> runtime_state \<Rightarrow> runtime_state"
where
  "stop_answer r a st = (case r of None \<Rightarrow> st | Some r \<Rightarrow> rt_answer r (Answer_Exit a) st)"

fun stop_actor ::
  "shutdown_input list \<Rightarrow> reader_item list \<Rightarrow> runtime_stop_reason \<Rightarrow> runtime_state \<Rightarrow> runtime_state option" where
  "stop_actor is rest (Stop_Shutdown r) st =
     map_option (\<lambda>(res, st).
       case res of
         Inr e \<Rightarrow> stop_answer r (Inr e) (publish_exit e st)
       | Inl m \<Rightarrow> stop_answer r (Inl (Request_Transport m)) (publish_failure m st))
       (shutdown_child is rest (rt_reader_open st) st)"
| "stop_actor is rest (Stop_ChildExited (Inr s)) st =
     Some (publish_exit (exit_from_status s False) (drain_reader rest st))"
| "stop_actor is rest (Stop_ChildExited (Inl e)) st = Some (publish_failure e st)"
| "stop_actor is rest (Stop_TransportFailed m) st = Some (publish_failure m st)"

definition run_runtime_actor ::
  "(client_message \<Rightarrow> string + string) \<Rightarrow> nat \<Rightarrow> u32 \<Rightarrow> runtime_input list \<Rightarrow> shutdown_input list \<Rightarrow>
     reader_item list \<Rightarrow> runtime_state option" where
  "run_runtime_actor ser limit process_id inputs is rest =
     (case runtime_loop ser limit inputs (runtime_start process_id) of
        None \<Rightarrow> None
      | Some (reason, st) \<Rightarrow>
          map_option (fail_pending Request_RuntimeStopped) (stop_actor is rest reason st))"

subsection \<open>The calls of the handle\<close>

text \<open>
  \<open>request\<close> numbers its commands with an atomic counter and waits with a timeout;
  \<open>send\<close> refuses commands; \<open>shutdown\<close> looks at the status first. \<open>Wait_Closed\<close>: the actor dropped the
  responder, or its channel was closed when the message was to be sent.
\<close>

definition runtime_request_id :: "u64 \<Rightarrow> rpc_request_id" where
  "runtime_request_id n = RpcRequestId (''omp-runtime-'' @ show_word n)"

definition next_request :: "u64 \<Rightarrow> rpc_request_id \<times> u64" where
  "next_request n = (runtime_request_id n, n + 1)"

datatype 'a wait_result = Wait_Answer 'a | Wait_Closed | Wait_Elapsed

definition request_outcome ::
  "rpc_request_id \<Rightarrow> (request_error + rpc_response) wait_result \<Rightarrow>
     (request_error + rpc_response) \<times> runtime_input option" where
  "request_outcome i w =
     (case w of
        Wait_Answer r \<Rightarrow> (r, None)
      | Wait_Closed \<Rightarrow> (Inl Request_RuntimeStopped, None)
      | Wait_Elapsed \<Rightarrow> (Inl (Request_TimedOut i), Some (In_Cancel i)))"

definition runtime_prompt_kind ::
  "string \<Rightarrow> image_content list option \<Rightarrow> streaming_behavior option \<Rightarrow> command_kind" where
  "runtime_prompt_kind message images behavior = Command_Prompt message images behavior"

definition runtime_send :: "client_message \<Rightarrow> (request_error + unit) wait_result \<Rightarrow> request_error + unit"
where
  "runtime_send m w =
     (case m of
        ClientMessage_Command c \<Rightarrow>
          Inl (Request_Transport ''commands must use request correlation'')
      | _ \<Rightarrow>
          (case w of Wait_Answer r \<Rightarrow> r | _ \<Rightarrow> Inl Request_RuntimeStopped))"

definition runtime_shutdown ::
  "runtime_status \<Rightarrow> (request_error + runtime_exit) wait_result option \<Rightarrow> runtime_status \<Rightarrow>
     request_error + runtime_exit" where
  "runtime_shutdown status sent later =
     (case status of
        RuntimeStatus_Exited e \<Rightarrow> Inr e
      | RuntimeStatus_Failed m \<Rightarrow> Inl Request_RuntimeStopped
      | RuntimeStatus_Running p \<Rightarrow>
          (case sent of
             None \<Rightarrow> (case later of RuntimeStatus_Exited e \<Rightarrow> Inr e | _ \<Rightarrow> Inl Request_RuntimeStopped)
           | Some (Wait_Answer r) \<Rightarrow> r
           | Some _ \<Rightarrow> Inl Request_RuntimeStopped))"

subsection \<open>Starting\<close>

record startup =
  su_decoder :: rpc_frame_decoder
  su_max_frame_bytes :: nat
  su_initial_events :: "server_message list"

fun line_startup_error :: "line_read_error \<Rightarrow> runtime_spawn_error" where
  "line_startup_error (Line_Io e) = Spawn_StartupIo e"
| "line_startup_error other = Spawn_StartupProtocol (show_line_read_error other)"

definition request_startup_error :: "request_error \<Rightarrow> runtime_spawn_error" where
  "request_startup_error e = Spawn_ProtocolNegotiation (show_request_error e)"

definition NEGOTIATION_REQUEST_ID :: rpc_request_id where
  "NEGOTIATION_REQUEST_ID = RpcRequestId ''omp-runtime-negotiate-v2''"

text \<open>One line of the process, read and decoded; \<open>None\<close> stands for a panic of the decoder.\<close>

definition startup_message ::
  "json_env \<Rightarrow> rpc_frame_decoder \<Rightarrow> line_read_error + string option \<Rightarrow>
     ((runtime_spawn_error + server_message option) \<times> rpc_frame_decoder) option" where
  "startup_message env d r =
     (case rbind (map_err line_startup_error r) (\<lambda>l. ok_or l Spawn_StartupEof) of
        Inl e \<Rightarrow> Some (Inl e, d)
      | Inr line \<Rightarrow>
          map_option (\<lambda>(res, d). (map_err (\<lambda>e. Spawn_StartupProtocol (show_decode_error e)) res, d))
            (push_json_line env d line))"

text \<open>The answer the negotiation waits for: success, an error, or another message.\<close>

definition negotiation_answer :: "server_message \<Rightarrow> (runtime_spawn_error + unit) option" where
  "negotiation_answer m =
     (case m of
        ServerMessage_Response (RpcResponse_Success (Some i) result) \<Rightarrow>
          (if i \<noteq> NEGOTIATION_REQUEST_ID then None
           else case result of
             Success_NegotiateProtocol v \<Rightarrow> Some (Inr ())
           | _ \<Rightarrow> Some (Inl (Spawn_ProtocolNegotiation ''server returned the wrong success response'')))
      | ServerMessage_Response (RpcResponse_Error (Some i) command error code) \<Rightarrow>
          (if i \<noteq> NEGOTIATION_REQUEST_ID then None else Some (Inl (Spawn_ProtocolNegotiation error)))
      | _ \<Rightarrow> None)"

text \<open>
  The loop and the whole start, over what the reads of standard output return; \<open>None\<close> while the
  process has not said enough, which \<open>spawn\<close> ends with its timeout.
\<close>

fun await_negotiation ::
  "json_env \<Rightarrow> rpc_frame_decoder \<Rightarrow> (line_read_error + string option) list \<Rightarrow> server_message list \<Rightarrow>
     (runtime_spawn_error + (rpc_frame_decoder \<times> server_message list)) option" where
  "await_negotiation env d [] events = None"
| "await_negotiation env d (r # rs) events =
     (case startup_message env d r of
        None \<Rightarrow> None
      | Some (Inl e, d) \<Rightarrow> Some (Inl e)
      | Some (Inr None, d) \<Rightarrow> await_negotiation env d rs events
      | Some (Inr (Some m), d) \<Rightarrow>
          (case negotiation_answer m of
             Some (Inl e) \<Rightarrow> Some (Inl e)
           | Some (Inr _) \<Rightarrow> Some (Inr (d, events))
           | None \<Rightarrow> await_negotiation env d rs (events @ [m])))"

definition initialize_rpc ::
  "json_env \<Rightarrow> (client_message \<Rightarrow> string + string) \<Rightarrow> string option \<Rightarrow>
     (line_read_error + string option) list \<Rightarrow> (runtime_spawn_error + startup) option" where
  "initialize_rpc env ser io reads =
     (case reads of
        [] \<Rightarrow> None
      | r # rs \<Rightarrow>
          (case startup_message env RpcFrameDecoder_default r of
             None \<Rightarrow> None
           | Some (Inl e, d) \<Rightarrow> Some (Inl e)
           | Some (Inr None, d) \<Rightarrow> Some (Inl (Spawn_StartupProtocol ''ready frame was chunked''))
           | Some (Inr (Some m), d) \<Rightarrow>
               (case m of
                  ServerMessage_Transport (Transport_Ready ready) \<Rightarrow>
                    (let limit = unat (ready_max_frame_bytes ready)
                     in if \<not> ready_advertises_capabilities ready
                        then Some (Inr \<lparr>su_decoder = d, su_max_frame_bytes = limit,
                                        su_initial_events = []\<rparr>)
                        else case fst (write_message ser limit (ClientMessage_Command
                               (Command_negotiate_protocol NEGOTIATION_REQUEST_ID)) io
                               (runtime_start 0)) of
                          Inl e \<Rightarrow> Some (Inl (request_startup_error e))
                        | Inr _ \<Rightarrow>
                            map_option (\<lambda>res. rbind res (\<lambda>(d, events).
                              Inr \<lparr>su_decoder = d, su_max_frame_bytes = limit,
                                   su_initial_events = events\<rparr>))
                              (await_negotiation env d rs []))
                | _ \<Rightarrow> Some (Inl Spawn_ExpectedReadyFrame))))"

text \<open>
  The task that reads standard output: what it sends to the actor for the lines it reads. It
  ends with the first error or at the end of the stream; the actor's end is not modelled here.
\<close>

fun read_stdout ::
  "json_env \<Rightarrow> rpc_frame_decoder \<Rightarrow> (line_read_error + string option) list \<Rightarrow> reader_item list" where
  "read_stdout env d [] = []"
| "read_stdout env d (Inl e # rs) = [Reader_Error (show_line_read_error e)]"
| "read_stdout env d (Inr None # rs) =
     [if is_reassembling d then Reader_Error ''OMP stdout ended during an RPC chunk sequence''
      else Reader_Eof]"
| "read_stdout env d (Inr (Some line) # rs) =
     (case push_json_line env d line of
        None \<Rightarrow> []
      | Some (Inr (Some m), d) \<Rightarrow> Reader_Frame m # read_stdout env d rs
      | Some (Inr None, d) \<Rightarrow> read_stdout env d rs
      | Some (Inl e, d) \<Rightarrow> [Reader_Error (show_decode_error e)])"

end
