(* ===== verification/Runtime_Properties.thy ===== *)
theory Runtime_Properties
  imports Runtime_Actor
begin

section \<open>Properties of the runtime\<close>

subsection \<open>Lines\<close>

lemma consumed_of_cases:
  assumes "available \<noteq> []"
  obtains (line) l rest where "available = l @ CHR 0x0A # rest" "CHR 0x0A \<notin> set l"
      "consumed_of available = length l + 1"
    | (partial) "CHR 0x0A \<notin> set available" "consumed_of available = length available"
proof (cases "CHR 0x0A \<in> set available")
  case True
  then obtain l rest where "available = l @ CHR 0x0A # rest" "CHR 0x0A \<notin> set l"
    by (meson split_list_first)
  moreover from this have "takeWhile (\<lambda>c. c \<noteq> CHR 0x0A) available = l"
    using takeWhile_append2 [of l "\<lambda>c. c \<noteq> CHR 0x0A" "CHR 0x0A # rest"] by fastforce
  ultimately show thesis using line by (simp add: consumed_of_def)
next
  case False
  then have all: "takeWhile (\<lambda>c. c \<noteq> CHR 0x0A) available = available"
    by (auto simp: takeWhile_eq_all_conv)
  have "consumed_of available = length available" unfolding consumed_of_def all by simp
  with False show thesis by (rule partial)
qed

text \<open>What a read may return, and leave, of a stream with a given ending.\<close>

fun line_outcome ::
  "nat \<Rightarrow> string option \<Rightarrow> string \<Rightarrow> (line_read_error + string option) \<times> string list \<Rightarrow> bool" where
  "line_outcome limit ending stream (Inr (Some s), rest) \<longleftrightarrow>
     (\<exists>l. s = l @ [CHR 0x0A] \<and> CHR 0x0A \<notin> set l) \<and> stream = s @ concat rest \<and>
     length s \<le> limit \<and> [] \<notin> set rest"
| "line_outcome limit ending stream (Inr None, rest) \<longleftrightarrow> stream = [] \<and> ending = None"
| "line_outcome limit ending stream (Inl (Line_TooLarge n), rest) \<longleftrightarrow>
     n = limit \<and> limit < length stream \<and> CHR 0x0A \<notin> set (take limit stream)"
| "line_outcome limit ending stream (Inl Line_UnexpectedEof, rest) \<longleftrightarrow>
     stream \<noteq> [] \<and> ending = None \<and> CHR 0x0A \<notin> set stream"
| "line_outcome limit ending stream (Inl (Line_Io e), rest) \<longleftrightarrow>
     ending = Some e \<and> CHR 0x0A \<notin> set stream"

lemma set_take_prefix: "n \<le> length xs \<Longrightarrow> x \<notin> set xs \<Longrightarrow> x \<notin> set (take n (xs @ ys))"
  by (auto dest!: in_set_takeD)

lemma read_limited_line_spec:
  assumes "[] \<notin> set bufs" "CHR 0x0A \<notin> set line" "length line \<le> limit"
  shows "line_outcome limit ending (line @ concat bufs) (read_limited_line limit ending bufs line)"
  using assms
proof (induction bufs arbitrary: line)
  case Nil
  then show ?case by (auto split: option.splits)
next
  case (Cons available bufs)
  have ne: "available \<noteq> []" "[] \<notin> set bufs" using Cons.prems(1) by auto
  from ne(1) show ?case
  proof (cases rule: consumed_of_cases)
    case (line l rest)
    have take: "take (length l + 1) available = l @ [CHR 0x0A]"
      and drop: "drop (length l + 1) available = rest" using line by simp_all
    show ?thesis
    proof (cases "limit < length line + (length l + 1)")
      case True
      then have "CHR 0x0A \<notin> set (take limit ((line @ l) @ CHR 0x0A # rest @ concat bufs))"
        using line(2) Cons.prems(2) by (intro set_take_prefix) auto
      with True line show ?thesis by simp
    next
      case False
      with line ne Cons.prems(2) show ?thesis
        by (auto simp: Let_def take drop intro!: exI [of _ "line @ l"])
    qed
  next
    case partial
    have last: "last available \<noteq> CHR 0x0A" using partial(1) ne(1) last_in_set by metis
    show ?thesis
    proof (cases "limit < length line + length available")
      case True
      then have "CHR 0x0A \<notin> set (take limit ((line @ available) @ concat bufs))"
        using partial(1) Cons.prems(2) by (intro set_take_prefix) auto
      with True partial(2) show ?thesis by simp
    next
      case False
      then have "line_outcome limit ending ((line @ available) @ concat bufs)
          (read_limited_line limit ending bufs (line @ available))"
        using partial(1) ne(2) Cons.prems(2) by (intro Cons.IH) auto
      with False partial(2) last show ?thesis by simp
    qed
  qed
qed

text \<open>
  Reading a line does not depend on how the stream arrives. Whatever buffers the stream of
  bytes comes in, a line is everything up to and with the first line feed and at most the limit
  long, nothing of what follows it is lost, and the other outcomes are told apart: a line that
  is too long, a stream that ends within a line, one that ends between lines, and an I/O error.\<close>

theorem read_line_spec:
  assumes "[] \<notin> set bufs"
  shows "line_outcome limit ending (concat bufs) (read_limited_line limit ending bufs [])"
  using read_limited_line_spec [OF assms, of "[]"] by simp

lemma read_line_spec_witness:
  "line_outcome 8 None (''ab'' @ [CHR 0x0A] @ ''c'')
     (read_limited_line 8 None [''a'', ''b'' @ [CHR 0x0A] @ ''c''] [])"
  using read_line_spec [of "[''a'', ''b'' @ [CHR 0x0A] @ ''c'']" 8 None]
  by (simp only: concat.simps append.simps append_Nil2) simp

subsection \<open>Requests and their answers\<close>

fun input_responder :: "runtime_input \<Rightarrow> nat list" where
  "input_responder (In_Request i kind r io) = [r]"
| "input_responder (In_Send m r io) = [r]"
| "input_responder (In_Shutdown r) = [r]"
| "input_responder _ = []"

fun input_request :: "runtime_input \<Rightarrow> rpc_request_id list" where
  "input_request (In_Request i kind r io) = [i]"
| "input_request _ = []"

text \<open>
  Callers use fresh responders, and the counter of \<open>request\<close> gives fresh identifiers.
\<close>

definition fresh_inputs :: "runtime_input list \<Rightarrow> bool" where
  "fresh_inputs ins \<longleftrightarrow>
     distinct (concat (map input_responder ins)) \<and> distinct (concat (map input_request ins))"

text \<open>Which call an answer belongs to.\<close>

fun answers_call :: "runtime_input list \<Rightarrow> nat \<times> runtime_answer \<Rightarrow> bool" where
  "answers_call ins (r, Answer_Response (Inr resp)) \<longleftrightarrow>
     (\<exists>i kind io. In_Request i kind r io \<in> set ins \<and> rpc_response_id resp = Some i)"
| "answers_call ins (r, Answer_Response (Inl e)) \<longleftrightarrow>
     (\<exists>i kind io. In_Request i kind r io \<in> set ins)"
| "answers_call ins (r, Answer_Sent a) \<longleftrightarrow> (\<exists>m io. In_Send m r io \<in> set ins)"
| "answers_call ins (r, Answer_Exit a) \<longleftrightarrow> In_Shutdown r \<in> set ins"

definition pending_call :: "runtime_input list \<Rightarrow> rpc_request_id \<times> nat \<Rightarrow> bool" where
  "pending_call ins p \<longleftrightarrow> (\<exists>kind io. In_Request (fst p) kind (snd p) io \<in> set ins)"

definition requests_kept ::
  "runtime_input list \<Rightarrow> (rpc_request_id \<times> nat) list \<Rightarrow> (nat \<times> runtime_answer) list \<Rightarrow> bool" where
  "requests_kept ins ps as \<longleftrightarrow>
     (\<forall>i kind r io. In_Request i kind r io \<in> set ins \<longrightarrow> In_Cancel i \<notin> set ins \<longrightarrow>
        (i, r) \<in> set ps \<or> r \<in> fst ` set as)"

definition calls_inv ::
  "runtime_input list \<Rightarrow> (rpc_request_id \<times> nat) list \<Rightarrow> (nat \<times> runtime_answer) list \<Rightarrow> bool" where
  "calls_inv ins ps as \<longleftrightarrow>
     distinct (map fst ps) \<and> distinct (map snd ps @ map fst as) \<and>
     list_all (pending_call ins) ps \<and> list_all (answers_call ins) as \<and> requests_kept ins ps as"

abbreviation "rt_inv ins st \<equiv> calls_inv ins (rt_pending st) (rt_answers st)"

lemma answers_call_mono: "answers_call ins a \<Longrightarrow> set ins \<subseteq> set ins' \<Longrightarrow> answers_call ins' a"
  by (cases "(ins, a)" rule: answers_call.cases) (simp_all, blast+)

lemma pending_call_mono: "pending_call ins a \<Longrightarrow> set ins \<subseteq> set ins' \<Longrightarrow> pending_call ins' a"
  by (auto simp: pending_call_def)

lemma calls_more:
  "list_all (pending_call ins) ps \<Longrightarrow> list_all (pending_call (ins @ ins2)) ps"
  "list_all (answers_call ins) as \<Longrightarrow> list_all (answers_call (ins @ ins2)) as"
  by (rule list.pred_mono_strong, assumption, erule pending_call_mono, simp)
    (rule list.pred_mono_strong, assumption, erule answers_call_mono, simp)

lemma answers_call_responder:
  "answers_call ins a \<Longrightarrow> fst a \<in> set (concat (map input_responder ins))"
  by (cases "(ins, a)" rule: answers_call.cases) force+

lemma pending_call_responder:
  "pending_call ins p \<Longrightarrow> snd p \<in> set (concat (map input_responder ins)) \<and>
     fst p \<in> set (concat (map input_request ins))"
  by (force simp: pending_call_def)

lemma calls_inv_mono:
  assumes "calls_inv ins ps as" "input_request inp = []"
  shows "calls_inv (ins @ [inp]) ps as"
proof -
  have "requests_kept (ins @ [inp]) ps as"
    using assms by (auto simp: calls_inv_def requests_kept_def) blast
  then show ?thesis
    using assms(1) by (simp add: calls_inv_def calls_more)
qed

text \<open>A response leaves the pending calls for the answers; the others stay.\<close>

lemma calls_inv_respond:
  assumes "calls_inv ins ps as" "map_of ps i = Some r" "rpc_response_id resp = Some i"
  shows "calls_inv ins (filter (\<lambda>p. fst p \<noteq> i) ps) (as @ [(r, Answer_Response (Inr resp))])"
proof -
  have p: "(i, r) \<in> set ps" using assms(2) by (rule map_of_SomeD)
  have uniq: "(i, r') \<in> set ps \<Longrightarrow> r' = r" for r'
    using assms(1) p eq_key_imp_eq_value by (force simp: calls_inv_def)
  have inj: "(j, r) \<in> set ps \<Longrightarrow> j = i" for j
    using assms(1) p by (force simp: calls_inv_def distinct_map inj_on_def)
  have "answers_call ins (r, Answer_Response (Inr resp))"
    using assms(1,3) p by (fastforce simp: calls_inv_def list_all_iff pending_call_def)
  moreover have "r \<notin> snd ` set (filter (\<lambda>p. fst p \<noteq> i) ps)" using inj by auto
  moreover have "r \<notin> fst ` set as" using assms(1) p by (force simp: calls_inv_def)
  moreover have "requests_kept ins (filter (\<lambda>p. fst p \<noteq> i) ps) (as @ [(r, Answer_Response (Inr resp))])"
    using assms(1) uniq by (auto simp: calls_inv_def requests_kept_def) blast+
  ultimately show ?thesis
    using assms(1) by (auto simp: calls_inv_def list_all_iff distinct_map_filter)
qed

lemma update_prompt_keeps [simp]:
  "rt_pending (update_prompt_status frame st) = rt_pending st"
  "rt_answers (update_prompt_status frame st) = rt_answers st"
  by (simp_all add: update_prompt_status_def split: option.splits)

lemma handle_frame_cases:
  obtains (other) "rt_pending (handle_frame frame st) = rt_pending st"
      "rt_answers (handle_frame frame st) = rt_answers st"
    | (answer) i r resp where "frame = ServerMessage_Response resp" "rpc_response_id resp = Some i"
      "map_of (rt_pending st) i = Some r"
      "rt_pending (handle_frame frame st) = filter (\<lambda>p. fst p \<noteq> i) (rt_pending st)"
      "rt_answers (handle_frame frame st) = rt_answers st @ [(r, Answer_Response (Inr resp))]"
proof (cases frame)
  case (ServerMessage_Response resp)
  show thesis
  proof (cases "rpc_response_id resp")
    case None
    then show thesis
      using ServerMessage_Response by (intro other) (simp_all add: handle_frame_def Let_def rt_send_event_def)
  next
    case (Some i)
    show thesis
    proof (cases "map_of (rt_pending st) i")
      case None
      then have "filter (\<lambda>p. fst p \<noteq> i) (rt_pending st) = rt_pending st"
        by (auto simp: map_of_eq_None_iff filter_id_conv)
      with None Some ServerMessage_Response show thesis
        by (intro other) (simp_all add: handle_frame_def Let_def rt_send_event_def pending_remove_def)
    next
      case (Some r)
      with \<open>rpc_response_id resp = Some i\<close> ServerMessage_Response show thesis
        by (intro answer [of resp i r])
          (simp_all add: handle_frame_def Let_def rt_answer_def pending_remove_def)
    qed
  qed
qed (auto simp: handle_frame_def Let_def rt_send_event_def intro: other)

lemma handle_frame_inv:
  assumes "rt_inv ins st"
  shows "rt_inv ins (handle_frame frame st)"
  by (cases rule: handle_frame_cases [of frame st])
    (use assms calls_inv_respond [OF assms] in simp_all)

lemma fresh_responder:
  assumes "calls_inv ins ps as"
  shows "r \<notin> set (concat (map input_responder ins)) \<Longrightarrow> r \<notin> snd ` set ps \<and> r \<notin> fst ` set as"
    and "i \<notin> set (concat (map input_request ins)) \<Longrightarrow> i \<notin> fst ` set ps"
  using assms pending_call_responder answers_call_responder
  unfolding calls_inv_def list_all_iff by (metis imageE)+

lemma calls_inv_answer:
  assumes "calls_inv ins ps as" "r \<notin> set (concat (map input_responder ins))"
    "input_responder inp = [r]" "answers_call [inp] (r, a)"
    "requests_kept (ins @ [inp]) ps (as @ [(r, a)])"
  shows "calls_inv (ins @ [inp]) ps (as @ [(r, a)])"
proof -
  have old: "list_all (pending_call ins) ps" "list_all (answers_call ins) as"
    using assms(1) by (simp_all add: calls_inv_def)
  have "r \<notin> snd ` set ps" "r \<notin> fst ` set as"
    using fresh_responder(1) [OF assms(1,2)] by simp_all
  moreover have "answers_call (ins @ [inp]) (r, a)"
    using assms(4) by (rule answers_call_mono) simp
  moreover have "list_all (pending_call (ins @ [inp])) ps" "list_all (answers_call (ins @ [inp])) as"
    using old by (simp_all only: calls_more)
  ultimately show ?thesis
    using assms(1,5) by (simp add: calls_inv_def)
qed

lemma requests_kept_other:
  assumes "calls_inv ins ps as" "input_request inp = [] \<or> inp = In_Request i kind r io"
  shows "requests_kept (ins @ [inp]) ps (as @ [(r, a)])"
  using assms by (auto simp: calls_inv_def requests_kept_def) blast+

lemma calls_inv_insert:
  assumes "calls_inv ins ps as" "r \<notin> set (concat (map input_responder ins))"
    "i \<notin> set (concat (map input_request ins))"
  shows "calls_inv (ins @ [In_Request i kind r io]) (pending_insert i r ps) as"
proof -
  have old: "list_all (pending_call ins) ps" "list_all (answers_call ins) as"
    using assms(1) by (simp_all add: calls_inv_def)
  have "i \<notin> fst ` set ps" "r \<notin> snd ` set ps" "r \<notin> fst ` set as"
    using fresh_responder(1) [OF assms(1,2)] fresh_responder(2) [OF assms(1,3)] by simp_all
  moreover from this have "filter (\<lambda>p. fst p \<noteq> i) ps = ps"
    by (auto simp: filter_id_conv)
  moreover have "list_all (pending_call (ins @ [In_Request i kind r io])) ps"
    "list_all (answers_call (ins @ [In_Request i kind r io])) as"
    using old by (simp_all only: calls_more)
  moreover have "requests_kept (ins @ [In_Request i kind r io]) ((i, r) # ps) as"
    using assms(1) by (auto simp: calls_inv_def requests_kept_def)
  moreover have "pending_call (ins @ [In_Request i kind r io]) (i, r)"
    by (auto simp: pending_call_def)
  ultimately show ?thesis
    using assms(1) by (simp add: calls_inv_def pending_insert_def)
qed

lemma calls_inv_cancel:
  assumes "calls_inv ins ps as"
  shows "calls_inv (ins @ [In_Cancel i]) (filter (\<lambda>p. fst p \<noteq> i) ps) as"
proof -
  have "calls_inv (ins @ [In_Cancel i]) ps as" using assms by (intro calls_inv_mono) simp_all
  moreover have "requests_kept (ins @ [In_Cancel i]) (filter (\<lambda>p. fst p \<noteq> i) ps) as"
    using assms by (auto simp: calls_inv_def requests_kept_def)
  ultimately show ?thesis
    by (auto simp: calls_inv_def list_all_iff distinct_map_filter)
qed

lemma write_message_keeps [simp]:
  "rt_pending (snd (write_message ser limit m io st)) = rt_pending st"
  "rt_answers (snd (write_message ser limit m io st)) = rt_answers st"
  by (simp_all add: write_message_def split: sum.splits option.splits)

lemma prompt_keeps [simp]:
  "rt_pending (submit_prompt i kind st) = rt_pending st"
  "rt_answers (submit_prompt i kind st) = rt_answers st"
  "rt_pending (fail_prompt i e st) = rt_pending st"
  "rt_answers (fail_prompt i e st) = rt_answers st"
  "rt_pending (rt_send_event ev st) = rt_pending st"
  "rt_answers (rt_send_event ev st) = rt_answers st"
  by (simp_all add: submit_prompt_def fail_prompt_def rt_send_event_def split: option.splits)

lemma rt_answer_simps [simp]:
  "rt_pending (rt_answer r a st) = rt_pending st"
  "rt_answers (rt_answer r a st) = rt_answers st @ [(r, a)]"
  by (simp_all add: rt_answer_def)

text \<open>A turn that writes either registers the call or answers it with an error.\<close>

lemma runtime_turn_request:
  assumes "runtime_turn ser limit (In_Request i kind r io) st = (st', reason)"
  shows "rt_pending st' = pending_insert i r (rt_pending st) \<and> rt_answers st' = rt_answers st \<or>
    (\<exists>e. rt_pending st' = rt_pending st \<and>
      rt_answers st' = rt_answers st @ [(r, Answer_Response (Inl e))])"
proof -
  obtain res st1 where w: "write_message ser limit (ClientMessage_Command (Command_with_id i kind)) io
      (submit_prompt i kind st) = (res, st1)" by fastforce
  then have "rt_pending st1 = rt_pending st" "rt_answers st1 = rt_answers st"
    using write_message_keeps [of ser limit "ClientMessage_Command (Command_with_id i kind)" io
        "submit_prompt i kind st"] by simp_all
  then show ?thesis using assms w by (auto split: sum.splits request_error.splits)
qed

lemma runtime_turn_send:
  assumes "runtime_turn ser limit (In_Send m r io) st = (st', reason)"
  shows "\<exists>a. rt_pending st' = rt_pending st \<and> rt_answers st' = rt_answers st @ [(r, Answer_Sent a)]"
proof -
  obtain res st1 where w: "write_message ser limit m io st = (res, st1)" by fastforce
  then have "rt_pending st1 = rt_pending st" "rt_answers st1 = rt_answers st"
    using write_message_keeps [of ser limit m io st] by simp_all
  then show ?thesis using assms w by (auto split: sum.splits request_error.splits)
qed

lemma runtime_turn_inv:
  assumes inv: "rt_inv ins st" and turn: "runtime_turn ser limit inp st = (st', reason)"
    and fresh: "fresh_inputs (ins @ [inp])"
  shows "rt_inv (ins @ [inp]) st'"
proof (cases inp)
  case (In_Request i kind r io)
  then have f: "r \<notin> set (concat (map input_responder ins))" "i \<notin> set (concat (map input_request ins))"
    using fresh by (auto simp: fresh_inputs_def)
  show ?thesis
    using runtime_turn_request [OF turn [unfolded In_Request]]
  proof (elim disjE exE conjE)
    assume "rt_pending st' = pending_insert i r (rt_pending st)" "rt_answers st' = rt_answers st"
    then show ?thesis using calls_inv_insert [OF inv f] In_Request by simp
  next
    fix e assume "rt_pending st' = rt_pending st"
      "rt_answers st' = rt_answers st @ [(r, Answer_Response (Inl e))]"
    then show ?thesis
      using calls_inv_answer [OF inv f(1), of inp "Answer_Response (Inl e)"]
        requests_kept_other [OF inv] In_Request by simp
  qed
next
  case (In_Send m r io)
  then have f: "r \<notin> set (concat (map input_responder ins))"
    using fresh by (auto simp: fresh_inputs_def)
  obtain a where "rt_pending st' = rt_pending st" "rt_answers st' = rt_answers st @ [(r, Answer_Sent a)]"
    using runtime_turn_send [OF turn [unfolded In_Send]] by blast
  then show ?thesis
    using calls_inv_answer [OF inv f, of inp "Answer_Sent a"] requests_kept_other [OF inv] In_Send
    by simp
next
  case (In_Cancel i)
  then show ?thesis
    using turn calls_inv_cancel [OF inv] by (auto simp: pending_remove_def)
next
  case (In_Reader item)
  have "rt_inv ins st'"
    using turn inv handle_frame_inv [OF inv] In_Reader by (cases item) auto
  then show ?thesis using In_Reader by (intro calls_inv_mono) simp_all
qed (use turn inv in \<open>auto intro!: calls_inv_mono\<close>)

lemma fresh_inputs_prefix: "fresh_inputs (ins @ ins2) \<Longrightarrow> fresh_inputs ins"
  by (simp add: fresh_inputs_def)

text \<open>What the loop leaves for the responder of a shutdown that ended it.\<close>

definition unanswered :: "nat option \<Rightarrow> runtime_state \<Rightarrow> bool" where
  "unanswered r st \<longleftrightarrow> (case r of None \<Rightarrow> True
     | Some r \<Rightarrow> r \<notin> snd ` set (rt_pending st) \<and> r \<notin> fst ` set (rt_answers st))"

fun shutdown_responder :: "runtime_stop_reason \<Rightarrow> nat option" where
  "shutdown_responder (Stop_Shutdown r) = r"
| "shutdown_responder _ = None"

lemma runtime_turn_stop:
  assumes "rt_inv ins st" "runtime_turn ser limit inp st = (st', Some reason)"
    "fresh_inputs (ins @ [inp])"
  shows "unanswered (shutdown_responder reason) st' \<and>
    (\<forall>r. shutdown_responder reason = Some r \<longrightarrow> inp = In_Shutdown r)"
proof (cases inp)
  case (In_Shutdown r)
  then have "r \<notin> set (concat (map input_responder ins))"
    using assms(3) by (auto simp: fresh_inputs_def)
  from fresh_responder(1) [OF assms(1) this] show ?thesis
    using assms(2) In_Shutdown by (auto simp: unanswered_def)
next
  case (In_Reader item)
  then show ?thesis using assms(2) by (cases item) (auto simp: unanswered_def)
qed (use assms(2) in \<open>auto simp: unanswered_def split: prod.splits sum.splits request_error.splits\<close>)

lemma runtime_loop_inv:
  assumes "runtime_loop ser limit inputs st = Some (reason, st')" "rt_inv ins st"
    "fresh_inputs (ins @ inputs)"
  shows "rt_inv (ins @ inputs) st' \<and> unanswered (shutdown_responder reason) st' \<and>
    (\<forall>r. shutdown_responder reason = Some r \<longrightarrow> In_Shutdown r \<in> set inputs)"
  using assms
proof (induction inputs arbitrary: ins st)
  case (Cons inp inputs)
  obtain st1 res where t: "runtime_turn ser limit inp st = (st1, res)" by fastforce
  have f: "fresh_inputs (ins @ [inp])" "fresh_inputs ((ins @ [inp]) @ inputs)"
    using Cons.prems(3) fresh_inputs_prefix [of "ins @ [inp]" inputs] by simp_all
  note inv = runtime_turn_inv [OF Cons.prems(2) t f(1)]
  show ?case
  proof (cases res)
    case None
    then have "runtime_loop ser limit inputs st1 = Some (reason, st')"
      using Cons.prems(1) t by (simp split: if_splits)
    from Cons.IH [OF this inv f(2)] show ?thesis by simp
  next
    case (Some stop)
    then have "inputs = []" "reason = stop" "st' = st1"
      using Cons.prems(1) t by (auto split: if_splits)
    then show ?thesis
      using inv runtime_turn_stop [OF Cons.prems(2) t [unfolded Some] f(1)] by simp
  qed
qed simp

lemma handle_frame_unanswered:
  assumes "unanswered r st"
  shows "unanswered r (handle_frame frame st)"
proof (cases r)
  case (Some n)
  show ?thesis
  proof (cases rule: handle_frame_cases [of frame st])
    case (answer i r' resp)
    then have "r' \<noteq> n"
      using assms Some map_of_SomeD [OF answer(3)] by (force simp: unanswered_def)
    with answer assms Some show ?thesis by (auto simp: unanswered_def)
  qed (use assms Some in \<open>simp add: unanswered_def\<close>)
qed (simp add: unanswered_def)

lemma unanswered_event [simp]: "unanswered r (rt_send_event ev st) = unanswered r st"
  by (cases r) (simp_all add: unanswered_def)

lemma drain_reader_inv:
  "rt_inv ins st \<Longrightarrow> unanswered r st \<Longrightarrow>
     rt_inv ins (drain_reader items st) \<and> unanswered r (drain_reader items st)"
  by (induction items st rule: drain_reader.induct)
    (simp_all add: handle_frame_inv handle_frame_unanswered)

lemma shutdown_child_inv:
  "shutdown_child is rest ro st = Some (res, st') \<Longrightarrow> rt_inv ins st \<Longrightarrow> unanswered r st \<Longrightarrow>
     rt_inv ins st' \<and> unanswered r st'"
proof (induction "is" rest ro st rule: shutdown_child.induct)
  case (4 item "is" rest ro st)
  then show ?case
    by (cases item) (auto simp: handle_frame_inv handle_frame_unanswered split: if_splits)
qed (auto simp: drain_reader_inv split: if_splits)

lemma calls_inv_add:
  assumes "calls_inv ins ps as" "r \<notin> snd ` set ps" "r \<notin> fst ` set as" "answers_call ins (r, a)"
  shows "calls_inv ins ps (as @ [(r, a)])"
  using assms by (auto simp: calls_inv_def requests_kept_def) blast

lemma stop_answer_inv:
  assumes "rt_inv ins st" "unanswered r st" "\<And>n. r = Some n \<Longrightarrow> In_Shutdown n \<in> set ins"
  shows "rt_inv ins (stop_answer r a st)"
proof (cases r)
  case (Some n)
  then show ?thesis
    using assms calls_inv_add [OF assms(1), of n "Answer_Exit a"]
    by (simp add: stop_answer_def unanswered_def)
qed (use assms(1) in \<open>simp add: stop_answer_def\<close>)

lemma publish_keeps [simp]:
  "rt_pending (publish_exit e st) = rt_pending st" "rt_answers (publish_exit e st) = rt_answers st"
  "rt_pending (publish_failure m st) = rt_pending st"
  "rt_answers (publish_failure m st) = rt_answers st"
  by (simp_all add: publish_exit_def publish_failure_def rt_send_event_def)

lemma unanswered_publish [simp]:
  "unanswered r (publish_exit e st) = unanswered r st"
  "unanswered r (publish_failure m st) = unanswered r st"
  by (cases r; simp add: unanswered_def)+

lemma stop_actor_inv:
  assumes "stop_actor is rest reason st = Some st'" "rt_inv ins st"
    "unanswered (shutdown_responder reason) st"
    "\<And>n. shutdown_responder reason = Some n \<Longrightarrow> In_Shutdown n \<in> set ins"
  shows "rt_inv ins st'"
proof (cases reason)
  case (Stop_Shutdown r)
  then obtain res st1 where s: "shutdown_child is rest (rt_reader_open st) st = Some (res, st1)"
    "st' = (case res of Inr e \<Rightarrow> stop_answer r (Inr e) (publish_exit e st1)
       | Inl m \<Rightarrow> stop_answer r (Inl (Request_Transport m)) (publish_failure m st1))"
    using assms(1) by auto
  from shutdown_child_inv [OF s(1) assms(2,3)] show ?thesis
    using s(2) assms(4) Stop_Shutdown by (cases res) (auto intro!: stop_answer_inv)
next
  case (Stop_ChildExited status)
  then show ?thesis
    using assms(1,2) drain_reader_inv [OF assms(2), of None rest]
    by (cases status) (auto simp: unanswered_def)
qed (use assms(1,2) in auto)

lemma fail_pending_inv:
  assumes "rt_inv ins st"
  shows "rt_inv ins (fail_pending e st)"
proof -
  have a: "list_all (answers_call ins) (map (\<lambda>p. (snd p, Answer_Response (Inl e))) (rt_pending st))"
    using assms by (fastforce simp: calls_inv_def list_all_iff pending_call_def)
  let ?new = "map (\<lambda>p. (snd p, Answer_Response (Inl e))) (rt_pending st)"
  have m: "map fst ?new = map snd (rt_pending st)" by simp
  have r: "r \<in> fst ` set (rt_answers st @ ?new) \<longleftrightarrow> r \<in> fst ` set (rt_answers st) \<or>
      r \<in> snd ` set (rt_pending st)" for r
    by (simp add: image_Un image_image)
  have kept: "requests_kept ins (rt_pending st) (rt_answers st)"
    using assms by (simp add: calls_inv_def)
  have "requests_kept ins [] (rt_answers st @ ?new)"
    using kept unfolding requests_kept_def r by (metis image_eqI snd_conv)
  moreover have "distinct (map fst (rt_answers st @ ?new))"
    using assms unfolding map_append m by (auto simp: calls_inv_def)
  ultimately show ?thesis
    using a assms by (simp add: calls_inv_def)
qed

text \<open>
  C15: every request is answered once. When the actor has ended, nothing is pending and no call
  has been answered twice; each answer belongs to the call it was sent to (a response to the
  request with the response's identifier, the result of a send or a shutdown to that call); and
  every request that was taken and not cancelled has its answer, whether the process replied,
  the frame was too large, writing failed, the process died or the daemon shut it down.
\<close>

theorem requests_answered_once:
  assumes "run_runtime_actor ser limit process_id inputs is rest = Some st" "fresh_inputs inputs"
  shows "rt_pending st = [] \<and> distinct (map fst (rt_answers st)) \<and>
    list_all (answers_call inputs) (rt_answers st) \<and>
    (\<forall>i kind r io. In_Request i kind r io \<in> set inputs \<and> In_Cancel i \<notin> set inputs \<longrightarrow>
       r \<in> fst ` set (rt_answers st))"
proof -
  obtain reason st1 st2 where run: "runtime_loop ser limit inputs (runtime_start process_id) = Some (reason, st1)"
    "stop_actor is rest reason st1 = Some st2" "st = fail_pending Request_RuntimeStopped st2"
    using assms(1) by (auto simp: run_runtime_actor_def split: option.splits)
  have "rt_inv [] (runtime_start process_id)"
    by (simp add: calls_inv_def runtime_start_def requests_kept_def)
  with run(1) assms(2) have l: "rt_inv inputs st1" "unanswered (shutdown_responder reason) st1"
    "\<And>r. shutdown_responder reason = Some r \<Longrightarrow> In_Shutdown r \<in> set inputs"
    using runtime_loop_inv [of ser limit inputs "runtime_start process_id" reason st1 "[]"] by auto
  from stop_actor_inv [OF run(2) l] have "rt_inv inputs st" "rt_pending st = []"
    using fail_pending_inv run(3) by auto
  then show ?thesis by (auto simp: calls_inv_def requests_kept_def) blast
qed

lemma requests_answered_once_witness:
  "\<exists>st. run_runtime_actor (\<lambda>m. Inr ''x'') 9 7
      [In_Request (runtime_request_id 1) Command_Abort 0 None, In_ChildExit (Inr \<lparr>es_code = None, es_success = True\<rparr>)]
      [] [] = Some st \<and> rt_answers st = [(0, Answer_Response (Inl Request_RuntimeStopped))] \<and>
    distinct (map fst (rt_answers st))"
proof -
  let ?ins = "[In_Request (runtime_request_id 1) Command_Abort 0 None,
    In_ChildExit (Inr \<lparr>es_code = None, es_success = True\<rparr>)]"
  obtain st where st: "run_runtime_actor (\<lambda>m. Inr ''x'') 9 7 ?ins [] [] = Some st"
    "rt_answers st = [(0, Answer_Response (Inl Request_RuntimeStopped))]"
    by (simp add: run_runtime_actor_def runtime_start_def write_message_def to_json_line_def
        submit_prompt_def is_prompt_command_def pending_insert_def publish_exit_def rt_send_event_def)
  moreover have "fresh_inputs ?ins" by (simp add: fresh_inputs_def)
  ultimately show ?thesis using requests_answered_once [OF st(1)] by blast
qed

text \<open>The counter of \<open>request\<close> gives different identifiers to different numbers.\<close>

lemma runtime_request_id_inject: "runtime_request_id m = runtime_request_id n \<longleftrightarrow> m = n"
  by (simp add: runtime_request_id_def show_word_def word_unat_eq_iff)

text \<open>
  The end of the process is announced. When the actor has ended, the status is no longer
  running, and the last event the subscribers see carries exactly that end.\<close>

theorem runtime_end_announced:
  assumes "run_runtime_actor ser limit process_id inputs is rest = Some st"
  shows "\<exists>before. case rt_status st of
      RuntimeStatus_Running p \<Rightarrow> False
    | RuntimeStatus_Exited e \<Rightarrow> rt_events st = before @ [RuntimeEvent_Exited e]
    | RuntimeStatus_Failed m \<Rightarrow> rt_events st = before @ [RuntimeEvent_Failed m]"
proof -
  obtain reason st1 st2 where run: "stop_actor is rest reason st1 = Some st2"
    "st = fail_pending Request_RuntimeStopped st2"
    using assms by (auto simp: run_runtime_actor_def split: option.splits)
  define announced where "announced st \<longleftrightarrow> (\<exists>before. case rt_status st of
      RuntimeStatus_Running p \<Rightarrow> False
    | RuntimeStatus_Exited e \<Rightarrow> rt_events st = before @ [RuntimeEvent_Exited e]
    | RuntimeStatus_Failed m \<Rightarrow> rt_events st = before @ [RuntimeEvent_Failed m])" for st :: runtime_state
  have publish: "announced (publish_exit e st)" "announced (publish_failure m st)" for e m st
    by (simp_all add: announced_def publish_exit_def publish_failure_def rt_send_event_def)
  have answer: "announced (stop_answer r a st) = announced st" for r a st
    by (cases r; cases "rt_status st") (simp_all add: announced_def stop_answer_def rt_answer_def)
  have "announced st2"
  proof (cases reason)
    case (Stop_Shutdown r)
    then obtain res st3 where "st2 = (case res of Inr e \<Rightarrow> stop_answer r (Inr e) (publish_exit e st3)
       | Inl m \<Rightarrow> stop_answer r (Inl (Request_Transport m)) (publish_failure m st3))"
      using run(1) by auto
    then show ?thesis by (cases res) (simp_all add: answer publish)
  next
    case (Stop_ChildExited status)
    then show ?thesis using run(1) publish by (cases status) auto
  qed (use run(1) publish in auto)
  then show ?thesis using run(2) by (cases "rt_status st2") (simp_all add: announced_def)
qed

lemma runtime_end_announced_witness:
  "\<exists>st. run_runtime_actor (\<lambda>m. Inr ''x'') 9 7 [In_ChildExit (Inl ''e'')] [] [] = Some st \<and>
     (case rt_status st of RuntimeStatus_Running p \<Rightarrow> False | _ \<Rightarrow> True)"
proof -
  obtain st where st: "run_runtime_actor (\<lambda>m. Inr ''x'') 9 7 [In_ChildExit (Inl ''e'')] [] [] = Some st"
    by (simp add: run_runtime_actor_def)
  with runtime_end_announced [OF st] show ?thesis by (auto split: runtime_status.splits)
qed

end
