(* ===== verification/Controller.thy ===== *)
theory Controller
  imports Agent_Registry Store Runtime_Actor
begin

section \<open>The daemon's controller\<close>

text \<open>
  \<open>crates/ompd/src/controller.rs\<close>: the controller executes requests against the registry, the
  store and the runtimes. Its state is those three; a runtime is a number, \<open>dm_spawned\<close> lists
  the configurations of the processes that were started, and \<open>dm_calls\<close> what the runtimes were
  asked to do, in order. What lies outside is the record
  \<open>ctl_env\<close>: the clock (the reading number \<open>k\<close> of a handler), the timer, fresh identifiers, and what
  the calls of a runtime return, whose own task is \<open>Runtime_Actor\<close>. A handler runs from its start
  to its end here; what other tasks do while it waits is what \<open>ctl_env\<close> and its initial state say.
\<close>

subsection \<open>Errors\<close>

datatype controller_error =
    Ctl_NotFound agent_id
  | Ctl_DeviceNotFound device_id
  | Ctl_NotRunning agent_id
  | Ctl_AlreadyRunning agent_id
  | Ctl_InteractionLeaseRequired
  | Ctl_Runtime string
  | Ctl_Rpc string string
  | Ctl_ControlPlane string
  | Ctl_Persistence string

fun show_controller_error :: "controller_error \<Rightarrow> string" where
  "show_controller_error (Ctl_NotFound a) = ''agent '' @ agent_id_str a @ '' was not found''"
| "show_controller_error (Ctl_NotRunning a) = ''agent '' @ agent_id_str a @ '' is not running''"
| "show_controller_error (Ctl_DeviceNotFound d) =
     ''active device '' @ device_id_str d @ '' was not found''"
| "show_controller_error (Ctl_AlreadyRunning a) =
     ''agent '' @ agent_id_str a @ '' is already running''"
| "show_controller_error Ctl_InteractionLeaseRequired =
     ''an active interaction lease owned by this client is required''"
| "show_controller_error (Ctl_Runtime m) = m"
| "show_controller_error (Ctl_Rpc code m) = m"
| "show_controller_error (Ctl_ControlPlane m) = m"
| "show_controller_error (Ctl_Persistence m) = m"

definition make_error :: "string \<Rightarrow> string \<Rightarrow> bool \<Rightarrow> protocol_error" where
  "make_error code message retryable =
     \<lparr>perr_code = code, perr_message = message, perr_retryable = retryable\<rparr>"

fun into_protocol_error :: "controller_error \<Rightarrow> protocol_error" where
  "into_protocol_error (Ctl_NotFound a) =
     make_error ''agent_not_found'' (''agent '' @ agent_id_str a @ '' was not found'') False"
| "into_protocol_error (Ctl_NotRunning a) =
     make_error ''agent_not_running'' (''agent '' @ agent_id_str a @ '' is not running'') False"
| "into_protocol_error (Ctl_AlreadyRunning a) =
     make_error ''agent_already_running'' (''agent '' @ agent_id_str a @ '' is already running'') False"
| "into_protocol_error (Ctl_DeviceNotFound d) =
     make_error ''device_not_found'' (''active device '' @ device_id_str d @ '' was not found'') False"
| "into_protocol_error Ctl_InteractionLeaseRequired =
     make_error ''interaction_lease_required''
       ''an active interaction lease owned by this client is required'' False"
| "into_protocol_error (Ctl_Runtime m) = make_error ''runtime_error'' m True"
| "into_protocol_error (Ctl_Rpc code m) = make_error code m False"
| "into_protocol_error (Ctl_ControlPlane m) = make_error ''control_plane_error'' m True"
| "into_protocol_error (Ctl_Persistence m) = make_error ''persistence_error'' m True"

definition actor_error :: "agent_error \<Rightarrow> controller_error" where
  "actor_error e = Ctl_ControlPlane (show_agent_error e)"

definition registry_error_of :: "registry_error \<Rightarrow> controller_error" where
  "registry_error_of e = Ctl_ControlPlane (show_registry_error e)"

subsection \<open>State and environment\<close>

datatype (plugins only: code) runtime_call =
    Call_Request nat command_kind
  | Call_Send nat client_message
  | Call_Shutdown nat

record daemon =
  dm_registry :: agent_registry
  dm_runtimes :: "(agent_id, nat) bmap"
  dm_spawned :: "runtime_config list"
  dm_calls :: "runtime_call list"
  dm_store :: store
  dm_config :: runtime_config

record ctl_env =
  ce_now :: "nat \<Rightarrow> u64"
  ce_instant :: instant
  ce_uuid :: string
  ce_sqlite :: "sqlite_error \<Rightarrow> string"
  ce_spawn :: "runtime_config \<Rightarrow> runtime_spawn_error + unit"
  ce_status :: "nat \<Rightarrow> runtime_status"
  ce_request :: "nat \<Rightarrow> command_kind \<Rightarrow> request_error + rpc_response"
  ce_send :: "nat \<Rightarrow> client_message \<Rightarrow> request_error + unit"
  ce_shutdown :: "nat \<Rightarrow> request_error + runtime_exit"

text \<open>The \<open>?\<close> operator on handlers, an ignored result, and a step that cannot fail.\<close>

type_synonym 'a handler = "daemon \<Rightarrow> (controller_error + 'a) \<times> daemon"

definition hbind :: "'a handler \<Rightarrow> ('a \<Rightarrow> 'b handler) \<Rightarrow> 'b handler" where
  "hbind m f dm = (case m dm of (Inl e, dm) \<Rightarrow> (Inl e, dm) | (Inr x, dm) \<Rightarrow> f x dm)"

definition hreturn :: "'a \<Rightarrow> 'a handler" where
  "hreturn x dm = (Inr x, dm)"

definition hlift :: "controller_error + 'a \<Rightarrow> 'a handler" where
  "hlift r dm = (r, dm)"

definition hignore :: "'a handler \<Rightarrow> unit handler" where
  "hignore m dm = (Inr (), snd (m dm))"

text \<open>A call of an actor's handle, and of the store.\<close>

definition call_agent ::
  "ctl_env \<Rightarrow> (actor_reply \<Rightarrow> agent_error + 'a) \<Rightarrow> agent_handle \<Rightarrow> actor_command \<Rightarrow> 'a handler" where
  "call_agent env f h cmd dm =
     (let (reply, r) = registry_call (ce_instant env) (dm_registry dm) h cmd
      in (map_err actor_error (rbind reply f), dm\<lparr>dm_registry := r\<rparr>))"

definition persistence_error :: "ctl_env \<Rightarrow> store_error \<Rightarrow> controller_error" where
  "persistence_error env e = Ctl_Persistence (show_store_error (ce_sqlite env) e)"

definition call_store :: "ctl_env \<Rightarrow> (store \<Rightarrow> (store_error + 'a) \<times> store) \<Rightarrow> 'a handler" where
  "call_store env f dm =
     (let (r, st) = f (dm_store dm)
      in (map_err (persistence_error env) r, dm\<lparr>dm_store := st\<rparr>))"

definition agent_snapshot_of :: "ctl_env \<Rightarrow> agent_handle \<Rightarrow> agent_snapshot handler" where
  "agent_snapshot_of env h = call_agent env reply_snapshot h Cmd_Snapshot"

definition set_lifecycle :: "ctl_env \<Rightarrow> agent_handle \<Rightarrow> agent_lifecycle \<Rightarrow> unit handler" where
  "set_lifecycle env h l = call_agent env reply_unit h (Cmd_Change (LifecycleChanged l))"

definition upsert_run :: "ctl_env \<Rightarrow> agent_handle \<Rightarrow> run_snapshot \<Rightarrow> unit handler" where
  "upsert_run env h run = call_agent env reply_unit h (Cmd_Change (RunUpserted run))"

subsection \<open>Lookups\<close>

definition find_runtime :: "agent_id \<Rightarrow> nat handler" where
  "find_runtime a dm = (ok_or (bmap_get (dm_runtimes dm) a) (Ctl_NotRunning a), dm)"

definition find_agent :: "agent_id \<Rightarrow> agent_handle handler" where
  "find_agent a dm = (ok_or (registry_get (dm_registry dm) a) (Ctl_NotFound a), dm)"

definition runtime_process_id :: "ctl_env \<Rightarrow> nat \<Rightarrow> u32 option" where
  "runtime_process_id env rt =
     (case ce_status env rt of RuntimeStatus_Running p \<Rightarrow> Some p | _ \<Rightarrow> None)"

definition ensure_rpc_success :: "rpc_response \<Rightarrow> controller_error + unit" where
  "ensure_rpc_success r =
     (case r of
        RpcResponse_Success i result \<Rightarrow> Inr ()
      | RpcResponse_Error i command error code \<Rightarrow>
          Inl (Ctl_Rpc (case code of Some c \<Rightarrow> c | None \<Rightarrow> ''omp_error'') error))"

text \<open>The calls of a runtime, and a request whose response must be a success.\<close>

definition log_call :: "runtime_call \<Rightarrow> daemon \<Rightarrow> daemon" where
  "log_call c dm = dm\<lparr>dm_calls := dm_calls dm @ [c]\<rparr>"

definition call_runtime :: "runtime_call \<Rightarrow> request_error + 'a \<Rightarrow> 'a handler" where
  "call_runtime c r dm = (map_err (\<lambda>e. Ctl_Runtime (show_request_error e)) r, log_call c dm)"

definition runtime_command :: "ctl_env \<Rightarrow> nat \<Rightarrow> command_kind \<Rightarrow> unit handler" where
  "runtime_command env rt kind =
     hbind (call_runtime (Call_Request rt kind) (ce_request env rt kind)) (\<lambda>r.
       hlift (ensure_rpc_success r))"

definition optional_images :: "image_content list \<Rightarrow> image_content list option" where
  "optional_images images = (if images = [] then None else Some images)"

subsection \<open>Persisting and runs\<close>

text \<open>\<open>a\<close> is the identifier the handle carries, \<open>k\<close> the number of the reading of the clock.\<close>

definition persist_snapshot ::
  "ctl_env \<Rightarrow> nat \<Rightarrow> agent_id \<Rightarrow> agent_handle \<Rightarrow> u32 option \<Rightarrow> run_id option \<Rightarrow> unit handler" where
  "persist_snapshot env k a h process_id run =
     hbind (agent_snapshot_of env h) (\<lambda>s.
     hbind (call_store env (\<lambda>st. (store_agent a st, st))) (\<lambda>old.
       call_store env (upsert_agent
         \<lparr>agr_agent_id = a, agr_lifecycle = snap_lifecycle s, agr_process_id = process_id,
          agr_active_run_id = run,
          agr_created_at_ms = (case old of None \<Rightarrow> ce_now env k | Some r \<Rightarrow> agr_created_at_ms r),
          agr_updated_at_ms = ce_now env k\<rparr>)))"

definition end_active_run :: "ctl_env \<Rightarrow> nat \<Rightarrow> agent_handle \<Rightarrow> run_lifecycle \<Rightarrow> unit handler" where
  "end_active_run env k h l dm =
     (case agent_snapshot_of env h dm of
        (Inl e, dm) \<Rightarrow> (Inr (), dm)
      | (Inr s, dm) \<Rightarrow>
          (case snap_active_run s of
             None \<Rightarrow> (Inr (), dm)
           | Some run \<Rightarrow>
               hignore (upsert_run env h
                 (run\<lparr>run_lifecycle := l, run_ended_at_ms := Some (ce_now env k)\<rparr>)) dm))"

definition complete_active_run :: "ctl_env \<Rightarrow> nat \<Rightarrow> agent_handle \<Rightarrow> unit handler" where
  "complete_active_run env k h = end_active_run env k h Run_Completed"

definition fail_active_run :: "ctl_env \<Rightarrow> nat \<Rightarrow> agent_id \<Rightarrow> agent_handle \<Rightarrow> string \<Rightarrow> unit handler"
where
  "fail_active_run env k a h reason =
     hbind (end_active_run env k h (Run_Failed reason)) (\<lambda>_.
     hbind (hignore (set_lifecycle env h Lifecycle_Idle)) (\<lambda>_.
       hignore (persist_snapshot env (k + 1) a h None None)))"

subsection \<open>Launching and stopping\<close>

definition is_running :: "ctl_env \<Rightarrow> nat \<Rightarrow> bool" where
  "is_running env rt = (case ce_status env rt of RuntimeStatus_Running p \<Rightarrow> True | _ \<Rightarrow> False)"

definition find_or_create :: "agent_id \<Rightarrow> agent_handle handler" where
  "find_or_create a dm =
     (case registry_get (dm_registry dm) a of
        Some h \<Rightarrow> (Inr h, dm)
      | None \<Rightarrow>
          (let (res, r) = registry_create (dm_registry dm) a
           in (map_err registry_error_of res, dm\<lparr>dm_registry := r\<rparr>)))"

definition session_of_state :: "session_state \<Rightarrow> session_summary" where
  "session_of_state d = \<lparr>sum_session_id = ss_session_id d, sum_session_file = ss_session_file d,
     sum_name = ss_session_name d, sum_message_count = ss_message_count d\<rparr>"

text \<open>The session is taken over only when the process answers with its state.\<close>

definition adopt_session :: "ctl_env \<Rightarrow> nat \<Rightarrow> agent_handle \<Rightarrow> unit handler" where
  "adopt_session env rt h dm =
     (let dm = log_call (Call_Request rt Command_GetState) dm
      in case ce_request env rt Command_GetState of
           Inr (RpcResponse_Success i result) \<Rightarrow>
             (case result of
                Success_GetState d \<Rightarrow>
                  call_agent env reply_unit h (Cmd_Change (SessionChanged (session_of_state d))) dm
              | _ \<Rightarrow> hreturn () dm)
         | _ \<Rightarrow> hreturn () dm)"

definition spawn_runtime :: "ctl_env \<Rightarrow> runtime_config \<Rightarrow> nat handler" where
  "spawn_runtime env config dm =
     (case ce_spawn env config of
        Inl e \<Rightarrow> (Inl (Ctl_Runtime (show_runtime_spawn_error e)), dm)
      | Inr _ \<Rightarrow> (Inr (length (dm_spawned dm)), dm\<lparr>dm_spawned := dm_spawned dm @ [config]\<rparr>))"

definition insert_runtime :: "agent_id \<Rightarrow> nat \<Rightarrow> unit handler" where
  "insert_runtime a rt dm = (Inr (), dm\<lparr>dm_runtimes := bmap_insert a rt (dm_runtimes dm)\<rparr>)"

definition remove_runtime :: "agent_id \<Rightarrow> unit handler" where
  "remove_runtime a dm = (Inr (), dm\<lparr>dm_runtimes := bmap_remove a (dm_runtimes dm)\<rparr>)"

text \<open>
  A runtime that is not inserted is dropped, and with it its process. The task that forwards
  the runtime's events is \<open>bridge_event\<close> below.
\<close>

definition launch :: "ctl_env \<Rightarrow> nat \<Rightarrow> agent_id \<Rightarrow> runtime_config \<Rightarrow> unit handler" where
  "launch env k a config dm =
     (if (case bmap_get (dm_runtimes dm) a of None \<Rightarrow> False | Some rt \<Rightarrow> is_running env rt)
      then (Inl (Ctl_AlreadyRunning a), dm)
      else
        hbind (remove_runtime a) (\<lambda>_.
        hbind (spawn_runtime env config) (\<lambda>rt.
        hbind (find_or_create a) (\<lambda>h.
        hbind (set_lifecycle env h Lifecycle_Idle) (\<lambda>_.
        hbind (adopt_session env rt h) (\<lambda>_.
        hbind (persist_snapshot env k a h (runtime_process_id env rt) None) (\<lambda>_.
          insert_runtime a rt)))))) dm)"

definition remove_agent :: "ctl_env \<Rightarrow> agent_id \<Rightarrow> unit handler" where
  "remove_agent env a dm =
     (let (res, r) = registry_remove (ce_instant env) (dm_registry dm) a
      in (map_err registry_error_of res, dm\<lparr>dm_registry := r\<rparr>))"

definition stop :: "ctl_env \<Rightarrow> nat \<Rightarrow> agent_id \<Rightarrow> unit handler" where
  "stop env k a =
     hbind (find_runtime a) (\<lambda>rt.
     hbind (remove_runtime a) (\<lambda>_.
     hbind (find_agent a) (\<lambda>h.
     hbind (set_lifecycle env h Lifecycle_Stopping) (\<lambda>_.
     hbind (call_runtime (Call_Shutdown rt) (ce_shutdown env rt)) (\<lambda>_.
     hbind (set_lifecycle env h Lifecycle_Stopped) (\<lambda>_.
     hbind (persist_snapshot env k a h None None) (\<lambda>_.
       remove_agent env a)))))))"

subsection \<open>Requests\<close>

definition holds_lease :: "agent_snapshot \<Rightarrow> lease_holder_id \<Rightarrow> u64 \<Rightarrow> bool" where
  "holds_lease s holder now =
     (case snap_interaction s of
        Unclaimed \<Rightarrow> False
      | Leased lease \<Rightarrow> lease_holder lease = holder \<and> now < lease_expires_at_ms lease)"

definition send_ui_response ::
  "ctl_env \<Rightarrow> agent_id \<Rightarrow> lease_holder_id \<Rightarrow> extension_ui_response_frame \<Rightarrow> unit handler" where
  "send_ui_response env a holder response =
     hbind (find_agent a) (\<lambda>h.
     hbind (agent_snapshot_of env h) (\<lambda>s.
       if \<not> holds_lease s holder (ce_now env 0) then hlift (Inl Ctl_InteractionLeaseRequired)
       else
         hbind (find_runtime a) (\<lambda>rt.
           call_runtime (Call_Send rt (ClientMessage_ExtensionUi response))
             (ce_send env rt (ClientMessage_ExtensionUi response)))))"

fun list_snapshots :: "ctl_env \<Rightarrow> agent_id list \<Rightarrow> agent_snapshot list handler" where
  "list_snapshots env [] = hreturn []"
| "list_snapshots env (a # as) =
     (\<lambda>dm. case registry_get (dm_registry dm) a of
        None \<Rightarrow> list_snapshots env as dm
      | Some h \<Rightarrow>
          hbind (agent_snapshot_of env h) (\<lambda>s.
          hbind (list_snapshots env as) (\<lambda>ss. hreturn (s # ss))) dm)"

definition device_summary_of :: "device_record \<Rightarrow> device_summary" where
  "device_summary_of r = \<lparr>ds_device_id = dev_device_id r, ds_name = dev_name r,
     ds_platform = dev_platform r, ds_scopes = dev_scopes r,
     ds_created_at_ms = dev_created_at_ms r, ds_last_seen_at_ms = dev_last_seen_at_ms r,
     ds_revoked_at_ms = dev_revoked_at_ms r\<rparr>"

text \<open>A prompt that the process rejects returns early; only a failure to ask ends the run.\<close>

definition prompt ::
  "ctl_env \<Rightarrow> agent_id \<Rightarrow> string \<Rightarrow> image_content list \<Rightarrow> streaming_behavior option \<Rightarrow>
     control_response handler" where
  "prompt env a message images behavior =
     hbind (find_runtime a) (\<lambda>rt.
     hbind (find_agent a) (\<lambda>h.
     hbind (upsert_run env h \<lparr>run_run_id = RunId (ce_uuid env), run_lifecycle = Run_Running,
         run_started_at_ms = ce_now env 0, run_ended_at_ms = None\<rparr>) (\<lambda>_.
     hbind (set_lifecycle env h Lifecycle_Running) (\<lambda>_.
     hbind (persist_snapshot env 1 a h (runtime_process_id env rt) (Some (RunId (ce_uuid env)))) (\<lambda>_. \<lambda>dm.
       let kind = runtime_prompt_kind message (optional_images images) behavior;
           dm = log_call (Call_Request rt kind) dm
       in case ce_request env rt kind of
            Inr response \<Rightarrow>
              hbind (hlift (ensure_rpc_success response)) (\<lambda>_.
                hreturn (Resp_PromptAccepted (RunId (ce_uuid env)))) dm
          | Inl e \<Rightarrow>
              hbind (fail_active_run env 2 a h (show_request_error e)) (\<lambda>_.
                hlift (Inl (Ctl_Runtime (show_request_error e)))) dm)))))"

definition abort :: "ctl_env \<Rightarrow> agent_id \<Rightarrow> control_response handler" where
  "abort env a =
     hbind (find_runtime a) (\<lambda>rt.
     hbind (runtime_command env rt Command_Abort) (\<lambda>_.
     hbind (find_agent a) (\<lambda>h. \<lambda>dm.
       case agent_snapshot_of env h dm of
         (Inl e, dm) \<Rightarrow> hreturn Resp_Accepted dm
       | (Inr s, dm) \<Rightarrow>
           (case snap_active_run s of
              None \<Rightarrow> hreturn Resp_Accepted dm
            | Some run \<Rightarrow>
                hbind (find_agent a) (\<lambda>h.
                hbind (upsert_run env h (run\<lparr>run_lifecycle := Run_Aborted,
                    run_ended_at_ms := Some (ce_now env 0)\<rparr>)) (\<lambda>_.
                  hreturn Resp_Accepted)) dm))))"

fun execute_inner :: "ctl_env \<Rightarrow> control_request \<Rightarrow> control_response handler" where
  "execute_inner env Req_ListAgents =
     (\<lambda>dm. hbind (list_snapshots env (registry_list (dm_registry dm)))
        (\<lambda>ss. hreturn (Resp_Agents ss)) dm)"
| "execute_inner env Req_ListDevices =
     hbind (call_store env (\<lambda>st. (store_devices st, st))) (\<lambda>rs.
       hreturn (Resp_Devices (map device_summary_of rs)))"
| "execute_inner env (Req_RevokeDevice d) =
     hbind (call_store env (revoke_device d (ce_now env 0))) (\<lambda>revoked.
       if \<not> revoked then hlift (Inl (Ctl_DeviceNotFound d)) else hreturn (Resp_DeviceRevoked d))"
| "execute_inner env (Req_GetAgent a) =
     hbind (find_agent a) (\<lambda>h. hbind (agent_snapshot_of env h) (\<lambda>s. hreturn (Resp_Agent s)))"
| "execute_inner env (Req_LaunchAgent a) =
     (\<lambda>dm. hbind (launch env 0 a (dm_config dm)) (\<lambda>_. hreturn Resp_Accepted) dm)"
| "execute_inner env (Req_StopAgent a) = hbind (stop env 0 a) (\<lambda>_. hreturn Resp_Accepted)"
| "execute_inner env (Req_Prompt a message images behavior) = prompt env a message images behavior"
| "execute_inner env (Req_Steer a message images) =
     hbind (find_runtime a) (\<lambda>rt.
     hbind (runtime_command env rt (Command_Steer message (optional_images images))) (\<lambda>_.
       hreturn Resp_Accepted))"
| "execute_inner env (Req_FollowUp a message images) =
     hbind (find_runtime a) (\<lambda>rt.
     hbind (runtime_command env rt (Command_FollowUp message (optional_images images))) (\<lambda>_.
       hreturn Resp_Accepted))"
| "execute_inner env (Req_Abort a) = abort env a"
| "execute_inner env (Req_SwitchSession a path) =
     hbind (stop env 0 a) (\<lambda>_. \<lambda>dm.
       hbind (launch env 1 a (RuntimeConfig_arg path (RuntimeConfig_arg ''--session'' (dm_config dm))))
         (\<lambda>_. hreturn Resp_Accepted) dm)"
| "execute_inner env (Req_RespondToUi a holder response) =
     hbind (send_ui_response env a holder response) (\<lambda>_. hreturn Resp_Accepted)"
| "execute_inner env (Req_AcquireInteractionLease a holder ttl) =
     hbind (find_agent a) (\<lambda>h.
     hbind (call_agent env reply_lease h (Cmd_AcquireLease holder (ce_now env 0) ttl)) (\<lambda>lease.
       hreturn (Resp_InteractionLease lease)))"
| "execute_inner env (Req_ReleaseInteractionLease a holder) =
     hbind (find_agent a) (\<lambda>h.
     hbind (call_agent env reply_unit h (Cmd_ReleaseLease holder)) (\<lambda>_.
       hreturn Resp_InteractionReleased))"

definition execute :: "ctl_env \<Rightarrow> control_request \<Rightarrow> daemon \<Rightarrow> response_outcome \<times> daemon" where
  "execute env request dm =
     (case execute_inner env request dm of
        (Inr response, dm) \<Rightarrow> (Outcome_Success response, dm)
      | (Inl e, dm) \<Rightarrow> (Outcome_Error (into_protocol_error e), dm))"

subsection \<open>Forwarding the events of a runtime\<close>

text \<open>\<open>Debug\<close> of an \<open>Option<i32>\<close>.\<close>

definition show_exit_code :: "i32 option \<Rightarrow> string" where
  "show_exit_code c =
     (case c of
        None \<Rightarrow> ''None''
      | Some v \<Rightarrow> ''Some('' @ (if sint v < 0 then ''-'' @ show_nat (nat (- sint v))
                             else show_nat (nat (sint v))) @ '')'')"

definition exit_lifecycle :: "runtime_exit \<Rightarrow> agent_lifecycle" where
  "exit_lifecycle e =
     (if exit_success e then Lifecycle_Stopped
      else Lifecycle_Failed_because (''OMP exited with status '' @ show_exit_code (exit_code e)))"

datatype (plugins only: code) bridge_input =
  Bridge_Event runtime_event | Bridge_Lagged | Bridge_Closed

definition bridge_frame ::
  "ctl_env \<Rightarrow> agent_id \<Rightarrow> agent_handle \<Rightarrow> u32 option \<Rightarrow> server_message \<Rightarrow> unit handler" where
  "bridge_frame env a h process_id frame =
     hbind (case frame of
         ServerMessage_SessionEvent Event_AgentStart \<Rightarrow>
           hignore (set_lifecycle env h Lifecycle_Running)
       | ServerMessage_SessionEvent (Event_AgentEnd ms n t c terminal) \<Rightarrow>
           hbind (complete_active_run env 0 h) (\<lambda>_.
           hbind (hignore (set_lifecycle env h Lifecycle_Idle)) (\<lambda>_.
             hignore (persist_snapshot env 1 a h process_id None)))
       | _ \<Rightarrow> hreturn ()) (\<lambda>_.
     hignore (call_agent env reply_sequence h (Cmd_PublishEvent frame)))"

text \<open>One turn of the loop: whether it goes on, and the state.\<close>

fun bridge_event ::
  "ctl_env \<Rightarrow> agent_id \<Rightarrow> agent_handle \<Rightarrow> u32 option \<Rightarrow> bridge_input \<Rightarrow> daemon \<Rightarrow> bool \<times> daemon" where
  "bridge_event env a h process_id (Bridge_Event (RuntimeEvent_Frame frame)) dm =
     (True, snd (bridge_frame env a h process_id frame dm))"
| "bridge_event env a h process_id (Bridge_Event (RuntimeEvent_Exited e)) dm =
     (False, snd (hbind (hignore (set_lifecycle env h (exit_lifecycle e))) (\<lambda>_.
       hignore (persist_snapshot env 0 a h None None)) dm))"
| "bridge_event env a h process_id (Bridge_Event (RuntimeEvent_Failed e)) dm =
     (False, snd (hbind (hignore (set_lifecycle env h (Lifecycle_Failed_because e))) (\<lambda>_.
       hignore (persist_snapshot env 0 a h None None)) dm))"
| "bridge_event env a h process_id (Bridge_Event (RuntimeEvent_Stderr e)) dm = (True, dm)"
| "bridge_event env a h process_id Bridge_Lagged dm =
     (True, snd (set_lifecycle env h
       (Lifecycle_Failed_because ''local OMP event bridge fell behind'') dm))"
| "bridge_event env a h process_id Bridge_Closed dm = (False, dm)"

subsection \<open>Starting and ending\<close>

definition recovered_snapshot :: "agent_record \<Rightarrow> session_resume_record option \<Rightarrow> agent_snapshot" where
  "recovered_snapshot r session =
     \<lparr>snap_agent_id = agr_agent_id r,
      snap_revision = (case session of None \<Rightarrow> 0 | Some s \<Rightarrow> ses_revision s),
      snap_event_sequence = (case session of None \<Rightarrow> 0 | Some s \<Rightarrow> ses_event_sequence s),
      snap_lifecycle = agr_lifecycle r,
      snap_session = map_option (\<lambda>s. \<lparr>sum_session_id = ses_session_id s,
        sum_session_file = Some (ses_session_file s), sum_name = None, sum_message_count = 0\<rparr>) session,
      snap_active_run = None, snap_recent_runs = [], snap_interaction = Unclaimed,
      snap_available_commands = []\<rparr>"

definition recover_snapshots :: "store \<Rightarrow> store_error + agent_snapshot list" where
  "recover_snapshots st =
     rbind (store_agents st) (\<lambda>rs.
       collect (map (\<lambda>r. rbind (store_session (agr_agent_id r) st) (\<lambda>s. Inr (recovered_snapshot r s))) rs))"

fun restore_all ::
  "agent_registry \<Rightarrow> agent_snapshot list \<Rightarrow> (controller_error + unit) \<times> agent_registry" where
  "restore_all r [] = (Inr (), r)"
| "restore_all r (s # ss) =
     (case registry_restore r s of
        (Inl e, r) \<Rightarrow> (Inl (registry_error_of e), r)
      | (Inr h, r) \<Rightarrow> restore_all r ss)"

definition DaemonController_new ::
  "(sqlite_error \<Rightarrow> string) \<Rightarrow> agent_registry \<Rightarrow> runtime_config \<Rightarrow> store \<Rightarrow> controller_error + daemon" where
  "DaemonController_new sqlite r config st =
     rbind (map_err (\<lambda>e. Ctl_Persistence (show_store_error sqlite e)) (recover_snapshots st)) (\<lambda>ss.
       case restore_all r ss of
         (Inl e, r) \<Rightarrow> Inl e
       | (Inr _, r) \<Rightarrow> Inr \<lparr>dm_registry = r, dm_runtimes = [], dm_spawned = [], dm_calls = [], dm_store = st,
           dm_config = config\<rparr>)"

text \<open>Shutting down one agent: its errors are kept, the first one is returned at the end.\<close>

definition shutdown_agent :: "ctl_env \<Rightarrow> nat \<Rightarrow> agent_id \<Rightarrow> nat \<Rightarrow> daemon \<Rightarrow> controller_error list \<times> daemon"
where
  "shutdown_agent env k a rt dm =
     (case registry_get (dm_registry dm) a of
        None \<Rightarrow> ([], dm)
      | Some h \<Rightarrow>
          (let dm = log_call (Call_Shutdown rt) (snd (set_lifecycle env h Lifecycle_Stopping dm));
               (errors, dm) = (case ce_shutdown env rt of
                   Inl e \<Rightarrow> ([Ctl_Runtime (show_request_error e)],
                     snd (set_lifecycle env h (Lifecycle_Failed_because (show_request_error e)) dm))
                 | Inr _ \<Rightarrow> ([], snd (set_lifecycle env h Lifecycle_Stopped dm)));
               (res, dm) = persist_snapshot env k a h None None dm
           in (errors @ (case res of Inl e \<Rightarrow> [e] | Inr _ \<Rightarrow> []), dm)))"

fun shutdown_agents ::
  "ctl_env \<Rightarrow> nat \<Rightarrow> (agent_id \<times> nat) list \<Rightarrow> daemon \<Rightarrow> controller_error list \<times> daemon" where
  "shutdown_agents env k [] dm = ([], dm)"
| "shutdown_agents env k ((a, rt) # rts) dm =
     (let (errors, dm) = shutdown_agent env k a rt dm;
          (more, dm) = shutdown_agents env (k + 1) rts dm
      in (errors @ more, dm))"

definition controller_shutdown :: "ctl_env \<Rightarrow> unit handler" where
  "controller_shutdown env dm =
     (let (errors, dm) = shutdown_agents env 0 (dm_runtimes dm) (dm\<lparr>dm_runtimes := []\<rparr>)
      in (case errors of [] \<Rightarrow> Inr () | e # _ \<Rightarrow> Inl e, dm))"

end
