(* ===== verification/Controller_Invariants.thy ===== *)
theory Controller_Invariants
  imports Controller Store_Invariants
begin

section \<open>What the controller does to its state\<close>

text \<open>
  Two interfaces say what a client of the controller may rely on. \<open>daemon_calls\<close>: a reflexive
  and transitive relation that every single call of an actor and of the store keeps holds from
  before to after every handler that neither launches nor stops. \<open>daemon_relation\<close> adds the
  steps of launching and stopping and then covers every request, every forwarded event and the
  shutdown. The interpretations give the frame of the simple handlers, the well-formedness of
  the registry, and the history of the store.
\<close>

lemmas handler_defs = hbind_def hreturn_def hlift_def hignore_def

lemma hbind_snd:
  "snd (hbind m f dm) = (case fst (m dm) of Inl e \<Rightarrow> snd (m dm) | Inr x \<Rightarrow> snd (f x (snd (m dm))))"
  by (cases "m dm"; cases "fst (m dm)") (simp_all add: hbind_def)

lemma handler_snd [simp]:
  "snd (hreturn x dm) = dm" "snd (hlift r dm) = dm" "snd (hignore m dm) = snd (m dm)"
  "snd (find_runtime a dm) = dm" "snd (find_agent a dm) = dm"
  by (simp_all add: handler_defs find_runtime_def find_agent_def)

lemma call_agent_snd:
  "snd (call_agent env f h cmd dm) =
     dm\<lparr>dm_registry := snd (registry_call (ce_instant env) (dm_registry dm) h cmd)\<rparr>"
  by (simp add: call_agent_def split: prod.splits)

lemma call_store_snd: "snd (call_store env f dm) = dm\<lparr>dm_store := snd (f (dm_store dm))\<rparr>"
  by (simp add: call_store_def split: prod.splits)

locale daemon_calls =
  fixes R :: "daemon \<Rightarrow> daemon \<Rightarrow> bool"
  assumes R_refl: "R dm dm"
    and R_trans: "R dm dm' \<Longrightarrow> R dm' dm'' \<Longrightarrow> R dm dm''"
    and R_call: "R dm (dm\<lparr>dm_registry := snd (registry_call now (dm_registry dm) h cmd)\<rparr>)"
    and R_upsert: "R dm (dm\<lparr>dm_store := snd (upsert_agent rec (dm_store dm))\<rparr>)"
    and R_log: "R dm (log_call c dm)"
    and R_revoke: "R dm (dm\<lparr>dm_store := snd (revoke_device d time (dm_store dm))\<rparr>)"
begin

lemma R_bind:
  assumes "R dm (snd (m dm))" "\<And>x dm. R dm (snd (f x dm))"
  shows "R dm (snd (hbind m f dm))"
  using assms R_trans by (auto simp: hbind_snd split: sum.splits)

lemma R_call_agent: "R dm (snd (call_agent env f h cmd dm))"
  unfolding call_agent_snd by (rule R_call)

lemma R_agent_ops:
  "R dm (snd (agent_snapshot_of env h dm))" "R dm (snd (set_lifecycle env h l dm))"
  "R dm (snd (upsert_run env h run dm))"
  by (simp_all add: agent_snapshot_of_def set_lifecycle_def upsert_run_def R_call_agent)

lemma R_read_store: "R dm (snd (call_store env (\<lambda>st. (f st, st)) dm))"
  by (simp add: call_store_snd R_refl)

lemma R_persist: "R dm (snd (persist_snapshot env k a h p run dm))"
  unfolding persist_snapshot_def
  by (intro R_bind R_agent_ops R_read_store) (simp add: call_store_snd R_upsert)

lemma R_end_run: "R dm (snd (end_active_run env k h l dm))"
proof -
  obtain res dm1 where s: "agent_snapshot_of env h dm = (res, dm1)" by fastforce
  then have "R dm dm1" using R_agent_ops(1) [of dm env h] by simp
  then show ?thesis
    using R_trans [OF _ R_agent_ops(3)] s
    by (auto simp: end_active_run_def split: sum.splits option.splits)
qed

lemma R_fail_run: "R dm (snd (fail_active_run env k a h reason dm))"
  unfolding fail_active_run_def by (intro R_bind R_end_run) (simp_all add: R_agent_ops R_persist)

lemma R_call_runtime: "R dm (snd (call_runtime c r dm))"
  by (simp add: call_runtime_def R_log)

lemma R_runtime_command: "R dm (snd (runtime_command env rt kind dm))"
  unfolding runtime_command_def by (intro R_bind R_call_runtime) (simp add: R_refl)

lemma R_adopt: "R dm (snd (adopt_session env rt h dm))"
  using R_trans [OF R_log R_call_agent] R_log
  by (auto simp: adopt_session_def Let_def
      split: sum.splits rpc_response.splits success_response.splits)

lemma R_prompt: "R dm (snd (prompt env a message images behavior dm))"
  unfolding prompt_def
  by (intro R_bind R_agent_ops R_persist)
    (auto simp: R_refl R_log hbind_snd Let_def intro: R_trans [OF R_log R_fail_run] split: sum.splits)

lemma R_send_ui: "R dm (snd (send_ui_response env a holder response dm))"
  unfolding send_ui_response_def
  by (intro R_bind R_agent_ops) (auto simp: R_refl hbind_snd R_call_runtime split: sum.splits)

lemma R_abort: "R dm (snd (abort env a dm))"
proof -
  have "R dm (snd (case agent_snapshot_of env h dm of
      (Inl e, dm) \<Rightarrow> hreturn Resp_Accepted dm
    | (Inr s, dm) \<Rightarrow>
        (case snap_active_run s of
           None \<Rightarrow> hreturn Resp_Accepted dm
         | Some run \<Rightarrow>
             hbind (find_agent a) (\<lambda>h.
             hbind (upsert_run env h (run\<lparr>run_lifecycle := Run_Aborted,
                 run_ended_at_ms := Some (ce_now env 0)\<rparr>)) (\<lambda>_.
               hreturn Resp_Accepted)) dm)))" for h dm
  proof -
    obtain res dm1 where s: "agent_snapshot_of env h dm = (res, dm1)" by fastforce
    then have d: "R dm dm1" using R_agent_ops(1) [of dm env h] by simp
    have "R dm1 (snd (hbind (find_agent a) (\<lambda>h. hbind (upsert_run env h run) (\<lambda>_. hreturn Resp_Accepted)) dm1))"
      for run by (intro R_bind R_agent_ops) (simp_all add: R_refl)
    with d s R_trans show ?thesis by (auto split: sum.splits option.splits)
  qed
  then show ?thesis
    unfolding abort_def by (intro R_bind R_runtime_command) (simp_all add: R_refl)
qed

lemma R_list_snapshots: "R dm (snd (list_snapshots env as dm))"
proof (induction "as" arbitrary: dm)
  case (Cons a as)
  then show ?case
    by (auto intro!: R_bind R_agent_ops simp: R_refl split: option.splits)
qed (simp add: R_refl)

text \<open>The requests that neither launch nor stop.\<close>

lemma R_simple_request:
  assumes "\<And>a. request \<noteq> Req_LaunchAgent a" "\<And>a. request \<noteq> Req_StopAgent a"
    "\<And>a path. request \<noteq> Req_SwitchSession a path"
  shows "R dm (snd (execute_inner env request dm))"
proof (cases request)
  case (Req_RevokeDevice d)
  have "R dm (snd (call_store env (revoke_device d (ce_now env 0)) dm))"
    unfolding call_store_snd by (rule R_revoke)
  then show ?thesis
    using Req_RevokeDevice by (auto intro!: R_bind simp: R_refl)
qed (use assms in \<open>auto intro!: R_bind R_agent_ops R_read_store R_call_agent R_runtime_command
      simp: R_refl R_prompt R_abort R_send_ui R_list_snapshots\<close>)

lemma R_bridge_frame: "R dm (snd (bridge_frame env a h p frame dm))"
proof -
  have "R dm (snd (hbind (complete_active_run env 0 h) (\<lambda>_.
      hbind (hignore (set_lifecycle env h Lifecycle_Idle)) (\<lambda>_.
        hignore (persist_snapshot env 1 a h p None))) dm))" for dm
    by (intro R_bind) (simp_all add: complete_active_run_def R_end_run R_agent_ops R_persist)
  then show ?thesis
    unfolding bridge_frame_def
    by (intro R_bind)
      (auto simp: R_refl R_agent_ops R_call_agent split: server_message.splits session_event.splits)
qed

lemma R_bridge: "R dm (snd (bridge_event env a h p inp dm))"
proof (cases "(env, a, h, p, inp, dm)" rule: bridge_event.cases)
  case (2 env a h p e dm)
  then show ?thesis by (auto intro!: R_bind simp: R_agent_ops R_persist)
next
  case (3 env a h p e dm)
  then show ?thesis by (auto intro!: R_bind simp: R_agent_ops R_persist)
qed (simp_all add: R_refl R_bridge_frame R_agent_ops)

lemma R_shutdown_agent: "R dm (snd (shutdown_agent env k a rt dm))"
proof (cases "registry_get (dm_registry dm) a")
  case (Some h)
  let ?dm0 = "snd (set_lifecycle env h Lifecycle_Stopping dm)"
  let ?dm1 = "log_call (Call_Shutdown rt) ?dm0"
  let ?l = "case ce_shutdown env rt of Inl e \<Rightarrow> Lifecycle_Failed_because (show_request_error e)
    | Inr _ \<Rightarrow> Lifecycle_Stopped"
  let ?dm2 = "snd (set_lifecycle env h ?l ?dm1)"
  have "snd (shutdown_agent env k a rt dm) = snd (persist_snapshot env k a h None None ?dm2)"
    using Some
    by (cases "ce_shutdown env rt"; cases "persist_snapshot env k a h None None ?dm2")
      (simp_all add: shutdown_agent_def)
  moreover have "R dm ?dm1" "R ?dm1 ?dm2" "R ?dm2 (snd (persist_snapshot env k a h None None ?dm2))"
    by (simp_all only: R_agent_ops R_persist R_trans [OF R_agent_ops(2) R_log])
  ultimately show ?thesis by (simp only:) (rule R_trans, assumption, rule R_trans)
qed (simp add: shutdown_agent_def R_refl)

lemma R_shutdown_agents: "R dm (snd (shutdown_agents env k rts dm))"
proof (induction env k rts dm rule: shutdown_agents.induct)
  case (2 env k a rt rts dm)
  obtain es dm1 where s: "shutdown_agent env k a rt dm = (es, dm1)" by fastforce
  then have "R dm dm1" using R_shutdown_agent [of dm env k a rt] by simp
  moreover have "R dm1 (snd (shutdown_agents env (k + 1) rts dm1))"
    using "2.IH" [of "(es, dm1)" es dm1] s by simp
  ultimately show ?case using s R_trans by (auto simp: Let_def split: prod.splits)
qed (simp add: R_refl)

end

locale daemon_relation = daemon_calls +
  assumes R_create: "R dm (dm\<lparr>dm_registry := snd (registry_create (dm_registry dm) a)\<rparr>)"
    and R_remove: "R dm (dm\<lparr>dm_registry := snd (registry_remove now (dm_registry dm) a)\<rparr>)"
    and R_runtimes: "R dm (dm\<lparr>dm_runtimes := rts\<rparr>)"
    and R_spawned: "R dm (dm\<lparr>dm_spawned := cs\<rparr>)"
begin

lemma R_find_or_create: "R dm (snd (find_or_create a dm))"
  using R_create [of dm a]
  by (auto simp: find_or_create_def R_refl split: option.splits prod.splits)

lemma R_launch: "R dm (snd (launch env k a config dm))"
proof -
  have s: "R dm (snd (spawn_runtime env config dm))" for dm
    using R_spawned by (simp add: spawn_runtime_def R_refl split: sum.splits)
  have "R dm (snd (hbind (remove_runtime a) (\<lambda>_.
        hbind (spawn_runtime env config) (\<lambda>rt.
        hbind (find_or_create a) (\<lambda>h.
        hbind (set_lifecycle env h Lifecycle_Idle) (\<lambda>_.
        hbind (adopt_session env rt h) (\<lambda>_.
        hbind (persist_snapshot env k a h (runtime_process_id env rt) None) (\<lambda>_.
          insert_runtime a rt)))))) dm))"
    by (intro R_bind s R_find_or_create R_agent_ops R_adopt R_persist)
      (simp_all add: remove_runtime_def insert_runtime_def R_runtimes)
  then show ?thesis by (simp add: launch_def R_refl)
qed

lemma R_remove_agent: "R dm (snd (remove_agent env a dm))"
  using R_remove [of dm "ce_instant env" a]
  by (cases "registry_remove (ce_instant env) (dm_registry dm) a") (simp add: remove_agent_def)

lemma R_stop: "R dm (snd (stop env k a dm))"
  unfolding stop_def
  by (intro R_bind R_agent_ops R_persist R_remove_agent R_call_runtime)
    (simp_all add: R_refl remove_runtime_def R_runtimes)

lemma R_execute_inner: "R dm (snd (execute_inner env request dm))"
proof (cases request)
  case (Req_SwitchSession a path)
  then show ?thesis by (auto intro!: R_bind R_stop R_launch simp: R_refl)
next
  case (Req_LaunchAgent a)
  then show ?thesis by (auto intro!: R_bind R_launch simp: R_refl)
next
  case (Req_StopAgent a)
  then show ?thesis by (auto intro!: R_bind R_stop simp: R_refl)
qed (rule R_simple_request; simp)+

lemma R_execute: "R dm (snd (execute env request dm))"
  using R_execute_inner [of dm env request] by (auto simp: execute_def split: prod.splits sum.splits)

lemma R_controller_shutdown: "R dm (snd (controller_shutdown env dm))"
  using R_trans [OF R_runtimes R_shutdown_agents]
  by (auto simp: controller_shutdown_def Let_def split: prod.splits) (metis snd_conv)

end

subsection \<open>The frame, the registry and the store\<close>

definition same_agents :: "daemon \<Rightarrow> daemon \<Rightarrow> bool" where
  "same_agents dm dm' \<longleftrightarrow>
     reg_agents (dm_registry dm') = reg_agents (dm_registry dm) \<and>
     dm_runtimes dm' = dm_runtimes dm \<and> dm_spawned dm' = dm_spawned dm \<and> dm_config dm' = dm_config dm"

definition keeps_registry :: "daemon \<Rightarrow> daemon \<Rightarrow> bool" where
  "keeps_registry dm dm' \<longleftrightarrow> (registry_wf (dm_registry dm) \<longrightarrow> registry_wf (dm_registry dm'))"

text \<open>The controller itself only stores agents and revokes devices.\<close>

fun controller_event :: "store_event \<Rightarrow> bool" where
  "controller_event (Ev_UpsertAgent r) = True"
| "controller_event (Ev_Revoke d r) = True"
| "controller_event _ = False"

definition store_history :: "store_env \<Rightarrow> daemon \<Rightarrow> daemon \<Rightarrow> bool" where
  "store_history senv dm dm' \<longleftrightarrow>
     (\<exists>es. store_steps senv (dm_store dm) es (dm_store dm') \<and> list_all controller_event es)"

lemma registry_call_agents [simp]: "reg_agents (snd (registry_call now r h cmd)) = reg_agents r"
  by (simp add: registry_call_def split: prod.splits)

lemma store_steps_append:
  "store_steps senv st es st' \<Longrightarrow> store_steps senv st' es' st'' \<Longrightarrow> store_steps senv st (es @ es') st''"
  by (induction rule: store_steps.induct) (auto intro: store_steps.cons)

lemma store_history_step:
  "store_step senv (dm_store dm) e st' \<Longrightarrow> controller_event e \<Longrightarrow>
     store_history senv dm (dm\<lparr>dm_store := st'\<rparr>)"
  unfolding store_history_def by (intro exI [of _ "[e]"]) (auto intro: store_steps.intros)

interpretation ctl_frame: daemon_calls same_agents
  by unfold_locales (auto simp: same_agents_def log_call_def)

interpretation ctl_registry: daemon_relation keeps_registry
proof unfold_locales
  fix dm now h cmd
  show "keeps_registry dm (dm\<lparr>dm_registry := snd (registry_call now (dm_registry dm) h cmd)\<rparr>)"
    using registry_call_wf [OF _ prod.collapse [symmetric]] by (simp add: keeps_registry_def)
next
  fix dm a
  show "keeps_registry dm (dm\<lparr>dm_registry := snd (registry_create (dm_registry dm) a)\<rparr>)"
    using registry_create_wf [OF _ prod.collapse [symmetric]] by (simp add: keeps_registry_def)
next
  fix dm now a
  show "keeps_registry dm (dm\<lparr>dm_registry := snd (registry_remove now (dm_registry dm) a)\<rparr>)"
    using registry_remove_wf [OF _ prod.collapse [symmetric]] by (simp add: keeps_registry_def)
qed (auto simp: keeps_registry_def log_call_def)

interpretation ctl_store: daemon_relation "store_history senv" for senv
proof unfold_locales
  show "store_history senv dm dm" for dm
    unfolding store_history_def by (intro exI [of _ "[]"]) (auto intro: store_steps.none)
  show "store_history senv dm dm''" if "store_history senv dm dm'" "store_history senv dm' dm''"
    for dm dm' dm''
    using that store_steps_append unfolding store_history_def
    by (metis list_all_append)
  show "store_history senv dm (dm\<lparr>dm_store := snd (upsert_agent rec (dm_store dm))\<rparr>)" for dm rec
    using store_history_step [OF store_step.upsert_agent [OF prod.collapse [symmetric]]] by simp
  show "store_history senv dm (dm\<lparr>dm_store := snd (revoke_device d time (dm_store dm))\<rparr>)" for dm d time
    using store_history_step [OF store_step.revoke [OF prod.collapse [symmetric]]] by simp
qed (auto simp: store_history_def log_call_def intro!: exI [of _ "[]"] store_steps.none)

subsection \<open>Every runtime belongs to a registered agent\<close>

definition runtimes_registered :: "daemon \<Rightarrow> bool" where
  "runtimes_registered dm \<longleftrightarrow> bmap_invar (dm_runtimes dm) \<and>
     (\<forall>a rt. bmap_get (dm_runtimes dm) a = Some rt \<longrightarrow>
        registry_get (dm_registry dm) a \<noteq> None \<and> rt < length (dm_spawned dm) \<and>
        (\<forall>b. bmap_get (dm_runtimes dm) b = Some rt \<longrightarrow> b = a))"

definition controller_wf :: "daemon \<Rightarrow> bool" where
  "controller_wf dm \<longleftrightarrow> registry_wf (dm_registry dm) \<and> runtimes_registered dm \<and> store_wf (dm_store dm)"

lemma runtimes_registered_same:
  "same_agents dm dm' \<Longrightarrow> runtimes_registered dm \<Longrightarrow> runtimes_registered dm'"
  by (simp add: same_agents_def runtimes_registered_def registry_get_def)

lemma store_history_wf: "store_history senv dm dm' \<Longrightarrow> store_wf (dm_store dm) \<Longrightarrow> store_wf (dm_store dm')"
  by (auto simp: store_history_def dest: store_wf_steps)

text \<open>
  Launching and stopping change the two maps. What the other steps of these handlers keep is the
  frame; the rules follow the \<open>?\<close> operator.
\<close>

definition ensures :: "(daemon \<Rightarrow> bool) \<Rightarrow> 'a handler \<Rightarrow> ('a \<Rightarrow> daemon \<Rightarrow> bool) \<Rightarrow> (daemon \<Rightarrow> bool) \<Rightarrow> bool"
where
  "ensures P m Q E \<longleftrightarrow>
     (\<forall>dm. P dm \<longrightarrow> (case m dm of (Inl e, dm') \<Rightarrow> E dm' | (Inr x, dm') \<Rightarrow> Q x dm'))"

lemma ensures_bind:
  assumes "ensures P m M E" "\<And>x. ensures (M x) (f x) Q E"
  shows "ensures P (hbind m f) Q E"
  unfolding ensures_def
proof (intro allI impI)
  fix dm assume "P dm"
  then have m: "case m dm of (Inl e, dm') \<Rightarrow> E dm' | (Inr x, dm') \<Rightarrow> M x dm'"
    using assms(1) by (simp add: ensures_def)
  obtain r dm1 where "m dm = (r, dm1)" by fastforce
  with m assms(2) show "case hbind m f dm of (Inl e, dm') \<Rightarrow> E dm' | (Inr x, dm') \<Rightarrow> Q x dm'"
    by (cases r) (simp_all add: hbind_def ensures_def)
qed

text \<open>A state in which the two maps satisfy \<open>S\<close>.\<close>

definition maps_inv ::
  "((agent_id, agent_handle) bmap \<Rightarrow> (agent_id, nat) bmap \<Rightarrow> runtime_config list \<Rightarrow> bool) \<Rightarrow>
     daemon \<Rightarrow> bool" where
  "maps_inv S dm \<longleftrightarrow> registry_wf (dm_registry dm) \<and> runtimes_registered dm \<and>
     S (reg_agents (dm_registry dm)) (dm_runtimes dm) (dm_spawned dm)"

text \<open>A process that is in no entry of the map yet.\<close>

definition fresh_runtime :: "nat \<Rightarrow> (agent_id, nat) bmap \<Rightarrow> runtime_config list \<Rightarrow> bool" where
  "fresh_runtime rt rts spawned \<longleftrightarrow> rt < length spawned \<and> (\<forall>a. bmap_get rts a \<noteq> Some rt)"

abbreviation maps_ok :: "daemon \<Rightarrow> bool" where
  "maps_ok \<equiv> maps_inv (\<lambda>_ _ _. True)"

lemma maps_inv_ok: "maps_inv S dm \<Longrightarrow> maps_ok dm"
  by (simp add: maps_inv_def)

lemma ensuresI:
  assumes "\<And>dm. P dm \<Longrightarrow> (\<forall>e. fst (m dm) = Inl e \<longrightarrow> E (snd (m dm))) \<and>
      (\<forall>x. fst (m dm) = Inr x \<longrightarrow> Q x (snd (m dm)))"
  shows "ensures P m Q E"
  unfolding ensures_def
proof (intro allI impI)
  fix dm assume "P dm"
  with assms [of dm] show "case m dm of (Inl e, dm') \<Rightarrow> E dm' | (Inr x, dm') \<Rightarrow> Q x dm'"
    by (cases "m dm"; cases "fst (m dm)") simp_all
qed

lemma ensuresD:
  assumes "ensures P m (\<lambda>_. Q) Q" "P dm"
  shows "Q (snd (m dm))"
proof -
  obtain r dm1 where "m dm = (r, dm1)" by fastforce
  with assms show ?thesis by (cases r) (auto simp: ensures_def split: prod.splits sum.splits)
qed

lemma ensures_pre: "ensures P m Q E \<Longrightarrow> (\<And>dm. P' dm \<Longrightarrow> P dm) \<Longrightarrow> ensures P' m Q E"
  by (simp add: ensures_def)

lemma ensures_reads: "(\<And>x. ensures P (m x) Q E) \<Longrightarrow> ensures P (\<lambda>dm. m (f dm) dm) Q E"
  by (simp add: ensures_def)

lemma ensures_frame:
  assumes "\<And>dm. same_agents dm (snd (m dm))" "\<And>dm. keeps_registry dm (snd (m dm))"
  shows "ensures (maps_inv S) m (\<lambda>_. maps_inv S) maps_ok"
proof (rule ensuresI)
  fix dm assume "maps_inv S dm"
  then have "maps_inv S (snd (m dm))"
    using assms [of dm] runtimes_registered_same [OF assms(1)]
    by (auto simp: maps_inv_def keeps_registry_def same_agents_def)
  then show "(\<forall>e. fst (m dm) = Inl e \<longrightarrow> maps_ok (snd (m dm))) \<and>
      (\<forall>x. fst (m dm) = Inr x \<longrightarrow> maps_inv S (snd (m dm)))"
    using maps_inv_ok by simp
qed

lemmas ensures_agent_ops =
  ensures_frame [OF ctl_frame.R_agent_ops(1) ctl_registry.R_agent_ops(1)]
  ensures_frame [OF ctl_frame.R_agent_ops(2) ctl_registry.R_agent_ops(2)]
  ensures_frame [OF ctl_frame.R_persist ctl_registry.R_persist]
  ensures_frame [OF ctl_frame.R_adopt ctl_registry.R_adopt]
  ensures_frame [OF ctl_frame.R_call_runtime ctl_registry.R_call_runtime]

lemma ensures_static:
  "ensures (maps_inv S) (hlift r) (\<lambda>_. maps_inv S) maps_ok"
  "ensures (maps_inv S) (hreturn x) (\<lambda>_. maps_inv S) maps_ok"
  "ensures (maps_inv S) (find_agent a) (\<lambda>_. maps_inv S) maps_ok"
  "ensures (maps_inv S) (find_runtime a) (\<lambda>_. maps_inv S) maps_ok"
  by (rule ensures_frame; simp add: ctl_frame.R_refl ctl_registry.R_refl)+

lemma ensures_remove_runtime:
  "ensures (maps_inv S) (remove_runtime a) (\<lambda>_. maps_inv (\<lambda>_ rts _. bmap_get rts a = None)) maps_ok"
  by (rule ensuresI)
    (auto simp: remove_runtime_def maps_inv_def runtimes_registered_def bmap_simps split: if_splits)

lemma ensures_spawn:
  "ensures (maps_inv S) (spawn_runtime env config) (\<lambda>rt. maps_inv (\<lambda>_. fresh_runtime rt)) maps_ok"
proof (rule ensuresI)
  fix dm assume inv: "maps_inv S dm"
  then have "bmap_get (dm_runtimes dm) a \<noteq> Some (length (dm_spawned dm))" for a
    by (auto simp: maps_inv_def runtimes_registered_def)
  with inv show "(\<forall>e. fst (spawn_runtime env config dm) = Inl e \<longrightarrow>
        maps_ok (snd (spawn_runtime env config dm))) \<and>
      (\<forall>rt. fst (spawn_runtime env config dm) = Inr rt \<longrightarrow>
        maps_inv (\<lambda>_. fresh_runtime rt) (snd (spawn_runtime env config dm)))"
    by (auto simp: spawn_runtime_def maps_inv_def runtimes_registered_def fresh_runtime_def
        intro: less_SucI split: sum.splits)
qed

lemma ensures_insert_runtime:
  "ensures (maps_inv (\<lambda>ags rts sp. bmap_get ags a \<noteq> None \<and> fresh_runtime rt rts sp))
     (insert_runtime a rt) (\<lambda>_. maps_ok) maps_ok"
  by (rule ensuresI)
    (auto simp: insert_runtime_def maps_inv_def runtimes_registered_def fresh_runtime_def
      registry_get_def bmap_simps split: if_splits)

lemma ensures_create:
  "ensures (maps_inv (\<lambda>_. T)) (find_or_create a)
     (\<lambda>_. maps_inv (\<lambda>ags rts sp. bmap_get ags a \<noteq> None \<and> T rts sp)) maps_ok"
proof (rule ensuresI)
  fix dm assume inv: "maps_inv (\<lambda>_. T) dm"
  show "(\<forall>e. fst (find_or_create a dm) = Inl e \<longrightarrow> maps_ok (snd (find_or_create a dm))) \<and>
    (\<forall>x. fst (find_or_create a dm) = Inr x \<longrightarrow>
       maps_inv (\<lambda>ags rts sp. bmap_get ags a \<noteq> None \<and> T rts sp) (snd (find_or_create a dm)))"
  proof (cases "registry_get (dm_registry dm) a")
    case None
    then have "find_or_create a dm = (Inr (length (reg_tasks (dm_registry dm))),
        dm\<lparr>dm_registry := snd (registry_create (dm_registry dm) a)\<rparr>)"
      by (simp add: find_or_create_def registry_create_def registry_get_def registry_add_def Let_def)
    moreover have "registry_wf (snd (registry_create (dm_registry dm) a))"
      using inv registry_create_wf [OF _ prod.collapse [symmetric]] by (simp add: maps_inv_def)
    moreover have "reg_agents (snd (registry_create (dm_registry dm) a)) =
        bmap_insert a (length (reg_tasks (dm_registry dm))) (reg_agents (dm_registry dm))"
      using None by (simp add: registry_create_def registry_get_def registry_add_def Let_def)
    ultimately show ?thesis
      using inv by (auto simp: maps_inv_def runtimes_registered_def registry_get_def bmap_simps)
  qed (use inv in \<open>auto simp: find_or_create_def maps_inv_def registry_get_def\<close>)
qed

lemma registry_remove_agents:
  "reg_agents (snd (registry_remove now r a)) = bmap_remove a (reg_agents r)"
proof (cases "bmap_get (reg_agents r) a")
  case None
  then show ?thesis
    by (simp add: registry_remove_def bmap_remove_def)
      (auto simp: map_of_eq_None_iff image_iff intro!: filter_True [symmetric])
next
  case (Some h)
  let ?r = "r\<lparr>reg_agents := bmap_remove a (reg_agents r)\<rparr>"
  obtain reply r1 where c: "registry_call now ?r h Cmd_Shutdown = (reply, r1)" by fastforce
  then have "reg_agents r1 = bmap_remove a (reg_agents r)"
    using registry_call_agents [of now ?r h Cmd_Shutdown] by simp
  with c Some show ?thesis by (simp add: registry_remove_def Let_def)
qed

lemma ensures_remove_agent:
  "ensures (maps_inv (\<lambda>_ rts _. bmap_get rts a = None)) (remove_agent env a) (\<lambda>_. maps_ok) maps_ok"
proof (rule ensuresI)
  fix dm assume inv: "maps_inv (\<lambda>_ rts _. bmap_get rts a = None) dm"
  let ?r = "snd (registry_remove (ce_instant env) (dm_registry dm) a)"
  have "snd (remove_agent env a dm) = dm\<lparr>dm_registry := ?r\<rparr>"
    by (simp add: remove_agent_def split: prod.splits)
  moreover have "registry_wf ?r"
    using inv registry_remove_wf [OF _ prod.collapse [symmetric]] by (simp add: maps_inv_def)
  ultimately have "maps_ok (snd (remove_agent env a dm))"
    using inv registry_remove_agents [of "ce_instant env" "dm_registry dm" a]
    by (auto simp: maps_inv_def runtimes_registered_def registry_get_def bmap_simps)
  then show "(\<forall>e. fst (remove_agent env a dm) = Inl e \<longrightarrow> maps_ok (snd (remove_agent env a dm))) \<and>
      (\<forall>x. fst (remove_agent env a dm) = Inr x \<longrightarrow> maps_ok (snd (remove_agent env a dm)))"
    by simp
qed

lemma ensures_launch: "ensures maps_ok (launch env k a config) (\<lambda>_. maps_ok) maps_ok"
proof -
  have "ensures maps_ok (hbind (remove_runtime a) (\<lambda>_.
        hbind (spawn_runtime env config) (\<lambda>rt.
        hbind (find_or_create a) (\<lambda>h.
        hbind (set_lifecycle env h Lifecycle_Idle) (\<lambda>_.
        hbind (adopt_session env rt h) (\<lambda>_.
        hbind (persist_snapshot env k a h (runtime_process_id env rt) None) (\<lambda>_.
          insert_runtime a rt)))))) ) (\<lambda>_. maps_ok) maps_ok"
    by (rule ensures_bind ensures_remove_runtime ensures_spawn ensures_create ensures_agent_ops
        ensures_insert_runtime)+
  then show ?thesis by (auto simp: ensures_def launch_def)
qed

lemma ensures_stop: "ensures maps_ok (stop env k a) (\<lambda>_. maps_ok) maps_ok"
  unfolding stop_def
  by (rule ensures_bind ensures_static ensures_remove_runtime ensures_agent_ops
      ensures_remove_agent)+

lemma maps_ok_execute_inner: "maps_ok dm \<Longrightarrow> maps_ok (snd (execute_inner env request dm))"
proof (cases request)
  case (Req_SwitchSession a path)
  have l: "ensures maps_ok (\<lambda>dm. hbind (launch env 1 a (f dm)) (\<lambda>_. hreturn Resp_Accepted) dm)
      (\<lambda>_. maps_ok) maps_ok" for f
    by (rule ensures_reads, rule ensures_bind [OF ensures_launch ensures_static(2)])
  show "maps_ok dm \<Longrightarrow> ?thesis"
    unfolding Req_SwitchSession execute_inner.simps
    by (rule ensuresD, rule ensures_bind [OF ensures_stop l])
next
  case (Req_LaunchAgent a)
  show "maps_ok dm \<Longrightarrow> ?thesis"
    unfolding Req_LaunchAgent execute_inner.simps
    by (rule ensuresD, rule ensures_bind [OF ensures_launch ensures_static(2)])
next
  case (Req_StopAgent a)
  show "maps_ok dm \<Longrightarrow> ?thesis"
    unfolding Req_StopAgent execute_inner.simps
    by (rule ensuresD, rule ensures_bind [OF ensures_stop ensures_static(2)])
qed (use ctl_frame.R_simple_request [of request dm env] ctl_registry.R_execute_inner [of dm env request]
    runtimes_registered_same in \<open>auto simp: maps_inv_def keeps_registry_def\<close>)

lemma execute_snd: "snd (execute env request dm) = snd (execute_inner env request dm)"
  by (simp add: execute_def split: prod.splits sum.splits)

lemma controller_wf_maps: "controller_wf dm \<longleftrightarrow> maps_ok dm \<and> store_wf (dm_store dm)"
  by (auto simp: controller_wf_def maps_inv_def)

lemma controller_wf_execute: "controller_wf dm \<Longrightarrow> controller_wf (snd (execute env request dm))"
  using maps_ok_execute_inner store_history_wf [OF ctl_store.R_execute]
  by (auto simp: controller_wf_maps execute_snd)

lemma controller_wf_bridge: "controller_wf dm \<Longrightarrow> controller_wf (snd (bridge_event env a h p inp dm))"
  using ctl_registry.R_bridge [of dm env a h p inp]
    runtimes_registered_same [OF ctl_frame.R_bridge] store_history_wf [OF ctl_store.R_bridge]
  by (auto simp: controller_wf_def keeps_registry_def)

lemma controller_wf_shutdown:
  assumes "controller_wf dm"
  shows "controller_wf (snd (controller_shutdown env dm)) \<and>
    dm_runtimes (snd (controller_shutdown env dm)) = []"
proof -
  let ?dm0 = "dm\<lparr>dm_runtimes := []\<rparr>"
  obtain es dm1 where d: "shutdown_agents env 0 (dm_runtimes dm) ?dm0 = (es, dm1)" by fastforce
  have "controller_wf ?dm0" using assms by (simp add: controller_wf_def runtimes_registered_def)
  then have "controller_wf dm1" "dm_runtimes dm1 = []"
    using ctl_frame.R_shutdown_agents [of ?dm0 env 0 "dm_runtimes dm"]
      ctl_registry.R_shutdown_agents [of ?dm0 env 0 "dm_runtimes dm"]
      store_history_wf [OF ctl_store.R_shutdown_agents [of _ ?dm0 env 0 "dm_runtimes dm"]]
      runtimes_registered_same [of ?dm0 dm1] d
    by (auto simp: controller_wf_def keeps_registry_def same_agents_def)
  with d show ?thesis by (simp add: controller_shutdown_def Let_def split: list.splits)
qed

end
