(* ===== verification/Controller_Properties.thy ===== *)
theory Controller_Properties
  imports Controller_Invariants
begin

section \<open>Properties of the controller\<close>

text \<open>
  The invariant of the daemon over requests, forwarded events and shutdown; one process per
  agent; what a prompt does on every branch; that only the holder of the lease answers a dialog;
  the state after a restart.
\<close>

subsection \<open>The invariant\<close>

inductive controller_reachable ::
  "(sqlite_error \<Rightarrow> string) \<Rightarrow> agent_actor_config \<Rightarrow> runtime_config \<Rightarrow> store \<Rightarrow> daemon \<Rightarrow> bool"
for sqlite cfg config st where
  start: "DaemonController_new sqlite (registry_new cfg) config st = Inr dm \<Longrightarrow>
     controller_reachable sqlite cfg config st dm"
| request: "controller_reachable sqlite cfg config st dm \<Longrightarrow> execute env request dm = (outcome, dm') \<Longrightarrow>
     controller_reachable sqlite cfg config st dm'"
| event: "controller_reachable sqlite cfg config st dm \<Longrightarrow>
     bridge_event env a h p inp dm = (continue, dm') \<Longrightarrow> controller_reachable sqlite cfg config st dm'"
| shutdown: "controller_reachable sqlite cfg config st dm \<Longrightarrow>
     controller_shutdown env dm = (result, dm') \<Longrightarrow> controller_reachable sqlite cfg config st dm'"

lemma restore_all_wf: "registry_wf r \<Longrightarrow> restore_all r ss = (res, r') \<Longrightarrow> registry_wf r'"
proof (induction r ss arbitrary: res rule: restore_all.induct)
  case (2 r s ss)
  obtain x r1 where s: "registry_restore r s = (x, r1)" by fastforce
  with 2(2) have "registry_wf r1" by (rule registry_restore_wf)
  with 2 s show ?case by (cases x) simp_all
qed simp

lemma controller_new_cases:
  assumes "DaemonController_new sqlite r config st = Inr dm"
  obtains ss r' where "recover_snapshots st = Inr ss" "restore_all r ss = (Inr (), r')"
    "dm = \<lparr>dm_registry = r', dm_runtimes = [], dm_spawned = [], dm_calls = [], dm_store = st,
           dm_config = config\<rparr>"
proof -
  obtain ss where ss: "recover_snapshots st = Inr ss"
    using assms by (cases "recover_snapshots st") (auto simp: DaemonController_new_def)
  moreover obtain res r' where r: "restore_all r ss = (res, r')" by fastforce
  moreover have "res = Inr ()"
    using assms ss r by (cases res) (auto simp: DaemonController_new_def)
  ultimately show ?thesis
    using assms that by (auto simp: DaemonController_new_def)
qed


subsection \<open>A concrete daemon\<close>

definition example_runtime_config :: runtime_config where
  "example_runtime_config = RuntimeConfig_new ''omp''"

definition idle_env :: ctl_env where
  "idle_env = \<lparr>ce_now = (\<lambda>k. 1000 + of_nat k), ce_instant = 5, ce_uuid = ''run'',
     ce_sqlite = (\<lambda>_. ''database''), ce_spawn = (\<lambda>_. Inr ()),
     ce_status = (\<lambda>_. RuntimeStatus_Running 7), ce_request = (\<lambda>_ _. Inl Request_RuntimeStopped),
     ce_send = (\<lambda>_ _. Inr ()), ce_shutdown = (\<lambda>_. Inl Request_RuntimeStopped)\<rparr>"

definition empty_store :: store where
  "empty_store = \<lparr>st_db = empty_database, st_server_id = ServerId ''server''\<rparr>"

definition launched :: daemon where
  "launched = snd (execute idle_env (Req_LaunchAgent (AgentId ''a''))
     \<lparr>dm_registry = registry_new default_actor_config, dm_runtimes = [], dm_spawned = [],
      dm_calls = [], dm_store = empty_store, dm_config = example_runtime_config\<rparr>)"

lemma empty_store_wf: "store_wf empty_store"
  by (simp add: empty_store_def store_wf_def db_wf_def empty_database_def tbl_wf_def)

lemma launched_reachable:
  "controller_reachable (\<lambda>_. []) default_actor_config example_runtime_config empty_store launched"
proof -
  have "DaemonController_new (\<lambda>_. []) (registry_new default_actor_config) example_runtime_config empty_store =
      Inr \<lparr>dm_registry = registry_new default_actor_config, dm_runtimes = [], dm_spawned = [],
        dm_calls = [], dm_store = empty_store, dm_config = example_runtime_config\<rparr>"
    by (simp add: DaemonController_new_def recover_snapshots_def store_agents_def empty_store_def
        empty_database_def)
  then show ?thesis
    unfolding launched_def
    by (intro controller_reachable.request [OF controller_reachable.start surjective_pairing])
qed


subsection \<open>Calls of an agent\<close>

text \<open>Agent \<open>a\<close> is registered under the handle \<open>h\<close>, whose actor is alive with snapshot \<open>s\<close>.\<close>

definition has_agent :: "daemon \<Rightarrow> agent_id \<Rightarrow> agent_handle \<Rightarrow> agent_snapshot \<Rightarrow> bool" where
  "has_agent dm a h s \<longleftrightarrow> registry_get (dm_registry dm) a = Some h \<and>
     h < length (reg_tasks (dm_registry dm)) \<and>
     (\<exists>actor. reg_tasks (dm_registry dm) ! h = Alive actor \<and> act_snapshot actor = s)"

text \<open>Equal up to the numbering of changes.\<close>

definition same_content :: "agent_snapshot \<Rightarrow> agent_snapshot \<Rightarrow> bool" where
  "same_content s s' \<longleftrightarrow> (\<exists>r q. s' = s\<lparr>snap_revision := r, snap_event_sequence := q\<rparr>)"

lemma same_content_simps:
  assumes "same_content s s'"
  shows "snap_lifecycle s' = snap_lifecycle s" "snap_active_run s' = snap_active_run s"
    "snap_interaction s' = snap_interaction s" "snap_recent_runs s' = snap_recent_runs s"
  using assms by (auto simp: same_content_def)

lemma snapshot_of_agent:
  assumes "has_agent dm a h s"
  shows "agent_snapshot_of env h dm = (Inr s, dm)"
proof -
  obtain actor where t: "reg_tasks (dm_registry dm) ! h = Alive actor" "act_snapshot actor = s"
    using assms by (auto simp: has_agent_def)
  then show ?thesis
    by (simp add: agent_snapshot_of_def call_agent_def registry_call_def handle_call_def
        list_update_same_conv assms [unfolded has_agent_def])
qed

lemma same_content_intros:
  "same_content s s" "same_content s (s\<lparr>snap_revision := r, snap_event_sequence := q\<rparr>)"
  unfolding same_content_def
  by (intro exI [of _ "snap_revision s"] exI [of _ "snap_event_sequence s"], simp) blast

lemma actor_change_content:
  assumes "actor_apply_change actor c = Some (Inr d, actor')"
  shows "same_content (apply_change (act_snapshot actor) c) (act_snapshot actor')"
  using assms
  by (auto simp: actor_apply_change_unfold Let_def would_change_def record_update_def
      same_content_intros split: option.splits if_splits)

lemma change_agent:
  assumes "has_agent dm a h s" "call_agent env reply_unit h (Cmd_Change c) dm = (Inr x, dm')"
  obtains s' where "has_agent dm' a h s'" "same_content (apply_change s c) s'"
    "dm_calls dm' = dm_calls dm" "dm_runtimes dm' = dm_runtimes dm"
proof -
  obtain actor where t: "reg_tasks (dm_registry dm) ! h = Alive actor" "act_snapshot actor = s"
    and h: "h < length (reg_tasks (dm_registry dm))" "registry_get (dm_registry dm) a = Some h"
    using assms(1) by (auto simp: has_agent_def)
  obtain r actor' where c: "actor_apply_change actor c = Some (r, actor')"
    using actor_apply_change_Some by blast
  have d: "r = Inr (case r of Inr d \<Rightarrow> d)"
      "dm' = dm\<lparr>dm_registry := (dm_registry dm)\<lparr>reg_tasks :=
        (reg_tasks (dm_registry dm))[h := Alive actor']\<rparr>\<rparr>"
    using assms(2) t(1) c
    by (auto simp: call_agent_def registry_call_def handle_call_def split: sum.splits)
  then have "has_agent dm' a h (act_snapshot actor')"
    using h by (simp add: has_agent_def registry_get_def)
  moreover have "same_content (apply_change s c) (act_snapshot actor')"
    using actor_change_content c d(1) t(2) by metis
  ultimately show ?thesis using that d(2) by simp
qed

lemma has_agent_store: "has_agent (dm\<lparr>dm_store := st\<rparr>) a h s = has_agent dm a h s"
  "has_agent (log_call c dm) a h s = has_agent dm a h s"
  by (simp_all add: has_agent_def log_call_def)

lemma persist_keeps_agent:
  assumes "has_agent dm a h s" "persist_snapshot env k a h p run dm = (res, dm')"
  shows "has_agent dm' a h s \<and> dm_calls dm' = dm_calls dm \<and> dm_runtimes dm' = dm_runtimes dm"
proof -
  have "\<exists>st. snd (persist_snapshot env k a h p run dm) = dm\<lparr>dm_store := st\<rparr>"
    using snapshot_of_agent [OF assms(1)]
    by (auto simp: persist_snapshot_def hbind_snd call_store_snd split: sum.splits
        intro: exI [of _ "dm_store dm"])
  with assms show ?thesis by (auto simp: has_agent_store)
qed

subsection \<open>Prompts\<close>

definition started_run :: "ctl_env \<Rightarrow> run_snapshot" where
  "started_run env = \<lparr>run_run_id = RunId (ce_uuid env), run_lifecycle = Run_Running,
     run_started_at_ms = ce_now env 0, run_ended_at_ms = None\<rparr>"

text \<open>A step of a handler either ends it with the step's error or passes the value on.\<close>

lemma hbind_cases:
  assumes "hbind m f dm = (res, dm')"
  obtains (failed) e where "m dm = (Inl e, dm')" "res = Inl e"
  | (passed) x dm1 where "m dm = (Inr x, dm1)" "f x dm1 = (res, dm')"
proof -
  obtain r dm1 where m: "m dm = (r, dm1)" by fastforce
  show ?thesis by (cases r) (use m assms failed passed in \<open>auto simp: hbind_def\<close>)
qed

lemma hbind_assoc: "hbind (hbind m f) g = hbind m (\<lambda>x. hbind (f x) g)"
  by (rule ext) (simp add: hbind_def split: prod.splits sum.splits)

lemma map_err_Inl_iff: "map_err f r = Inl e \<longleftrightarrow> (\<exists>x. r = Inl x \<and> e = f x)"
  by (cases r) auto

lemma call_agent_error:
  "call_agent env f h cmd dm = (Inl e, dm') \<Longrightarrow> (\<exists>m. e = Ctl_ControlPlane m) \<and> dm_calls dm' = dm_calls dm"
  by (auto simp: call_agent_def actor_error_def map_err_Inl_iff split: prod.splits)

lemma persist_error:
  assumes "has_agent dm a h s" "persist_snapshot env k a h p run dm = (Inl e, dm')"
  shows "\<exists>m. e = Ctl_Persistence m"
  using assms(2) unfolding persist_snapshot_def
  by (elim hbind_cases)
    (auto simp: snapshot_of_agent [OF assms(1)] call_store_def persistence_error_def map_err_Inl_iff
      split: prod.splits)

lemma fail_active_run_ok: "fst (fail_active_run env k a h reason dm) = Inr ()"
proof -
  obtain r dm1 where s: "agent_snapshot_of env h dm = (r, dm1)" by fastforce
  have "fst (end_active_run env k h (Run_Failed reason) dm) = Inr ()"
    using s by (cases r) (simp_all add: end_active_run_def hignore_def split: option.split)
  then obtain dm2 where "end_active_run env k h (Run_Failed reason) dm = (Inr (), dm2)"
    by (metis prod.collapse)
  then show ?thesis by (simp add: fail_active_run_def hbind_def hignore_def)
qed

text \<open>The part of a prompt before the process is asked.\<close>

definition prompt_start :: "ctl_env \<Rightarrow> agent_id \<Rightarrow> nat \<Rightarrow> agent_handle \<Rightarrow> unit handler" where
  "prompt_start env a rt h =
     hbind (upsert_run env h (started_run env)) (\<lambda>_.
     hbind (set_lifecycle env h Lifecycle_Running) (\<lambda>_.
       persist_snapshot env 1 a h (runtime_process_id env rt) (Some (RunId (ce_uuid env)))))"

lemma prompt_unfold:
  "prompt env a message images behavior =
     hbind (find_runtime a) (\<lambda>rt.
     hbind (find_agent a) (\<lambda>h.
     hbind (prompt_start env a rt h) (\<lambda>_. \<lambda>dm.
       let kind = runtime_prompt_kind message (optional_images images) behavior;
           dm = log_call (Call_Request rt kind) dm
       in case ce_request env rt kind of
            Inr response \<Rightarrow>
              hbind (hlift (ensure_rpc_success response)) (\<lambda>_.
                hreturn (Resp_PromptAccepted (RunId (ce_uuid env)))) dm
          | Inl e \<Rightarrow>
              hbind (fail_active_run env 2 a h (show_request_error e)) (\<lambda>_.
                hlift (Inl (Ctl_Runtime (show_request_error e)))) dm)))"
  by (simp add: prompt_def prompt_start_def started_run_def hbind_assoc)

lemma prompt_start_cases:
  assumes "has_agent dm a h s" "prompt_start env a rt h dm = (res, dm')"
  obtains (failed) e where "res = Inl e" "dm_calls dm' = dm_calls dm"
      "(\<exists>m. e = Ctl_ControlPlane m) \<or> (\<exists>m. e = Ctl_Persistence m)"
  | (started) s' where "res = Inr ()" "has_agent dm' a h s'" "snap_active_run s' = Some (started_run env)"
      "snap_lifecycle s' = Lifecycle_Running" "dm_calls dm' = dm_calls dm"
  using assms(2) unfolding prompt_start_def
proof (cases rule: hbind_cases)
  case (failed e)
  then show ?thesis
    using that(1) [OF failed(2)] call_agent_error [OF failed(1) [unfolded upsert_run_def]] by simp
next
  case (passed x dm1)
  obtain s1 where s1: "has_agent dm1 a h s1" "same_content (apply_change s (RunUpserted (started_run env))) s1"
    "dm_calls dm1 = dm_calls dm"
    using change_agent [OF assms(1) passed(1) [unfolded upsert_run_def]] by metis
  from passed(2) show ?thesis
  proof (cases rule: hbind_cases)
    case (failed e)
    then show ?thesis
      using that(1) [OF failed(2)] call_agent_error [OF failed(1) [unfolded set_lifecycle_def]] s1(3)
      by simp
  next
    case (passed y dm2)
    obtain s2 where s2: "has_agent dm2 a h s2"
      "same_content (apply_change s1 (LifecycleChanged Lifecycle_Running)) s2" "dm_calls dm2 = dm_calls dm1"
      using change_agent [OF s1(1) passed(1) [unfolded set_lifecycle_def]] by metis
    have "snap_active_run s2 = Some (started_run env)" "snap_lifecycle s2 = Lifecycle_Running"
      using same_content_simps [OF s1(2)] same_content_simps [OF s2(2)]
      by (simp_all add: Let_def started_run_def)
    then show ?thesis
      using persist_keeps_agent [OF s2(1) passed(2)] persist_error [OF s2(1)] passed(2) that s1(3) s2(3)
      by (cases res) auto
  qed
qed


text \<open>The definitions that evaluate a handler on a concrete daemon.\<close>

lemmas daemon_eval =
  handler_defs find_runtime_def find_agent_def upsert_run_def set_lifecycle_def call_agent_def
  agent_snapshot_of_def registry_call_def handle_call_def registry_create_def registry_new_def
  registry_add_def registry_get_def spawn_def spawn_with_snapshot_def actor_apply_change_unfold
  would_change_def initial_snapshot_def checked_add_def record_update_def default_actor_config_def
  persist_snapshot_def call_store_def store_agent_def upsert_agent_def encode_agent_def sql_u64_def
  empty_store_def empty_database_def tbl_select_def ensure_rpc_success_def log_call_def Let_def

definition example_daemon :: daemon where
  "example_daemon =
     \<lparr>dm_registry = snd (registry_create (registry_new default_actor_config) (AgentId ''a'')),
      dm_runtimes = [(AgentId ''a'', 0)], dm_spawned = [example_runtime_config], dm_calls = [],
      dm_store = empty_store, dm_config = example_runtime_config\<rparr>"

lemma example_daemon_agent:
  "has_agent example_daemon (AgentId ''a'') 0 (initial_snapshot (AgentId ''a''))"
  "bmap_get (dm_runtimes example_daemon) (AgentId ''a'') = Some 0"
  by (simp_all add: example_daemon_def has_agent_def registry_create_def registry_new_def
      registry_add_def registry_get_def spawn_def spawn_with_snapshot_def)

definition rejecting_env :: ctl_env where
  "rejecting_env = idle_env\<lparr>ce_request := (\<lambda>_ _. Inr (RpcResponse_Error None ''prompt'' ''busy'' None))\<rparr>"

lemma rejected_prompt:
  "fst (prompt rejecting_env (AgentId ''a'') ''hi'' [] None example_daemon) =
     Inl (Ctl_Rpc ''omp_error'' ''busy'')"
  by (simp add: prompt_def daemon_eval example_daemon_def rejecting_env_def idle_env_def)


subsection \<open>Dialogs\<close>



subsection \<open>Restarting\<close>

lemma collect_Inr: "collect rs = Inr xs \<longleftrightarrow> rs = map Inr xs"
  by (induction rs arbitrary: xs) (auto simp: map_eq_Cons_conv)

definition settled :: "agent_snapshot \<Rightarrow> bool" where
  "settled s \<longleftrightarrow> snap_lifecycle s \<notin> {Lifecycle_Starting, Lifecycle_Running, Lifecycle_Stopping} \<and>
     snap_active_run s = None \<and> snap_interaction s = Unclaimed"

lemma decode_agent_settled:
  assumes "decode_agent row = Inr r" "agt_lifecycle row \<notin> {''starting'', ''running'', ''stopping''}"
  shows "agent_id_str (agr_agent_id r) = agt_agent_id row \<and> settled (recovered_snapshot r session)"
  using assms
  by (auto simp: decode_agent_def decode_lifecycle_def settled_def recovered_snapshot_def corrupt_def
      identifier_new_defs split: if_splits)

lemma recover_snapshots_settled:
  assumes "Store_initialize uuid now db = Inr st" "recover_snapshots st = Inr ss"
  shows "list_all settled ss \<and>
    set (map (\<lambda>s. agent_id_str (snap_agent_id s)) ss) = set (map agt_agent_id (db_agents db)) \<and>
    (distinct (map agt_agent_id (db_agents db)) \<longrightarrow>
       distinct (map (\<lambda>s. agent_id_str (snap_agent_id s)) ss))"
proof -
  obtain now' where a: "db_agents (st_db st) = map (recover_agent now') (db_agents db)"
  proof -
    obtain now' v t where "st_db st = db\<lparr>db_user_version := v, db_metadata := t,
        db_agents := map (recover_agent now') (db_agents db),
        db_operations := map recover_operation (db_operations db)\<rparr>"
      using initialize_db [OF assms(1)] by blast
    then show ?thesis using that [of now'] by simp
  qed
  let ?rows = "sort_key agt_agent_id (db_agents (st_db st))"
  obtain rs where rs: "map decode_agent ?rows = map Inr rs"
    and ss: "map (\<lambda>r. rbind (store_session (agr_agent_id r) st) (\<lambda>s. Inr (recovered_snapshot r s))) rs =
      map Inr ss"
    using assms(2) by (auto simp: recover_snapshots_def store_agents_def collect_Inr)
  have len: "length rs = length ?rows" "length ss = length rs"
    using arg_cong [OF rs, of length] arg_cong [OF ss, of length] by simp_all
  have e: "agent_id_str (snap_agent_id (ss ! i)) = agt_agent_id (?rows ! i) \<and> settled (ss ! i)"
    if "i < length ss" for i
  proof -
    have "decode_agent (?rows ! i) = Inr (rs ! i)"
      using arg_cong [OF rs, of "\<lambda>l. l ! i"] that len by simp
    moreover have "?rows ! i \<in> set (db_agents (st_db st))"
      using that len by (metis nth_mem set_sort)
    then have "agt_lifecycle (?rows ! i) \<notin> {''starting'', ''running'', ''stopping''}"
      by (auto simp: a recover_agent_def)
    moreover have "rbind (store_session (agr_agent_id (rs ! i)) st)
        (\<lambda>s. Inr (recovered_snapshot (rs ! i) s)) = Inr (ss ! i)"
      using arg_cong [OF ss, of "\<lambda>l. l ! i"] that len(2) by simp
    then obtain se where "ss ! i = recovered_snapshot (rs ! i) se" by (auto dest: sym)
    ultimately show ?thesis
      using decode_agent_settled [of "?rows ! i" "rs ! i" se] by (simp add: recovered_snapshot_def)
  qed
  have k: "map agt_agent_id (db_agents (st_db st)) = map agt_agent_id (db_agents db)"
    by (simp add: a recover_agent_def)
  have m: "map (\<lambda>s. agent_id_str (snap_agent_id s)) ss = map agt_agent_id ?rows"
    using e len by (intro nth_equalityI) simp_all
  have "set (map agt_agent_id ?rows) = set (map agt_agent_id (db_agents db))"
    "distinct (map agt_agent_id (db_agents db)) \<longrightarrow> distinct (map agt_agent_id ?rows)"
    unfolding k [symmetric] by (simp_all add: distinct_map)
  then show ?thesis using e unfolding m by (simp add: list_all_length)
qed

text \<open>Restoring snapshots with distinct identifiers registers one live actor for each.\<close>

definition restored :: "agent_registry \<Rightarrow> agent_snapshot set \<Rightarrow> bool" where
  "restored r X \<longleftrightarrow>
     (\<forall>a h. registry_get r a = Some h \<longrightarrow> h < length (reg_tasks r) \<and>
        (\<exists>s \<in> X. \<exists>actor. snap_agent_id s = a \<and> reg_tasks r ! h = Alive actor \<and> act_snapshot actor = s)) \<and>
     (\<forall>s \<in> X. registry_get r (snap_agent_id s) \<noteq> None)"

lemma restore_restored:
  assumes "restored r X" "registry_get r (snap_agent_id s) = None"
  obtains h r' where "registry_restore r s = (Inr h, r')" "restored r' (insert s X)"
    "\<And>a. registry_get r' a = (if a = snap_agent_id s then Some h else registry_get r a)"
proof -
  let ?a = "snap_agent_id s"
  let ?r = "r\<lparr>reg_agents := bmap_insert ?a (length (reg_tasks r)) (reg_agents r),
    reg_tasks := reg_tasks r @ [Alive (spawn_with_snapshot s (reg_config r))]\<rparr>"
  have "registry_restore r s = (Inr (length (reg_tasks r)), ?r)"
    using assms(2) by (simp add: registry_restore_def registry_get_def registry_add_def Let_def)
  moreover have get: "registry_get ?r a = (if a = ?a then Some (length (reg_tasks r)) else registry_get r a)"
    for a by (simp add: registry_get_def bmap_get_insert)
  moreover have "restored ?r (insert s X)"
    using assms(1) unfolding restored_def get
    by (auto simp: nth_append less_SucI split: if_splits)
  ultimately show ?thesis using that by blast
qed

lemma restore_all_restored:
  assumes "restored r X" "distinct (map snap_agent_id ss)"
    "\<forall>s \<in> set ss. registry_get r (snap_agent_id s) = None"
  shows "\<exists>r'. restore_all r ss = (Inr (), r') \<and> restored r' (X \<union> set ss)"
  using assms
proof (induction ss arbitrary: r X)
  case (Cons s ss)
  then have "restored r X" "registry_get r (snap_agent_id s) = None" by simp_all
  then obtain h r1 where r1: "registry_restore r s = (Inr h, r1)" "restored r1 (insert s X)"
    "\<And>a. registry_get r1 a = (if a = snap_agent_id s then Some h else registry_get r a)"
    by (rule restore_restored) blast
  have "\<exists>r'. restore_all r1 ss = (Inr (), r') \<and> restored r' (insert s X \<union> set ss)"
    using Cons.prems r1(2,3) by (intro Cons.IH) (auto simp: image_iff)
  then show ?case using r1(1) by simp
qed simp

text \<open>
  C21: a daemon starts again after any crash. If the rows of the reopened store decode, the
  controller starts; it has precisely the recorded agents, each with a live actor that is
  neither starting nor running nor stopping, has no active run and an unclaimed lease; no
  process belongs to any of them, and no process was asked anything.
\<close>

theorem daemon_restarts_settled:
  assumes "db_wf db" "Store_initialize uuid now db = Inr st" "recover_snapshots st = Inr ss"
  shows "\<exists>dm. DaemonController_new sqlite (registry_new cfg) config st = Inr dm \<and>
    dm_runtimes dm = [] \<and> dm_calls dm = [] \<and>
    (\<forall>a. registry_get (dm_registry dm) a \<noteq> None \<longleftrightarrow>
       agent_id_str a \<in> set (map agt_agent_id (db_agents db))) \<and>
    (\<forall>a h. registry_get (dm_registry dm) a = Some h \<longrightarrow>
       (\<exists>s. has_agent dm a h s \<and> snap_active_run s = None \<and> snap_interaction s = Unclaimed \<and>
          snap_lifecycle s \<notin> {Lifecycle_Starting, Lifecycle_Running, Lifecycle_Stopping}))"
proof -
  note s = recover_snapshots_settled [OF assms(2,3)]
  have "distinct (map agt_agent_id (db_agents db))"
    using assms(1) by (simp add: db_wf_def tbl_wf_def)
  then have "distinct (map (\<lambda>s. agent_id_str (snap_agent_id s)) ss)" using s by simp
  then have d: "distinct (map snap_agent_id ss)" by (auto simp: distinct_map inj_on_def)
  have "restored (registry_new cfg) {}" "\<forall>s \<in> set ss. registry_get (registry_new cfg) (snap_agent_id s) = None"
    by (simp_all add: restored_def registry_get_def registry_new_def)
  from restore_all_restored [OF this(1) d this(2)] obtain r where
    r: "restore_all (registry_new cfg) ss = (Inr (), r)" "restored r (set ss)" by auto
  let ?dm = "\<lparr>dm_registry = r, dm_runtimes = [], dm_spawned = [], dm_calls = [], dm_store = st,
    dm_config = config\<rparr>"
  have "DaemonController_new sqlite (registry_new cfg) config st = Inr ?dm"
    using assms(3) r(1) by (simp add: DaemonController_new_def)
  moreover have "registry_get r a \<noteq> None \<longleftrightarrow> agent_id_str a \<in> set (map agt_agent_id (db_agents db))" for a
  proof -
    have "registry_get r a \<noteq> None \<longleftrightarrow> a \<in> snap_agent_id ` set ss"
      using r(2) unfolding restored_def by fastforce
    also have "\<dots> \<longleftrightarrow> agent_id_str a \<in> set (map (\<lambda>s. agent_id_str (snap_agent_id s)) ss)"
      by (auto simp: image_iff) (metis agent_id.expand agent_id.exhaust_sel)
    finally show ?thesis using s by simp
  qed
  moreover have "\<exists>s. has_agent ?dm a h s \<and> settled s" if "registry_get r a = Some h" for a h
    using r(2) that s unfolding restored_def has_agent_def by (fastforce simp: list_all_iff)
  ultimately show ?thesis
    unfolding settled_def by (intro exI [of _ ?dm]) (simp, metis)
qed

lemma daemon_restarts_settled_witness:
  "\<exists>st dm. Store_initialize ''u'' 6 empty_database = Inr st \<and>
     DaemonController_new (\<lambda>_. []) (registry_new default_actor_config) example_runtime_config st = Inr dm \<and>
     dm_runtimes dm = []"
proof -
  have wf: "db_wf empty_database" by (simp add: db_wf_def empty_database_def tbl_wf_def)
  obtain st where st: "Store_initialize ''u'' 6 empty_database = Inr st" "recover_snapshots st = Inr []"
    by (simp add: Store_initialize_def migrate_def recover_interrupted_def sql_u64_def
        load_or_create_server_id_def tbl_select_def tbl_insert_def empty_database_def corrupt_def
        identifier_new_defs recover_snapshots_def store_agents_def)
  from daemon_restarts_settled [OF wf st] st(1) show ?thesis by blast
qed

subsection \<open>Launching\<close>

lemma frame_parts:
  "same_agents dm dm' \<Longrightarrow> dm_runtimes dm' = dm_runtimes dm \<and> dm_spawned dm' = dm_spawned dm"
  by (simp add: same_agents_def)

text \<open>The part of a launch after the process was spawned and the agent found.\<close>

definition launch_setup :: "ctl_env \<Rightarrow> nat \<Rightarrow> agent_id \<Rightarrow> nat \<Rightarrow> agent_handle \<Rightarrow> unit handler" where
  "launch_setup env k a rt h =
     hbind (set_lifecycle env h Lifecycle_Idle) (\<lambda>_.
     hbind (adopt_session env rt h) (\<lambda>_.
       persist_snapshot env k a h (runtime_process_id env rt) None))"

lemma hbind_remove_runtime:
  "hbind (remove_runtime a) f dm = f () (dm\<lparr>dm_runtimes := bmap_remove a (dm_runtimes dm)\<rparr>)"
  by (simp add: hbind_def remove_runtime_def)

lemma launch_setup_frame: "same_agents dm (snd (launch_setup env k a rt h dm))"
  unfolding launch_setup_def
  by (intro ctl_frame.R_bind ctl_frame.R_agent_ops ctl_frame.R_adopt ctl_frame.R_persist)

text \<open>
  C22: launching keeps at most one process per agent. If the agent's process is running the
  launch is refused and changes nothing. Otherwise at most one process is spawned, with the
  given configuration; the agent's entry leads to that process when the launch succeeds and is
  gone when it fails; and the entry of no other agent changes.
\<close>

theorem launch_spec:
  assumes "launch env k a config dm = (res, dm')"
  shows "if \<exists>rt. bmap_get (dm_runtimes dm) a = Some rt \<and> is_running env rt
    then res = Inl (Ctl_AlreadyRunning a) \<and> dm' = dm
    else (\<forall>b. bmap_get (dm_runtimes dm') b =
            (if b \<noteq> a then bmap_get (dm_runtimes dm) b
             else if res = Inr () then Some (length (dm_spawned dm)) else None)) \<and>
      dm_spawned dm' = dm_spawned dm @ (if ce_spawn env config = Inr () then [config] else []) \<and>
      (res = Inr () \<longrightarrow> ce_spawn env config = Inr ())"
proof (cases "\<exists>rt. bmap_get (dm_runtimes dm) a = Some rt \<and> is_running env rt")
  case True
  then show ?thesis using assms by (auto simp: launch_def)
next
  case False
  let ?dm0 = "dm\<lparr>dm_runtimes := bmap_remove a (dm_runtimes dm)\<rparr>"
  from False have c: "(\<exists>rt. bmap_get (dm_runtimes dm) a = Some rt \<and> is_running env rt) = False"
    by blast
  let ?rt = "length (dm_spawned dm)"
  have l: "hbind (spawn_runtime env config) (\<lambda>rt. hbind (find_or_create a) (\<lambda>h.
      hbind (launch_setup env k a rt h) (\<lambda>_. insert_runtime a rt))) ?dm0 = (res, dm')"
    using assms False
    by (simp add: launch_def launch_setup_def hbind_assoc hbind_remove_runtime split: option.splits)
  then show ?thesis
  proof (cases rule: hbind_cases)
    case (failed e)
    then show ?thesis
      unfolding c if_False by (auto simp: spawn_runtime_def bmap_get_remove split: sum.splits)
  next
    case (passed rt dm1)
    have sp: "ce_spawn env config = Inr ()" "rt = ?rt"
      "dm1 = ?dm0\<lparr>dm_spawned := dm_spawned dm @ [config]\<rparr>"
      using passed(1) by (auto simp: spawn_runtime_def split: sum.splits)
    from passed(2) show ?thesis
    proof (cases rule: hbind_cases)
      case (failed e)
      then have "dm_runtimes dm' = dm_runtimes dm1" "dm_spawned dm' = dm_spawned dm1"
        by (auto simp: find_or_create_def split: option.splits prod.splits)
      then show ?thesis using sp failed unfolding c if_False by (simp add: bmap_get_remove)
    next
      case (passed h dm2)
      then have d2: "dm_runtimes dm2 = dm_runtimes dm1" "dm_spawned dm2 = dm_spawned dm1"
        by (auto simp: find_or_create_def split: option.splits prod.splits)
      from passed(2) show ?thesis
      proof (cases rule: hbind_cases)
        case (failed e)
        then show ?thesis
          using sp d2 frame_parts [OF launch_setup_frame [of dm2 env k a rt h]]
          unfolding c if_False by (simp add: bmap_get_remove)
      next
        case (passed x dm3)
        then show ?thesis
          using sp d2 frame_parts [OF launch_setup_frame [of dm2 env k a rt h]]
          unfolding c if_False by (auto simp: bmap_simps insert_runtime_def)
      qed
    qed
  qed
qed

lemma launch_spec_witness:
  "\<exists>dm'. launch idle_env 0 (AgentId ''a'') example_runtime_config example_daemon =
     (Inl (Ctl_AlreadyRunning (AgentId ''a'')), dm') \<and> dm' = example_daemon"
  using launch_spec [OF surjective_pairing, where env = idle_env and a = "AgentId ''a''" and k = 0
      and config = example_runtime_config and dm = example_daemon]
  by (simp add: example_daemon_agent is_running_def idle_env_def prod_eq_iff)

end
