(* ===== verification/Server.thy ===== *)
theory Server
  imports Controller Replication
begin

section \<open>The control server\<close>

text \<open>
  \<open>crates/ompd/src/server.rs\<close>: a connection authenticates with its first frame, then a reader
  handles one client frame after the other, one task per subscription forwards updates, and a
  writer drains three bounded queues in a fixed order of preference. Requests go through
  \<open>request_start\<close> (validation, scopes, the claim of the operation), the controller, and
  \<open>request_finish\<close> (recording the outcome); between them other tasks run.

  A send on a bounded channel waits while the channel is full, so what a handler sends is a list
  of actions, which the step relation of \<open>Server_Properties\<close> performs one by one.
\<close>

subsection \<open>Configuration and errors\<close>

text \<open>Durations are in nanoseconds.\<close>

record server_session_config =
  ssc_frame_limits :: frame_limits
  ssc_authentication_timeout :: nat
  ssc_heartbeat_interval :: nat
  ssc_slow_client_timeout :: nat
  ssc_outbound_capacity :: nat

definition ServerSessionConfig_default :: "server_session_config option" where
  "ServerSessionConfig_default =
     map_option (\<lambda>l. \<lparr>ssc_frame_limits = l, ssc_authentication_timeout = 5 * 10 ^ 9,
       ssc_heartbeat_interval = 15 * 10 ^ 9, ssc_slow_client_timeout = 10 * 10 ^ 9,
       ssc_outbound_capacity = 64\<rparr>) FrameLimits_default"

definition protocol_error_of :: "string \<Rightarrow> string \<Rightarrow> bool \<Rightarrow> protocol_error" where
  "protocol_error_of code message retryable =
     \<lparr>perr_code = code, perr_message = message, perr_retryable = retryable\<rparr>"

definition permission_error :: protocol_error where
  "permission_error = protocol_error_of ''permission_denied''
     ''device credential does not grant this operation'' False"

definition available_capabilities :: "string set" where
  "available_capabilities =
     {CAPABILITY_STATE_DELTAS, CAPABILITY_EVENT_REPLAY, CAPABILITY_INTERACTION_LEASES}"

subsection \<open>Outbound queues\<close>

datatype ws_message = Ws_Binary string | Ws_Text string | Ws_Ping string | Ws_Pong string | Ws_Close

datatype (plugins only: code) outbound_payload =
  Payload_Protocol server_frame | Payload_WebSocket ws_message

datatype lane = Lane_Control | Lane_Response | Lane_State

text \<open>The senders and the receivers of the three channels; \<open>ob_open\<close>: the writer still has its ends.\<close>

record outbound =
  ob_capacity :: nat
  ob_lane :: "lane \<Rightarrow> outbound_payload list"
  ob_open :: bool

definition Outbound_new :: "nat \<Rightarrow> outbound" where
  "Outbound_new capacity = \<lparr>ob_capacity = max capacity 1, ob_lane = (\<lambda>_. []), ob_open = True\<rparr>"

definition enqueue :: "lane \<Rightarrow> outbound_payload \<Rightarrow> outbound \<Rightarrow> outbound" where
  "enqueue l p ob = ob\<lparr>ob_lane := (ob_lane ob)(l := ob_lane ob l @ [p])\<rparr>"

text \<open>\<open>send(..).await\<close>: \<open>None\<close> while it has to wait, \<open>Some False\<close> when the receiver is gone.\<close>

definition outbound_send :: "lane \<Rightarrow> outbound_payload \<Rightarrow> outbound \<Rightarrow> bool option \<times> outbound" where
  "outbound_send l p ob =
     (if \<not> ob_open ob then (Some False, ob)
      else if length (ob_lane ob l) < ob_capacity ob then (Some True, enqueue l p ob)
      else (None, ob))"

text \<open>\<open>Outbound::state\<close> does not wait.\<close>

definition outbound_state :: "server_frame \<Rightarrow> outbound \<Rightarrow> bool \<times> outbound" where
  "outbound_state frame ob =
     (if ob_open ob \<and> length (ob_lane ob Lane_State) < ob_capacity ob
      then (True, enqueue Lane_State (Payload_Protocol frame) ob) else (False, ob))"

definition emit_update :: "agent_update \<Rightarrow> outbound \<Rightarrow> bool \<times> outbound" where
  "emit_update u = outbound_state (update_frame u)"

text \<open>The loop over a replay stops at the first frame that is not queued.\<close>

fun emit_replay :: "agent_update list \<Rightarrow> outbound \<Rightarrow> outbound" where
  "emit_replay [] ob = ob"
| "emit_replay (u # us) ob =
     (let (ok, ob) = emit_update u ob in if ok then emit_replay us ob else ob)"

text \<open>
  What a handler does to the queues, in order. The flag of a send tells whether the connection
  ends when it fails; \<open>Act_Stop\<close> ends the connection.
\<close>

datatype (plugins only: code) conn_action =
    Act_Send bool lane outbound_payload
  | Act_State server_frame
  | Act_Replay "agent_update list"
  | Act_Stop

abbreviation send_control :: "bool \<Rightarrow> server_frame \<Rightarrow> conn_action" where
  "send_control needed frame \<equiv> Act_Send needed Lane_Control (Payload_Protocol frame)"

abbreviation send_response :: "response_envelope \<Rightarrow> conn_action" where
  "send_response r \<equiv> Act_Send True Lane_Response (Payload_Protocol (Server_Response r))"

subsection \<open>Requests\<close>

fun authorized :: "device_scopes \<Rightarrow> control_request \<Rightarrow> bool" where
  "authorized s Req_ListAgents = scope_observe s"
| "authorized s (Req_GetAgent a) = scope_observe s"
| "authorized s Req_ListDevices = scope_administer_devices s"
| "authorized s (Req_RevokeDevice d) = scope_administer_devices s"
| "authorized s (Req_LaunchAgent a) = scope_mutate_session s"
| "authorized s (Req_SwitchSession a p) = scope_mutate_session s"
| "authorized s (Req_StopAgent a) = scope_stop_agent s"
| "authorized s (Req_Abort a) = scope_stop_agent s"
| "authorized s (Req_Prompt a m i b) = scope_prompt s"
| "authorized s (Req_Steer a m i) = scope_prompt s"
| "authorized s (Req_FollowUp a m i) = scope_prompt s"
| "authorized s (Req_RespondToUi a h r) = scope_answer_ui s"
| "authorized s (Req_AcquireInteractionLease a h t) = scope_answer_ui s"
| "authorized s (Req_ReleaseInteractionLease a h) = scope_answer_ui s"

datatype (plugins only: code) request_start_result =
    Start_Answer response_outcome
  | Start_Execute "operation_key option"

fun claim_answer_of ::
  "(sqlite_error \<Rightarrow> string) \<Rightarrow> operation_key \<Rightarrow> operation_error + operation_claim \<Rightarrow> request_start_result"
where
  "claim_answer_of sqlite key (Inr Claim_Execute) = Start_Execute (Some key)"
| "claim_answer_of sqlite key (Inr (Claim_Completed outcome)) = Start_Answer outcome"
| "claim_answer_of sqlite key (Inr Claim_InProgress) =
     Start_Answer (Outcome_Error (protocol_error_of ''operation_in_progress''
       ''the operation is still in progress'' True))"
| "claim_answer_of sqlite key (Inr Claim_Indeterminate) =
     Start_Answer (Outcome_Error (protocol_error_of ''operation_indeterminate''
       ''the daemon restarted before recording the operation outcome'' False))"
| "claim_answer_of sqlite key (Inl e) =
     Start_Answer (Outcome_Error (protocol_error_of ''operation_conflict''
       (show_operation_error sqlite e) False))"

text \<open>Up to the claim: the request is answered, or it is to be executed.\<close>

definition request_start ::
  "store_env \<Rightarrow> (sqlite_error \<Rightarrow> string) \<Rightarrow> u64 \<Rightarrow> device_record \<Rightarrow> request_envelope \<Rightarrow> daemon \<Rightarrow>
     request_start_result \<times> daemon" where
  "request_start senv sqlite now device e dm =
     (case RequestEnvelope_validate e of
        Inl err \<Rightarrow> (Start_Answer (Outcome_Error (protocol_error_of ''invalid_request''
          (show_validation_error err) False)), dm)
      | Inr _ \<Rightarrow>
          (if \<not> authorized (dev_scopes device) (env_request e)
           then (Start_Answer (Outcome_Error permission_error), dm)
           else case env_operation_id e of
             None \<Rightarrow> (Start_Execute None, dm)
           | Some oid \<Rightarrow>
               (let key = \<lparr>opk_device_id = dev_device_id device, opk_operation_id = oid\<rparr>;
                    (claim, st) = claim_operation senv key (env_request e) now (dm_store dm)
                in (claim_answer_of sqlite key claim, dm\<lparr>dm_store := st\<rparr>))))"

text \<open>After the controller has answered: the outcome of a claimed operation is recorded.\<close>

definition request_finish ::
  "store_env \<Rightarrow> (sqlite_error \<Rightarrow> string) \<Rightarrow> u64 \<Rightarrow> operation_key \<Rightarrow> response_outcome \<Rightarrow> daemon \<Rightarrow>
     response_outcome \<times> daemon" where
  "request_finish senv sqlite now key outcome dm =
     (let (completion, st) = complete_operation senv key outcome now (dm_store dm)
      in (case completion of
            Inl e \<Rightarrow> Outcome_Error (protocol_error_of ''operation_outcome_not_persisted''
              (show_operation_error sqlite e) False)
          | Inr _ \<Rightarrow> outcome, dm\<lparr>dm_store := st\<rparr>))"

definition execute_request ::
  "store_env \<Rightarrow> ctl_env \<Rightarrow> u64 \<Rightarrow> u64 \<Rightarrow> device_record \<Rightarrow> request_envelope \<Rightarrow> daemon \<Rightarrow>
     response_envelope \<times> daemon" where
  "execute_request senv cenv claimed completed device e dm =
     (let (outcome, dm) =
        (case request_start senv (ce_sqlite cenv) claimed device e dm of
           (Start_Answer outcome, dm) \<Rightarrow> (outcome, dm)
         | (Start_Execute None, dm) \<Rightarrow> execute cenv (env_request e) dm
         | (Start_Execute (Some key), dm) \<Rightarrow>
             (let (outcome, dm) = execute cenv (env_request e) dm
              in request_finish senv (ce_sqlite cenv) completed key outcome dm))
      in (\<lparr>rsp_request_id = env_request_id e, rsp_outcome = outcome\<rparr>, dm))"

subsection \<open>Subscriptions\<close>

definition gap_frame :: "agent_snapshot \<Rightarrow> replay_gap_reason \<Rightarrow> server_frame" where
  "gap_frame s reason = Server_ReplayGap \<lparr>gap_agent_id = snap_agent_id s,
     gap_current_revision = snap_revision s, gap_current_event_sequence = snap_event_sequence s,
     gap_reason = reason\<rparr>"

fun emit_subscription_start :: "subscription_start \<Rightarrow> conn_action list" where
  "emit_subscription_start (Start_Snapshot s) = [Act_State (Server_Snapshot [s])]"
| "emit_subscription_start (Start_Replay us) = [Act_Replay us]"
| "emit_subscription_start (Start_ResyncRequired s) =
     [send_control False (gap_frame s Gap_NonContiguousCursor), Act_State (Server_Snapshot [s])]"

text \<open>
  A connection has at most one subscription per agent: the handle and the number of the channel
  its task reads. The task of an entry that is removed or replaced is aborted, and its receiver
  is dropped with it.
\<close>

type_synonym subscriptions = "(agent_id, agent_handle \<times> nat) bmap"

definition server_subscribe ::
  "ctl_env \<Rightarrow> subscribe_request \<Rightarrow> subscriptions \<Rightarrow> daemon \<Rightarrow> conn_action list \<times> subscriptions \<times> daemon"
where
  "server_subscribe env request subs dm =
     (case registry_get (dm_registry dm) (subreq_agent_id request) of
        None \<Rightarrow> ([send_control False (Server_Error (protocol_error_of ''agent_not_found''
          ''subscription agent was not found'' False))], subs, dm)
      | Some h \<Rightarrow>
          (case call_agent env reply_subscription h (Cmd_Subscribe (subreq_cursor request)) dm of
             (Inl e, dm) \<Rightarrow> ([send_control False (Server_Error (protocol_error_of ''subscription_failed''
               ''could not create agent subscription'' True))], subs, dm)
           | (Inr (i, start), dm) \<Rightarrow>
               (emit_subscription_start start, bmap_insert (subreq_agent_id request) (h, i) subs, dm)))"

definition send_slow_consumer_gap ::
  "ctl_env \<Rightarrow> agent_handle \<Rightarrow> daemon \<Rightarrow> conn_action list \<times> daemon" where
  "send_slow_consumer_gap env h dm =
     (case agent_snapshot_of env h dm of
        (Inr s, dm) \<Rightarrow> ([send_control False (gap_frame s Gap_SlowConsumer)], dm)
      | (Inl e, dm) \<Rightarrow> ([], dm))"

text \<open>
  One turn of a subscription's task on what \<open>recv\<close> returned: the queues, the actions with which it
  ends (\<open>None\<close> while it goes on), and the daemon.
\<close>

fun subscription_turn ::
  "ctl_env \<Rightarrow> agent_handle \<Rightarrow> subscription_error + agent_update \<Rightarrow> outbound \<Rightarrow> daemon \<Rightarrow>
     outbound \<times> conn_action list option \<times> daemon" where
  "subscription_turn env h (Inr u) ob dm =
     (let (ok, ob) = emit_update u ob
      in if ok then (ob, None, dm)
         else let (acts, dm) = send_slow_consumer_gap env h dm in (ob, Some acts, dm))"
| "subscription_turn env h (Inl Subscription_ResyncRequired) ob dm =
     (let (acts, dm) = send_slow_consumer_gap env h dm in (ob, Some acts, dm))"
| "subscription_turn env h (Inl Subscription_Closed) ob dm = (ob, Some [], dm)"

subsection \<open>Client frames\<close>

definition ui_request :: "ui_response_envelope \<Rightarrow> request_envelope" where
  "ui_request u = \<lparr>env_request_id = uir_request_id u, env_operation_id = Some (uir_operation_id u),
     env_request = Req_RespondToUi (uir_agent_id u) (uir_holder u) (uir_response u)\<rparr>"

definition handle_client_frame ::
  "store_env \<Rightarrow> ctl_env \<Rightarrow> u64 \<Rightarrow> u64 \<Rightarrow> device_record \<Rightarrow> client_frame \<Rightarrow> subscriptions \<Rightarrow> daemon \<Rightarrow>
     conn_action list \<times> subscriptions \<times> daemon" where
  "handle_client_frame senv cenv claimed completed device frame subs dm =
     (case frame of
        Client_Request e \<Rightarrow>
          (let (response, dm) = execute_request senv cenv claimed completed device e dm
           in ([send_response response], subs, dm))
      | Client_Subscribe request \<Rightarrow>
          (if \<not> scope_observe (dev_scopes device)
           then ([send_control True (Server_Error permission_error)], subs, dm)
           else server_subscribe cenv request subs dm)
      | Client_Unsubscribe a \<Rightarrow>
          (if \<not> scope_observe (dev_scopes device)
           then ([send_control True (Server_Error permission_error)], subs, dm)
           else ([], bmap_remove a subs, dm))
      | Client_UiResponse u \<Rightarrow>
          (let (response, dm) = execute_request senv cenv claimed completed device (ui_request u) dm
           in ([send_response response], subs, dm))
      | Client_Ping nonce \<Rightarrow> ([send_control True (Server_Pong nonce)], subs, dm)
      | Client_Hello h \<Rightarrow>
          ([send_control False (Server_Error (protocol_error_of ''unexpected_hello''
             ''hello is valid only as the first frame'' False)), Act_Stop], subs, dm))"

text \<open>What the reader's loop does with a message.\<close>

definition handle_message ::
  "(string \<Rightarrow> string + (client_frame \<times> nat)) \<Rightarrow> cbor_codec \<Rightarrow> store_env \<Rightarrow> ctl_env \<Rightarrow> u64 \<Rightarrow> u64 \<Rightarrow>
     device_record \<Rightarrow> ws_message \<Rightarrow> subscriptions \<Rightarrow> daemon \<Rightarrow> conn_action list \<times> subscriptions \<times> daemon"
where
  "handle_message de codec senv cenv claimed completed device message subs dm =
     (case message of
        Ws_Binary bytes \<Rightarrow>
          (case cbor_decode de codec bytes of
             Inl e \<Rightarrow> ([send_control False (Server_Error (protocol_error_of ''invalid_frame''
               ''client frame is not valid authenticated CBOR'' False)), Act_Stop], subs, dm)
           | Inr frame \<Rightarrow> handle_client_frame senv cenv claimed completed device frame subs dm)
      | Ws_Ping payload \<Rightarrow> ([Act_Send True Lane_Control (Payload_WebSocket (Ws_Pong payload))], subs, dm)
      | Ws_Pong payload \<Rightarrow> ([], subs, dm)
      | Ws_Close \<Rightarrow> ([Act_Stop], subs, dm)
      | Ws_Text t \<Rightarrow> ([send_control False (Server_Error (protocol_error_of ''binary_frames_required''
          ''control protocol accepts binary CBOR frames only'' False)), Act_Stop], subs, dm))"

subsection \<open>The first frame\<close>

record authenticated =
  auth_device :: device_record
  auth_issued_credential :: "device_credential option"

definition authenticate_hello ::
  "store_env \<Rightarrow> string + string \<Rightarrow> string \<Rightarrow> u64 \<Rightarrow> client_authentication \<Rightarrow> store \<Rightarrow>
     authenticated option \<times> store" where
  "authenticate_hello senv random uuid now auth st =
     (case auth of
        Auth_Device d token \<Rightarrow>
          (case authenticate_device senv d token now st of
             (Inl e, st) \<Rightarrow> (None, st)
           | (Inr device, st) \<Rightarrow>
               (Some \<lparr>auth_device = device, auth_issued_credential = None\<rparr>, st))
      | Auth_Pair p secret descriptor \<Rightarrow>
          (case exchange_pairing senv random uuid p secret descriptor now st of
             (Inl e, st) \<Rightarrow> (None, st)
           | (Inr credential, st) \<Rightarrow>
               (case store_device (cred_device_id credential) st of
                  Inr (Some device) \<Rightarrow>
                    (Some \<lparr>auth_device = device, auth_issued_credential = Some credential\<rparr>, st)
                | _ \<Rightarrow> (None, st))))"

text \<open>\<open>incoming\<close> is \<open>None\<close> when the wait timed out, the socket was closed or failed.\<close>

definition authenticate_first_frame ::
  "(string \<Rightarrow> string + (client_frame \<times> nat)) \<Rightarrow> server_session_config \<Rightarrow> store_env \<Rightarrow> string + string \<Rightarrow>
     string \<Rightarrow> u64 \<Rightarrow> ws_message option \<Rightarrow> store \<Rightarrow>
     (client_hello \<times> protocol_version \<times> authenticated) option \<times> store" where
  "authenticate_first_frame de cfg senv random uuid now incoming st =
     (case incoming of
        Some (Ws_Binary bytes) \<Rightarrow>
          (if unat (lim_pre_auth (ssc_frame_limits cfg)) < length bytes then (None, st)
           else case rbind (map_err (\<lambda>_. ())
               (cbor_decode de (FrameLimits_codec (ssc_frame_limits cfg) Phase_PreAuth) bytes))
               (\<lambda>frame. map_err (\<lambda>_. ()) (negotiate_client_hello frame)) of
             Inl _ \<Rightarrow> (None, st)
           | Inr (hello, version) \<Rightarrow>
               (case authenticate_hello senv random uuid now (hello_authentication hello) st of
                  (None, st) \<Rightarrow> (None, st)
                | (Some a, st) \<Rightarrow> (Some (hello, version, a), st)))
      | _ \<Rightarrow> (None, st))"

definition heartbeat_interval_ms :: "server_session_config \<Rightarrow> u64" where
  "heartbeat_interval_ms cfg =
     (let ms = ssc_heartbeat_interval cfg div 10 ^ 6 in if ms < 2 ^ 64 then of_nat ms else -1)"

definition welcome_frame ::
  "server_session_config \<Rightarrow> store \<Rightarrow> string \<Rightarrow> client_hello \<Rightarrow> protocol_version \<Rightarrow> authenticated \<Rightarrow>
     server_frame" where
  "welcome_frame cfg st uuid hello version a =
     Server_Welcome \<lparr>wel_protocol_version = version, wel_server_id = st_server_id st,
       wel_connection_id = ConnectionId uuid, wel_device_id = dev_device_id (auth_device a),
       wel_capabilities = ServerCapabilities_negotiate available_capabilities
         (client_capabilities (hello_client hello)) (lim_post_auth (ssc_frame_limits cfg)),
       wel_heartbeat_interval_ms = heartbeat_interval_ms cfg,
       wel_issued_credential = auth_issued_credential a\<rparr>"

subsection \<open>The writer\<close>

text \<open>The biased choice: the first lane that has a payload.\<close>

definition writer_take :: "outbound \<Rightarrow> (outbound_payload \<times> lane \<times> outbound) option" where
  "writer_take ob =
     map_option (\<lambda>l. (hd (ob_lane ob l), l, ob\<lparr>ob_lane := (ob_lane ob)(l := tl (ob_lane ob l))\<rparr>))
       (List.find (\<lambda>l. ob_lane ob l \<noteq> []) [Lane_Control, Lane_Response, Lane_State])"

definition writer_message ::
  "(server_frame \<Rightarrow> string list \<times> string option) \<Rightarrow> cbor_codec \<Rightarrow> outbound_payload \<Rightarrow>
     cbor_codec_error + ws_message" where
  "writer_message ser codec p =
     (case p of
        Payload_Protocol frame \<Rightarrow> map_sum id Ws_Binary (cbor_encode ser codec frame)
      | Payload_WebSocket message \<Rightarrow> Inr message)"

definition to_be_bytes :: "u64 \<Rightarrow> string" where
  "to_be_bytes w = map (\<lambda>i. char_of (unat (drop_bit (8 * i) w) mod 256)) [7, 6, 5, 4, 3, 2, 1, 0]"

text \<open>The heartbeat branch: \<open>idle\<close> is the time since the client was last heard.\<close>

definition writer_heartbeat :: "server_session_config \<Rightarrow> nat \<Rightarrow> u64 \<Rightarrow> ws_message option" where
  "writer_heartbeat cfg idle now =
     (if 2 * ssc_heartbeat_interval cfg < idle then None else Some (Ws_Ping (to_be_bytes now)))"

text \<open>
  What wakes the writer: a queued payload, or the heartbeat when no lane has one; and whether the
  socket took the message in time.
\<close>

datatype writer_input = Writer_Payload bool | Writer_Tick nat u64 bool

text \<open>One turn: what was written, whether the loop goes on, and the queues. \<open>None\<close>: no such turn.\<close>

fun writer_turn ::
  "(server_frame \<Rightarrow> string list \<times> string option) \<Rightarrow> cbor_codec \<Rightarrow> server_session_config \<Rightarrow>
     writer_input \<Rightarrow> outbound \<Rightarrow> (ws_message option \<times> bool \<times> outbound) option" where
  "writer_turn ser codec cfg (Writer_Payload taken) ob =
     map_option (\<lambda>(p, l, ob).
       case writer_message ser codec p of
         Inl e \<Rightarrow> (None, False, ob)
       | Inr m \<Rightarrow> (if taken then (Some m, True, ob) else (None, False, ob))) (writer_take ob)"
| "writer_turn ser codec cfg (Writer_Tick idle now taken) ob =
     (if writer_take ob \<noteq> None then None
      else case writer_heartbeat cfg idle now of
        None \<Rightarrow> Some (None, False, ob)
      | Some m \<Rightarrow> Some (if taken then (Some m, True, ob) else (None, False, ob)))"

text \<open>After the loop a close message is attempted and the receivers are dropped.\<close>

definition writer_end :: "outbound \<Rightarrow> outbound" where
  "writer_end ob = ob\<lparr>ob_open := False\<rparr>"

end
