(* ===== verification/Server_Properties.thy ===== *)
theory Server_Properties
  imports Server Store_Properties Controller_Properties
begin

section \<open>Properties of the server\<close>

text \<open>
  Requests of many connections run concurrently. A state holds the daemon, the requests that were
  let through and wait for the controller, and the operations the controller has answered whose
  outcome is not recorded yet; a step is one of these parts of one request, an event of a
  process, a use of the store by authentication or administration, or a crash followed by a
  restart, which forgets what was under way.
\<close>

subsection \<open>Requests of concurrent connections\<close>

record server_state =
  sv_daemon :: daemon
  sv_claimed :: "(operation_key option \<times> control_request) list"
  sv_executed :: "(operation_key \<times> response_outcome) list"

datatype (plugins only: code) server_label =
    Srv_Answered device_record request_envelope response_outcome
  | Srv_Claimed device_record request_envelope "operation_key option"
  | Srv_Executed "operation_key option" control_request response_outcome
  | Srv_Finished operation_key response_outcome response_outcome
  | Srv_Bridged
  | Srv_Store store_event
  | Srv_Restarted

fun external_event :: "store_event \<Rightarrow> bool" where
  "external_event (Ev_Claim k request r) = False"
| "external_event (Ev_Complete k outcome r) = False"
| "external_event Ev_Restart = False"
| "external_event _ = True"

inductive server_step ::
  "store_env \<Rightarrow> (sqlite_error \<Rightarrow> string) \<Rightarrow> server_state \<Rightarrow> server_label \<Rightarrow> server_state \<Rightarrow> bool"
for senv sqlite where
  answered: "request_start senv sqlite now device e (sv_daemon s) = (Start_Answer outcome, dm') \<Longrightarrow>
     server_step senv sqlite s (Srv_Answered device e outcome) (s\<lparr>sv_daemon := dm'\<rparr>)"
| claimed: "request_start senv sqlite now device e (sv_daemon s) = (Start_Execute k, dm') \<Longrightarrow>
     server_step senv sqlite s (Srv_Claimed device e k)
       (s\<lparr>sv_daemon := dm', sv_claimed := sv_claimed s @ [(k, env_request e)]\<rparr>)"
| executed: "sv_claimed s = before @ (k, request) # after \<Longrightarrow>
     execute cenv request (sv_daemon s) = (outcome, dm') \<Longrightarrow>
     server_step senv sqlite s (Srv_Executed k request outcome)
       (s\<lparr>sv_daemon := dm', sv_claimed := before @ after,
          sv_executed := (case k of None \<Rightarrow> sv_executed s | Some key \<Rightarrow> sv_executed s @ [(key, outcome)])\<rparr>)"
| finished: "sv_executed s = before' @ (key, outcome) # after' \<Longrightarrow>
     request_finish senv sqlite now key outcome (sv_daemon s) = (final, dm') \<Longrightarrow>
     server_step senv sqlite s (Srv_Finished key outcome final)
       (s\<lparr>sv_daemon := dm', sv_executed := before' @ after'\<rparr>)"
| bridged: "bridge_event cenv a h p inp (sv_daemon s) = (continue, dm') \<Longrightarrow>
     server_step senv sqlite s Srv_Bridged (s\<lparr>sv_daemon := dm'\<rparr>)"
| store: "store_step senv (dm_store (sv_daemon s)) ev st' \<Longrightarrow> external_event ev \<Longrightarrow>
     server_step senv sqlite s (Srv_Store ev) (s\<lparr>sv_daemon := (sv_daemon s)\<lparr>dm_store := st'\<rparr>\<rparr>)"
| restarted: "Store_initialize uuid now (st_db (dm_store (sv_daemon s))) = Inr st' \<Longrightarrow>
     DaemonController_new sqlite (registry_new cfg) config st' = Inr dm' \<Longrightarrow>
     server_step senv sqlite s Srv_Restarted \<lparr>sv_daemon = dm', sv_claimed = [], sv_executed = []\<rparr>"

inductive server_steps ::
  "store_env \<Rightarrow> (sqlite_error \<Rightarrow> string) \<Rightarrow> server_state \<Rightarrow> server_label list \<Rightarrow> server_state \<Rightarrow> bool"
for senv sqlite where
  none: "server_steps senv sqlite s [] s"
| cons: "server_step senv sqlite s l s' \<Longrightarrow> server_steps senv sqlite s' ls s'' \<Longrightarrow>
     server_steps senv sqlite s (l # ls) s''"

subsection \<open>The history of the store\<close>

definition claims :: "operation_key \<Rightarrow> server_label \<Rightarrow> bool" where
  "claims key l \<longleftrightarrow> (\<exists>device e. l = Srv_Claimed device e (Some key))"

definition executes :: "operation_key \<Rightarrow> server_label \<Rightarrow> bool" where
  "executes key l \<longleftrightarrow> (\<exists>request outcome. l = Srv_Executed (Some key) request outcome)"

definition prunes :: "operation_key \<Rightarrow> server_label \<Rightarrow> bool" where
  "prunes key l \<longleftrightarrow> l = Srv_Store (Ev_Prune (opk_device_id key))"

lemma claim_answer_execute:
  "claim_answer_of sqlite key claim = Start_Execute k \<longleftrightarrow> claim = Inr Claim_Execute \<and> k = Some key"
  by (cases "(sqlite, key, claim)" rule: claim_answer_of.cases) auto

lemma controller_events:
  assumes "list_all controller_event es"
  shows "filter (is_execution key) es = []" "Ev_Prune d \<notin> set es"
proof -
  have "\<not> is_execution key e \<and> e \<noteq> Ev_Prune d" if "controller_event e" for e
    using that by (cases e) auto
  with assms show "filter (is_execution key) es = []" "Ev_Prune d \<notin> set es"
    by (auto simp: list_all_iff filter_empty_conv)
qed

text \<open>What a step does to the store, and the executions it claims.\<close>

definition store_trace :: "store_env \<Rightarrow> operation_key \<Rightarrow> server_state \<Rightarrow> server_label \<Rightarrow> server_state \<Rightarrow> bool"
where
  "store_trace senv key s l s' \<longleftrightarrow>
     (\<exists>es. store_steps senv (dm_store (sv_daemon s)) es (dm_store (sv_daemon s')) \<and>
        length (filter (is_execution key) es) = (if claims key l then 1 else 0) \<and>
        (\<not> prunes key l \<longrightarrow> Ev_Prune (opk_device_id key) \<notin> set es))"

lemma store_trace_one:
  assumes "store_step senv (dm_store (sv_daemon s)) ev (dm_store (sv_daemon s'))"
    "is_execution key ev \<longleftrightarrow> claims key l" "ev = Ev_Prune (opk_device_id key) \<Longrightarrow> prunes key l"
  shows "store_trace senv key s l s'"
  unfolding store_trace_def
  by (rule exI [of _ "[ev]"]) (use assms in \<open>auto intro: store_steps.intros\<close>)

lemma store_trace_history:
  assumes "store_history senv (sv_daemon s) (sv_daemon s')" "\<not> claims key l"
  shows "store_trace senv key s l s'"
  using assms controller_events unfolding store_trace_def store_history_def by fastforce

lemma request_start_store:
  assumes "request_start senv sqlite now device e dm = (res, dm')"
  obtains (unchanged) "dm' = dm" "\<And>key. res \<noteq> Start_Execute (Some key)"
  | (claim) key claim st' where "claim_operation senv key (env_request e) now (dm_store dm) = (claim, st')"
      "dm' = dm\<lparr>dm_store := st'\<rparr>" "res = claim_answer_of sqlite key claim"
proof -
  consider x where "RequestEnvelope_validate e = Inl x" | "RequestEnvelope_validate e = Inr ()"
    by (cases "RequestEnvelope_validate e") auto
  then show ?thesis
  proof cases
    case 2
    show ?thesis
    proof (cases "authorized (dev_scopes device) (env_request e)")
      case True
      show ?thesis
      proof (cases "env_operation_id e")
        case (Some oid)
        let ?key = "\<lparr>opk_device_id = dev_device_id device, opk_operation_id = oid\<rparr>"
        obtain c st' where "claim_operation senv ?key (env_request e) now (dm_store dm) = (c, st')"
          by fastforce
        then show ?thesis
          using claim [of ?key c st'] assms 2 True Some by (simp add: request_start_def)
      qed (use assms 2 True unchanged in \<open>auto simp: request_start_def\<close>)
    qed (use assms 2 unchanged in \<open>auto simp: request_start_def\<close>)
  qed (use assms unchanged in \<open>auto simp: request_start_def\<close>)
qed

lemma store_trace_same: "sv_daemon s' = sv_daemon s \<Longrightarrow> \<not> claims key l \<Longrightarrow> store_trace senv key s l s'"
  by (rule store_trace_history) (simp_all add: ctl_store.R_refl)

lemma start_trace:
  assumes "request_start senv sqlite now device e (sv_daemon s) = (res, dm')" "sv_daemon s' = dm'"
    and "\<And>k. res = Start_Execute k \<Longrightarrow> l = Srv_Claimed device e k"
    and "\<And>outcome. res = Start_Answer outcome \<Longrightarrow> l = Srv_Answered device e outcome"
  shows "store_trace senv key s l s'"
  using assms(1)
proof (cases rule: request_start_store)
  case unchanged
  then have "\<not> claims key l"
    using assms(3,4) by (cases res) (auto simp: claims_def)
  then show ?thesis using store_trace_same assms(2) unchanged by blast
next
  case (claim k c st')
  have "store_step senv (dm_store (sv_daemon s)) (Ev_Claim k (env_request e) c) (dm_store (sv_daemon s'))"
    using store_step.claim [OF claim(1)] claim(2) assms(2) by simp
  moreover have "is_execution key (Ev_Claim k (env_request e) c) \<longleftrightarrow> claims key l"
  proof (cases "c = Inr Claim_Execute")
    case True
    then show ?thesis using claim(3) assms(3) by (auto simp: claims_def)
  next
    case False
    then have "\<not> is_execution key (Ev_Claim k (env_request e) c)" by (auto elim: is_execution.elims)
    moreover obtain outcome where "res = Start_Answer outcome"
      using False claim(3) claim_answer_execute by (metis request_start_result.exhaust)
    ultimately show ?thesis using assms(4) by (auto simp: claims_def)
  qed
  ultimately show ?thesis by (rule store_trace_one) simp
qed

lemma server_step_trace:
  assumes "server_step senv sqlite s l s'"
  shows "store_trace senv key s l s'"
  using assms
proof (induction rule: server_step.induct)
  case (answered now device e s outcome dm')
  then show ?case by (rule start_trace) simp_all
next
  case (claimed now device e s k dm')
  then show ?case by (rule start_trace) simp_all
next
  case (executed s before k request after cenv outcome dm')
  then show ?case
    using ctl_store.R_execute [of senv "sv_daemon s" cenv request]
    by (intro store_trace_history) (simp_all add: claims_def)
next
  case (finished s before' key' outcome after' now final dm')
  obtain c st' where c: "complete_operation senv key' outcome now (dm_store (sv_daemon s)) = (c, st')"
    by fastforce
  with finished show ?case
    by (intro store_trace_one [where ev = "Ev_Complete key' outcome c"])
      (auto simp: request_finish_def claims_def intro: store_step.complete)
next
  case (bridged cenv a h p inp s continue dm')
  then show ?case
    using ctl_store.R_bridge [of senv "sv_daemon s" cenv a h p inp]
    by (intro store_trace_history) (simp_all add: claims_def)
next
  case (store s ev st')
  then show ?case
    by (intro store_trace_one [where ev = ev])
      (auto simp: claims_def prunes_def elim: is_execution.elims)
next
  case (restarted uuid now s st' cfg config dm')
  have "dm_store dm' = st'" by (rule controller_new_cases [OF restarted(2)]) simp
  then show ?case
    using store_step.restart [OF restarted(1)]
    by (intro store_trace_one [where ev = Ev_Restart]) (auto simp: claims_def)
qed

lemma server_steps_store:
  assumes "server_steps senv sqlite s ls s'"
  shows "\<exists>es. store_steps senv (dm_store (sv_daemon s)) es (dm_store (sv_daemon s')) \<and>
    length (filter (is_execution key) es) = length (filter (claims key) ls) \<and>
    ((\<forall>l \<in> set ls. \<not> prunes key l) \<longrightarrow> Ev_Prune (opk_device_id key) \<notin> set es)"
  using assms
proof (induction rule: server_steps.induct)
  case (cons s l s1 ls s2)
  obtain es1 where 1: "store_steps senv (dm_store (sv_daemon s)) es1 (dm_store (sv_daemon s1))"
    "length (filter (is_execution key) es1) = (if claims key l then 1 else 0)"
    "\<not> prunes key l \<longrightarrow> Ev_Prune (opk_device_id key) \<notin> set es1"
    using server_step_trace [OF cons(1), of key] unfolding store_trace_def by blast
  obtain es2 where 2: "store_steps senv (dm_store (sv_daemon s1)) es2 (dm_store (sv_daemon s2))"
    "length (filter (is_execution key) es2) = length (filter (claims key) ls)"
    "(\<forall>l \<in> set ls. \<not> prunes key l) \<longrightarrow> Ev_Prune (opk_device_id key) \<notin> set es2"
    using cons.IH by blast
  show ?case
    by (rule exI [of _ "es1 @ es2"]) (use 1 2 store_steps_append [OF 1(1) 2(1)] in auto)
qed (auto intro: exI [of _ "[]"] store_steps.none)

subsection \<open>At most one execution\<close>

text \<open>The claimed operations of a key that wait for the controller.\<close>

definition waiting :: "operation_key \<Rightarrow> server_state \<Rightarrow> nat" where
  "waiting key s = length (filter (\<lambda>c. fst c = Some key) (sv_claimed s))"

lemma server_step_waiting:
  assumes "server_step senv sqlite s l s'"
  shows "(if executes key l then 1 else 0) + waiting key s' \<le> waiting key s + (if claims key l then 1 else 0)"
  using assms
  by (induction rule: server_step.induct) (auto simp: waiting_def executes_def claims_def)

lemma server_steps_waiting:
  assumes "server_steps senv sqlite s ls s'"
  shows "length (filter (executes key) ls) + waiting key s' \<le> waiting key s + length (filter (claims key) ls)"
  using assms
proof (induction rule: server_steps.induct)
  case (cons s l s1 ls s2)
  then show ?case using server_step_waiting [OF cons(1), of key] by (auto split: if_splits)
qed simp

lemma executions_bounded:
  assumes "server_steps senv sqlite s ls s'" "sv_claimed s = []" "store_wf (dm_store (sv_daemon s))"
    and "Srv_Store (Ev_Prune (opk_device_id key)) \<notin> set ls"
  shows "length (filter (executes key) ls) \<le> length (filter (claims key) ls)"
    "length (filter (claims key) ls) \<le> 1"
proof -
  obtain es where "store_steps senv (dm_store (sv_daemon s)) es (dm_store (sv_daemon s'))"
    "length (filter (is_execution key) es) = length (filter (claims key) ls)"
    "Ev_Prune (opk_device_id key) \<notin> set es"
    using server_steps_store [OF assms(1), of key] assms(4) by (auto simp: prunes_def)
  then show "length (filter (claims key) ls) \<le> 1"
    using executions_at_most_one [of senv _ es _ key] assms(3) by metis
  show "length (filter (executes key) ls) \<le> length (filter (claims key) ls)"
    using server_steps_waiting [OF assms(1), of key] assms(2) by (simp add: waiting_def)
qed

text \<open>
  C2: an operation reaches the controller at most once. However the requests of any number of
  connections interleave, whatever is retried, whatever the processes report and however
  often the daemon crashes and restarts, the requests that carry one operation identifier of a
  device are executed at most once in total, as long as the device's old operations are not
  pruned.
\<close>

theorem server_executes_at_most_once:
  assumes "server_steps senv sqlite s ls s'" "sv_claimed s = []" "store_wf (dm_store (sv_daemon s))"
    and "Srv_Store (Ev_Prune (opk_device_id key)) \<notin> set ls"
  shows "length (filter (executes key) ls) \<le> 1"
  using executions_bounded [OF assms] by linarith

text \<open>A daemon with one paired device, and its request.\<close>

definition example_device_record :: device_record where
  "example_device_record = \<lparr>dev_device_id = opk_device_id example_key, dev_name = ''phone'',
     dev_platform = Platform_Mobile, dev_scopes = DeviceScopes_all, dev_created_at_ms = 1,
     dev_last_seen_at_ms = None, dev_revoked_at_ms = None\<rparr>"

definition example_envelope :: request_envelope where
  "example_envelope = \<lparr>env_request_id = RequestId ''r'',
     env_operation_id = Some (opk_operation_id example_key), env_request = example_request\<rparr>"

definition example_server :: server_state where
  "example_server = \<lparr>sv_daemon = \<lparr>dm_registry = registry_new default_actor_config, dm_runtimes = [],
       dm_spawned = [], dm_calls = [], dm_store = example_store, dm_config = example_runtime_config\<rparr>,
     sv_claimed = [], sv_executed = []\<rparr>"

lemma example_start:
  "request_start example_env (\<lambda>_. []) 5 example_device_record example_envelope (sv_daemon example_server) =
     (Start_Execute (Some example_key), (sv_daemon example_server)\<lparr>dm_store := example_claimed\<rparr>)"
  using example_claim
  by (simp add: request_start_def RequestEnvelope_validate_def example_envelope_def example_device_record_def
      example_server_def DeviceScopes_all_def is_mutating_def example_request_def example_key_def Let_def)

lemma server_executes_at_most_once_witness:
  "\<exists>s outcome. server_steps example_env (\<lambda>_. []) example_server
     [Srv_Claimed example_device_record example_envelope (Some example_key),
      Srv_Executed (Some example_key) example_request outcome] s \<and>
   length (filter (executes example_key)
     [Srv_Claimed example_device_record example_envelope (Some example_key),
      Srv_Executed (Some example_key) example_request outcome]) \<le> 1"
proof -
  let ?s1 = "example_server\<lparr>sv_daemon := (sv_daemon example_server)\<lparr>dm_store := example_claimed\<rparr>,
    sv_claimed := [(Some example_key, example_request)]\<rparr>"
  have 1: "server_step example_env (\<lambda>_. []) example_server
      (Srv_Claimed example_device_record example_envelope (Some example_key)) ?s1"
    using server_step.claimed [OF example_start] by (simp add: example_server_def example_envelope_def)
  obtain outcome dm' where "execute idle_env example_request (sv_daemon ?s1) = (outcome, dm')" by fastforce
  then have "\<exists>s. server_step example_env (\<lambda>_. []) ?s1 (Srv_Executed (Some example_key) example_request outcome) s"
    using server_step.executed [of ?s1 "[]" "Some example_key" example_request "[]" idle_env outcome dm']
    by auto
  with 1 obtain s where s: "server_steps example_env (\<lambda>_. []) example_server
     [Srv_Claimed example_device_record example_envelope (Some example_key),
      Srv_Executed (Some example_key) example_request outcome] s"
    by (blast intro: server_steps.intros)
  from server_executes_at_most_once [OF s, of example_key] s example_store_wf show ?thesis
    by (intro exI [of _ s] exI [of _ outcome]) (simp add: example_server_def)
qed

subsection \<open>What a request may do\<close>

text \<open>
  C24: a request that is malformed or that the device's scopes do not cover has no effect: it is
  answered with the error that says so, and neither the store, nor an agent, nor a process
  is touched. A request that reads carries no operation and claims none; one that changes
  something is let through only with a claim of its own.
\<close>

theorem request_gate:
  assumes "execute_request senv cenv claimed completed device e dm = (response, dm')"
  shows "rsp_request_id response = env_request_id e \<and>
    (is_mutating (env_request e) \<noteq> (env_operation_id e \<noteq> None) \<longrightarrow>
       dm' = dm \<and> (\<exists>m. rsp_outcome response =
         Outcome_Error (protocol_error_of ''invalid_request'' m False))) \<and>
    (is_mutating (env_request e) = (env_operation_id e \<noteq> None) \<and>
       \<not> authorized (dev_scopes device) (env_request e) \<longrightarrow>
       dm' = dm \<and> rsp_outcome response = Outcome_Error permission_error) \<and>
    (request_start senv (ce_sqlite cenv) claimed device e dm = (Start_Execute k, dm1) \<longrightarrow>
       authorized (dev_scopes device) (env_request e) \<and> (k = None \<longleftrightarrow> \<not> is_mutating (env_request e)))"
proof -
  have v: "RequestEnvelope_validate e = Inr () \<longleftrightarrow>
      is_mutating (env_request e) = (env_operation_id e \<noteq> None)"
    by (auto simp: RequestEnvelope_validate_def)
  have 1: "rsp_request_id response = env_request_id e"
    using assms by (auto simp: execute_request_def Let_def split: prod.splits)
  have 2: "\<exists>m. request_start senv (ce_sqlite cenv) claimed device e dm =
      (Start_Answer (Outcome_Error (protocol_error_of ''invalid_request'' m False)), dm)"
    if m: "is_mutating (env_request e) \<noteq> (env_operation_id e \<noteq> None)"
  proof -
    obtain x where "RequestEnvelope_validate e = Inl x"
      using m v by (cases "RequestEnvelope_validate e") auto
    then show ?thesis by (auto simp: request_start_def)
  qed
  have 3: "request_start senv (ce_sqlite cenv) claimed device e dm =
      (Start_Answer (Outcome_Error permission_error), dm)"
    if "is_mutating (env_request e) = (env_operation_id e \<noteq> None)"
      "\<not> authorized (dev_scopes device) (env_request e)"
    using that v by (simp add: request_start_def)
  have 4: "authorized (dev_scopes device) (env_request e) \<and> (k = None \<longleftrightarrow> \<not> is_mutating (env_request e))"
    if "request_start senv (ce_sqlite cenv) claimed device e dm = (Start_Execute k, dm1)"
  proof -
    have "RequestEnvelope_validate e = Inr ()"
      using that by (cases "RequestEnvelope_validate e") (auto simp: request_start_def)
    with that v show ?thesis
      by (auto simp: request_start_def Let_def claim_answer_execute
          split: if_splits option.splits prod.splits)
  qed
  have answer: "dm' = dm \<and> rsp_outcome response = outcome"
    if "request_start senv (ce_sqlite cenv) claimed device e dm = (Start_Answer outcome, dm)" for outcome
    using that assms by (auto simp: execute_request_def)
  show ?thesis
    using 1 2 3 4 answer by blast
qed

lemma request_gate_witness:
  "snd (execute_request example_env idle_env 5 6
     (example_device_record\<lparr>dev_scopes := DeviceScopes_all\<lparr>scope_mutate_session := False\<rparr>\<rparr>)
     (example_envelope\<lparr>env_request := Req_LaunchAgent (AgentId ''a'')\<rparr>) (sv_daemon example_server)) =
   sv_daemon example_server"
  using request_gate [OF surjective_pairing, of example_env idle_env 5 6
      "example_device_record\<lparr>dev_scopes := DeviceScopes_all\<lparr>scope_mutate_session := False\<rparr>\<rparr>"
      "example_envelope\<lparr>env_request := Req_LaunchAgent (AgentId ''a'')\<rparr>" "sv_daemon example_server"]
  by (simp add: example_envelope_def example_device_record_def is_mutating_def DeviceScopes_all_def)

subsection \<open>Retrying\<close>

inductive_cases server_steps_ConsE: "server_steps senv sqlite s (l # ls) s'"
inductive_cases server_step_ClaimedE: "server_step senv sqlite s (Srv_Claimed device e k) s'"
inductive_cases server_step_FinishedE: "server_step senv sqlite s (Srv_Finished key outcome final) s'"

lemma server_steps_append:
  "server_steps senv sqlite s (ls @ ls') s' \<Longrightarrow>
     \<exists>m. server_steps senv sqlite s ls m \<and> server_steps senv sqlite m ls' s'"
proof (induction ls arbitrary: s)
  case (Cons l ls)
  then show ?case by (fastforce elim: server_steps_ConsE intro: server_steps.cons)
qed (auto intro: server_steps.none)

lemma claimed_operation:
  assumes "request_start senv sqlite now device e dm = (Start_Execute (Some key), dm')"
  obtains st' where "claim_operation senv key (env_request e) now (dm_store dm) = (Inr Claim_Execute, st')"
    "dm' = dm\<lparr>dm_store := st'\<rparr>" "is_mutating (env_request e)"
proof -
  have "RequestEnvelope_validate e = Inr ()"
    using assms by (cases "RequestEnvelope_validate e") (auto simp: request_start_def)
  then have m: "is_mutating (env_request e)"
    using assms by (auto simp: request_start_def RequestEnvelope_validate_def split: if_splits)
  from assms show thesis
  proof (cases rule: request_start_store)
    case (claim k c st')
    have "c = Inr Claim_Execute" "k = key"
      using claim_answer_execute [THEN iffD1, OF claim(3) [symmetric]] by simp_all
    with claim(1) have "claim_operation senv key (env_request e) now (dm_store dm) = (Inr Claim_Execute, st')"
      by simp
    from that [OF this claim(2) m] show ?thesis .
  next
    case unchanged
    then show ?thesis using unchanged(2) [of key] by simp
  qed
qed

text \<open>The claim of a retry once the outcome of the first was recorded, and the answer it leads to.\<close>

lemma finished_operation_claim:
  assumes "server_steps senv sqlite s (Srv_Claimed device e (Some key) # ls1 @
      Srv_Finished key outcome outcome # ls2) s'"
    and "store_wf (dm_store (sv_daemon s))"
    and "Srv_Store (Ev_Prune (opk_device_id key)) \<notin> set (ls1 @ ls2)"
    and "\<And>m. outcome \<noteq> Outcome_Error (protocol_error_of ''operation_outcome_not_persisted'' m False)"
    and "cbor_reads_back (env_ser_outcome senv) (env_de_outcome senv) outcome"
    and "unat now < 2 ^ 63"
  shows "is_mutating (env_request e)"
    "claim_operation senv key (env_request e) now (dm_store (sv_daemon s')) =
      (Inr (Claim_Completed outcome), dm_store (sv_daemon s'))"
proof -
  obtain s1 where 1: "server_step senv sqlite s (Srv_Claimed device e (Some key)) s1"
    and r1: "server_steps senv sqlite s1 (ls1 @ Srv_Finished key outcome outcome # ls2) s'"
    using assms(1) by (auto elim: server_steps_ConsE)
  obtain s2 s3 where 2: "server_steps senv sqlite s1 ls1 s2"
      "server_step senv sqlite s2 (Srv_Finished key outcome outcome) s3"
      "server_steps senv sqlite s3 ls2 s'"
    using server_steps_append [OF r1] by (auto elim: server_steps_ConsE)
  obtain now0 dm1 where d1: "request_start senv sqlite now0 device e (sv_daemon s) = (Start_Execute (Some key), dm1)"
      "sv_daemon s1 = dm1"
    using 1 by (auto elim!: server_step_ClaimedE)
  obtain st1 where c: "claim_operation senv key (env_request e) now0 (dm_store (sv_daemon s)) =
      (Inr Claim_Execute, st1)" "dm_store (sv_daemon s1) = st1" "is_mutating (env_request e)"
    by (rule claimed_operation [OF d1(1)]) (use d1(2) in simp)
  obtain now3 dm3 where d3: "request_finish senv sqlite now3 key outcome (sv_daemon s2) = (outcome, dm3)"
      "sv_daemon s3 = dm3"
    using 2(2) by (auto elim!: server_step_FinishedE)
  obtain r st3 where "complete_operation senv key outcome now3 (dm_store (sv_daemon s2)) = (r, st3)"
    by fastforce
  with d3 assms(4) have f: "complete_operation senv key outcome now3 (dm_store (sv_daemon s2)) = (Inr (), st3)"
      "dm_store (sv_daemon s3) = st3"
    by (cases r; auto simp: request_finish_def)+
  obtain es1 es2 where es: "store_steps senv st1 es1 (dm_store (sv_daemon s2))"
      "Ev_Prune (opk_device_id key) \<notin> set es1"
      "store_steps senv st3 es2 (dm_store (sv_daemon s'))" "Ev_Prune (opk_device_id key) \<notin> set es2"
    using server_steps_store [OF 2(1), of key] server_steps_store [OF 2(3), of key] assms(3) c(2) f(2)
    by (auto simp: prunes_def)
  show "is_mutating (env_request e)" by (rule c(3))
  show "claim_operation senv key (env_request e) now (dm_store (sv_daemon s')) =
      (Inr (Claim_Completed outcome), dm_store (sv_daemon s'))"
    using completed_claim [OF assms(2) c(1) es(1,2) f(1) es(3,4) assms(5,6)] by blast
qed

lemma completed_claim_answer:
  assumes "is_mutating (env_request e)" "env_request e' = env_request e"
    and "claim_operation senv key (env_request e) now (dm_store dm) = (Inr (Claim_Completed outcome), dm_store dm)"
    and "dev_device_id device = opk_device_id key" "env_operation_id e' = Some (opk_operation_id key)"
    and "authorized (dev_scopes device) (env_request e)"
  shows "request_start senv sqlite now device e' dm = (Start_Answer outcome, dm)"
proof -
  have k: "\<lparr>opk_device_id = opk_device_id key, opk_operation_id = opk_operation_id key\<rparr> = key" by simp
  have "RequestEnvelope_validate e' = Inr ()"
    using assms(1,2,5) by (simp add: RequestEnvelope_validate_def)
  then show ?thesis
    using assms by (simp add: request_start_def Let_def k)
qed

text \<open>
  C3: a retried request gets the answer of the first. Once a claimed operation was executed and
  its outcome recorded and answered, then through whatever steps of the server follow,
  crashes included, every later request of the device that carries the same operation
  identifier and the same request is answered with exactly that outcome and changes nothing.
\<close>

theorem retried_request_same_answer:
  assumes "server_steps senv sqlite s (Srv_Claimed device e (Some key) # ls1 @
      Srv_Finished key outcome outcome # ls2) s'"
    and "store_wf (dm_store (sv_daemon s))"
    and "Srv_Store (Ev_Prune (opk_device_id key)) \<notin> set (ls1 @ ls2)"
    and "\<And>m. outcome \<noteq> Outcome_Error (protocol_error_of ''operation_outcome_not_persisted'' m False)"
    and "cbor_reads_back (env_ser_outcome senv) (env_de_outcome senv) outcome"
    and "dev_device_id device' = opk_device_id key" "env_operation_id e' = Some (opk_operation_id key)"
    and "env_request e' = env_request e" "authorized (dev_scopes device') (env_request e)"
    and "unat now < 2 ^ 63"
  shows "request_start senv sqlite now device' e' (sv_daemon s') = (Start_Answer outcome, sv_daemon s')"
  using completed_claim_answer [OF finished_operation_claim(1) [OF assms(1-5,10)] assms(8)
      finished_operation_claim(2) [OF assms(1-5,10)] assms(6,7,9)] .

definition accepting_env :: ctl_env where
  "accepting_env = idle_env\<lparr>ce_request := (\<lambda>_ _. Inr (RpcResponse_Success None Success_Abort))\<rparr>"

definition running_server :: server_state where
  "running_server = \<lparr>sv_daemon = example_daemon\<lparr>dm_store := example_store\<rparr>, sv_claimed = [], sv_executed = []\<rparr>"

lemma running_start:
  "request_start example_env (\<lambda>_. []) 5 example_device_record (example_envelope\<lparr>env_request_id := rid\<rparr>)
     (sv_daemon running_server) =
     (Start_Execute (Some example_key), example_daemon\<lparr>dm_store := example_claimed\<rparr>)"
  using example_claim
  by (simp add: request_start_def RequestEnvelope_validate_def example_envelope_def example_device_record_def
      running_server_def DeviceScopes_all_def is_mutating_def example_request_def example_key_def Let_def)

lemma running_execute:
  "\<exists>dm. execute accepting_env example_request (example_daemon\<lparr>dm_store := example_claimed\<rparr>) =
     (example_outcome, dm\<lparr>dm_store := example_claimed\<rparr>)"
proof -
  let ?dm = "log_call (Call_Request 0 Command_Abort) (example_daemon\<lparr>dm_store := example_claimed\<rparr>)"
  have "has_agent ?dm (AgentId ''a'') 0 (initial_snapshot (AgentId ''a''))"
    using example_daemon_agent(1) by (simp add: has_agent_store)
  from snapshot_of_agent [OF this, of accepting_env] example_daemon_agent
  have "execute accepting_env example_request (example_daemon\<lparr>dm_store := example_claimed\<rparr>) =
      (example_outcome, ?dm)"
    by (simp add: execute_def example_request_def abort_def handler_defs find_runtime_def find_agent_def
        runtime_command_def call_runtime_def ensure_rpc_success_def accepting_env_def has_agent_def
        initial_snapshot_def example_outcome_def)
      (simp add: log_call_def hreturn_def)
  then show ?thesis by (intro exI [of _ ?dm]) (simp add: log_call_def)
qed

lemma running_server_serves:
  "\<exists>s. server_steps example_env (\<lambda>_. []) running_server
     [Srv_Claimed example_device_record (example_envelope\<lparr>env_request_id := rid\<rparr>) (Some example_key),
      Srv_Executed (Some example_key) example_request example_outcome,
      Srv_Finished example_key example_outcome example_outcome] s"
proof -
  let ?e = "example_envelope\<lparr>env_request_id := rid\<rparr>"
  obtain dm where e: "execute accepting_env example_request (example_daemon\<lparr>dm_store := example_claimed\<rparr>) =
      (example_outcome, dm\<lparr>dm_store := example_claimed\<rparr>)"
    using running_execute by blast
  have "fst (complete_operation example_env example_key example_outcome 7 example_claimed) = Inr ()"
    by (simp add: complete_operation_def example_env_def cbor_encode_result database_codec_def
        sql_u64_def example_claimed_def example_key_def operation_row_key_def tbl_update_def
        pending_row_def orow_key_def Let_def)
  then obtain st where "complete_operation example_env example_key example_outcome 7 example_claimed = (Inr (), st)"
    by (metis prod.collapse)
  then have f: "request_finish example_env (\<lambda>_. []) 7 example_key example_outcome
      (dm\<lparr>dm_store := example_claimed\<rparr>) = (example_outcome, dm\<lparr>dm_store := st\<rparr>)"
    by (simp add: request_finish_def)
  let ?s1 = "\<lparr>sv_daemon = example_daemon\<lparr>dm_store := example_claimed\<rparr>,
    sv_claimed = [(Some example_key, example_request)], sv_executed = []\<rparr>"
  let ?s2 = "\<lparr>sv_daemon = dm\<lparr>dm_store := example_claimed\<rparr>, sv_claimed = [],
    sv_executed = [(example_key, example_outcome)]\<rparr>"
  let ?s3 = "\<lparr>sv_daemon = dm\<lparr>dm_store := st\<rparr>, sv_claimed = [], sv_executed = []\<rparr>"
  have "server_step example_env (\<lambda>_. []) running_server
      (Srv_Claimed example_device_record ?e (Some example_key)) ?s1"
    using server_step.claimed [OF running_start [of rid]] by (simp add: running_server_def example_envelope_def)
  moreover have "server_step example_env (\<lambda>_. []) ?s1 (Srv_Executed (Some example_key) example_request example_outcome) ?s2"
    using server_step.executed [of ?s1 "[]" "Some example_key" example_request "[]" accepting_env
        example_outcome] e by simp
  moreover have "server_step example_env (\<lambda>_. []) ?s2 (Srv_Finished example_key example_outcome example_outcome) ?s3"
    using server_step.finished [of ?s2 "[]" example_key example_outcome "[]" example_env "\<lambda>_. []" 7] f by simp
  ultimately show ?thesis by (blast intro: server_steps.intros)
qed

lemma retried_request_same_answer_witness:
  "\<exists>s. server_steps example_env (\<lambda>_. []) running_server
     [Srv_Claimed example_device_record example_envelope (Some example_key),
      Srv_Executed (Some example_key) example_request example_outcome,
      Srv_Finished example_key example_outcome example_outcome] s \<and>
   request_start example_env (\<lambda>_. []) 9 example_device_record
     (example_envelope\<lparr>env_request_id := RequestId ''again''\<rparr>) (sv_daemon s) =
     (Start_Answer example_outcome, sv_daemon s)"
proof -
  obtain s where s: "server_steps example_env (\<lambda>_. []) running_server
      [Srv_Claimed example_device_record example_envelope (Some example_key),
       Srv_Executed (Some example_key) example_request example_outcome,
       Srv_Finished example_key example_outcome example_outcome] s"
    using running_server_serves [of "env_request_id example_envelope"] by auto
  have "request_start example_env (\<lambda>_. []) 9 example_device_record
      (example_envelope\<lparr>env_request_id := RequestId ''again''\<rparr>) (sv_daemon s) =
      (Start_Answer example_outcome, sv_daemon s)"
  proof (rule retried_request_same_answer [where e = example_envelope])
    show "server_steps example_env (\<lambda>_. []) running_server
        (Srv_Claimed example_device_record example_envelope (Some example_key) #
         [Srv_Executed (Some example_key) example_request example_outcome] @
         Srv_Finished example_key example_outcome example_outcome # []) s"
      using s by simp
  qed (use example_store_wf in \<open>simp_all add: running_server_def example_envelope_def example_device_record_def
      example_outcome_def example_env_def cbor_reads_back_def DeviceScopes_all_def example_request_def\<close>)
  with s show ?thesis by blast
qed

end
