(* ===== verification/Connection.thy ===== *)
theory Connection
  imports Server_Properties
begin

section \<open>One connection: the reader, the subscription tasks and the writer\<close>

text \<open>
  The tasks of a connection meet at the outbound queues. The reader takes a message when it has
  nothing left to send; a subscription's task that ends may still have a control frame to send;
  the writer takes from the queues. A step of the relation is one send, one attempt, one turn
  of a task or one turn of the writer, and carries what it put into the queues or took out. The
  reader ends when the writer has ended, and with it every task of the connection is aborted.
\<close>

record connection =
  cn_out :: outbound
  cn_subs :: subscriptions
  cn_todo :: "conn_action list"
  cn_gaps :: "conn_action list"
  cn_reading :: bool

datatype (plugins only: code) conn_label =
    Conn_Silent
  | Conn_Queued lane "outbound_payload list"
  | Conn_Taken lane outbound_payload

definition connection_start :: "server_session_config \<Rightarrow> connection" where
  "connection_start cfg = \<lparr>cn_out = Outbound_new (ssc_outbound_capacity cfg), cn_subs = [],
     cn_todo = [], cn_gaps = [], cn_reading = True\<rparr>"

text \<open>
  The effect of one action on the queues, with what it queued and whether the reader goes on;
  \<open>None\<close> while it has to wait.
\<close>

fun perform :: "conn_action \<Rightarrow> outbound \<Rightarrow> (conn_label \<times> bool \<times> outbound) option" where
  "perform (Act_Send needed l p) ob =
     (case outbound_send l p ob of
        (None, ob) \<Rightarrow> None
      | (Some True, ob) \<Rightarrow> Some (Conn_Queued l [p], True, ob)
      | (Some False, ob) \<Rightarrow> Some (Conn_Silent, \<not> needed, ob))"
| "perform (Act_State frame) ob =
     (case outbound_state frame ob of
        (True, ob) \<Rightarrow> Some (Conn_Queued Lane_State [Payload_Protocol frame], True, ob)
      | (False, ob) \<Rightarrow> Some (Conn_Silent, True, ob))"
| "perform (Act_Replay us) ob =
     (let ob' = emit_replay us ob
      in Some (Conn_Queued Lane_State (drop (length (ob_lane ob Lane_State)) (ob_lane ob' Lane_State)),
           True, ob'))"
| "perform Act_Stop ob = Some (Conn_Silent, False, ob)"

inductive conn_step ::
  "(string \<Rightarrow> string + (client_frame \<times> nat)) \<Rightarrow> (server_frame \<Rightarrow> string list \<times> string option) \<Rightarrow>
     cbor_codec \<Rightarrow> server_session_config \<Rightarrow> store_env \<Rightarrow> device_record \<Rightarrow>
     connection \<times> daemon \<Rightarrow> conn_label \<Rightarrow> connection \<times> daemon \<Rightarrow> bool"
for de ser codec cfg senv device where
  message: "cn_reading c \<Longrightarrow> cn_todo c = [] \<Longrightarrow>
     handle_message de codec senv cenv claimed completed device m (cn_subs c) dm = (acts, subs, dm') \<Longrightarrow>
     conn_step de ser codec cfg senv device (c, dm) Conn_Silent
       (c\<lparr>cn_subs := subs, cn_todo := acts\<rparr>, dm')"
| action: "cn_reading c \<Longrightarrow> cn_todo c = act # acts \<Longrightarrow> perform act (cn_out c) = Some (l, continue, ob) \<Longrightarrow>
     conn_step de ser codec cfg senv device (c, dm) l
       (c\<lparr>cn_out := ob, cn_todo := (if continue then acts else []), cn_reading := continue\<rparr>, dm)"
| task: "bmap_get (cn_subs c) a = Some (h, i) \<Longrightarrow>
     subscription_turn cenv h r (cn_out c) dm = (ob, ended, dm') \<Longrightarrow>
     conn_step de ser codec cfg senv device (c, dm)
       (Conn_Queued Lane_State (drop (length (ob_lane (cn_out c) Lane_State)) (ob_lane ob Lane_State)))
       (case ended of
          None \<Rightarrow> c\<lparr>cn_out := ob\<rparr>
        | Some acts \<Rightarrow> c\<lparr>cn_out := ob, cn_subs := bmap_remove a (cn_subs c), cn_gaps := cn_gaps c @ acts\<rparr>,
        dm')"
| gap: "cn_gaps c = before @ act # after \<Longrightarrow> perform act (cn_out c) = Some (l, continue, ob) \<Longrightarrow>
     conn_step de ser codec cfg senv device (c, dm) l
       (c\<lparr>cn_out := ob, cn_gaps := before @ after\<rparr>, dm)"
| writer: "ob_open (cn_out c) \<Longrightarrow> writer_take (cn_out c) = Some (p, l, ob) \<Longrightarrow>
     writer_turn ser codec cfg (Writer_Payload taken) (cn_out c) = Some (written, goes_on, ob) \<Longrightarrow>
     conn_step de ser codec cfg senv device (c, dm) (Conn_Taken l p)
       (c\<lparr>cn_out := (if goes_on then ob else writer_end ob)\<rparr>, dm)"
| heartbeat: "ob_open (cn_out c) \<Longrightarrow>
     writer_turn ser codec cfg (Writer_Tick idle now taken) (cn_out c) = Some (written, goes_on, ob) \<Longrightarrow>
     conn_step de ser codec cfg senv device (c, dm) Conn_Silent
       (c\<lparr>cn_out := (if goes_on then ob else writer_end ob)\<rparr>, dm)"

| writer_ended: "cn_reading c \<Longrightarrow> cn_todo c = [] \<Longrightarrow> \<not> ob_open (cn_out c) \<Longrightarrow>
     conn_step de ser codec cfg senv device (c, dm) Conn_Silent (c\<lparr>cn_reading := False\<rparr>, dm)"
| aborted: "\<not> cn_reading c \<Longrightarrow>
     conn_step de ser codec cfg senv device (c, dm) Conn_Silent
       (c\<lparr>cn_out := writer_end (cn_out c), cn_subs := [], cn_gaps := []\<rparr>, dm)"

inductive conn_steps ::
  "(string \<Rightarrow> string + (client_frame \<times> nat)) \<Rightarrow> (server_frame \<Rightarrow> string list \<times> string option) \<Rightarrow>
     cbor_codec \<Rightarrow> server_session_config \<Rightarrow> store_env \<Rightarrow> device_record \<Rightarrow>
     connection \<times> daemon \<Rightarrow> conn_label list \<Rightarrow> connection \<times> daemon \<Rightarrow> bool"
for de ser codec cfg senv device where
  none: "conn_steps de ser codec cfg senv device s [] s"
| snoc: "conn_steps de ser codec cfg senv device s ls s' \<Longrightarrow>
     conn_step de ser codec cfg senv device s' l s'' \<Longrightarrow>
     conn_steps de ser codec cfg senv device s (ls @ [l]) s''"

subsection \<open>What goes through a lane\<close>

fun queued_on :: "lane \<Rightarrow> conn_label \<Rightarrow> outbound_payload list" where
  "queued_on l (Conn_Queued l' ps) = (if l' = l then ps else [])"
| "queued_on l _ = []"

fun taken_from :: "lane \<Rightarrow> conn_label \<Rightarrow> outbound_payload list" where
  "taken_from l (Conn_Taken l' p) = (if l' = l then [p] else [])"
| "taken_from l _ = []"

text \<open>The effect of a step on the queues: what it says was queued and taken, within the capacity.\<close>

definition lane_effect :: "outbound \<Rightarrow> conn_label \<Rightarrow> outbound \<Rightarrow> bool" where
  "lane_effect ob lb ob' \<longleftrightarrow> ob_capacity ob' = ob_capacity ob \<and>
     (\<forall>l. taken_from l lb @ ob_lane ob' l = ob_lane ob l @ queued_on l lb) \<and>
     (\<forall>l. length (ob_lane ob l) \<le> ob_capacity ob \<longrightarrow> length (ob_lane ob' l) \<le> ob_capacity ob) \<and>
     (\<forall>p. lb = Conn_Taken Lane_State p \<longrightarrow> ob_lane ob Lane_Control = [] \<and> ob_lane ob Lane_Response = []) \<and>
     (\<forall>p. lb = Conn_Taken Lane_Response p \<longrightarrow> ob_lane ob Lane_Control = [])"

lemma lane_effect_same [simp]: "lane_effect ob Conn_Silent ob" "lane_effect ob (Conn_Queued l []) ob"
  by (simp_all add: lane_effect_def)

lemma lane_effect_enqueue:
  "length (ob_lane ob l) < ob_capacity ob \<Longrightarrow> lane_effect ob (Conn_Queued l [p]) (enqueue l p ob)"
  by (auto simp: lane_effect_def enqueue_def)

lemma emit_update_cases:
  assumes "emit_update u ob = (ok, ob')"
  obtains (queued) "ok" "ob' = enqueue Lane_State (Payload_Protocol (update_frame u)) ob"
      "length (ob_lane ob Lane_State) < ob_capacity ob"
  | (refused) "\<not> ok" "ob' = ob"
  using assms by (auto simp: emit_update_def outbound_state_def split: if_splits)

lemma emit_replay_effect:
  "\<exists>ps. ob_lane (emit_replay us ob) = (ob_lane ob)(Lane_State := ob_lane ob Lane_State @ ps) \<and>
     ob_capacity (emit_replay us ob) = ob_capacity ob \<and>
     (length (ob_lane ob Lane_State) \<le> ob_capacity ob \<longrightarrow>
        length (ob_lane ob Lane_State @ ps) \<le> ob_capacity ob)"
proof (induction us arbitrary: ob)
  case (Cons u us)
  obtain ok ob1 where e: "emit_update u ob = (ok, ob1)" by fastforce
  then show ?case
  proof (cases rule: emit_update_cases)
    case queued
    obtain ps where "ob_lane (emit_replay us ob1) = (ob_lane ob1)(Lane_State := ob_lane ob1 Lane_State @ ps)"
      "ob_capacity (emit_replay us ob1) = ob_capacity ob1"
      "length (ob_lane ob1 Lane_State) \<le> ob_capacity ob1 \<longrightarrow>
        length (ob_lane ob1 Lane_State @ ps) \<le> ob_capacity ob1"
      using Cons.IH by blast
    then show ?thesis
      using e queued
      by (intro exI [of _ "Payload_Protocol (update_frame u) # ps"]) (simp add: enqueue_def)
  next
    case refused
    then show ?thesis using e by (intro exI [of _ "[]"]) simp
  qed
qed (auto intro: exI [of _ "[]"])

lemma perform_effect:
  assumes "perform act ob = Some (lb, continue, ob')"
  shows "lane_effect ob lb ob'"
proof (cases act)
  case (Act_Send needed l p)
  then show ?thesis
    using assms by (auto simp: outbound_send_def lane_effect_enqueue split: if_splits)
next
  case (Act_State frame)
  then show ?thesis
    using assms by (auto simp: outbound_state_def lane_effect_enqueue split: if_splits)
next
  case (Act_Replay us)
  with assms emit_replay_effect [of us ob] show ?thesis by (auto simp: lane_effect_def Let_def)
qed (use assms in auto)

lemma writer_take_effect:
  assumes "writer_take ob = Some (p, l, ob')"
  shows "lane_effect ob (Conn_Taken l p) ob'"
proof -
  have l: "List.find (\<lambda>l. ob_lane ob l \<noteq> []) [Lane_Control, Lane_Response, Lane_State] = Some l"
    "p = hd (ob_lane ob l)" "ob' = ob\<lparr>ob_lane := (ob_lane ob)(l := tl (ob_lane ob l))\<rparr>"
    using assms by (auto simp: writer_take_def)
  then have "ob_lane ob l \<noteq> []" by (auto split: if_splits)
  with l show ?thesis by (auto simp: lane_effect_def split: if_splits)
qed

lemma conn_step_effect:
  assumes "conn_step de ser codec cfg senv device s lb s'"
  shows "lane_effect (cn_out (fst s)) lb (cn_out (fst s'))"
  using assms
proof (induction rule: conn_step.induct)
  case (task c a h i cenv r dm ob ended dm')
  show ?case
  proof (cases r)
    case (Inr u)
    obtain ok ob1 where e: "emit_update u (cn_out c) = (ok, ob1)" by fastforce
    then have "ob = ob1" using task(2) Inr by (auto split: if_splits prod.splits)
    from e show ?thesis
      by (cases rule: emit_update_cases)
        (simp_all add: \<open>ob = ob1\<close> enqueue_def lane_effect_enqueue [unfolded enqueue_def] split: option.split)
  next
    case (Inl err)
    then have "ob = cn_out c" using task(2) by (cases err) (auto split: prod.splits)
    then show ?thesis by (simp split: option.split)
  qed
next
  case (writer c p l ob taken written goes_on dm)
  from writer_take_effect [OF writer(2)] show ?case by (simp add: lane_effect_def writer_end_def)
next
  case (heartbeat c idle now taken written goes_on ob dm)
  then have "ob = cn_out c" by (auto split: if_splits option.splits)
  then show ?case by (simp add: lane_effect_def writer_end_def)
next
  case (aborted c dm)
  then show ?case by (simp add: lane_effect_def writer_end_def)
qed (simp_all add: perform_effect)

subsection \<open>Property\<close>

lemma conn_steps_lanes:
  assumes "conn_steps de ser codec cfg senv device s ls s'"
    and "\<forall>l. ob_lane (cn_out (fst s)) l = []"
  shows "ob_capacity (cn_out (fst s')) = ob_capacity (cn_out (fst s)) \<and>
    (\<forall>l. concat (map (queued_on l) ls) = concat (map (taken_from l) ls) @ ob_lane (cn_out (fst s')) l \<and>
       length (ob_lane (cn_out (fst s')) l) \<le> ob_capacity (cn_out (fst s)))"
  using assms
proof (induction rule: conn_steps.induct)
  case (snoc s ls s' lb s'')
  have "lane_effect (cn_out (fst s')) lb (cn_out (fst s''))" by (rule conn_step_effect [OF snoc(2)])
  with snoc show ?case by (simp add: lane_effect_def)
qed simp

lemma conn_steps_append:
  assumes "conn_steps de ser codec cfg senv device s ls s'" "ls = ls1 @ ls2"
  shows "\<exists>m. conn_steps de ser codec cfg senv device s ls1 m"
  using assms
proof (induction arbitrary: ls2 rule: conn_steps.induct)
  case (snoc s ls s' lb s'')
  show ?case
  proof (cases ls2 rule: rev_cases)
    case Nil
    then have "ls1 = ls @ [lb]" using snoc(4) by simp
    then show ?thesis using conn_steps.snoc [OF snoc(1,2)] by blast
  next
    case (snoc ls3 x)
    then show ?thesis using snoc.IH [of ls3] snoc.prems by simp
  qed
qed (auto intro: conn_steps.none)

inductive_cases conn_steps_snocE: "conn_steps de ser codec cfg senv device s (ls @ [l]) s'"

text \<open>
  C23: what the connection's tasks queue in a lane is taken by the writer in that order, each
  payload at most once, and a lane never holds more than the configured capacity. When a payload of
  the state lane is taken, every control frame and every response queued before it has been taken.
\<close>
theorem lanes_in_order:
  assumes "conn_steps de ser codec cfg senv device (connection_start cfg0, dm) ls (c, dm')"
  shows "concat (map (queued_on l) ls) = concat (map (taken_from l) ls) @ ob_lane (cn_out c) l \<and>
    length (ob_lane (cn_out c) l) \<le> ob_capacity (Outbound_new (ssc_outbound_capacity cfg0)) \<and>
    (\<forall>pre q post. ls = pre @ Conn_Taken Lane_State q # post \<longrightarrow> l \<noteq> Lane_State \<longrightarrow>
      concat (map (queued_on l) pre) = concat (map (taken_from l) pre))"
proof -
  have start: "cn_out (connection_start cfg0) = Outbound_new (ssc_outbound_capacity cfg0)"
    by (simp add: connection_start_def)
  have empty: "\<forall>l. ob_lane (cn_out (fst (connection_start cfg0, dm))) l = []"
    by (simp add: connection_start_def Outbound_new_def)
  have "concat (map (queued_on l) pre) = concat (map (taken_from l) pre)"
    if ls: "ls = pre @ Conn_Taken Lane_State q # post" and l: "l \<noteq> Lane_State" for pre q post
  proof -
    from ls have "ls = (pre @ [Conn_Taken Lane_State q]) @ post" by simp
    from conn_steps_append [OF assms this] obtain m
      where "conn_steps de ser codec cfg senv device (connection_start cfg0, dm) (pre @ [Conn_Taken Lane_State q]) m"
      by blast
    then obtain s where pre: "conn_steps de ser codec cfg senv device (connection_start cfg0, dm) pre s"
      and taken: "conn_step de ser codec cfg senv device s (Conn_Taken Lane_State q) m"
      by (rule conn_steps_snocE)
    have "ob_lane (cn_out (fst s)) l = []"
      using conn_step_effect [OF taken] l by (cases l) (simp_all add: lane_effect_def)
    with conn_steps_lanes [OF pre empty] show ?thesis by simp
  qed
  with conn_steps_lanes [OF assms empty] show ?thesis by (auto simp: start)
qed

definition example_session_config :: server_session_config where
  "example_session_config =
     \<lparr>ssc_frame_limits = \<lparr>lim_pre_auth = 64, lim_post_auth = 64\<rparr>, ssc_authentication_timeout = 10,
      ssc_heartbeat_interval = 10, ssc_slow_client_timeout = 10, ssc_outbound_capacity = 4\<rparr>"

definition example_subscribe :: subscribe_request where
  "example_subscribe = \<lparr>subreq_agent_id = AgentId ''a'', subreq_cursor = None\<rparr>"

definition subscribed :: "subscriptions \<times> daemon" where
  "subscribed = snd (server_subscribe idle_env example_subscribe [] example_daemon)"

lemma subscribe_queues_snapshot:
  "server_subscribe idle_env example_subscribe [] example_daemon =
     ([Act_State (Server_Snapshot [initial_snapshot (AgentId ''a'')])], subscribed)"
  by (simp add: prod_eq_iff subscribed_def server_subscribe_def daemon_eval subscribe_def
      example_daemon_def example_subscribe_def idle_env_def)

abbreviation snapshot_payload :: outbound_payload where
  "snapshot_payload \<equiv> Payload_Protocol (Server_Snapshot [initial_snapshot (AgentId ''a'')])"

lemma subscribed_run:
  "\<exists>c dm. conn_steps (\<lambda>_. Inr (Client_Subscribe example_subscribe, 0)) (\<lambda>_. ([''x''], None)) (CborCodec 64)
     example_session_config example_env example_device_record
     (connection_start example_session_config, example_daemon)
     [Conn_Silent, Conn_Queued Lane_State [snapshot_payload], Conn_Taken Lane_State snapshot_payload] (c, dm)"
proof -
  let ?step = "conn_step (\<lambda>_. Inr (Client_Subscribe example_subscribe, 0)) (\<lambda>_. ([''x''], None)) (CborCodec 64)
     example_session_config example_env example_device_record"
  let ?c0 = "connection_start example_session_config"
  let ?f = "Server_Snapshot [initial_snapshot (AgentId ''a'')]"
  obtain subs dm where sd: "subscribed = (subs, dm)" by fastforce
  let ?c1 = "?c0\<lparr>cn_subs := subs, cn_todo := [Act_State ?f]\<rparr>"
  let ?c2 = "?c1\<lparr>cn_out := enqueue Lane_State snapshot_payload (cn_out ?c0), cn_todo := []\<rparr>"
  have "handle_message (\<lambda>_. Inr (Client_Subscribe example_subscribe, 0)) (CborCodec 64) example_env idle_env
      0 0 example_device_record (Ws_Binary []) [] example_daemon = ([Act_State ?f], subs, dm)"
    by (simp add: handle_message_def cbor_decode_def handle_client_frame_def subscribe_queues_snapshot sd
        example_device_record_def DeviceScopes_all_def)
  then have s1: "?step (?c0, example_daemon) Conn_Silent (?c1, dm)"
    using conn_step.message [of ?c0] by (simp add: connection_start_def)
  have "perform (Act_State ?f) (cn_out ?c1) =
      Some (Conn_Queued Lane_State [snapshot_payload], True, enqueue Lane_State snapshot_payload (cn_out ?c0))"
    by (simp add: outbound_state_def connection_start_def Outbound_new_def)
  from conn_step.action [where acts = "[]", OF _ _ this]
  have s2: "?step (?c1, dm) (Conn_Queued Lane_State [snapshot_payload]) (?c2, dm)"
    by (simp add: connection_start_def)
  have t: "writer_take (cn_out ?c2) = Some (snapshot_payload, Lane_State, cn_out ?c0)"
    by (simp add: writer_take_def enqueue_def connection_start_def Outbound_new_def fun_eq_iff)
  have "ob_open (cn_out ?c2)" by (simp add: enqueue_def connection_start_def Outbound_new_def)
  moreover have "writer_turn (\<lambda>_. ([''x''], None)) (CborCodec 64) example_session_config (Writer_Payload False)
      (cn_out ?c2) = Some (None, False, cn_out ?c0)"
    by (simp only: writer_turn.simps t option.map prod.case) (simp split: sum.split)
  ultimately have s3: "\<exists>c. ?step (?c2, dm) (Conn_Taken Lane_State snapshot_payload) (c, dm)"
    using conn_step.writer [OF _ t] by blast
  then obtain c where s3: "?step (?c2, dm) (Conn_Taken Lane_State snapshot_payload) (c, dm)" by blast
  from conn_steps.snoc [OF conn_steps.snoc [OF conn_steps.snoc [OF conn_steps.none s1] s2] s3]
  show ?thesis by auto
qed

lemma lanes_in_order_witness:
  "\<exists>c dm. conn_steps (\<lambda>_. Inr (Client_Subscribe example_subscribe, 0)) (\<lambda>_. ([''x''], None)) (CborCodec 64)
     example_session_config example_env example_device_record
     (connection_start example_session_config, example_daemon)
     ([Conn_Silent, Conn_Queued Lane_State [snapshot_payload]] @ Conn_Taken Lane_State snapshot_payload # [])
     (c, dm) \<and> ob_lane (cn_out c) Lane_State = [] \<and> length (ob_lane (cn_out c) Lane_Control) \<le> 4"
proof -
  obtain c dm where r: "conn_steps (\<lambda>_. Inr (Client_Subscribe example_subscribe, 0)) (\<lambda>_. ([''x''], None))
     (CborCodec 64) example_session_config example_env example_device_record
     (connection_start example_session_config, example_daemon)
     ([Conn_Silent, Conn_Queued Lane_State [snapshot_payload]] @ Conn_Taken Lane_State snapshot_payload # []) (c, dm)"
    using subscribed_run by auto
  have "concat (map (queued_on Lane_Control) [Conn_Silent, Conn_Queued Lane_State [snapshot_payload]]) =
      concat (map (taken_from Lane_Control) [Conn_Silent, Conn_Queued Lane_State [snapshot_payload]])"
    using lanes_in_order [OF r, of Lane_Control] by blast
  with r lanes_in_order [OF r, of Lane_State] lanes_in_order [OF r, of Lane_Control]
  show ?thesis by (auto simp: Outbound_new_def example_session_config_def)
qed

end
