(* ===== verification/Client_Config.thy ===== *)
theory Client_Config
  imports Control_Frames Cbor_Codec Ordered_Map
begin

section \<open>Client: sockets, configuration and credentials\<close>

text \<open>
  \<open>crates/omp-control-client/src/adapter.rs\<close>, \<open>config.rs\<close>, \<open>storage.rs\<close> and \<open>pairing.rs\<close>: what a
  socket is to the client, its configuration, the stores that keep device credentials, and the
  links a device is paired with. The operating system's keyring, the browser's storage, JSON,
  Base64 and CBOR are parameters; the locale \<open>credential_store\<close> states what the runner relies on.
\<close>

subsection \<open>Sockets (adapter.rs)\<close>

record socket_target =
  target_endpoint :: string
  target_tls_identity :: tls_identity_hint

datatype socket_event = Socket_Binary string | Socket_Closed "string option"

datatype transport_error = TransportError (transport_message: string)

text \<open>
  A connected socket: what its \<open>n\<close>th \<open>send_binary\<close> answers, \<open>None\<close> when the bytes were taken, and
  how many there have been. What it receives is an input of the runner.
\<close>

record client_socket =
  sock_answers :: "nat \<Rightarrow> transport_error option"
  sock_sends :: nat

definition send_binary :: "string \<Rightarrow> client_socket \<Rightarrow> (transport_error + unit) \<times> client_socket" where
  "send_binary bytes sock =
     (case sock_answers sock (sock_sends sock) of None \<Rightarrow> Inr () | Some e \<Rightarrow> Inl e,
      sock\<lparr>sock_sends := sock_sends sock + 1\<rparr>)"

subsection \<open>Configuration (config.rs)\<close>

definition PAIRING_FORMAT_VERSION :: u16 where
  "PAIRING_FORMAT_VERSION = 1"

datatype authentication_source = Source_StoredCredential | Source_Pair client_authentication

text \<open>Durations are in nanoseconds; the longest has \<open>u64::MAX\<close> seconds.\<close>

definition DURATION_MAX :: nat where
  "DURATION_MAX = (2 ^ 64 - 1) * 10 ^ 9 + 999999999"

definition duration_saturating_mul :: "nat \<Rightarrow> nat \<Rightarrow> nat" where
  "duration_saturating_mul d n = min (d * n) DURATION_MAX"

record reconnect_policy =
  initial_delay :: nat
  maximum_delay :: nat

definition ReconnectPolicy_default :: reconnect_policy where
  "ReconnectPolicy_default = \<lparr>initial_delay = 250 * 10 ^ 6, maximum_delay = 10 * 10 ^ 9\<rparr>"

record client_config =
  cfg_target :: socket_target
  cfg_server_id :: server_id
  cfg_client :: client_descriptor
  cfg_authentication :: authentication_source
  cfg_frame_limits :: frame_limits
  cfg_reconnect :: reconnect_policy
  cfg_event_subscriber_capacity :: nat

datatype client_config_error = UnsupportedPairingFormat u16

fun show_client_config_error :: "client_config_error \<Rightarrow> string" where
  "show_client_config_error (UnsupportedPairingFormat version) =
     ''unsupported pairing bundle format version '' @ show_word version"

definition add_required_capabilities :: "client_descriptor \<Rightarrow> client_descriptor" where
  "add_required_capabilities client = client\<lparr>client_capabilities := client_capabilities client \<union>
     {CAPABILITY_STATE_DELTAS, CAPABILITY_EVENT_REPLAY, CAPABILITY_INTERACTION_LEASES}\<rparr>"

text \<open>\<open>limits\<close> is the value of \<open>FrameLimits::default()\<close>.\<close>

definition ClientConfig_stored ::
  "frame_limits \<Rightarrow> socket_target \<Rightarrow> server_id \<Rightarrow> client_descriptor \<Rightarrow> client_config" where
  "ClientConfig_stored limits target server client =
     \<lparr>cfg_target = target, cfg_server_id = server, cfg_client = add_required_capabilities client,
      cfg_authentication = Source_StoredCredential, cfg_frame_limits = limits,
      cfg_reconnect = ReconnectPolicy_default, cfg_event_subscriber_capacity = 256\<rparr>"

definition ClientConfig_pairing ::
  "frame_limits \<Rightarrow> pairing_bundle \<Rightarrow> client_descriptor \<Rightarrow> string \<Rightarrow> client_config_error + client_config" where
  "ClientConfig_pairing limits bundle client device =
     (if bundle_format_version bundle \<noteq> PAIRING_FORMAT_VERSION
      then Inl (UnsupportedPairingFormat (bundle_format_version bundle))
      else Inr
        \<lparr>cfg_target = \<lparr>target_endpoint = bundle_endpoint bundle,
                      target_tls_identity = bundle_tls_identity bundle\<rparr>,
         cfg_server_id = bundle_server_id bundle, cfg_client = add_required_capabilities client,
         cfg_authentication = Source_Pair (Auth_Pair (bundle_pairing_id bundle) (bundle_secret bundle)
           \<lparr>desc_name = device, desc_platform = client_platform_of client\<rparr>),
         cfg_frame_limits = limits, cfg_reconnect = ReconnectPolicy_default,
         cfg_event_subscriber_capacity = 256\<rparr>)"

subsection \<open>Credential stores (storage.rs)\<close>

text \<open>
  The trait \<open>CredentialStore\<close>. \<open>invar\<close> is what every operation keeps of the store; an error is its
  text. A failed operation need not leave the store as it was.
\<close>

locale credential_store =
  fixes load :: "server_id \<Rightarrow> 'c \<Rightarrow> string + device_credential option"
    and save :: "device_credential \<Rightarrow> 'c \<Rightarrow> (string + unit) \<times> 'c"
    and remove :: "server_id \<Rightarrow> 'c \<Rightarrow> (string + unit) \<times> 'c"
    and invar :: "'c \<Rightarrow> bool"
  assumes invar_save: "invar s \<Longrightarrow> invar (snd (save c s))"
    and invar_remove: "invar s \<Longrightarrow> invar (snd (remove sid s))"
    and load_save: "invar s \<Longrightarrow> save c s = (Inr (), s') \<Longrightarrow> load (cred_server_id c) s' = Inr (Some c)"
    and load_save_other: "invar s \<Longrightarrow> sid \<noteq> cred_server_id c \<Longrightarrow> load sid (snd (save c s)) = load sid s"
    and load_remove: "invar s \<Longrightarrow> remove sid s = (Inr (), s') \<Longrightarrow> load sid s' = Inr None"
    and load_belongs: "invar s \<Longrightarrow> load sid s = Inr (Some c) \<Longrightarrow> cred_server_id c = sid"
begin

text \<open>A credential that was saved stays until one of the same server is saved or removed.\<close>

lemma load_after_saves:
  assumes "invar s" "save c s = (Inr (), s')" "\<forall>d\<in>set ds. cred_server_id c \<noteq> cred_server_id d"
  shows "load (cred_server_id c) (fold (\<lambda>d s. snd (save d s)) ds s') = Inr (Some c)"
proof -
  have "invar s'" using invar_save [OF assms(1), of c] assms(2) by simp
  have "load (cred_server_id c) (fold (\<lambda>d s. snd (save d s)) ds s') = load (cred_server_id c) s'"
    if "invar s'" "\<forall>d\<in>set ds. cred_server_id c \<noteq> cred_server_id d" for s'
    using that by (induction ds arbitrary: s') (simp_all add: invar_save load_save_other)
  with load_save [OF assms(1,2)] assms(3) \<open>invar s'\<close> show ?thesis by simp
qed

end

instantiation server_id :: linorder
begin

definition less_eq_server_id :: "server_id \<Rightarrow> server_id \<Rightarrow> bool" where
  "less_eq_server_id a b \<longleftrightarrow> server_id_str a \<le> server_id_str b"

definition less_server_id :: "server_id \<Rightarrow> server_id \<Rightarrow> bool" where
  "less_server_id a b \<longleftrightarrow> server_id_str a < server_id_str b"

instance
  by standard (auto simp: less_eq_server_id_def less_server_id_def intro: server_id.expand)

end

type_synonym memory_credential_store = "(server_id, device_credential) bmap"

definition memory_load ::
  "server_id \<Rightarrow> memory_credential_store \<Rightarrow> string + device_credential option" where
  "memory_load sid m = Inr (bmap_get m sid)"

definition memory_save ::
  "device_credential \<Rightarrow> memory_credential_store \<Rightarrow> (string + unit) \<times> memory_credential_store" where
  "memory_save c m = (Inr (), bmap_insert (cred_server_id c) c m)"

definition memory_remove ::
  "server_id \<Rightarrow> memory_credential_store \<Rightarrow> (string + unit) \<times> memory_credential_store" where
  "memory_remove sid m = (Inr (), bmap_remove sid m)"

interpretation memory: credential_store memory_load memory_save memory_remove
  "\<lambda>m. \<forall>sid c. bmap_get m sid = Some c \<longrightarrow> cred_server_id c = sid"
  by unfold_locales
    (auto simp: memory_load_def memory_save_def memory_remove_def bmap_simps split: if_splits)

text \<open>
  The operating system's keyring, as the crate \<open>keyring_core\<close> offers it: opening an entry of a
  service, and reading, writing and deleting its secret. An error is its text.
\<close>

datatype keyring_error = Keyring_NoEntry | Keyring_Other

record 'k keyring =
  ring_initialize :: "string + unit"
  ring_entry :: "string \<Rightarrow> string \<Rightarrow> keyring_error + unit"
  ring_get :: "string \<Rightarrow> string \<Rightarrow> 'k \<Rightarrow> keyring_error + string"
  ring_set :: "string \<Rightarrow> string \<Rightarrow> string \<Rightarrow> 'k \<Rightarrow> (keyring_error + unit) \<times> 'k"
  ring_delete :: "string \<Rightarrow> string \<Rightarrow> 'k \<Rightarrow> (keyring_error + unit) \<times> 'k"
  ring_show_error :: "keyring_error \<Rightarrow> string"

record credential_codec =
  cc_encode :: "device_credential \<Rightarrow> string option"
  cc_decode :: "string \<Rightarrow> device_credential option"

text \<open>\<open>NativeCredentialStore::entry\<close>, with the store's initialisation.\<close>

definition native_entry :: "'k keyring \<Rightarrow> string \<Rightarrow> server_id \<Rightarrow> string + unit" where
  "native_entry ring service sid =
     rbind (map_err (\<lambda>e. ''cannot initialize OS keyring: '' @ e) (ring_initialize ring)) (\<lambda>_.
       map_err (\<lambda>e. ''cannot open OS keyring: '' @ ring_show_error ring e)
         (ring_entry ring service (server_id_str sid)))"

definition native_load ::
  "'k keyring \<Rightarrow> credential_codec \<Rightarrow> string \<Rightarrow> server_id \<Rightarrow> 'k \<Rightarrow> string + device_credential option" where
  "native_load ring codec service sid k =
     rbind (native_entry ring service sid) (\<lambda>_.
       case ring_get ring service (server_id_str sid) k of
         Inl Keyring_NoEntry \<Rightarrow> Inr None
       | Inl e \<Rightarrow> Inl (''cannot read OS keyring credential: '' @ ring_show_error ring e)
       | Inr bytes \<Rightarrow>
           (case cc_decode codec bytes of
              None \<Rightarrow> Inl ''OS keyring credential is invalid''
            | Some c \<Rightarrow>
                if cred_server_id c \<noteq> sid then Inl ''OS keyring credential belongs to another server''
                else Inr (Some c)))"

definition native_save ::
  "'k keyring \<Rightarrow> credential_codec \<Rightarrow> string \<Rightarrow> device_credential \<Rightarrow> 'k \<Rightarrow> (string + unit) \<times> 'k" where
  "native_save ring codec service c k =
     (case cc_encode codec c of
        None \<Rightarrow> (Inl ''cannot encode device credential'', k)
      | Some bytes \<Rightarrow>
          (case native_entry ring service (cred_server_id c) of
             Inl e \<Rightarrow> (Inl e, k)
           | Inr _ \<Rightarrow>
               (let (r, k) = ring_set ring service (server_id_str (cred_server_id c)) bytes k
                in (map_err (\<lambda>e. ''cannot write OS keyring credential: '' @ ring_show_error ring e) r, k))))"

definition native_remove ::
  "'k keyring \<Rightarrow> string \<Rightarrow> server_id \<Rightarrow> 'k \<Rightarrow> (string + unit) \<times> 'k" where
  "native_remove ring service sid k =
     (case native_entry ring service sid of
        Inl e \<Rightarrow> (Inl e, k)
      | Inr _ \<Rightarrow>
          (let (r, k) = ring_delete ring service (server_id_str sid) k
           in (case r of
                 Inl Keyring_NoEntry \<Rightarrow> Inr ()
               | Inl e \<Rightarrow> Inl (''cannot remove OS keyring credential: '' @ ring_show_error ring e)
               | Inr _ \<Rightarrow> Inr (), k)))"

text \<open>The local storage of a browser window; what fails there is \<open>None\<close>.\<close>

record 'k browser_storage =
  web_storage :: "string + unit"
  web_get :: "string \<Rightarrow> 'k \<Rightarrow> string option option"
  web_set :: "string \<Rightarrow> string \<Rightarrow> 'k \<Rightarrow> 'k option"
  web_remove :: "string \<Rightarrow> 'k \<Rightarrow> 'k option"

definition browser_key :: "string \<Rightarrow> server_id \<Rightarrow> string" where
  "browser_key namespace sid = namespace @ '':'' @ server_id_str sid"

definition browser_load ::
  "'k browser_storage \<Rightarrow> credential_codec \<Rightarrow> string \<Rightarrow> server_id \<Rightarrow> 'k \<Rightarrow>
     string + device_credential option" where
  "browser_load web codec namespace sid k =
     rbind (web_storage web) (\<lambda>_.
       case web_get web (browser_key namespace sid) k of
         None \<Rightarrow> Inl ''cannot read browser credential storage''
       | Some None \<Rightarrow> Inr None
       | Some (Some encoded) \<Rightarrow>
           (case cc_decode codec encoded of
              None \<Rightarrow> Inl ''stored device credential is invalid''
            | Some c \<Rightarrow>
                if cred_server_id c \<noteq> sid then Inl ''stored device credential belongs to another server''
                else Inr (Some c)))"

definition browser_save ::
  "'k browser_storage \<Rightarrow> credential_codec \<Rightarrow> string \<Rightarrow> device_credential \<Rightarrow> 'k \<Rightarrow>
     (string + unit) \<times> 'k" where
  "browser_save web codec namespace c k =
     (case cc_encode codec c of
        None \<Rightarrow> (Inl ''cannot encode device credential'', k)
      | Some encoded \<Rightarrow>
          (case web_storage web of
             Inl e \<Rightarrow> (Inl e, k)
           | Inr _ \<Rightarrow>
               (case web_set web (browser_key namespace (cred_server_id c)) encoded k of
                  None \<Rightarrow> (Inl ''cannot write browser credential storage'', k)
                | Some k \<Rightarrow> (Inr (), k))))"

definition browser_remove ::
  "'k browser_storage \<Rightarrow> string \<Rightarrow> server_id \<Rightarrow> 'k \<Rightarrow> (string + unit) \<times> 'k" where
  "browser_remove web namespace sid k =
     (case web_storage web of
        Inl e \<Rightarrow> (Inl e, k)
      | Inr _ \<Rightarrow>
          (case web_remove web (browser_key namespace sid) k of
             None \<Rightarrow> (Inl ''cannot remove browser device credential'', k)
           | Some k \<Rightarrow> (Inr (), k)))"

subsection \<open>Pairing links (pairing.rs)\<close>

definition MAX_PAIRING_PAYLOAD_BYTES :: u32 where
  "MAX_PAIRING_PAYLOAD_BYTES = 64 * 1024"

definition MAX_PAIRING_PAYLOAD_TEXT_BYTES :: nat where
  "MAX_PAIRING_PAYLOAD_TEXT_BYTES = (unat MAX_PAIRING_PAYLOAD_BYTES + 2) div 3 * 4"

datatype pairing_link_error =
    Link_MissingPayload
  | Link_PayloadTooLarge
  | Link_InvalidBase64 string
  | Link_InvalidCbor cbor_codec_error

fun show_pairing_link_error :: "pairing_link_error \<Rightarrow> string" where
  "show_pairing_link_error Link_MissingPayload = ''pairing link has no payload''"
| "show_pairing_link_error Link_PayloadTooLarge = ''pairing payload exceeds 64 KiB''"
| "show_pairing_link_error (Link_InvalidBase64 e) = ''pairing payload is not valid base64url''"
| "show_pairing_link_error (Link_InvalidCbor e) = ''pairing payload is not valid CBOR''"

fun pairing_link_error_source :: "pairing_link_error \<Rightarrow> (string + cbor_codec_error) option" where
  "pairing_link_error_source (Link_InvalidBase64 e) = Some (Inl e)"
| "pairing_link_error_source (Link_InvalidCbor e) = Some (Inr e)"
| "pairing_link_error_source _ = None"

text \<open>\<open>str::trim\<close>: the characters that Unicode counts as white space, by their UTF-8 bytes.\<close>

definition white_space :: "string list" where
  "white_space = map (map char_of :: nat list \<Rightarrow> string)
     ([[9], [10], [11], [12], [13], [32], [194, 133], [194, 160], [225, 154, 128]] @
      map (\<lambda>n. [226, 128, n]) ([128..<139] @ [168, 169, 175]) @ [[226, 129, 159], [227, 128, 128]])"

lemma white_space_nonempty: "w \<in> set white_space \<Longrightarrow> w \<noteq> []"
  by (auto simp: white_space_def)

function trim_start :: "string \<Rightarrow> string" where
  "trim_start s =
     (case List.find (starts_with s) white_space of
        None \<Rightarrow> s
      | Some w \<Rightarrow> trim_start (drop (length w) s))"
  by pat_completeness auto
termination
proof (relation "measure length")
  fix s w assume "List.find (starts_with s) white_space = Some w"
  then have "starts_with s w" "w \<noteq> []"
    using white_space_nonempty by (auto simp: find_Some_iff)
  then show "(drop (length w) s, s) \<in> measure length"
    by (auto simp: starts_with_def strip_prefix_Some_iff)
qed simp

function trim_end :: "string \<Rightarrow> string" where
  "trim_end s =
     (case List.find (ends_with s) white_space of
        None \<Rightarrow> s
      | Some w \<Rightarrow> trim_end (take (length s - length w) s))"
  by pat_completeness auto
termination
proof (relation "measure length")
  fix s w assume "List.find (ends_with s) white_space = Some w"
  then have "ends_with s w" "w \<noteq> []"
    using white_space_nonempty by (auto simp: find_Some_iff)
  then show "(take (length s - length w) s, s) \<in> measure length"
    by (auto simp: ends_with_def strip_suffix_Some_iff)
qed simp

declare trim_start.simps [simp del] trim_end.simps [simp del]

definition trim :: "string \<Rightarrow> string" where
  "trim s = trim_end (trim_start s)"

text \<open>The text after the last number sign, or all of it when there is none.\<close>

definition link_payload :: "string \<Rightarrow> string" where
  "link_payload s = rev (takeWhile (\<lambda>c. c \<noteq> CHR ''#'') (rev s))"

definition decode_pairing_link ::
  "(string \<Rightarrow> string + string) \<Rightarrow> (string \<Rightarrow> string + (pairing_bundle \<times> nat)) \<Rightarrow> string \<Rightarrow>
     pairing_link_error + pairing_bundle" where
  "decode_pairing_link base64_decode de value =
     (let payload = link_payload (trim value)
      in if payload = [] then Inl Link_MissingPayload
         else if MAX_PAIRING_PAYLOAD_TEXT_BYTES < length payload then Inl Link_PayloadTooLarge
         else rbind (map_err Link_InvalidBase64 (base64_decode payload)) (\<lambda>bytes.
           map_err Link_InvalidCbor (cbor_decode de (CborCodec MAX_PAIRING_PAYLOAD_BYTES) bytes)))"

end
