(* ===== verification/Client.thy ===== *)
theory Client
  imports Client_Config Replica Agent_Actor
begin

section \<open>The control client\<close>

text \<open>
  \<open>crates/omp-control-client/src/client.rs\<close>: the handle whose calls become commands, and the
  runner that connects, authenticates, keeps the subscriptions and the calls that wait for an
  answer over reconnections, and feeds the reducer. The runner is one task; what it awaits is an
  input: a command, the outcome of a connection attempt, what the socket received, the end of a
  sleep. A one-shot channel is the number of its call; \<open>cr_answers\<close> records what the callers were
  told, \<open>cr_sent\<close> the frames that sockets took, with the call each was sent for.
\<close>

datatype connection_status =
    Status_Disconnected "string option"
  | Status_Connecting
  | Status_Connected server_id device_id protocol_version
  | Status_Stopped "string option"

datatype (plugins only: code) client_event =
    CEvent_ConnectionChanged connection_status
  | CEvent_StateChanged agent_id
  | CEvent_AgentEvent event_envelope
  | CEvent_InteractionRequest ui_interaction_envelope
  | CEvent_ResyncRequired agent_id
  | CEvent_ProtocolError protocol_error
  | CEvent_ReplicationError replication_error

datatype client_request_error =
    CReq_ClientStopped
  | CReq_IdentifierSpaceExhausted
  | CReq_InvalidRequest string
  | CReq_Protocol protocol_error

fun show_client_request_error :: "client_request_error \<Rightarrow> string" where
  "show_client_request_error CReq_ClientStopped = ''control client has stopped''"
| "show_client_request_error CReq_IdentifierSpaceExhausted =
     ''control client identifier space is exhausted''"
| "show_client_request_error (CReq_InvalidRequest message) = message"
| "show_client_request_error (CReq_Protocol e) = perr_message e"

datatype client_run_error =
    CRun_CredentialUnavailable
  | CRun_CredentialServerMismatch
  | CRun_CredentialStorage string
  | CRun_ServerIdentityMismatch
  | CRun_Protocol string
  | CRun_Transport string

fun show_client_run_error :: "client_run_error \<Rightarrow> string" where
  "show_client_run_error CRun_CredentialUnavailable =
     ''no device credential is stored for this server''"
| "show_client_run_error CRun_CredentialServerMismatch =
     ''device credential does not match the connected server''"
| "show_client_run_error (CRun_CredentialStorage e) = ''device credential storage failed: '' @ e"
| "show_client_run_error CRun_ServerIdentityMismatch =
     ''connected server identity does not match the configured server''"
| "show_client_run_error (CRun_Protocol e) = ''control protocol failed: '' @ e"
| "show_client_run_error (CRun_Transport e) = ''WebSocket transport failed: '' @ e"

datatype client_build_error = Build_Random string

fun show_client_build_error :: "client_build_error \<Rightarrow> string" where
  "show_client_build_error (Build_Random e) = ''secure client ID generation failed: '' @ e"

subsection \<open>Identifiers\<close>

record id_generator =
  idg_prefix :: string
  idg_counter :: u64

datatype id_generation_error = IdGen_Exhausted

fun show_id_generation_error :: "id_generation_error \<Rightarrow> string" where
  "show_id_generation_error IdGen_Exhausted = ''control client identifier space is exhausted''"

text \<open>\<open>random\<close> is what the system's generator answers, \<open>base64\<close> the URL-safe encoding without padding.\<close>

definition IdGenerator_new ::
  "(string \<Rightarrow> string) \<Rightarrow> string + string \<Rightarrow> client_build_error + id_generator" where
  "IdGenerator_new base64 random =
     rbind (map_err Build_Random random) (\<lambda>bytes.
       Inr \<lparr>idg_prefix = base64 bytes, idg_counter = 0\<rparr>)"

definition id_next :: "string \<Rightarrow> id_generator \<Rightarrow> (id_generation_error + string) \<times> id_generator" where
  "id_next kind g =
     (case checked_add (idg_counter g) 1 of
        None \<Rightarrow> (Inl IdGen_Exhausted, g)
      | Some counter \<Rightarrow>
          (Inr (kind @ ''-'' @ idg_prefix g @ ''-'' @ show_word (idg_counter g)),
           g\<lparr>idg_counter := counter\<rparr>))"

instantiation request_id :: linorder
begin

definition less_eq_request_id :: "request_id \<Rightarrow> request_id \<Rightarrow> bool" where
  "less_eq_request_id a b \<longleftrightarrow> request_id_str a \<le> request_id_str b"

definition less_request_id :: "request_id \<Rightarrow> request_id \<Rightarrow> bool" where
  "less_request_id a b \<longleftrightarrow> request_id_str a < request_id_str b"

instance
  by standard (auto simp: less_eq_request_id_def less_request_id_def intro: request_id.expand)

end

subsection \<open>Commands and pending requests\<close>

datatype (plugins only: code) pending_payload =
    Pending_Request control_request
  | Pending_UiResponse agent_id lease_holder_id extension_ui_response_frame

datatype (plugins only: code) client_command =
    Command_Request pending_payload "operation_id option" nat
  | Command_Subscribe agent_id
  | Command_Unsubscribe agent_id
  | Command_Shutdown nat

record pending_request =
  pend_payload :: pending_payload
  pend_operation_id :: "operation_id option"
  pend_sent_request_id :: "request_id option"
  pend_response :: nat

text \<open>\<open>None\<close>: the \<open>expect\<close> on the operation identifier of an answer to a dialog panics.\<close>

fun pending_frame :: "pending_payload \<Rightarrow> operation_id option \<Rightarrow> request_id \<Rightarrow> client_frame option" where
  "pending_frame (Pending_Request request) oid rid =
     Some (Client_Request \<lparr>env_request_id = rid, env_operation_id = oid, env_request = request\<rparr>)"
| "pending_frame (Pending_UiResponse a holder response) (Some oid) rid =
     Some (Client_UiResponse \<lparr>uir_agent_id = a, uir_request_id = rid, uir_operation_id = oid,
       uir_holder = holder, uir_response = response\<rparr>)"
| "pending_frame (Pending_UiResponse a holder response) None rid = None"

subsection \<open>The runner's state\<close>

text \<open>
  A bounded channel of \<open>futures_channel\<close>: with one sender it holds one message more than its
  buffer. A full channel keeps its place, one whose receiver is gone is dropped.
\<close>

record event_channel =
  evc_queue :: "client_event list"
  evc_buffer :: nat
  evc_receiver :: bool

definition event_try_send :: "client_event \<Rightarrow> event_channel \<Rightarrow> event_channel option" where
  "event_try_send e ch =
     (if \<not> evc_receiver ch then None
      else if length (evc_queue ch) \<le> evc_buffer ch then Some (ch\<lparr>evc_queue := evc_queue ch @ [e]\<rparr>)
      else Some ch)"

datatype (plugins only: code) client_answer =
    Answer_Response "client_request_error + control_response"
  | Answer_Shutdown "client_request_error + unit"

record 'c client_runner =
  cr_credentials :: 'c
  cr_state :: replicated_state
  cr_status :: connection_status
  cr_ids :: id_generator
  cr_subscribers :: "event_channel list"
  cr_desired :: "agent_id set"
  cr_pending :: "(u64, pending_request) bmap"
  cr_response_index :: "(request_id, u64) bmap"
  cr_next_pending :: u64
  cr_active_credential :: "device_credential option"
  cr_answers :: "(nat \<times> client_answer) list"
  cr_sent :: "(nat option \<times> client_frame) list"

record 'c client_env =
  cl_config :: client_config
  cl_load :: "server_id \<Rightarrow> 'c \<Rightarrow> string + device_credential option"
  cl_save :: "device_credential \<Rightarrow> 'c \<Rightarrow> (string + unit) \<times> 'c"
  cl_serialize :: "client_frame \<Rightarrow> string list \<times> string option"
  cl_deserialize :: "string \<Rightarrow> string + (server_frame \<times> nat)"

definition broadcast :: "client_event \<Rightarrow> 'c client_runner \<Rightarrow> 'c client_runner" where
  "broadcast e r = r\<lparr>cr_subscribers := List.map_filter (event_try_send e) (cr_subscribers r)\<rparr>"

definition set_status :: "connection_status \<Rightarrow> 'c client_runner \<Rightarrow> 'c client_runner" where
  "set_status s r = broadcast (CEvent_ConnectionChanged s) (r\<lparr>cr_status := s\<rparr>)"

definition set_connected :: "server_welcome \<Rightarrow> 'c client_runner \<Rightarrow> 'c client_runner" where
  "set_connected w =
     set_status (Status_Connected (wel_server_id w) (wel_device_id w) (wel_protocol_version w))"

definition disconnected :: "string option \<Rightarrow> 'c client_runner \<Rightarrow> 'c client_runner" where
  "disconnected reason = set_status (Status_Disconnected reason)"

definition finish_shutdown :: "'c client_runner \<Rightarrow> 'c client_runner" where
  "finish_shutdown = set_status (Status_Stopped None)"

definition tell :: "nat \<Rightarrow> client_answer \<Rightarrow> 'c client_runner \<Rightarrow> 'c client_runner" where
  "tell call answer r = r\<lparr>cr_answers := cr_answers r @ [(call, answer)]\<rparr>"

definition client_fail_pending :: "client_request_error \<Rightarrow> 'c client_runner \<Rightarrow> 'c client_runner" where
  "client_fail_pending e r =
     r\<lparr>cr_response_index := [], cr_pending := [],
       cr_answers := cr_answers r @
         map (\<lambda>p. (pend_response p, Answer_Response (Inl e))) (bmap_values (cr_pending r))\<rparr>"

definition stop_with_error :: "client_run_error \<Rightarrow> 'c client_runner \<Rightarrow> 'c client_runner" where
  "stop_with_error e r =
     set_status (Status_Stopped (Some (show_client_run_error e))) (client_fail_pending CReq_ClientStopped r)"

definition mark_pending_disconnected :: "'c client_runner \<Rightarrow> 'c client_runner" where
  "mark_pending_disconnected r =
     r\<lparr>cr_response_index := [],
       cr_pending := map (\<lambda>(k, p). (k, p\<lparr>pend_sent_request_id := None\<rparr>)) (cr_pending r)\<rparr>"

text \<open>
  A request that the new one displaces is dropped with its channel, and its caller is told that
  the client has stopped; that takes \<open>2 ^ 64\<close> requests.
\<close>

definition insert_pending ::
  "pending_payload \<Rightarrow> operation_id option \<Rightarrow> nat \<Rightarrow> 'c client_runner \<Rightarrow> u64 \<times> 'c client_runner" where
  "insert_pending payload oid call r =
     (let key = cr_next_pending r;
          r = (case bmap_get (cr_pending r) key of
                 None \<Rightarrow> r
               | Some old \<Rightarrow> tell (pend_response old) (Answer_Response (Inl CReq_ClientStopped)) r)
      in (key, r\<lparr>cr_next_pending := key + 1,
                 cr_pending := bmap_insert key
                   \<lparr>pend_payload = payload, pend_operation_id = oid, pend_sent_request_id = None,
                    pend_response = call\<rparr> (cr_pending r)\<rparr>))"

definition next_request_id ::
  "'c client_runner \<Rightarrow> (id_generation_error + request_id) \<times> 'c client_runner" where
  "next_request_id r =
     (let (text, ids) = id_next ''request'' (cr_ids r)
      in (rbind text (\<lambda>t. map_err (\<lambda>_. IdGen_Exhausted) (RequestId_new t)), r\<lparr>cr_ids := ids\<rparr>))"

definition complete_response :: "response_envelope \<Rightarrow> 'c client_runner \<Rightarrow> 'c client_runner" where
  "complete_response response r =
     (case bmap_get (cr_response_index r) (rsp_request_id response) of
        None \<Rightarrow> broadcast (CEvent_ProtocolError
          \<lparr>perr_code = ''unexpected_response'',
           perr_message = ''server response did not match an in-flight request'',
           perr_retryable = False\<rparr>) r
      | Some key \<Rightarrow>
          (let r = r\<lparr>cr_response_index := bmap_remove (rsp_request_id response) (cr_response_index r)\<rparr>
           in case bmap_get (cr_pending r) key of
                None \<Rightarrow> r
              | Some p \<Rightarrow>
                  tell (pend_response p)
                    (Answer_Response (case rsp_outcome response of
                       Outcome_Success x \<Rightarrow> Inr x
                     | Outcome_Error e \<Rightarrow> Inl (CReq_Protocol e)))
                    (r\<lparr>cr_pending := bmap_remove key (cr_pending r)\<rparr>)))"

definition resume_cursors :: "'c client_runner \<Rightarrow> subscription_cursor list" where
  "resume_cursors r =
     List.map_filter (replica_cursor (cr_state r)) (sorted_list_of_set (cr_desired r))"

subsection \<open>Sending\<close>

text \<open>A session is the socket and the runner; a send that fails leaves the connection to be given up.\<close>

type_synonym 'c session = "client_socket \<times> 'c client_runner"

datatype send_failure = Failed_Transport transport_error | Failed_Panic

definition send_frame ::
  "'c client_env \<Rightarrow> cbor_codec \<Rightarrow> nat option \<Rightarrow> client_frame \<Rightarrow> 'c session \<Rightarrow>
     (send_failure + unit) \<times> 'c session" where
  "send_frame env codec call frame = (\<lambda>(sock, r).
     case cbor_encode (cl_serialize env) codec frame of
       Inl e \<Rightarrow> (Inl (Failed_Transport (TransportError (show_cbor_error e))), sock, r)
     | Inr bytes \<Rightarrow>
         (case send_binary bytes sock of
            (Inl e, sock) \<Rightarrow> (Inl (Failed_Transport e), sock, r)
          | (Inr _, sock) \<Rightarrow> (Inr (), sock, r\<lparr>cr_sent := cr_sent r @ [(call, frame)]\<rparr>)))"

definition send_pending ::
  "'c client_env \<Rightarrow> cbor_codec \<Rightarrow> u64 \<Rightarrow> 'c session \<Rightarrow> (send_failure + unit) \<times> 'c session" where
  "send_pending env codec key = (\<lambda>(sock, r).
     case next_request_id r of
       (Inl e, r) \<Rightarrow>
         (Inl (Failed_Transport (TransportError (show_id_generation_error e))), sock, r)
     | (Inr rid, r) \<Rightarrow>
         (case bmap_get (cr_pending r) key of
            None \<Rightarrow>
              (Inl (Failed_Transport (TransportError ''pending request disappeared before send'')), sock, r)
          | Some p \<Rightarrow>
              (case pending_frame (pend_payload p) (pend_operation_id p) rid of
                 None \<Rightarrow> (Inl Failed_Panic, sock, r)
               | Some frame \<Rightarrow>
                   (case send_frame env codec (Some (pend_response p)) frame (sock, r) of
                      (Inl e, s) \<Rightarrow> (Inl e, s)
                    | (Inr _, sock, r) \<Rightarrow>
                        (Inr (), sock,
                         r\<lparr>cr_pending :=
                             bmap_insert key (p\<lparr>pend_sent_request_id := Some rid\<rparr>) (cr_pending r),
                           cr_response_index := bmap_insert rid key (cr_response_index r)\<rparr>)))))"

definition send_subscription ::
  "'c client_env \<Rightarrow> cbor_codec \<Rightarrow> bool \<Rightarrow> agent_id \<Rightarrow> 'c session \<Rightarrow> (send_failure + unit) \<times> 'c session"
where
  "send_subscription env codec resume a = (\<lambda>(sock, r).
     send_frame env codec None (Client_Subscribe \<lparr>subreq_agent_id = a,
       subreq_cursor = (if resume then replica_cursor (cr_state r) a else None)\<rparr>) (sock, r))"

text \<open>A loop whose body may fail: the first failure ends it.\<close>

fun try_each :: "('x \<Rightarrow> 's \<Rightarrow> ('e + unit) \<times> 's) \<Rightarrow> 'x list \<Rightarrow> 's \<Rightarrow> ('e + unit) \<times> 's" where
  "try_each f [] s = (Inr (), s)"
| "try_each f (x # xs) s =
     (case f x s of (Inl e, s) \<Rightarrow> (Inl e, s) | (Inr _, s) \<Rightarrow> try_each f xs s)"

definition initialize_connection ::
  "'c client_env \<Rightarrow> cbor_codec \<Rightarrow> 'c session \<Rightarrow> (send_failure + unit) \<times> 'c session" where
  "initialize_connection env codec s =
     (case try_each (send_subscription env codec True) (sorted_list_of_set (cr_desired (snd s))) s of
        (Inl e, s) \<Rightarrow> (Inl e, s)
      | (Inr _, s) \<Rightarrow> try_each (send_pending env codec) (bmap_keys (cr_pending (snd s))) s)"

subsection \<open>Commands\<close>

text \<open>What both command handlers do when the runner is to stop: \<open>None\<close> is the end of the channel.\<close>

fun stops :: "client_command option \<Rightarrow> 'c client_runner \<Rightarrow> 'c client_runner option" where
  "stops None r = Some (client_fail_pending CReq_ClientStopped r)"
| "stops (Some (Command_Shutdown call)) r =
     Some (client_fail_pending CReq_ClientStopped (tell call (Answer_Shutdown (Inr ())) r))"
| "stops (Some _) r = None"

text \<open>Whether the runner is to stop. The code's handler has an error type but never fails.\<close>

definition handle_offline_command ::
  "client_command option \<Rightarrow> 'c client_runner \<Rightarrow> bool \<times> 'c client_runner" where
  "handle_offline_command command r =
     (case stops command r of
        Some r \<Rightarrow> (True, r)
      | None \<Rightarrow>
          (False,
           case command of
             Some (Command_Request payload oid call) \<Rightarrow> snd (insert_pending payload oid call r)
           | Some (Command_Subscribe a) \<Rightarrow> r\<lparr>cr_desired := insert a (cr_desired r)\<rparr>
           | Some (Command_Unsubscribe a) \<Rightarrow> r\<lparr>cr_desired := cr_desired r - {a}\<rparr>
           | _ \<Rightarrow> r))"

definition handle_connected_command ::
  "'c client_env \<Rightarrow> cbor_codec \<Rightarrow> client_command option \<Rightarrow> 'c session \<Rightarrow>
     (send_failure + bool) \<times> 'c session" where
  "handle_connected_command env codec command = (\<lambda>(sock, r).
     case stops command r of
       Some r \<Rightarrow> (Inr True, sock, r)
     | None \<Rightarrow>
         apfst (map_sum id (\<lambda>_. False))
           (case command of
              Some (Command_Request payload oid call) \<Rightarrow>
                (let (key, r) = insert_pending payload oid call r in send_pending env codec key (sock, r))
            | Some (Command_Subscribe a) \<Rightarrow>
                (if a \<in> cr_desired r then (Inr (), sock, r)
                 else send_subscription env codec True a (sock, r\<lparr>cr_desired := insert a (cr_desired r)\<rparr>))
            | Some (Command_Unsubscribe a) \<Rightarrow>
                (if a \<notin> cr_desired r then (Inr (), sock, r)
                 else send_frame env codec None (Client_Unsubscribe a)
                   (sock, r\<lparr>cr_desired := cr_desired r - {a}\<rparr>))
            | _ \<Rightarrow> (Inr (), sock, r)))"

subsection \<open>Frames of the server\<close>

datatype session_end =
    End_Shutdown
  | End_Reconnect "string option" "nat option"
  | End_Fatal client_run_error
  | End_Panic

fun failed :: "send_failure \<Rightarrow> session_end" where
  "failed (Failed_Transport e) = End_Reconnect (Some (transport_message e)) None"
| "failed Failed_Panic = End_Panic"

fun frame_agent_id :: "server_frame \<Rightarrow> agent_id option" where
  "frame_agent_id (Server_Delta env) = Some (delta_agent_id (denv_delta env))"
| "frame_agent_id (Server_Event env) = Some (eenv_agent_id env)"
| "frame_agent_id (Server_InteractionRequest env) = Some (uii_agent_id env)"
| "frame_agent_id (Server_ReplayGap gap) = Some (gap_agent_id gap)"
| "frame_agent_id (Server_Snapshot agents) =
     (case agents of [s] \<Rightarrow> Some (snap_agent_id s) | _ \<Rightarrow> None)"
| "frame_agent_id _ = None"

text \<open>Asking for a fresh snapshot: how the session ends when that fails.\<close>

definition resubscribe ::
  "'c client_env \<Rightarrow> cbor_codec \<Rightarrow> agent_id \<Rightarrow> 'c session \<Rightarrow> session_end option \<times> 'c session" where
  "resubscribe env codec a s =
     (case send_subscription env codec False a s of
        (Inl e, s) \<Rightarrow> (Some (failed e), s)
      | (Inr _, s) \<Rightarrow> (None, s))"

fun apply_effects ::
  "'c client_env \<Rightarrow> cbor_codec \<Rightarrow> replication_effect list \<Rightarrow> 'c session \<Rightarrow>
     session_end option \<times> 'c session" where
  "apply_effects env codec [] s = (None, s)"
| "apply_effects env codec (Effect_StateChanged a # es) (sock, r) =
     apply_effects env codec es (sock, broadcast (CEvent_StateChanged a) r)"
| "apply_effects env codec (Effect_Event e # es) (sock, r) =
     apply_effects env codec es (sock, broadcast (CEvent_AgentEvent e) r)"
| "apply_effects env codec (Effect_Interaction i # es) (sock, r) =
     apply_effects env codec es (sock, broadcast (CEvent_InteractionRequest i) r)"
| "apply_effects env codec (Effect_ResyncRequired a # es) (sock, r) =
     (case resubscribe env codec a (sock, broadcast (CEvent_ResyncRequired a) r) of
        (Some se, s) \<Rightarrow> (Some se, s)
      | (None, s) \<Rightarrow> apply_effects env codec es s)"

definition handle_replicated ::
  "'c client_env \<Rightarrow> cbor_codec \<Rightarrow> server_frame \<Rightarrow> 'c session \<Rightarrow> session_end option \<times> 'c session" where
  "handle_replicated env codec frame = (\<lambda>(sock, r).
     case replica_apply (cr_state r) frame of
       (Inr effects, st) \<Rightarrow> apply_effects env codec effects (sock, r\<lparr>cr_state := st\<rparr>)
     | (Inl e, st) \<Rightarrow>
         (let s = (sock, broadcast (CEvent_ReplicationError e) (r\<lparr>cr_state := st\<rparr>))
          in case frame_agent_id frame of
               None \<Rightarrow> (None, s)
             | Some a \<Rightarrow> resubscribe env codec a s))"

fun handle_server_frame ::
  "'c client_env \<Rightarrow> cbor_codec \<Rightarrow> server_frame \<Rightarrow> 'c session \<Rightarrow> session_end option \<times> 'c session" where
  "handle_server_frame env codec (Server_Response response) (sock, r) =
     (None, sock, complete_response response r)"
| "handle_server_frame env codec (Server_Error e) (sock, r) =
     (None, sock, broadcast (CEvent_ProtocolError e) r)"
| "handle_server_frame env codec (Server_Pong nonce) s = (None, s)"
| "handle_server_frame env codec (Server_Shutdown shutdown) s =
     (Some (End_Reconnect (Some (shut_reason shutdown))
        (map_option duration_from_millis (shut_reconnect_after_ms shutdown))), s)"
| "handle_server_frame env codec (Server_Welcome w) s =
     (Some (End_Fatal (CRun_Protocol ''server sent a second welcome frame'')), s)"
| "handle_server_frame env codec frame s = handle_replicated env codec frame s"

subsection \<open>Authentication and the handshake\<close>

definition device_authentication :: "device_credential \<Rightarrow> client_authentication" where
  "device_authentication c = Auth_Device (cred_device_id c) (cred_token c)"

definition authentication ::
  "'c client_env \<Rightarrow> 'c client_runner \<Rightarrow> (client_run_error + client_authentication) \<times> 'c client_runner"
where
  "authentication env r =
     (case cr_active_credential r of
        Some c \<Rightarrow> (Inr (device_authentication c), r)
      | None \<Rightarrow>
          (case cfg_authentication (cl_config env) of
             Source_Pair auth \<Rightarrow> (Inr auth, r)
           | Source_StoredCredential \<Rightarrow>
               (case cl_load env (cfg_server_id (cl_config env)) (cr_credentials r) of
                  Inl e \<Rightarrow> (Inl (CRun_CredentialStorage e), r)
                | Inr None \<Rightarrow> (Inl CRun_CredentialUnavailable, r)
                | Inr (Some c) \<Rightarrow>
                    (if cred_server_id c \<noteq> cfg_server_id (cl_config env)
                     then (Inl CRun_CredentialServerMismatch, r)
                     else (Inr (device_authentication c), r\<lparr>cr_active_credential := Some c\<rparr>)))))"

definition accept_credential ::
  "'c client_env \<Rightarrow> client_authentication \<Rightarrow> server_welcome \<Rightarrow> 'c client_runner \<Rightarrow>
     (client_run_error + unit) \<times> 'c client_runner" where
  "accept_credential env auth w r =
     (case auth of
        Auth_Pair p secret device \<Rightarrow>
          (case wel_issued_credential w of
             None \<Rightarrow>
               (Inl (CRun_Protocol ''pairing welcome did not include a device credential''), r)
           | Some c \<Rightarrow>
               (if cred_server_id c \<noteq> cfg_server_id (cl_config env) \<or>
                   cred_device_id c \<noteq> wel_device_id w
                then (Inl CRun_CredentialServerMismatch, r)
                else (case cl_save env c (cr_credentials r) of
                        (Inl e, creds) \<Rightarrow>
                          (Inl (CRun_CredentialStorage e), r\<lparr>cr_credentials := creds\<rparr>)
                      | (Inr _, creds) \<Rightarrow>
                          (Inr (), r\<lparr>cr_credentials := creds, cr_active_credential := Some c\<rparr>))))
      | Auth_Device device token \<Rightarrow>
          (if device \<noteq> wel_device_id w then (Inl CRun_CredentialServerMismatch, r) else (Inr (), r)))"

definition client_hello_frame ::
  "'c client_env \<Rightarrow> client_authentication \<Rightarrow> 'c client_runner \<Rightarrow> client_frame" where
  "client_hello_frame env auth r =
     Client_Hello \<lparr>hello_supported_versions = [ProtocolVersion_CURRENT],
       hello_client = cfg_client (cl_config env), hello_authentication = auth,
       hello_resume = resume_cursors r\<rparr>"

text \<open>The first frame of the server: the welcome without the credential, and the codec.\<close>

definition handle_welcome ::
  "'c client_env \<Rightarrow> client_authentication \<Rightarrow> string \<Rightarrow> 'c client_runner \<Rightarrow>
     (client_run_error + (server_welcome \<times> cbor_codec)) \<times> 'c client_runner" where
  "handle_welcome env auth bytes r =
     (let limits = cfg_frame_limits (cl_config env)
      in case cbor_decode (cl_deserialize env) (FrameLimits_codec limits Phase_Authenticated) bytes of
           Inl e \<Rightarrow> (Inl (CRun_Protocol (show_cbor_error e)), r)
         | Inr (Server_Welcome w) \<Rightarrow>
             (if wel_protocol_version w \<noteq> ProtocolVersion_CURRENT
              then (Inl (CRun_Protocol ''server selected an unsupported protocol version''), r)
              else if wel_server_id w \<noteq> cfg_server_id (cl_config env)
              then (Inl CRun_ServerIdentityMismatch, r)
              else case accept_credential env auth w r of
                     (Inl e, r) \<Rightarrow> (Inl e, r)
                   | (Inr _, r) \<Rightarrow>
                       (let maximum = min (scap_max_frame_bytes (wel_capabilities w)) (lim_post_auth limits)
                        in if maximum = 0
                           then (Inl (CRun_Protocol ''server advertised a zero-byte frame limit''), r)
                           else (Inr (w\<lparr>wel_issued_credential := None\<rparr>, CborCodec maximum), r)))
         | Inr _ \<Rightarrow>
             (Inl (CRun_Protocol ''server did not send welcome as its first frame''), r))"

definition next_delay :: "nat \<Rightarrow> nat \<Rightarrow> nat" where
  "next_delay current maximum = min (duration_saturating_mul current 2) maximum"

subsection \<open>The runner\<close>

text \<open>
  What the runner awaits: the connection, the welcome, the next input of a connection, or the end
  of a sleep of the given length, after which the loop goes on with the second delay. The last two
  are the ends: \<open>run\<close> has returned, or the task has panicked.
\<close>

datatype client_phase =
    Phase_Connecting client_authentication
  | Phase_Handshake client_authentication client_socket
  | Phase_Connected cbor_codec client_socket
  | Phase_Waiting nat nat
  | Phase_Returned "client_run_error + unit"
  | Phase_Panicked

record 'c client_machine =
  cm_runner :: "'c client_runner"
  cm_phase :: client_phase
  cm_delay :: nat

datatype (plugins only: code) client_input =
    Input_Command "client_command option"
  | Input_Connect "transport_error + client_socket"
  | Input_Socket "transport_error + socket_event"
  | Input_Slept

text \<open>The top of the loop of \<open>run\<close>.\<close>

definition begin_attempt :: "'c client_env \<Rightarrow> nat \<Rightarrow> 'c client_runner \<Rightarrow> 'c client_machine" where
  "begin_attempt env delay r =
     (case authentication env (set_status Status_Connecting r) of
        (Inl e, r) \<Rightarrow>
          \<lparr>cm_runner = stop_with_error e r, cm_phase = Phase_Returned (Inl e), cm_delay = delay\<rparr>
      | (Inr auth, r) \<Rightarrow> \<lparr>cm_runner = r, cm_phase = Phase_Connecting auth, cm_delay = delay\<rparr>)"

definition client_start :: "'c client_env \<Rightarrow> 'c client_runner \<Rightarrow> 'c client_machine" where
  "client_start env = begin_attempt env (initial_delay (cfg_reconnect (cl_config env)))"

definition wait_and_advance :: "'c client_env \<Rightarrow> nat \<Rightarrow> nat \<Rightarrow> 'c client_runner \<Rightarrow> 'c client_machine" where
  "wait_and_advance env wait delay r =
     \<lparr>cm_runner = r,
      cm_phase = Phase_Waiting wait (next_delay delay (maximum_delay (cfg_reconnect (cl_config env)))),
      cm_delay = delay\<rparr>"

definition connection_lost ::
  "'c client_env \<Rightarrow> string option \<Rightarrow> nat option \<Rightarrow> nat \<Rightarrow> 'c client_runner \<Rightarrow> 'c client_machine" where
  "connection_lost env reason after delay r =
     wait_and_advance env (case after of None \<Rightarrow> delay | Some d \<Rightarrow> d) delay
       (mark_pending_disconnected (disconnected reason r))"

definition stop_fatally :: "client_run_error \<Rightarrow> nat \<Rightarrow> 'c client_runner \<Rightarrow> 'c client_machine" where
  "stop_fatally e delay r =
     \<lparr>cm_runner = stop_with_error e r, cm_phase = Phase_Returned (Inl e), cm_delay = delay\<rparr>"

definition shut_down :: "nat \<Rightarrow> 'c client_runner \<Rightarrow> 'c client_machine" where
  "shut_down delay r =
     \<lparr>cm_runner = finish_shutdown r, cm_phase = Phase_Returned (Inr ()), cm_delay = delay\<rparr>"

definition panic :: "nat \<Rightarrow> 'c client_runner \<Rightarrow> 'c client_machine" where
  "panic delay r = \<lparr>cm_runner = r, cm_phase = Phase_Panicked, cm_delay = delay\<rparr>"

text \<open>A command while there is no connection; the phase stays unless the runner is to stop.\<close>

definition offline_turn :: "client_command option \<Rightarrow> 'c client_machine \<Rightarrow> 'c client_machine" where
  "offline_turn command m =
     (case handle_offline_command command (cm_runner m) of
        (True, r) \<Rightarrow> shut_down (cm_delay m) r
      | (False, r) \<Rightarrow> m\<lparr>cm_runner := r\<rparr>)"

text \<open>A connection was made: the hello is sent.\<close>

definition start_handshake ::
  "'c client_env \<Rightarrow> client_authentication \<Rightarrow> client_socket \<Rightarrow> 'c client_machine \<Rightarrow> 'c client_machine"
where
  "start_handshake env auth sock m =
     (let codec = FrameLimits_codec (cfg_frame_limits (cl_config env)) Phase_PreAuth
      in case send_frame env codec None (client_hello_frame env auth (cm_runner m)) (sock, cm_runner m) of
           (Inl (Failed_Transport e), sock, r) \<Rightarrow>
             connection_lost env (Some (transport_message e)) None (cm_delay m) r
         | (Inl Failed_Panic, sock, r) \<Rightarrow> panic (cm_delay m) r
         | (Inr _, sock, r) \<Rightarrow> m\<lparr>cm_runner := r, cm_phase := Phase_Handshake auth sock\<rparr>)"

text \<open>
  The welcome was accepted. When a subscription or a request cannot be sent, the runner waits and
  tries again with the delay it has just reset.
\<close>

definition start_session ::
  "'c client_env \<Rightarrow> server_welcome \<Rightarrow> cbor_codec \<Rightarrow> client_socket \<Rightarrow> 'c client_runner \<Rightarrow> 'c client_machine"
where
  "start_session env w codec sock r =
     (let delay = initial_delay (cfg_reconnect (cl_config env))
      in case initialize_connection env codec (sock, set_connected w r) of
           (Inl (Failed_Transport e), sock, r) \<Rightarrow>
             \<lparr>cm_runner = mark_pending_disconnected (disconnected (Some (transport_message e)) r),
              cm_phase = Phase_Waiting delay delay, cm_delay = delay\<rparr>
         | (Inl Failed_Panic, sock, r) \<Rightarrow> panic delay r
         | (Inr _, sock, r) \<Rightarrow>
             \<lparr>cm_runner = r, cm_phase = Phase_Connected codec sock, cm_delay = delay\<rparr>)"

fun handshake_turn ::
  "'c client_env \<Rightarrow> client_authentication \<Rightarrow> client_socket \<Rightarrow> transport_error + socket_event \<Rightarrow>
     'c client_machine \<Rightarrow> 'c client_machine" where
  "handshake_turn env auth sock (Inl e) m =
     connection_lost env (Some (transport_message e)) None (cm_delay m) (cm_runner m)"
| "handshake_turn env auth sock (Inr (Socket_Closed reason)) m =
     connection_lost env
       (Some (case reason of None \<Rightarrow> ''server closed during authentication'' | Some t \<Rightarrow> t))
       None (cm_delay m) (cm_runner m)"
| "handshake_turn env auth sock (Inr (Socket_Binary bytes)) m =
     (case handle_welcome env auth bytes (cm_runner m) of
        (Inl e, r) \<Rightarrow> stop_fatally e (cm_delay m) r
      | (Inr (w, codec), r) \<Rightarrow> start_session env w codec sock r)"

fun end_session ::
  "'c client_env \<Rightarrow> session_end \<Rightarrow> nat \<Rightarrow> 'c client_runner \<Rightarrow> 'c client_machine" where
  "end_session env End_Shutdown delay r = shut_down delay r"
| "end_session env (End_Reconnect reason after) delay r = connection_lost env reason after delay r"
| "end_session env (End_Fatal e) delay r = stop_fatally e delay r"
| "end_session env End_Panic delay r = panic delay r"

text \<open>One turn of the loop of \<open>run_connection\<close>.\<close>

definition continue_session ::
  "'c client_env \<Rightarrow> cbor_codec \<Rightarrow> session_end option \<times> 'c session \<Rightarrow> 'c client_machine \<Rightarrow>
     'c client_machine" where
  "continue_session env codec result m =
     (case result of
        (Some se, sock, r) \<Rightarrow> end_session env se (cm_delay m) r
      | (None, sock, r) \<Rightarrow> m\<lparr>cm_runner := r, cm_phase := Phase_Connected codec sock\<rparr>)"

fun connection_turn ::
  "'c client_env \<Rightarrow> cbor_codec \<Rightarrow> client_input \<Rightarrow> 'c session \<Rightarrow> session_end option \<times> 'c session" where
  "connection_turn env codec (Input_Command command) s =
     (case handle_connected_command env codec command s of
        (Inl e, s) \<Rightarrow> (Some (failed e), s)
      | (Inr stop, s) \<Rightarrow> (if stop then Some End_Shutdown else None, s))"
| "connection_turn env codec (Input_Socket (Inl e)) s =
     (Some (End_Reconnect (Some (transport_message e)) None), s)"
| "connection_turn env codec (Input_Socket (Inr (Socket_Closed reason))) s =
     (Some (End_Reconnect reason None), s)"
| "connection_turn env codec (Input_Socket (Inr (Socket_Binary bytes))) s =
     (case cbor_decode (cl_deserialize env) codec bytes of
        Inl e \<Rightarrow> (Some (End_Fatal (CRun_Protocol (show_cbor_error e))), s)
      | Inr frame \<Rightarrow> handle_server_frame env codec frame s)"
| "connection_turn env codec _ s = (None, s)"

text \<open>One input; \<open>None\<close> when the runner does not await it.\<close>

fun run_turn :: "'c client_env \<Rightarrow> client_input \<Rightarrow> 'c client_machine \<Rightarrow> 'c client_machine option" where
  "run_turn env (Input_Command command) m =
     (case cm_phase m of
        Phase_Returned result \<Rightarrow> None
      | Phase_Panicked \<Rightarrow> None
      | Phase_Connected codec sock \<Rightarrow>
          Some (continue_session env codec
            (connection_turn env codec (Input_Command command) (sock, cm_runner m)) m)
      | _ \<Rightarrow> Some (offline_turn command m))"
| "run_turn env (Input_Connect result) m =
     (case cm_phase m of
        Phase_Connecting auth \<Rightarrow>
          Some (case result of
            Inl e \<Rightarrow> wait_and_advance env (cm_delay m) (cm_delay m)
              (disconnected (Some (transport_message e)) (cm_runner m))
          | Inr sock \<Rightarrow> start_handshake env auth sock m)
      | _ \<Rightarrow> None)"
| "run_turn env (Input_Socket event) m =
     (case cm_phase m of
        Phase_Handshake auth sock \<Rightarrow> Some (handshake_turn env auth sock event m)
      | Phase_Connected codec sock \<Rightarrow>
          Some (continue_session env codec
            (connection_turn env codec (Input_Socket event) (sock, cm_runner m)) m)
      | _ \<Rightarrow> None)"
| "run_turn env Input_Slept m =
     (case cm_phase m of
        Phase_Waiting wait delay \<Rightarrow> Some (begin_attempt env delay (cm_runner m))
      | _ \<Rightarrow> None)"

subsection \<open>The handle\<close>

text \<open>
  A client: its runner, the channel of commands, the calls made so far and whether a handle is
  left. A call that is answered at once has no number.
\<close>

record 'c client =
  ct_machine :: "'c client_machine"
  ct_commands :: "client_command list"
  ct_calls :: nat
  ct_handles :: bool

definition ended :: "'c client_machine \<Rightarrow> bool" where
  "ended m = (case cm_phase m of Phase_Returned result \<Rightarrow> True | Phase_Panicked \<Rightarrow> True | _ \<Rightarrow> False)"

definition ClientRunner_new :: "id_generator \<Rightarrow> 'c \<Rightarrow> 'c client_runner" where
  "ClientRunner_new ids credentials =
     \<lparr>cr_credentials = credentials, cr_state = replica_default, cr_status = Status_Disconnected None,
      cr_ids = ids, cr_subscribers = [], cr_desired = {}, cr_pending = [], cr_response_index = [],
      cr_next_pending = 0, cr_active_credential = None, cr_answers = [], cr_sent = []\<rparr>"

definition client_new :: "'c client_env \<Rightarrow> id_generator \<Rightarrow> 'c \<Rightarrow> 'c client" where
  "client_new env ids credentials =
     \<lparr>ct_machine = client_start env (ClientRunner_new ids credentials), ct_commands = [],
      ct_calls = 0, ct_handles = True\<rparr>"

definition on_runner :: "('c client_runner \<Rightarrow> 'c client_runner) \<Rightarrow> 'c client \<Rightarrow> 'c client" where
  "on_runner f c = c\<lparr>ct_machine := (ct_machine c)\<lparr>cm_runner := f (cm_runner (ct_machine c))\<rparr>\<rparr>"

definition handle_events :: "'c client_env \<Rightarrow> 'c client \<Rightarrow> 'c client" where
  "handle_events env = on_runner (\<lambda>r.
     r\<lparr>cr_subscribers := cr_subscribers r @
        [\<lparr>evc_queue = [CEvent_ConnectionChanged (cr_status r)],
          evc_buffer = max (cfg_event_subscriber_capacity (cl_config env)) 1, evc_receiver = True\<rparr>]\<rparr>)"

definition unbounded_send :: "client_command \<Rightarrow> 'c client \<Rightarrow> (client_request_error + unit) \<times> 'c client" where
  "unbounded_send command c =
     (if ended (ct_machine c) then (Inl CReq_ClientStopped, c)
      else (Inr (), c\<lparr>ct_commands := ct_commands c @ [command]\<rparr>))"

definition send_call :: "(nat \<Rightarrow> client_command) \<Rightarrow> 'c client \<Rightarrow> (client_request_error + nat) \<times> 'c client" where
  "send_call command c =
     (case unbounded_send (command (ct_calls c)) c of
        (Inl e, c) \<Rightarrow> (Inl e, c)
      | (Inr _, c) \<Rightarrow> (Inr (ct_calls c), c\<lparr>ct_calls := ct_calls c + 1\<rparr>))"

definition next_operation_id :: "'c client \<Rightarrow> (client_request_error + operation_id) \<times> 'c client" where
  "next_operation_id c =
     (let (text, ids) = id_next ''operation'' (cr_ids (cm_runner (ct_machine c)))
      in (rbind (map_err (\<lambda>_. CReq_IdentifierSpaceExhausted) text) (\<lambda>t.
            map_err (\<lambda>_. CReq_IdentifierSpaceExhausted) (OperationId_new t)),
          on_runner (\<lambda>r. r\<lparr>cr_ids := ids\<rparr>) c))"

definition validate_operation_id ::
  "control_request \<Rightarrow> operation_id option \<Rightarrow> client_request_error + unit" where
  "validate_operation_id request oid =
     (case (is_mutating request, oid \<noteq> None) of
        (True, False) \<Rightarrow> Inl (CReq_InvalidRequest ''mutating requests require an operation ID'')
      | (False, True) \<Rightarrow> Inl (CReq_InvalidRequest ''read-only requests cannot carry an operation ID'')
      | _ \<Rightarrow> Inr ())"

definition request_with_operation_id ::
  "control_request \<Rightarrow> operation_id option \<Rightarrow> 'c client \<Rightarrow> (client_request_error + nat) \<times> 'c client"
where
  "request_with_operation_id request oid c =
     (case validate_operation_id request oid of
        Inl e \<Rightarrow> (Inl e, c)
      | Inr _ \<Rightarrow> send_call (Command_Request (Pending_Request request) oid) c)"

definition request_call :: "control_request \<Rightarrow> 'c client \<Rightarrow> (client_request_error + nat) \<times> 'c client" where
  "request_call request c =
     (if is_mutating request
      then (case next_operation_id c of
              (Inl e, c) \<Rightarrow> (Inl e, c)
            | (Inr oid, c) \<Rightarrow> request_with_operation_id request (Some oid) c)
      else request_with_operation_id request None c)"

definition respond_to_ui ::
  "agent_id \<Rightarrow> lease_holder_id \<Rightarrow> extension_ui_response_frame \<Rightarrow> 'c client \<Rightarrow>
     (client_request_error + nat) \<times> 'c client" where
  "respond_to_ui a holder response c =
     (case next_operation_id c of
        (Inl e, c) \<Rightarrow> (Inl e, c)
      | (Inr oid, c) \<Rightarrow> send_call (Command_Request (Pending_UiResponse a holder response) (Some oid)) c)"

definition shutdown_call :: "'c client \<Rightarrow> (client_request_error + nat) \<times> 'c client" where
  "shutdown_call = send_call Command_Shutdown"

datatype (plugins only: code) client_call =
    Call_Request control_request
  | Call_RequestWith control_request "operation_id option"
  | Call_RespondToUi agent_id lease_holder_id extension_ui_response_frame
  | Call_Subscribe agent_id
  | Call_Unsubscribe agent_id
  | Call_Shutdown
  | Call_Events

text \<open>A call of the handle: the error with which it returns at once, or the call that waits.\<close>

fun perform_call ::
  "'c client_env \<Rightarrow> client_call \<Rightarrow> 'c client \<Rightarrow> (client_request_error + nat option) \<times> 'c client" where
  "perform_call env (Call_Request request) c = apfst (map_sum id Some) (request_call request c)"
| "perform_call env (Call_RequestWith request oid) c =
     apfst (map_sum id Some) (request_with_operation_id request oid c)"
| "perform_call env (Call_RespondToUi a holder response) c =
     apfst (map_sum id Some) (respond_to_ui a holder response c)"
| "perform_call env (Call_Subscribe a) c =
     apfst (map_sum id (\<lambda>_. None)) (unbounded_send (Command_Subscribe a) c)"
| "perform_call env (Call_Unsubscribe a) c =
     apfst (map_sum id (\<lambda>_. None)) (unbounded_send (Command_Unsubscribe a) c)"
| "perform_call env Call_Shutdown c = apfst (map_sum id Some) (shutdown_call c)"
| "perform_call env Call_Events c = (Inr None, handle_events env c)"

subsection \<open>The client\<close>

text \<open>
  With the runner its channels are dropped: the callers whose requests are still pending or still
  in the channel of commands are told that the client has stopped.
\<close>

fun dropped_answer :: "client_command \<Rightarrow> (nat \<times> client_answer) list" where
  "dropped_answer (Command_Request payload oid call) =
     [(call, Answer_Response (Inl CReq_ClientStopped))]"
| "dropped_answer (Command_Shutdown call) = [(call, Answer_Shutdown (Inl CReq_ClientStopped))]"
| "dropped_answer _ = []"

definition drop_runner :: "'c client \<Rightarrow> 'c client" where
  "drop_runner c =
     (on_runner (\<lambda>r. let r = client_fail_pending CReq_ClientStopped r
        in r\<lparr>cr_answers := cr_answers r @ concat (map dropped_answer (ct_commands c))\<rparr>) c)
       \<lparr>ct_commands := []\<rparr>"

datatype (plugins only: code) client_action =
    Do_Call client_call
  | Do_DropHandles
  | Do_Command
  | Do_Input client_input

definition after_turn :: "'c client_machine \<Rightarrow> 'c client \<Rightarrow> 'c client" where
  "after_turn m c = (let c = c\<lparr>ct_machine := m\<rparr> in if ended m then drop_runner c else c)"

fun client_act :: "'c client_env \<Rightarrow> client_action \<Rightarrow> 'c client \<Rightarrow> 'c client option" where
  "client_act env (Do_Call call) c =
     (if ct_handles c then Some (snd (perform_call env call c)) else None)"
| "client_act env Do_DropHandles c = Some (c\<lparr>ct_handles := False\<rparr>)"
| "client_act env Do_Command c =
     (case ct_commands c of
        command # commands \<Rightarrow>
          map_option (\<lambda>m. after_turn m (c\<lparr>ct_commands := commands\<rparr>))
            (run_turn env (Input_Command (Some command)) (ct_machine c))
      | [] \<Rightarrow>
          (if ct_handles c then None
           else map_option (\<lambda>m. after_turn m c) (run_turn env (Input_Command None) (ct_machine c))))"
| "client_act env (Do_Input input) c =
     (case input of
        Input_Command command \<Rightarrow> None
      | _ \<Rightarrow> map_option (\<lambda>m. after_turn m c) (run_turn env input (ct_machine c)))"

fun client_acts :: "'c client_env \<Rightarrow> client_action list \<Rightarrow> 'c client \<Rightarrow> 'c client option" where
  "client_acts env [] c = Some c"
| "client_acts env (a # as) c = Option.bind (client_act env a c) (client_acts env as)"

end
