(* ===== verification/Client_Invariants.thy ===== *)
theory Client_Invariants
  imports Client "HOL-Library.Multiset"
begin

section \<open>Invariants of the client\<close>

text \<open>
  What every turn of the runner keeps: the calls it has taken are either pending or answered, never
  both and never twice; a request identifier leads to the pending request it was last sent with;
  what is sent for a call is always its own request; no request identifier is used twice.
\<close>

subsection \<open>The values of an ordered map\<close>

lemma bmap_get_None_above: "sorted_wrt (<) (k # map fst m) \<Longrightarrow> bmap_get m k = None"
  for k :: "'k::linorder"
  by (induction m) auto

lemma mset_insert_new:
  "bmap_get m k = None \<Longrightarrow> mset (bmap_values (bmap_insert k v m)) = add_mset v (mset (bmap_values m))"
  by (induction k v m rule: bmap_insert.induct) (auto simp: bmap_values_def split: if_splits)

lemma mset_insert_old:
  "bmap_invar m \<Longrightarrow> bmap_get m k = Some old \<Longrightarrow>
     add_mset old (mset (bmap_values (bmap_insert k v m))) = add_mset v (mset (bmap_values m))"
proof (induction k v m rule: bmap_insert.induct)
  case (2 k v k' v' m)
  have "bmap_get m k = None" if "k < k'"
    using 2(2) that by (intro bmap_get_None_above) (auto simp: bmap_invar_def)
  with 2 show ?case by (auto simp: bmap_values_def bmap_invar_def split: if_splits)
qed simp

lemma mset_remove:
  "bmap_invar m \<Longrightarrow> bmap_get m k = Some old \<Longrightarrow>
     add_mset old (mset (bmap_values (bmap_remove k m))) = mset (bmap_values m)"
proof (induction m)
  case (Cons kv m)
  have "bmap_remove k m = m" if "bmap_get m k = None"
    using that by (induction m) (auto simp: bmap_remove_def split: if_splits)
  moreover have "bmap_get m k = None" if "fst kv = k"
    using Cons.prems(1) that by (intro bmap_get_None_above) (simp add: bmap_invar_def)
  ultimately show ?case
    using Cons by (cases kv) (auto simp: bmap_values_def bmap_remove_def bmap_invar_def split: if_splits)
qed simp

subsection \<open>The books\<close>

text \<open>The calls that were told something, and those that are still pending.\<close>

definition books :: "'c client_runner \<Rightarrow> nat multiset" where
  "books r = mset (map fst (cr_answers r)) + image_mset pend_response (mset (bmap_values (cr_pending r)))"

text \<open>What most of the runner's operations leave alone.\<close>

definition core ::
  "'c client_runner \<Rightarrow> (u64, pending_request) bmap \<times> (request_id, u64) bmap \<times> u64 \<times> id_generator \<times>
     (nat \<times> client_answer) list \<times> (nat option \<times> client_frame) list" where
  "core r = (cr_pending r, cr_response_index r, cr_next_pending r, cr_ids r, cr_answers r, cr_sent r)"

lemma core_broadcast [simp]: "core (broadcast e r) = core r"
  by (simp add: core_def broadcast_def)

lemma core_set_status [simp]:
  "core (set_status st r) = core r" "core (set_connected w r) = core r"
  "core (disconnected reason r) = core r" "core (finish_shutdown r) = core r"
  by (simp_all add: set_status_def set_connected_def disconnected_def finish_shutdown_def)
    (simp_all add: core_def)

lemma core_updates [simp]:
  "core (r\<lparr>cr_state := st\<rparr>) = core r" "core (r\<lparr>cr_desired := d\<rparr>) = core r"
  "core (r\<lparr>cr_credentials := cs\<rparr>) = core r" "core (r\<lparr>cr_active_credential := c\<rparr>) = core r"
  "core (r\<lparr>cr_subscribers := ss\<rparr>) = core r"
  by (simp_all add: core_def)

lemma core_authentication [simp]: "core (snd (authentication env r)) = core r"
  by (auto simp: authentication_def split: option.split authentication_source.split sum.split)

lemma core_accept_credential [simp]: "core (snd (accept_credential env auth w r)) = core r"
  by (auto simp: accept_credential_def core_def
      split: client_authentication.split option.split sum.split prod.split)

lemma accept_credential_core: "accept_credential env auth w r = (x, r') \<Longrightarrow> core r' = core r"
  using core_accept_credential [of env auth w r] by (metis snd_conv)

lemma core_handle_welcome [simp]: "core (snd (handle_welcome env auth bytes r)) = core r"
  by (auto simp: handle_welcome_def Let_def dest: accept_credential_core
      split: sum.split server_frame.split prod.split)

subsection \<open>What the runner keeps\<close>

definition linked :: "'c client_runner \<Rightarrow> bool" where
  "linked r \<longleftrightarrow> bmap_invar (cr_pending r) \<and> bmap_invar (cr_response_index r) \<and>
     (\<forall>rid key. bmap_get (cr_response_index r) rid = Some key \<longrightarrow>
        (\<exists>p. bmap_get (cr_pending r) key = Some p \<and> pend_sent_request_id p = Some rid)) \<and>
     (\<forall>key p rid. bmap_get (cr_pending r) key = Some p \<longrightarrow> pend_sent_request_id p = Some rid \<longrightarrow>
        (\<exists>f. pending_frame (pend_payload p) (pend_operation_id p) rid = Some f \<and>
             (Some (pend_response p), f) \<in> set (cr_sent r)))"

definition keys_numbered :: "nat \<Rightarrow> 'c client_runner \<Rightarrow> bool" where
  "keys_numbered m r \<longleftrightarrow> cr_next_pending r = of_nat m \<and>
     (\<forall>key. bmap_get (cr_pending r) key \<noteq> None \<longrightarrow> unat key < m)"

text \<open>What each call asked for.\<close>

type_synonym requests_made = "nat \<Rightarrow> pending_payload \<times> operation_id option"

fun well_formed_request :: "pending_payload \<times> operation_id option \<Rightarrow> bool" where
  "well_formed_request (Pending_Request request, oid) \<longleftrightarrow> (is_mutating request \<longleftrightarrow> oid \<noteq> None)"
| "well_formed_request (Pending_UiResponse a holder response, oid) \<longleftrightarrow> oid \<noteq> None"

fun frame_request_id :: "client_frame \<Rightarrow> request_id option" where
  "frame_request_id (Client_Request e) = Some (env_request_id e)"
| "frame_request_id (Client_UiResponse u) = Some (uir_request_id u)"
| "frame_request_id _ = None"

definition calls_recorded :: "requests_made \<Rightarrow> 'c client_runner \<Rightarrow> bool" where
  "calls_recorded cmd r \<longleftrightarrow>
     (\<forall>key p. bmap_get (cr_pending r) key = Some p \<longrightarrow>
        cmd (pend_response p) = (pend_payload p, pend_operation_id p) \<and>
        well_formed_request (pend_payload p, pend_operation_id p)) \<and>
     (\<forall>call f. (Some call, f) \<in> set (cr_sent r) \<longrightarrow> well_formed_request (cmd call) \<and>
        (\<exists>rid. pending_frame (fst (cmd call)) (snd (cmd call)) rid = Some f)) \<and>
     (\<forall>f. (None, f) \<in> set (cr_sent r) \<longrightarrow> frame_request_id f = None)"

definition request_id_of :: "id_generator \<Rightarrow> nat \<Rightarrow> request_id" where
  "request_id_of g k = RequestId (''request-'' @ idg_prefix g @ ''-'' @ show_nat k)"

definition sent_ids :: "'c client_runner \<Rightarrow> request_id list" where
  "sent_ids r = List.map_filter (\<lambda>(call, f). frame_request_id f) (cr_sent r)"

definition fresh_ids :: "'c client_runner \<Rightarrow> bool" where
  "fresh_ids r \<longleftrightarrow> distinct (sent_ids r) \<and>
     set (sent_ids r) \<subseteq> request_id_of (cr_ids r) ` {..< unat (idg_counter (cr_ids r))}"

text \<open>Nothing is sent for a call that is neither pending nor answered.\<close>

definition booked :: "'c client_runner \<Rightarrow> bool" where
  "booked r \<longleftrightarrow> (\<forall>call f. (Some call, f) \<in> set (cr_sent r) \<longrightarrow> call \<in># books r)"

lemma booked_mono:
  "booked r \<Longrightarrow> cr_sent r' = cr_sent r \<Longrightarrow> books r \<subseteq># books r' \<Longrightarrow> booked r'"
  by (auto simp: booked_def dest: mset_subset_eqD)

definition runner_inv :: "nat \<Rightarrow> requests_made \<Rightarrow> 'c client_runner \<Rightarrow> bool" where
  "runner_inv m cmd r \<longleftrightarrow> linked r \<and> keys_numbered m r \<and> calls_recorded cmd r \<and> fresh_ids r \<and> booked r"

text \<open>Between connections nothing is in flight.\<close>

definition idle :: "'c client_runner \<Rightarrow> bool" where
  "idle r \<longleftrightarrow> cr_response_index r = [] \<and>
     (\<forall>p. p \<in> set (bmap_values (cr_pending r)) \<longrightarrow> pend_sent_request_id p = None)"

lemmas runner_inv_defs = runner_inv_def linked_def keys_numbered_def calls_recorded_def fresh_ids_def sent_ids_def

lemma core_inv:
  assumes "core r' = core r"
  shows "runner_inv m cmd r' = runner_inv m cmd r" "books r' = books r" "idle r' = idle r"
  using assms by (simp_all add: runner_inv_defs booked_def books_def idle_def core_def)

subsection \<open>Answers\<close>

lemma tell_inv [simp]:
  "runner_inv m cmd r \<Longrightarrow> runner_inv m cmd (tell call answer r)" "idle (tell call answer r) = idle r"
  "books (tell call answer r) = add_mset call (books r)"
  by (simp_all add: tell_def runner_inv_defs booked_def idle_def books_def)

lemma client_fail_pending_inv [simp]:
  "runner_inv m cmd r \<Longrightarrow> runner_inv m cmd (client_fail_pending e r)" "idle (client_fail_pending e r)"
  "books (client_fail_pending e r) = books r" "cr_pending (client_fail_pending e r) = []"
  by (auto simp: client_fail_pending_def runner_inv_defs booked_def idle_def books_def bmap_values_def comp_def
      multiset.map_comp)

lemma bmap_get_disconnected:
  "bmap_get (cr_pending (mark_pending_disconnected r)) key =
     map_option (\<lambda>p. p\<lparr>pend_sent_request_id := None\<rparr>) (bmap_get (cr_pending r) key)"
  by (simp add: mark_pending_disconnected_def map_of_map)

lemma mark_pending_disconnected_idle [simp]:
  "idle (mark_pending_disconnected r)" "books (mark_pending_disconnected r) = books r"
  by (auto simp: mark_pending_disconnected_def idle_def books_def bmap_values_def comp_def
      case_prod_beta multiset.map_comp)

lemma mark_pending_disconnected_inv [simp]:
  assumes "runner_inv m cmd r"
  shows "runner_inv m cmd (mark_pending_disconnected r)"
proof -
  have "map fst (cr_pending (mark_pending_disconnected r)) = map fst (cr_pending r)"
    "cr_response_index (mark_pending_disconnected r) = []"
    "cr_sent (mark_pending_disconnected r) = cr_sent r" "cr_ids (mark_pending_disconnected r) = cr_ids r"
    "cr_next_pending (mark_pending_disconnected r) = cr_next_pending r"
    by (auto simp: mark_pending_disconnected_def)
  moreover from this have "booked (mark_pending_disconnected r)"
    using assms by - (rule booked_mono [of r], simp_all add: runner_inv_def)
  ultimately show ?thesis
    using assms by (simp add: runner_inv_defs bmap_get_disconnected bmap_invar_def del: set_map) auto
qed

lemma keys_numbered_fresh: "keys_numbered m r \<Longrightarrow> m < 2 ^ 64 \<Longrightarrow> bmap_get (cr_pending r) (cr_next_pending r) = None"
  by (auto simp: keys_numbered_def unat_of_nat)

lemma insert_pending_inv:
  assumes "runner_inv m cmd r" "m < 2 ^ 64" "cmd call = (payload, oid)" "well_formed_request (payload, oid)"
    and "insert_pending payload oid call r = (key, r')"
  shows "runner_inv (Suc m) cmd r'" "books r' = add_mset call (books r)" "idle r \<Longrightarrow> idle r'"
    "bmap_get (cr_pending r') key = Some \<lparr>pend_payload = payload, pend_operation_id = oid,
       pend_sent_request_id = None, pend_response = call\<rparr>"
proof -
  have fresh: "bmap_get (cr_pending r) (cr_next_pending r) = None"
    using assms(1,2) keys_numbered_fresh unfolding runner_inv_def by blast
  then have r': "key = cr_next_pending r" "r' = r\<lparr>cr_next_pending := key + 1, cr_pending := bmap_insert key
      \<lparr>pend_payload = payload, pend_operation_id = oid, pend_sent_request_id = None,
       pend_response = call\<rparr> (cr_pending r)\<rparr>"
    using assms(5) by (auto simp: insert_pending_def Let_def)
  have m: "unat (cr_next_pending r) = m"
    using assms(1,2) by (simp add: runner_inv_def keys_numbered_def unat_of_nat)
  have "key' \<noteq> key" if "bmap_get (cr_response_index r) rid = Some key'" for rid key'
    using assms(1) fresh that r'(1) by (fastforce simp: runner_inv_def linked_def)
  then have "linked r'"
    using assms(1) r' by (auto simp: runner_inv_def linked_def bmap_simps)
  moreover have "keys_numbered (Suc m) r'"
    using assms(1) r' m by (auto simp: runner_inv_def keys_numbered_def bmap_simps less_Suc_eq)
  moreover have "calls_recorded cmd r'" "fresh_ids r'"
    using assms(1,3,4) r' by (auto simp: runner_inv_def calls_recorded_def fresh_ids_def sent_ids_def bmap_simps)
  moreover show b: "books r' = add_mset call (books r)"
    by (simp add: r' books_def mset_insert_new [OF fresh])
  moreover have "booked r'"
    using assms(1) r' b by - (rule booked_mono [of r], simp_all add: runner_inv_def)
  ultimately show "runner_inv (Suc m) cmd r'" by (simp add: runner_inv_def)
  show "idle r \<Longrightarrow> idle r'"
    using mset_insert_new [OF fresh] by (auto simp: r' idle_def simp flip: set_mset_mset)
  show "bmap_get (cr_pending r') key = Some \<lparr>pend_payload = payload, pend_operation_id = oid,
       pend_sent_request_id = None, pend_response = call\<rparr>"
    by (simp add: r' bmap_simps)
qed

lemma complete_response_cases:
  assumes "linked r"
  obtains (unknown) e where "bmap_get (cr_response_index r) (rsp_request_id response) = None"
      "complete_response response r = broadcast e r"
  | (known) key p x where "bmap_get (cr_response_index r) (rsp_request_id response) = Some key"
      "bmap_get (cr_pending r) key = Some p" "pend_sent_request_id p = Some (rsp_request_id response)"
      "complete_response response r = tell (pend_response p) x
         (r\<lparr>cr_response_index := bmap_remove (rsp_request_id response) (cr_response_index r),
            cr_pending := bmap_remove key (cr_pending r)\<rparr>)"
  using assms by (fastforce simp: complete_response_def linked_def Let_def split: option.splits)

lemma linked_inj:
  assumes "linked r" "bmap_get (cr_response_index r) rid = Some key" "bmap_get (cr_response_index r) rid' = Some key"
  shows "rid = rid'"
  using assms unfolding linked_def by (metis option.inject)

lemma complete_response_inv:
  assumes "runner_inv m cmd r"
  shows "runner_inv m cmd (complete_response response r)" "books (complete_response response r) = books r"
proof -
  have l: "linked r" using assms by (simp add: runner_inv_def)
  then have "runner_inv m cmd (complete_response response r) \<and> books (complete_response response r) = books r"
  proof (cases rule: complete_response_cases [where response = response])
    case (known key p x)
    let ?r = "r\<lparr>cr_response_index := bmap_remove (rsp_request_id response) (cr_response_index r),
      cr_pending := bmap_remove key (cr_pending r)\<rparr>"
    have "linked ?r"
      using l linked_inj [OF l known(1)] by (auto simp: linked_def bmap_simps split: if_splits)
    moreover have "add_mset (pend_response p) (books ?r) = books r"
      using mset_remove [OF _ known(2)] l
      by (simp add: books_def linked_def flip: union_mset_add_mset_right image_mset_add_mset)
    moreover have "booked (tell (pend_response p) x ?r)"
      using assms calculation(2) by - (rule booked_mono [of r], simp_all add: runner_inv_def tell_def books_def)
    ultimately show ?thesis
      using assms by (auto simp: known(4) tell_def runner_inv_def linked_def keys_numbered_def calls_recorded_def
          fresh_ids_def sent_ids_def books_def bmap_simps)
  qed (simp_all add: core_inv [OF core_broadcast] assms)
  then show "runner_inv m cmd (complete_response response r)" "books (complete_response response r) = books r"
    by simp_all
qed

subsection \<open>Identifiers\<close>

lemma id_next_cases:
  obtains (exhausted) "id_next kind g = (Inl IdGen_Exhausted, g)"
  | (issued) c where "id_next kind g =
       (Inr (kind @ ''-'' @ idg_prefix g @ ''-'' @ show_nat (unat (idg_counter g))), g\<lparr>idg_counter := c\<rparr>)"
      "unat c = Suc (unat (idg_counter g))"
proof (cases "checked_add (idg_counter g) 1")
  case None
  then show thesis using exhausted by (simp add: id_next_def)
next
  case (Some c)
  then have "unat c = Suc (unat (idg_counter g))" by (simp add: arith_model)
  with Some show thesis using issued by (simp add: id_next_def show_word_def)
qed

lemma request_id_of_inj [simp]: "request_id_of g k = request_id_of g k' \<longleftrightarrow> k = k'"
  by (simp add: request_id_of_def)

lemma request_id_of_counter [simp]: "request_id_of (g\<lparr>idg_counter := c\<rparr>) = request_id_of g"
  by (simp add: request_id_of_def fun_eq_iff)

lemma runner_inv_counter:
  assumes "runner_inv m cmd r" "unat (idg_counter (cr_ids r)) \<le> unat c"
  shows "runner_inv m cmd (r\<lparr>cr_ids := (cr_ids r)\<lparr>idg_counter := c\<rparr>\<rparr>)"
proof -
  have "booked (r\<lparr>cr_ids := (cr_ids r)\<lparr>idg_counter := c\<rparr>\<rparr>)"
    using assms(1) by (simp add: runner_inv_def booked_def books_def)
  then show ?thesis using assms by (fastforce simp: runner_inv_defs)
qed

lemma next_request_id_cases:
  obtains (exhausted) e where "next_request_id r = (Inl e, r)"
  | (issued) c where "next_request_id r =
       (Inr (request_id_of (cr_ids r) (unat (idg_counter (cr_ids r)))),
        r\<lparr>cr_ids := (cr_ids r)\<lparr>idg_counter := c\<rparr>\<rparr>)"
      "unat c = Suc (unat (idg_counter (cr_ids r)))"
proof (cases rule: id_next_cases [of "''request''" "cr_ids r"])
  case exhausted
  then show thesis using that(1) by (simp add: next_request_id_def)
next
  case (issued c)
  then show thesis
    using that(2) by (simp add: next_request_id_def RequestId_new_def string_identifier_new_def request_id_of_def)
qed

subsection \<open>Sending\<close>

lemma send_frame_cases:
  assumes "send_frame env codec call frame (sock, r) = (x, sock', r')"
  obtains (lost) e where "x = Inl (Failed_Transport e)" "r' = r"
  | (taken) "x = Inr ()" "r' = r\<lparr>cr_sent := cr_sent r @ [(call, frame)]\<rparr>"
  using assms by (auto simp: send_frame_def split: sum.splits prod.splits)

lemma map_filter_append [simp]: "List.map_filter f (xs @ ys) = List.map_filter f xs @ List.map_filter f ys"
  by (simp add: List.map_filter_def)

text \<open>What a send that is not for a call leaves alone.\<close>

definition sent_only :: "'c client_runner \<Rightarrow> 'c client_runner \<Rightarrow> bool" where
  "sent_only r r' \<longleftrightarrow> (\<exists>fs. r' = r\<lparr>cr_sent := cr_sent r @ fs\<rparr> \<and>
     (\<forall>(call, f) \<in> set fs. call = None \<and> frame_request_id f = None))"

lemma sent_only_refl [simp]: "sent_only r r"
  unfolding sent_only_def by (intro exI [of _ "[]"]) simp

lemma sent_only_trans:
  assumes "sent_only r r'" "sent_only r' r''"
  shows "sent_only r r''"
proof -
  obtain fs fs' where "r' = r\<lparr>cr_sent := cr_sent r @ fs\<rparr>" "r'' = r'\<lparr>cr_sent := cr_sent r' @ fs'\<rparr>"
    "\<forall>(call, f) \<in> set (fs @ fs'). call = None \<and> frame_request_id f = None"
    using assms unfolding sent_only_def by fastforce
  then show ?thesis unfolding sent_only_def by (intro exI [of _ "fs @ fs'"]) simp
qed

lemma sent_only_inv:
  assumes "sent_only r r'"
  shows "runner_inv m cmd r \<Longrightarrow> runner_inv m cmd r'" "books r' = books r" "idle r \<Longrightarrow> idle r'"
    "cr_pending r' = cr_pending r"
proof -
  obtain fs where r': "r' = r\<lparr>cr_sent := cr_sent r @ fs\<rparr>"
    and fs: "\<forall>(call, f) \<in> set fs. call = None \<and> frame_request_id f = None"
    using assms by (auto simp: sent_only_def)
  have "List.map_filter (\<lambda>(call, f). frame_request_id f) fs = []"
    using fs by (induction fs) (auto simp: List.map_filter_simps split: prod.splits)
  moreover have new: "(Some call, f) \<notin> set fs" "(None, f) \<in> set fs \<Longrightarrow> frame_request_id f = None" for call f
    using fs by auto
  moreover have "booked r \<Longrightarrow> booked r'" using new(1) by (simp add: r' booked_def books_def)
  ultimately show "runner_inv m cmd r \<Longrightarrow> runner_inv m cmd r'"
    by (simp add: r' runner_inv_defs)
qed (use assms in \<open>auto simp: sent_only_def books_def idle_def\<close>)

lemma send_frame_only:
  "send_frame env codec None frame (sock, r) = (x, sock', r') \<Longrightarrow> frame_request_id frame = None \<Longrightarrow>
     sent_only r r' \<and> x \<noteq> Inl Failed_Panic"
  by (erule send_frame_cases) (auto simp: sent_only_def)

lemma send_subscription_only:
  "send_subscription env codec resume a (sock, r) = (x, sock', r') \<Longrightarrow>
     sent_only r r' \<and> x \<noteq> Inl Failed_Panic"
  unfolding send_subscription_def prod.case by (erule send_frame_only) simp

lemma try_each_subscriptions:
  "try_each (send_subscription env codec resume) as (sock, r) = (x, sock', r') \<Longrightarrow>
     sent_only r r' \<and> x \<noteq> Inl Failed_Panic"
proof (induction as arbitrary: sock r)
  case (Cons a as)
  obtain y sock1 r1 where y: "send_subscription env codec resume a (sock, r) = (y, sock1, r1)"
    by (metis prod_cases3)
  from send_subscription_only [OF y] Cons y show ?case
    by (cases y) (auto intro: sent_only_trans)
qed auto

lemma resubscribe_only:
  "resubscribe env codec a (sock, r) = (x, sock', r') \<Longrightarrow> sent_only r r' \<and> x \<noteq> Some End_Panic"
  using send_subscription_only [of env codec False a sock r]
  by (fastforce simp: resubscribe_def split: prod.splits sum.splits elim: failed.elims)

lemma image_insert_old:
  "bmap_invar m \<Longrightarrow> bmap_get m k = Some old \<Longrightarrow> f v = f old \<Longrightarrow>
     image_mset f (mset (bmap_values (bmap_insert k v m))) = image_mset f (mset (bmap_values m))"
  using arg_cong [OF mset_insert_old [of m k old v], of "image_mset f"] by simp

lemma well_formed_frame:
  "well_formed_request (payload, oid) \<Longrightarrow>
     \<exists>f. pending_frame payload oid rid = Some f \<and> frame_request_id f = Some rid"
  by (cases payload; cases oid) auto

lemma send_pending_inv:
  assumes "runner_inv m cmd r" "bmap_get (cr_pending r) key = Some p" "pend_sent_request_id p = None"
    and "send_pending env codec key (sock, r) = (x, sock', r')"
  shows "runner_inv m cmd r'" "books r' = books r" "x \<noteq> Inl Failed_Panic"
    "\<forall>key'. key' \<noteq> key \<longrightarrow> bmap_get (cr_pending r') key' = bmap_get (cr_pending r) key'"
    "\<forall>key'. bmap_get (cr_pending r') key' = None \<longleftrightarrow> bmap_get (cr_pending r) key' = None"
proof -
  have "runner_inv m cmd r' \<and> books r' = books r \<and> x \<noteq> Inl Failed_Panic \<and>
    (\<forall>key'. key' \<noteq> key \<longrightarrow> bmap_get (cr_pending r') key' = bmap_get (cr_pending r) key') \<and>
    (\<forall>key'. bmap_get (cr_pending r') key' = None \<longleftrightarrow> bmap_get (cr_pending r) key' = None)"
  proof (cases rule: next_request_id_cases [of r])
    case (exhausted e)
    with assms show ?thesis by (auto simp: send_pending_def)
  next
    case (issued c)
    let ?rid = "request_id_of (cr_ids r) (unat (idg_counter (cr_ids r)))"
    let ?r1 = "r\<lparr>cr_ids := (cr_ids r)\<lparr>idg_counter := c\<rparr>\<rparr>"
    have inv1: "runner_inv m cmd ?r1" using runner_inv_counter [OF assms(1)] issued(2) by simp
    have cmd: "cmd (pend_response p) = (pend_payload p, pend_operation_id p)"
      "well_formed_request (pend_payload p, pend_operation_id p)"
      using assms(1,2) by (auto simp: runner_inv_def calls_recorded_def)
    obtain f where f: "pending_frame (pend_payload p) (pend_operation_id p) ?rid = Some f"
      "frame_request_id f = Some ?rid"
      using well_formed_frame [OF cmd(2)] by blast
    obtain y sock2 r2 where y: "send_frame env codec (Some (pend_response p)) f (sock, ?r1) = (y, sock2, r2)"
      by (metis prod_cases3)
    from y show ?thesis
    proof (cases rule: send_frame_cases)
      case (lost e)
      with y issued f assms inv1 show ?thesis by (auto simp: send_pending_def books_def)
    next
      case taken
      let ?p = "p\<lparr>pend_sent_request_id := Some ?rid\<rparr>"
      have r': "x = Inr ()" "r' = ?r1\<lparr>cr_sent := cr_sent r @ [(Some (pend_response p), f)],
          cr_pending := bmap_insert key ?p (cr_pending r),
          cr_response_index := bmap_insert ?rid key (cr_response_index r)\<rparr>"
        using y issued f assms(2,4) taken by (auto simp: send_pending_def)
      have new: "?rid \<notin> set (sent_ids r)" using assms(1) by (auto simp: runner_inv_def fresh_ids_def)
      have unsent: "bmap_get (cr_response_index r) rid \<noteq> Some key" for rid
        using assms(1-3) by (fastforce simp: runner_inv_def linked_def)
      have "linked r'"
        using assms(1) unsent f(1) by (fastforce simp: r' runner_inv_def linked_def bmap_simps)
      moreover have "keys_numbered m r'" "calls_recorded cmd r'"
        using assms(1,2) cmd f by (auto simp: r' runner_inv_def keys_numbered_def calls_recorded_def bmap_simps)
      moreover have "fresh_ids r'"
        using assms(1) new f(2) issued(2)
        by (auto simp: r' runner_inv_def fresh_ids_def sent_ids_def List.map_filter_simps less_Suc_eq)
      moreover have "books r' = books r"
        using assms(1,2)
        by (simp add: r' books_def runner_inv_def linked_def image_insert_old)
      moreover have "pend_response p \<in># books r"
        using map_of_SomeD [OF assms(2)] by (force simp: books_def bmap_values_def)
      with calculation have "booked r'" using assms(1) by (auto simp: r' runner_inv_def booked_def)
      ultimately show ?thesis using assms(2) by (auto simp: r' runner_inv_def bmap_simps)
    qed
  qed
  then show "runner_inv m cmd r'" "books r' = books r" "x \<noteq> Inl Failed_Panic"
    "\<forall>key'. key' \<noteq> key \<longrightarrow> bmap_get (cr_pending r') key' = bmap_get (cr_pending r) key'"
    "\<forall>key'. bmap_get (cr_pending r') key' = None \<longleftrightarrow> bmap_get (cr_pending r) key' = None"
    by blast+
qed

subsection \<open>Turns of the runner\<close>

definition keeps :: "'c client_runner \<Rightarrow> 'c client_runner \<Rightarrow> bool" where
  "keeps r r' \<longleftrightarrow> (\<forall>m cmd. runner_inv m cmd r \<longrightarrow> runner_inv m cmd r') \<and> books r' = books r \<and>
     (idle r \<longrightarrow> idle r')"

lemma keeps_refl [simp, intro]: "keeps r r"
  by (simp add: keeps_def)

lemma keeps_trans: "keeps r r' \<Longrightarrow> keeps r' r'' \<Longrightarrow> keeps r r''"
  by (simp add: keeps_def)

lemma keeps_core:
  assumes "core r' = core r"
  shows "keeps r r'"
  using core_inv [OF assms] by (simp add: keeps_def)

lemma keeps_sent_only: "sent_only r r' \<Longrightarrow> keeps r r'"
  by (simp add: keeps_def sent_only_inv)

lemma apply_effects_keeps:
  "apply_effects env codec effects (sock, r) = (x, sock', r') \<Longrightarrow> keeps r r' \<and> x \<noteq> Some End_Panic"
proof (induction env codec effects "(sock, r)" arbitrary: sock r rule: apply_effects.induct)
  case (2 env codec a es sock r)
  have "keeps r (broadcast (CEvent_StateChanged a) r)" by (rule keeps_core) simp
  with 2 show ?case by (auto intro: keeps_trans)
next
  case (3 env codec e es sock r)
  have "keeps r (broadcast (CEvent_AgentEvent e) r)" by (rule keeps_core) simp
  with 3 show ?case by (auto intro: keeps_trans)
next
  case (4 env codec i es sock r)
  have "keeps r (broadcast (CEvent_InteractionRequest i) r)" by (rule keeps_core) simp
  with 4 show ?case by (auto intro: keeps_trans)
next
  case (5 env codec a es sock r)
  obtain y sock1 r1 where y: "resubscribe env codec a (sock, broadcast (CEvent_ResyncRequired a) r) = (y, sock1, r1)"
    by (metis prod_cases3)
  have "keeps r (broadcast (CEvent_ResyncRequired a) r)" by (rule keeps_core) simp
  with resubscribe_only [OF y] have r1: "keeps r r1" "y \<noteq> Some End_Panic"
    by (auto intro: keeps_trans keeps_sent_only)
  show ?case
  proof (cases y)
    case None
    with y 5(2) have "apply_effects env codec es (sock1, r1) = (x, sock', r')" by simp
    from 5(1) [OF y [symmetric] None this] r1(1) show ?thesis by (auto intro: keeps_trans)
  next
    case (Some se)
    with y 5(2) r1 show ?thesis by auto
  qed
qed simp

lemma handle_replicated_keeps:
  assumes "handle_replicated env codec frame (sock, r) = (x, sock', r')"
  shows "keeps r r' \<and> x \<noteq> Some End_Panic"
proof (cases "replica_apply (cr_state r) frame")
  case (Pair y st)
  have k: "keeps r (r\<lparr>cr_state := st\<rparr>)" "keeps r (broadcast e (r\<lparr>cr_state := st\<rparr>))" for e
    by (rule keeps_core, simp)+
  show ?thesis
  proof (cases y)
    case (Inl e)
    show ?thesis
    proof (cases "frame_agent_id frame")
      case None
      with Inl Pair assms k show ?thesis by (auto simp: handle_replicated_def Let_def)
    next
      case (Some a)
      with Inl Pair assms have "resubscribe env codec a
          (sock, broadcast (CEvent_ReplicationError e) (r\<lparr>cr_state := st\<rparr>)) = (x, sock', r')"
        by (simp add: handle_replicated_def Let_def)
      from resubscribe_only [OF this] k(2) show ?thesis by (auto intro: keeps_trans keeps_sent_only)
    qed
  next
    case (Inr effects)
    with Pair assms have "apply_effects env codec effects (sock, r\<lparr>cr_state := st\<rparr>) = (x, sock', r')"
      by (simp add: handle_replicated_def)
    from apply_effects_keeps [OF this] k(1) show ?thesis by (auto intro: keeps_trans)
  qed
qed

lemma resubscribe_ends: "resubscribe env codec a s = (Some se, s') \<Longrightarrow> se \<noteq> End_Shutdown"
  by (auto simp: resubscribe_def split: prod.splits sum.splits elim: failed.elims)

lemma apply_effects_ends: "apply_effects env codec effects s = (Some se, s') \<Longrightarrow> se \<noteq> End_Shutdown"
  by (induction env codec effects s rule: apply_effects.induct)
    (auto split: prod.splits option.splits dest: resubscribe_ends)

lemma handle_replicated_ends:
  "handle_replicated env codec frame s = (Some se, s') \<Longrightarrow> se \<noteq> End_Shutdown"
  by (auto simp: handle_replicated_def Let_def split: prod.splits sum.splits option.splits
      dest: resubscribe_ends apply_effects_ends)

lemma handle_server_frame_inv:
  assumes "runner_inv m cmd r" "handle_server_frame env codec frame (sock, r) = (x, sock', r')"
  shows "runner_inv m cmd r' \<and> books r' = books r \<and> x \<noteq> Some End_Panic"
  using assms(2)
proof (cases frame)
  case (Server_Response response)
  with assms complete_response_inv [OF assms(1)] show ?thesis by auto
next
  case (Server_Error e)
  with assms show ?thesis by (auto simp: core_inv [OF core_broadcast])
qed (use assms(1) in \<open>auto simp: keeps_def dest: handle_replicated_keeps\<close>)

lemma try_each_pending:
  assumes "runner_inv m cmd r" "distinct keys"
    and "\<forall>key\<in>set keys. \<exists>p. bmap_get (cr_pending r) key = Some p \<and> pend_sent_request_id p = None"
    and "try_each (send_pending env codec) keys (sock, r) = (x, sock', r')"
  shows "runner_inv m cmd r' \<and> books r' = books r \<and> x \<noteq> Inl Failed_Panic"
  using assms
proof (induction keys arbitrary: sock r)
  case (Cons key keys)
  obtain y sock1 r1 where y: "send_pending env codec key (sock, r) = (y, sock1, r1)"
    by (metis prod_cases3)
  obtain p where p: "bmap_get (cr_pending r) key = Some p" "pend_sent_request_id p = None"
    using Cons.prems(3) by auto
  note s = send_pending_inv [OF Cons.prems(1) p y]
  show ?case
  proof (cases y)
    case (Inl e)
    with y s Cons.prems show ?thesis by auto
  next
    case (Inr u)
    have "runner_inv m cmd r' \<and> books r' = books r1 \<and> x \<noteq> Inl Failed_Panic"
    proof (rule Cons.IH [OF s(1)])
      show "\<forall>k\<in>set keys. \<exists>p. bmap_get (cr_pending r1) k = Some p \<and> pend_sent_request_id p = None"
        using s(4) Cons.prems(2,3) by fastforce
    qed (use Cons.prems y Inr in auto)
    with s(2) show ?thesis by simp
  qed
qed auto

lemma idle_get: "idle r \<Longrightarrow> bmap_get (cr_pending r) key = Some p \<Longrightarrow> pend_sent_request_id p = None"
  by (force simp: idle_def bmap_values_def dest: map_of_SomeD)

lemma initialize_connection_inv:
  assumes "runner_inv m cmd r" "idle r" "initialize_connection env codec (sock, r) = (x, sock', r')"
  shows "runner_inv m cmd r' \<and> books r' = books r \<and> x \<noteq> Inl Failed_Panic"
proof -
  obtain y sock1 r1 where y: "try_each (send_subscription env codec True) (sorted_list_of_set (cr_desired r))
      (sock, r) = (y, sock1, r1)"
    by (metis prod_cases3)
  note s = try_each_subscriptions [OF y]
  have r1: "runner_inv m cmd r1" "books r1 = books r" "idle r1"
    using assms(1,2) sent_only_inv [of r r1] s by auto
  show ?thesis
  proof (cases y)
    case (Inl e)
    with y s r1 assms(3) show ?thesis by (auto simp: initialize_connection_def)
  next
    case (Inr u)
    have inv: "bmap_invar (cr_pending r1)" using r1(1) by (simp add: runner_inv_def linked_def)
    have "runner_inv m cmd r' \<and> books r' = books r1 \<and> x \<noteq> Inl Failed_Panic"
    proof (rule try_each_pending [OF r1(1)])
      show "distinct (bmap_keys (cr_pending r1))" using bm.distinct_keys inv .
      show "\<forall>key\<in>set (bmap_keys (cr_pending r1)).
          \<exists>p. bmap_get (cr_pending r1) key = Some p \<and> pend_sent_request_id p = None"
        using bm.set_keys [OF inv] idle_get [OF r1(3)] by auto
      show "try_each (send_pending env codec) (bmap_keys (cr_pending r1)) (sock1, r1) = (x, sock', r')"
        using assms(3) y Inr by (simp add: initialize_connection_def)
    qed
    with r1(2) show ?thesis by simp
  qed
qed

subsection \<open>Commands\<close>

fun calls_of :: "client_command option \<Rightarrow> nat list" where
  "calls_of (Some (Command_Request payload oid call)) = [call]"
| "calls_of (Some (Command_Shutdown call)) = [call]"
| "calls_of _ = []"

fun requests_of :: "client_command option \<Rightarrow> nat" where
  "requests_of (Some (Command_Request payload oid call)) = 1"
| "requests_of _ = 0"

fun command_ok :: "requests_made \<Rightarrow> client_command option \<Rightarrow> bool" where
  "command_ok cmd (Some (Command_Request payload oid call)) \<longleftrightarrow>
     cmd call = (payload, oid) \<and> well_formed_request (payload, oid)"
| "command_ok cmd _ = True"

lemma stops_inv:
  assumes "runner_inv m cmd r" "stops command r = Some r'"
  shows "runner_inv (m + requests_of command) cmd r' \<and> books r' = books r + mset (calls_of command) \<and> idle r'"
  using assms by (cases "(command, r)" rule: stops.cases) auto

lemma handle_offline_command_inv:
  assumes "runner_inv m cmd r" "m + requests_of command \<le> 2 ^ 64" "command_ok cmd command" "idle r"
    and "handle_offline_command command r = (stop, r')"
  shows "runner_inv (m + requests_of command) cmd r'" "books r' = books r + mset (calls_of command)" "idle r'"
proof -
  have "runner_inv (m + requests_of command) cmd r' \<and> books r' = books r + mset (calls_of command) \<and> idle r'"
  proof (cases "stops command r")
    case (Some r1)
    with assms(5) stops_inv [OF assms(1) Some] show ?thesis by (simp add: handle_offline_command_def)
  next
    case None
    then obtain c where c: "command = Some c" "stops (Some c) r = None" by (cases command) auto
    show ?thesis
    proof (cases c)
      case (Command_Request payload oid call)
      obtain key r1 where i: "insert_pending payload oid call r = (key, r1)" by fastforce
      with assms c Command_Request insert_pending_inv(1-3) [OF assms(1) _ _ _ i] show ?thesis
        by (simp add: handle_offline_command_def)
    next
      case (Command_Subscribe a)
      with assms c show ?thesis
        using core_inv [of "r\<lparr>cr_desired := insert a (cr_desired r)\<rparr>" r, OF core_updates(2)]
        by (auto simp: handle_offline_command_def)
    next
      case (Command_Unsubscribe a)
      with assms c show ?thesis
        using core_inv [of "r\<lparr>cr_desired := cr_desired r - {a}\<rparr>" r, OF core_updates(2)]
        by (auto simp: handle_offline_command_def)
    qed (use c in simp)
  qed
  then show "runner_inv (m + requests_of command) cmd r'" "books r' = books r + mset (calls_of command)"
    "idle r'" by simp_all
qed

lemma handle_connected_command_inv:
  assumes "runner_inv m cmd r" "m + requests_of command \<le> 2 ^ 64" "command_ok cmd command"
    and "handle_connected_command env codec command (sock, r) = (x, sock', r')"
  shows "runner_inv (m + requests_of command) cmd r' \<and> books r' = books r + mset (calls_of command) \<and>
    x \<noteq> Inl Failed_Panic \<and> (x = Inr True \<longrightarrow> idle r')"
proof (cases "stops command r")
  case (Some r1)
  with assms(4) stops_inv [OF assms(1) Some] show ?thesis by (auto simp: handle_connected_command_def)
next
  case None
  then obtain c where c: "command = Some c" "stops (Some c) r = None" by (cases command) auto
  have d: "keeps r (r\<lparr>cr_desired := d\<rparr>)" for d by (rule keeps_core) simp
  show ?thesis
  proof (cases c)
    case (Command_Request payload oid call)
    obtain key r1 where i: "insert_pending payload oid call r = (key, r1)" by fastforce
    obtain y sock2 r2 where y: "send_pending env codec key (sock, r1) = (y, sock2, r2)"
      by (metis prod_cases3)
    from assms(2,3) c(1) Command_Request insert_pending_inv [OF assms(1) _ _ _ i]
    have r1: "runner_inv (Suc m) cmd r1" "books r1 = add_mset call (books r)"
      "\<exists>p. bmap_get (cr_pending r1) key = Some p \<and> pend_sent_request_id p = None" by auto
    then obtain p where "bmap_get (cr_pending r1) key = Some p" "pend_sent_request_id p = None" by blast
    note send_pending_inv [OF r1(1) this y]
    with y i c Command_Request r1(2) assms(4) None show ?thesis
      by (cases y) (auto simp: handle_connected_command_def)
  next
    case (Command_Subscribe a)
    obtain y sock2 r2 where y: "send_subscription env codec True a
        (sock, r\<lparr>cr_desired := insert a (cr_desired r)\<rparr>) = (y, sock2, r2)"
      by (metis prod_cases3)
    from send_subscription_only [OF y] have "keeps r r2" "y \<noteq> Inl Failed_Panic"
      using d keeps_sent_only keeps_trans by blast+
    with y c Command_Subscribe assms(1,4) None show ?thesis
      by (cases y) (auto simp: handle_connected_command_def keeps_def split: if_splits)
  next
    case (Command_Unsubscribe a)
    obtain y sock2 r2 where y: "send_frame env codec None (Client_Unsubscribe a)
        (sock, r\<lparr>cr_desired := cr_desired r - {a}\<rparr>) = (y, sock2, r2)"
      by (metis prod_cases3)
    from send_frame_only [OF y] have "keeps r r2" "y \<noteq> Inl Failed_Panic"
      using d keeps_sent_only keeps_trans by (metis frame_request_id.simps(5))+
    with y c Command_Unsubscribe assms(1,4) None show ?thesis
      by (cases y) (auto simp: handle_connected_command_def keeps_def split: if_splits)
  qed (use c in simp)
qed

subsection \<open>The machine\<close>

definition machine_inv :: "nat \<Rightarrow> requests_made \<Rightarrow> 'c client_machine \<Rightarrow> bool" where
  "machine_inv m cmd M \<longleftrightarrow> runner_inv m cmd (cm_runner M) \<and>
     (case cm_phase M of Phase_Connected codec sock \<Rightarrow> True | Phase_Panicked \<Rightarrow> False | _ \<Rightarrow> idle (cm_runner M))"

text \<open>What a state of the machine that follows from a runner owes to the runner.\<close>

definition follows :: "'c client_runner \<Rightarrow> 'c client_machine \<Rightarrow> bool" where
  "follows r M \<longleftrightarrow> (\<forall>m cmd. runner_inv m cmd r \<longrightarrow> machine_inv m cmd M \<and> books (cm_runner M) = books r)"

lemmas status_inv [simp] = core_inv [OF core_set_status(1)] core_inv [OF core_set_status(2)]
  core_inv [OF core_set_status(3)] core_inv [OF core_set_status(4)]

lemma keeps_status [simp]: "keeps r (set_status s r)" "keeps r (set_connected w r)" "keeps r (disconnected x r)"
  "keeps r (finish_shutdown r)"
  by (rule keeps_core, simp)+

lemma keeps_welcome: "handle_welcome env auth bytes r = (x, r') \<Longrightarrow> keeps r r'"
  using core_handle_welcome [of env auth bytes r] by (intro keeps_core) (metis snd_conv)

lemma keeps_authentication: "authentication env r = (x, r') \<Longrightarrow> keeps r r'"
  using core_authentication [of env r] by (intro keeps_core) (metis snd_conv)

lemma stop_with_error_inv:
  "runner_inv m cmd r \<Longrightarrow> runner_inv m cmd (stop_with_error e r)" "idle (stop_with_error e r)"
  "books (stop_with_error e r) = books r"
  unfolding stop_with_error_def by simp_all

lemma follows_stop_fatally: "follows r (stop_fatally e delay r)"
  by (simp add: follows_def machine_inv_def stop_fatally_def stop_with_error_inv)

lemma follows_connection_lost: "follows r (connection_lost env reason after delay r)"
  by (simp add: follows_def machine_inv_def connection_lost_def wait_and_advance_def)

lemma follows_shut_down: "idle r \<Longrightarrow> follows r (shut_down delay r)"
  by (simp add: follows_def machine_inv_def shut_down_def)

lemma follows_keeps: "keeps r r' \<Longrightarrow> follows r' M \<Longrightarrow> follows r M"
  by (auto simp: follows_def keeps_def)

lemma follows_idle:
  assumes "idle r" "keeps r (cm_runner M)" "cm_phase M \<noteq> Phase_Panicked"
  shows "follows r M"
  using assms by (cases "cm_phase M") (simp_all add: follows_def keeps_def machine_inv_def)

lemma follows_begin_attempt:
  assumes "idle r"
  shows "follows r (begin_attempt env delay r)"
proof -
  obtain x r1 where a: "authentication env (set_status Status_Connecting r) = (x, r1)" by fastforce
  then have k: "keeps r r1" by (meson keeps_authentication keeps_status(1) keeps_trans)
  show ?thesis
  proof (cases x)
    case (Inl e)
    with a have "begin_attempt env delay r = stop_fatally e delay r1"
      by (simp add: begin_attempt_def stop_fatally_def)
    with k show ?thesis by (metis follows_keeps follows_stop_fatally)
  next
    case (Inr auth)
    with a k assms show ?thesis by (intro follows_idle) (simp_all add: begin_attempt_def)
  qed
qed

lemma follows_start_handshake:
  assumes "idle (cm_runner M)"
  shows "follows (cm_runner M) (start_handshake env auth sock M)"
proof -
  obtain x sock1 r1 where s: "send_frame env (FrameLimits_codec (cfg_frame_limits (cl_config env)) Phase_PreAuth)
      None (client_hello_frame env auth (cm_runner M)) (sock, cm_runner M) = (x, sock1, r1)"
    by (metis prod_cases3)
  from send_frame_only [OF this] have k: "keeps (cm_runner M) r1" "x \<noteq> Inl Failed_Panic"
    by (simp_all add: client_hello_frame_def keeps_sent_only)
  show ?thesis
  proof (cases x)
    case (Inl e)
    then obtain t where "x = Inl (Failed_Transport t)" using k(2) by (cases e) auto
    with s have "start_handshake env auth sock M =
        connection_lost env (Some (transport_message t)) None (cm_delay M) r1"
      by (simp add: start_handshake_def)
    with k(1) show ?thesis by (metis follows_keeps follows_connection_lost)
  next
    case (Inr u)
    with s k assms show ?thesis by (intro follows_idle) (simp_all add: start_handshake_def)
  qed
qed

lemma follows_start_session:
  assumes "idle r"
  shows "follows r (start_session env w codec sock r)"
proof -
  obtain x sock1 r1 where s: "initialize_connection env codec (sock, set_connected w r) = (x, sock1, r1)"
    by (metis prod_cases3)
  show ?thesis
    unfolding follows_def
  proof (intro allI impI)
    fix m cmd assume r: "runner_inv m cmd r"
    have k: "runner_inv m cmd r1 \<and> books r1 = books r \<and> x \<noteq> Inl Failed_Panic"
      using initialize_connection_inv [OF _ _ s] r assms by simp
    show "machine_inv m cmd (start_session env w codec sock r) \<and>
        books (cm_runner (start_session env w codec sock r)) = books r"
    proof (cases x)
      case (Inl e)
      then obtain t where "x = Inl (Failed_Transport t)" using k by (cases e) auto
      with s k show ?thesis by (simp add: start_session_def Let_def machine_inv_def)
    next
      case (Inr u)
      with s k show ?thesis by (simp add: start_session_def Let_def machine_inv_def)
    qed
  qed
qed

lemma follows_handshake_turn:
  assumes "idle (cm_runner M)"
  shows "follows (cm_runner M) (handshake_turn env auth sock event M)"
proof (cases "(env, auth, sock, event, M)" rule: handshake_turn.cases)
  case (3 env' auth' sock' bytes M')
  then have e: "event = Inr (Socket_Binary bytes)" by simp
  obtain x r1 where w: "handle_welcome env auth bytes (cm_runner M) = (x, r1)" by fastforce
  have k: "keeps (cm_runner M) r1" by (rule keeps_welcome [OF w])
  with assms have "idle r1" by (simp add: keeps_def)
  with k w show ?thesis
    by (cases x) (auto simp: e intro: follows_keeps follows_stop_fatally follows_start_session)
qed (simp_all add: follows_connection_lost)

text \<open>The end of a turn of a connection: the session goes on, or the machine leaves it.\<close>

lemma continue_session_inv:
  assumes "runner_inv m cmd r" "x = Some End_Shutdown \<Longrightarrow> idle r" "x \<noteq> Some End_Panic"
  shows "machine_inv m cmd (continue_session env codec (x, sock, r) M) \<and>
    books (cm_runner (continue_session env codec (x, sock, r) M)) = books r"
proof (cases x)
  case None
  with assms(1) show ?thesis by (simp add: continue_session_def machine_inv_def)
next
  case (Some se)
  with assms have "follows r (end_session env se (cm_delay M) r)"
    by (cases se) (simp_all add: follows_shut_down follows_connection_lost follows_stop_fatally)
  with assms(1) Some show ?thesis by (simp add: continue_session_def follows_def)
qed

fun input_command :: "client_input \<Rightarrow> client_command option" where
  "input_command (Input_Command command) = command"
| "input_command _ = None"

lemma connection_turn_inv:
  assumes "runner_inv m cmd r" "m + requests_of (input_command input) \<le> 2 ^ 64"
    and "command_ok cmd (input_command input)"
    and "connection_turn env codec input (sock, r) = (x, sock', r')"
  shows "runner_inv (m + requests_of (input_command input)) cmd r' \<and>
    books r' = books r + mset (calls_of (input_command input)) \<and>
    (x = Some End_Shutdown \<longrightarrow> idle r') \<and> x \<noteq> Some End_Panic"
proof (cases "(env, codec, input, (sock, r))" rule: connection_turn.cases)
  case (1 env' codec' command s')
  then have i: "input = Input_Command command" by simp
  obtain y sock1 r1 where y: "handle_connected_command env codec command (sock, r) = (y, sock1, r1)"
    by (metis prod_cases3)
  have h: "runner_inv (m + requests_of command) cmd r1 \<and> books r1 = books r + mset (calls_of command) \<and>
      y \<noteq> Inl Failed_Panic \<and> (y = Inr True \<longrightarrow> idle r1)"
    using handle_connected_command_inv [OF assms(1) _ _ y] assms(2,3) i by simp
  show ?thesis
  proof (cases y)
    case (Inl e)
    then show ?thesis using assms(4) i y h by (cases e) auto
  next
    case (Inr stop)
    then show ?thesis using assms(4) i y h by (auto split: if_splits)
  qed
next
  case (4 env' codec' bytes s')
  then have i: "input = Input_Socket (Inr (Socket_Binary bytes))" by simp
  show ?thesis
  proof (cases "cbor_decode (cl_deserialize env) codec bytes")
    case (Inl e)
    then show ?thesis using assms i by auto
  next
    case (Inr frame)
    then have f: "handle_server_frame env codec frame (sock, r) = (x, sock', r')" using assms(4) i by simp
    have "x \<noteq> Some End_Shutdown"
      using f by (cases frame) (auto dest: handle_replicated_ends)
    with handle_server_frame_inv [OF assms(1) f] show ?thesis by (simp add: i)
  qed
qed (use assms in auto)

lemma offline_turn_inv:
  assumes "runner_inv m cmd (cm_runner M)" "idle (cm_runner M)" "m + requests_of command \<le> 2 ^ 64"
    and "command_ok cmd command" "cm_phase M \<noteq> Phase_Panicked"
  shows "machine_inv (m + requests_of command) cmd (offline_turn command M) \<and>
    books (cm_runner (offline_turn command M)) = books (cm_runner M) + mset (calls_of command)"
proof -
  obtain stop r where h: "handle_offline_command command (cm_runner M) = (stop, r)" by fastforce
  note i = handle_offline_command_inv [OF assms(1,3,4,2) h]
  show ?thesis
  proof (cases stop)
    case True
    with h i follows_shut_down [OF i(3), of "cm_delay M"] show ?thesis
      by (simp add: offline_turn_def follows_def)
  next
    case False
    with h i assms(5) show ?thesis by (cases "cm_phase M") (simp_all add: offline_turn_def machine_inv_def)
  qed
qed

lemma run_turn_inv:
  assumes "machine_inv m cmd M" "m + requests_of (input_command input) \<le> 2 ^ 64"
    and "command_ok cmd (input_command input)" "run_turn env input M = Some M'"
  shows "machine_inv (m + requests_of (input_command input)) cmd M' \<and>
    books (cm_runner M') = books (cm_runner M) + mset (calls_of (input_command input))"
proof -
  have r: "runner_inv m cmd (cm_runner M)" using assms(1) by (simp add: machine_inv_def)
  have conn: ?thesis
    if "M' = continue_session env codec (connection_turn env codec input (sock, cm_runner M)) M" for codec sock
  proof -
    obtain x sock1 r1 where t: "connection_turn env codec input (sock, cm_runner M) = (x, sock1, r1)"
      by (metis prod_cases3)
    from connection_turn_inv [OF r assms(2,3) t] that t continue_session_inv show ?thesis by fastforce
  qed
  have other: ?thesis if "follows (cm_runner M) M'" "input_command input = None"
    using that r by (simp add: follows_def)
  show ?thesis
  proof (cases input)
    case (Input_Command command)
    show ?thesis
    proof (cases "\<exists>codec sock. cm_phase M = Phase_Connected codec sock")
      case True
      with assms(4) Input_Command conn show ?thesis by auto
    next
      case False
      with assms(1,4) Input_Command have "idle (cm_runner M)" "M' = offline_turn command M"
        "cm_phase M \<noteq> Phase_Panicked"
        by (auto simp: machine_inv_def split: client_phase.splits)
      with offline_turn_inv [OF r] assms(2,3) Input_Command show ?thesis by simp
    qed
  next
    case (Input_Connect result)
    then obtain auth where a: "cm_phase M = Phase_Connecting auth"
      using assms(4) by (auto split: client_phase.splits)
    then have i: "idle (cm_runner M)" using assms(1) by (simp add: machine_inv_def)
    have "follows (cm_runner M) M'"
    proof (cases result)
      case (Inl e)
      have "follows (cm_runner M) (wait_and_advance env (cm_delay M) (cm_delay M)
          (disconnected (Some (transport_message e)) (cm_runner M)))"
        using i by (intro follows_idle) (simp_all add: wait_and_advance_def)
      with Inl a assms(4) Input_Connect show ?thesis by simp
    next
      case (Inr sock)
      with a i assms(4) Input_Connect show ?thesis by (auto intro: follows_start_handshake)
    qed
    with other Input_Connect show ?thesis by simp
  next
    case (Input_Socket event)
    then consider (handshake) auth sock where "cm_phase M = Phase_Handshake auth sock"
      | (connected) codec sock where "cm_phase M = Phase_Connected codec sock"
      using assms(4) by (auto split: client_phase.splits)
    then show ?thesis
    proof cases
      case handshake
      with assms(1,4) Input_Socket have "idle (cm_runner M)" "M' = handshake_turn env auth sock event M"
        by (simp_all add: machine_inv_def)
      with other Input_Socket follows_handshake_turn [of M] show ?thesis by simp
    next
      case connected
      with assms(4) Input_Socket conn show ?thesis by auto
    qed
  next
    case Input_Slept
    then obtain wait delay where w: "cm_phase M = Phase_Waiting wait delay"
      using assms(4) by (auto split: client_phase.splits)
    then have "idle (cm_runner M)" using assms(1) by (simp add: machine_inv_def)
    with w assms(4) Input_Slept other follows_begin_attempt [of "cm_runner M" env delay] show ?thesis by simp
  qed
qed

subsection \<open>The client\<close>

definition queued_calls :: "client_command list \<Rightarrow> nat list" where
  "queued_calls cs = concat (map (\<lambda>c. calls_of (Some c)) cs)"

definition queued_requests :: "client_command list \<Rightarrow> nat" where
  "queued_requests cs = (\<Sum>c\<leftarrow>cs. requests_of (Some c))"

definition client_inv :: "nat \<Rightarrow> requests_made \<Rightarrow> 'c client \<Rightarrow> bool" where
  "client_inv m cmd c \<longleftrightarrow> machine_inv m cmd (ct_machine c) \<and>
     m + queued_requests (ct_commands c) \<le> ct_calls c \<and>
     (\<forall>command\<in>set (ct_commands c). command_ok cmd (Some command)) \<and>
     books (cm_runner (ct_machine c)) + mset (queued_calls (ct_commands c)) = mset [0..<ct_calls c] \<and>
     (ended (ct_machine c) \<longrightarrow> ct_commands c = [] \<and> cr_pending (cm_runner (ct_machine c)) = [])"

lemma client_new_inv: "client_inv 0 (\<lambda>_. (Pending_Request Req_ListAgents, None)) (client_new env ids credentials)"
proof -
  let ?r = "ClientRunner_new ids credentials"
  have r: "runner_inv 0 (\<lambda>_. (Pending_Request Req_ListAgents, None)) ?r" "idle ?r" "books ?r = {#}"
    by (simp_all add: ClientRunner_new_def runner_inv_defs booked_def idle_def books_def bmap_values_def List.map_filter_simps)
  have "cr_pending (cm_runner (client_start env ?r)) = []"
    if "ended (client_start env ?r)"
    using that by (auto simp: client_start_def begin_attempt_def ended_def stop_with_error_def
        set_status_def broadcast_def split: prod.splits sum.splits)
  with r follows_begin_attempt [OF r(2), of env "initial_delay (cfg_reconnect (cl_config env))"]
  show ?thesis
    by (simp add: client_new_def client_inv_def queued_requests_def queued_calls_def client_start_def follows_def)
qed

text \<open>When the runner has ended, what it and its channel still held is dropped.\<close>

lemma dropped_calls: "map fst (concat (map dropped_answer cs)) = queued_calls cs"
proof (induction cs)
  case (Cons c cs)
  then show ?case by (cases c) (simp_all add: queued_calls_def)
qed (simp add: queued_calls_def)

lemma drop_runner_inv:
  assumes "machine_inv m cmd (ct_machine c)" "m + queued_requests (ct_commands c) \<le> ct_calls c"
    and "books (cm_runner (ct_machine c)) + mset (queued_calls (ct_commands c)) = mset [0..<ct_calls c]"
    and "cm_phase (ct_machine c) \<noteq> Phase_Panicked"
  shows "client_inv m cmd (drop_runner c)"
proof -
  let ?r = "client_fail_pending CReq_ClientStopped (cm_runner (ct_machine c))"
  let ?r' = "?r\<lparr>cr_answers := cr_answers ?r @ concat (map dropped_answer (ct_commands c))\<rparr>"
  have d: "cm_runner (ct_machine (drop_runner c)) = ?r'" "ct_commands (drop_runner c) = []"
    "ct_calls (drop_runner c) = ct_calls c" "cm_phase (ct_machine (drop_runner c)) = cm_phase (ct_machine c)"
    by (simp_all add: drop_runner_def on_runner_def Let_def)
  have r: "runner_inv m cmd ?r" using assms(1) by (simp add: machine_inv_def)
  have b: "books ?r' = books (cm_runner (ct_machine c)) + mset (queued_calls (ct_commands c))"
    using client_fail_pending_inv(3) [of CReq_ClientStopped "cm_runner (ct_machine c)"]
    by (simp add: books_def bmap_values_def flip: dropped_calls)
  then have "booked ?r'"
    using r by - (rule booked_mono [of ?r], simp_all add: runner_inv_def)
  with r have "runner_inv m cmd ?r'" by (simp add: runner_inv_defs)
  moreover have "idle ?r'" by (simp add: idle_def bmap_values_def client_fail_pending_def)
  ultimately show ?thesis
    using assms(2-4) d b
    by (cases "cm_phase (ct_machine c)")
      (simp_all add: client_inv_def machine_inv_def queued_requests_def queued_calls_def)
qed

lemma after_turn_inv:
  assumes "machine_inv m cmd M" "m + queued_requests (ct_commands c) \<le> ct_calls c"
    and "\<forall>command\<in>set (ct_commands c). command_ok cmd (Some command)"
    and "books (cm_runner M) + mset (queued_calls (ct_commands c)) = mset [0..<ct_calls c]"
  shows "client_inv m cmd (after_turn M c)"
proof (cases "ended M")
  case True
  moreover have "cm_phase M \<noteq> Phase_Panicked" using assms(1) by (auto simp: machine_inv_def)
  ultimately show ?thesis
    using drop_runner_inv [of m cmd "c\<lparr>ct_machine := M\<rparr>"] assms by (simp add: after_turn_def)
next
  case False
  with assms show ?thesis by (simp add: after_turn_def client_inv_def)
qed

text \<open>A call of the handle extends what the calls asked for.\<close>

lemma recorded_calls:
  assumes "machine_inv m cmd M" "\<forall>call. call \<in># books (cm_runner M) \<longrightarrow> call < n"
  shows "machine_inv m (cmd(n := x)) M"
proof -
  let ?r = "cm_runner M"
  have "pend_response p < n" if "bmap_get (cr_pending ?r) key = Some p" for key p
    using map_of_SomeD [OF that] assms(2) by (force simp: books_def bmap_values_def)
  moreover have "call < n" if "(Some call, f) \<in> set (cr_sent ?r)" for call f
    using that assms by (auto simp: machine_inv_def runner_inv_def booked_def)
  ultimately have "calls_recorded (cmd(n := x)) ?r"
    using assms(1) by (fastforce simp: machine_inv_def runner_inv_def calls_recorded_def)
  with assms(1) show ?thesis by (simp add: machine_inv_def runner_inv_def)
qed

lemma client_calls:
  assumes "client_inv m cmd c"
  shows "\<forall>call. call \<in># books (cm_runner (ct_machine c)) \<longrightarrow> call < ct_calls c"
    "\<forall>call. call \<in> set (queued_calls (ct_commands c)) \<longrightarrow> call < ct_calls c"
proof -
  have "set_mset (books (cm_runner (ct_machine c)) + mset (queued_calls (ct_commands c))) = {..<ct_calls c}"
    using assms by (simp only: client_inv_def set_mset_mset) (auto simp: lessThan_def)
  then show "\<forall>call. call \<in># books (cm_runner (ct_machine c)) \<longrightarrow> call < ct_calls c"
    "\<forall>call. call \<in> set (queued_calls (ct_commands c)) \<longrightarrow> call < ct_calls c" by auto
qed

lemma command_ok_extend:
  "command_ok cmd command \<Longrightarrow> \<forall>call\<in>set (calls_of command). call < n \<Longrightarrow> command_ok (cmd(n := x)) command"
  by (cases "(cmd, command)" rule: command_ok.cases) auto

lemma client_inv_extend:
  assumes "client_inv m cmd c"
  shows "client_inv m (cmd(ct_calls c := x)) c"
proof -
  have "command_ok (cmd(ct_calls c := x)) (Some command)" if "command \<in> set (ct_commands c)" for command
    using assms that client_calls(2) [OF assms]
    by (intro command_ok_extend) (auto simp: client_inv_def queued_calls_def)
  with assms recorded_calls [OF _ client_calls(1) [OF assms]] show ?thesis by (simp add: client_inv_def)
qed

lemma send_call_inv:
  assumes "client_inv m cmd c" "send_call command c = (x, c')"
    and "\<And>call. calls_of (Some (command call)) = [call]"
    and "\<And>call. cmd' call = cmd call \<or> call = ct_calls c" "client_inv m cmd' c"
    and "command_ok cmd' (Some (command (ct_calls c)))"
  shows "client_inv m cmd' c'"
proof (cases "ended (ct_machine c)")
  case True
  with assms show ?thesis by (simp add: send_call_def unbounded_send_def)
next
  case False
  then have c': "c' = c\<lparr>ct_commands := ct_commands c @ [command (ct_calls c)], ct_calls := ct_calls c + 1\<rparr>"
    using assms(2) by (auto simp: send_call_def unbounded_send_def)
  have "requests_of (Some (command call)) \<le> 1" for call
    by (cases "command call") auto
  then have "queued_requests (ct_commands c') \<le> queued_requests (ct_commands c) + 1"
    by (simp add: c' queued_requests_def)
  with assms(3,5,6) False show ?thesis
    by (simp add: client_inv_def c' queued_calls_def ended_def)
qed

lemma unbounded_send_inv:
  assumes "client_inv m cmd c" "unbounded_send command c = (x, c')" "calls_of (Some command) = []"
  shows "client_inv m cmd c'"
  using assms
  by (cases command) (auto simp: client_inv_def unbounded_send_def queued_calls_def queued_requests_def split: if_splits)

lemma next_operation_id_inv:
  assumes "client_inv m cmd c" "next_operation_id c = (x, c')"
  shows "client_inv m cmd c'" "ct_calls c' = ct_calls c" "ended (ct_machine c') = ended (ct_machine c)"
proof -
  have c': "\<exists>n. c' = on_runner (\<lambda>r. r\<lparr>cr_ids := (cr_ids r)\<lparr>idg_counter := n\<rparr>\<rparr>) c \<and>
      unat (idg_counter (cr_ids (cm_runner (ct_machine c)))) \<le> unat n"
  proof (cases rule: id_next_cases [of "''operation''" "cr_ids (cm_runner (ct_machine c))"])
    case exhausted
    with assms(2) show ?thesis
      by (intro exI [of _ "idg_counter (cr_ids (cm_runner (ct_machine c)))"])
        (auto simp: next_operation_id_def on_runner_def)
  next
    case (issued n)
    with assms(2) show ?thesis by (intro exI [of _ n]) (auto simp: next_operation_id_def on_runner_def)
  qed
  then obtain n where n: "c' = on_runner (\<lambda>r. r\<lparr>cr_ids := (cr_ids r)\<lparr>idg_counter := n\<rparr>\<rparr>) c"
    "unat (idg_counter (cr_ids (cm_runner (ct_machine c)))) \<le> unat n" by blast
  have "machine_inv m cmd (ct_machine c')"
    using assms(1) runner_inv_counter [OF _ n(2), of m cmd]
    by (cases "cm_phase (ct_machine c)") (simp_all add: client_inv_def machine_inv_def n(1) on_runner_def idle_def)
  then show "client_inv m cmd c'"
    using assms(1) by (simp add: client_inv_def n(1) on_runner_def books_def ended_def)
  show "ct_calls c' = ct_calls c" "ended (ct_machine c') = ended (ct_machine c)"
    by (simp_all add: n(1) on_runner_def ended_def)
qed

text \<open>A later state of what the calls asked for: those made before are unchanged.\<close>

definition extends_requests :: "nat \<Rightarrow> requests_made \<Rightarrow> requests_made \<Rightarrow> bool" where
  "extends_requests n cmd cmd' \<longleftrightarrow> (\<forall>call<n. cmd' call = cmd call)"

lemma send_request_inv:
  assumes "client_inv m cmd c" "send_call (Command_Request payload oid) c = (x, c')"
    and "well_formed_request (payload, oid)"
  shows "\<exists>cmd'. client_inv m cmd' c' \<and> extends_requests (ct_calls c) cmd cmd'"
proof (intro exI conjI)
  let ?cmd = "cmd(ct_calls c := (payload, oid))"
  show "client_inv m ?cmd c'"
    using client_inv_extend [OF assms(1)] assms by (intro send_call_inv [OF assms(1,2)]) auto
  show "extends_requests (ct_calls c) cmd ?cmd" by (simp add: extends_requests_def)
qed

lemma request_with_operation_id_inv:
  assumes "client_inv m cmd c" "request_with_operation_id request oid c = (x, c')"
  shows "\<exists>cmd'. client_inv m cmd' c' \<and> extends_requests (ct_calls c) cmd cmd'"
proof (cases "validate_operation_id request oid")
  case (Inl e)
  with assms show ?thesis by (auto simp: request_with_operation_id_def extends_requests_def)
next
  case (Inr u)
  then have "well_formed_request (Pending_Request request, oid)"
    by (auto simp: validate_operation_id_def split: bool.splits)
  with Inr assms send_request_inv [OF assms(1)] show ?thesis by (auto simp: request_with_operation_id_def)
qed

lemma perform_call_inv:
  assumes "client_inv m cmd c" "perform_call env call c = (x, c')"
  shows "\<exists>cmd'. client_inv m cmd' c' \<and> extends_requests (ct_calls c) cmd cmd'"
proof (cases call)
  case (Call_Request request)
  then obtain y where y: "request_call request c = (y, c')" using assms(2) by (cases "request_call request c") auto
  show ?thesis
  proof (cases "is_mutating request")
    case True
    obtain z c1 where z: "next_operation_id c = (z, c1)" by fastforce
    note n = next_operation_id_inv [OF assms(1) z]
    show ?thesis
    proof (cases z)
      case (Inl e)
      with y z True n show ?thesis by (auto simp: request_call_def extends_requests_def)
    next
      case (Inr oid)
      with y z True have "request_with_operation_id request (Some oid) c1 = (y, c')"
        by (simp add: request_call_def)
      from request_with_operation_id_inv [OF n(1) this] n(2) show ?thesis by simp
    qed
  next
    case False
    with y have "request_with_operation_id request None c = (y, c')" by (simp add: request_call_def)
    from request_with_operation_id_inv [OF assms(1) this] show ?thesis .
  qed
next
  case (Call_RequestWith request oid)
  then obtain y where "request_with_operation_id request oid c = (y, c')"
    using assms(2) by (cases "request_with_operation_id request oid c") auto
  from request_with_operation_id_inv [OF assms(1) this] show ?thesis .
next
  case (Call_RespondToUi a holder response)
  then obtain y where y: "respond_to_ui a holder response c = (y, c')"
    using assms(2) by (cases "respond_to_ui a holder response c") auto
  obtain z c1 where z: "next_operation_id c = (z, c1)" by fastforce
  note n = next_operation_id_inv [OF assms(1) z]
  show ?thesis
  proof (cases z)
    case (Inl e)
    with y z n show ?thesis by (auto simp: respond_to_ui_def extends_requests_def)
  next
    case (Inr oid)
    with y z have "send_call (Command_Request (Pending_UiResponse a holder response) (Some oid)) c1 = (y, c')"
      by (simp add: respond_to_ui_def)
    from send_request_inv [OF n(1) this] n(2) show ?thesis by simp
  qed
next
  case (Call_Subscribe a)
  then obtain y where "unbounded_send (Command_Subscribe a) c = (y, c')"
    using assms(2) by (cases "unbounded_send (Command_Subscribe a) c") auto
  from unbounded_send_inv [OF assms(1) this] show ?thesis by (auto simp: extends_requests_def)
next
  case (Call_Unsubscribe a)
  then obtain y where "unbounded_send (Command_Unsubscribe a) c = (y, c')"
    using assms(2) by (cases "unbounded_send (Command_Unsubscribe a) c") auto
  from unbounded_send_inv [OF assms(1) this] show ?thesis by (auto simp: extends_requests_def)
next
  case Call_Shutdown
  then obtain y where "send_call Command_Shutdown c = (y, c')"
    using assms(2) by (cases "send_call Command_Shutdown c") (auto simp: shutdown_call_def)
  from send_call_inv [OF assms(1) this, of cmd] assms(1) show ?thesis by (auto simp: extends_requests_def)
next
  case Call_Events
  have k: "keeps (cm_runner (ct_machine c)) (cm_runner (ct_machine (handle_events env c)))"
    by (rule keeps_core) (simp add: handle_events_def on_runner_def core_def)
  then have "machine_inv m cmd (ct_machine (handle_events env c))"
    using assms(1) by (cases "cm_phase (ct_machine c)")
      (simp_all add: client_inv_def machine_inv_def keeps_def handle_events_def on_runner_def)
  then have "client_inv m cmd (handle_events env c)"
    using assms(1) k by (simp add: client_inv_def keeps_def)
      (simp add: handle_events_def on_runner_def ended_def books_def)
  with Call_Events assms(2) show ?thesis by (auto simp: extends_requests_def)
qed

lemma turn_inv:
  assumes "client_inv m cmd c" "run_turn env input (ct_machine c) = Some M"
    and "ct_commands c = commands @ rest" "length commands \<le> 1"
    and "input_command input = (case commands of [] \<Rightarrow> None | command # _ \<Rightarrow> Some command)"
    and "ct_calls c \<le> 2 ^ 64"
  shows "client_inv (m + queued_requests commands) cmd (after_turn M (c\<lparr>ct_commands := rest\<rparr>))"
proof -
  have q: "requests_of (input_command input) = queued_requests commands"
    "mset (calls_of (input_command input)) = mset (queued_calls commands)"
    "command_ok cmd (input_command input)"
    using assms(1,3-5) by (cases commands; force simp: queued_requests_def queued_calls_def client_inv_def)+
  have "m + queued_requests commands \<le> 2 ^ 64"
    using assms(1,3,6) by (simp add: client_inv_def queued_requests_def)
  with q run_turn_inv [OF _ _ q(3) assms(2), of m] assms(1)
  have "machine_inv (m + queued_requests commands) cmd M"
    "books (cm_runner M) = books (cm_runner (ct_machine c)) + mset (queued_calls commands)"
    by (simp_all add: client_inv_def)
  with assms(1,3) show ?thesis
    by (intro after_turn_inv)
      (simp_all add: client_inv_def queued_requests_def queued_calls_def ac_simps)
qed

lemma ct_calls_after_turn [simp]: "ct_calls (after_turn M c) = ct_calls c"
  by (simp add: after_turn_def Let_def drop_runner_def on_runner_def)

lemma ct_calls_perform: "perform_call env call c = (x, c') \<Longrightarrow> ct_calls c \<le> ct_calls c'"
  by (cases call)
    (auto simp: request_call_def request_with_operation_id_def respond_to_ui_def shutdown_call_def
      send_call_def unbounded_send_def next_operation_id_def on_runner_def handle_events_def Let_def
      split: if_splits sum.splits prod.splits)

lemma ct_calls_act: "client_act env a c = Some c' \<Longrightarrow> ct_calls c \<le> ct_calls c'"
  by (cases a)
    (auto simp: ct_calls_perform [OF surjective_pairing]
      split: if_splits list.splits client_input.splits)

lemma client_act_inv:
  assumes "client_inv m cmd c" "client_act env a c = Some c'" "ct_calls c' \<le> 2 ^ 64"
  shows "\<exists>m' cmd'. client_inv m' cmd' c' \<and> extends_requests (ct_calls c) cmd cmd'"
proof -
  have n: "ct_calls c \<le> 2 ^ 64" using ct_calls_act [OF assms(2)] assms(3) by simp
  note turn = turn_inv [OF assms(1) _ _ _ _ n]
  have e: "extends_requests (ct_calls c) cmd cmd" by (simp add: extends_requests_def)
  show ?thesis
  proof (cases a)
    case (Do_Call call)
    obtain x c1 where c1: "perform_call env call c = (x, c1)" by fastforce
    with Do_Call assms(2) have "c' = c1" by (simp split: if_splits)
    with perform_call_inv [OF assms(1) c1] show ?thesis by blast
  next
    case Do_DropHandles
    with assms(1,2) have "client_inv m cmd c'" by (auto simp: client_inv_def)
    with e show ?thesis by blast
  next
    case Do_Command
    show ?thesis
    proof (cases "ct_commands c")
      case Nil
      then obtain M where M: "run_turn env (Input_Command None) (ct_machine c) = Some M" "c' = after_turn M c"
        using Do_Command assms(2) by (auto split: if_splits)
      have "c\<lparr>ct_commands := []\<rparr> = c" using Nil by (cases c) simp
      with turn [OF M(1), of "[]" "[]"] Nil have "client_inv (m + queued_requests []) cmd (after_turn M c)"
        by (metis append_Nil input_command.simps(1) le_numeral_extra(3) list.case(1) list.size(3) zero_le)
      with M(2) e show ?thesis by blast
    next
      case (Cons command commands)
      then obtain M where "run_turn env (Input_Command (Some command)) (ct_machine c) = Some M"
        "c' = after_turn M (c\<lparr>ct_commands := commands\<rparr>)"
        using Do_Command assms(2) by auto
      with turn [of env "Input_Command (Some command)" M "[command]" commands] Cons e show ?thesis by auto
    qed
  next
    case (Do_Input input)
    then obtain M where "run_turn env input (ct_machine c) = Some M" "c' = after_turn M c"
      "input_command input = None"
      using assms(2) by (auto split: client_input.splits)
    with turn [of env input M "[]" "ct_commands c"] e show ?thesis
      by (intro exI [of _ m] exI [of _ cmd]) (simp add: queued_requests_def)
  qed
qed

lemma client_acts_calls: "client_acts env as c = Some c' \<Longrightarrow> ct_calls c \<le> ct_calls c'"
proof (induction as arbitrary: c)
  case (Cons a as)
  then obtain c1 where "client_act env a c = Some c1" "client_acts env as c1 = Some c'"
    by (auto simp: bind_eq_Some_conv)
  with Cons.IH [of c1] ct_calls_act [of env a c c1] show ?case by simp
qed simp

lemma client_acts_inv:
  assumes "client_acts env as c = Some c'" "client_inv m cmd c" "ct_calls c' \<le> 2 ^ 64"
  shows "\<exists>m' cmd'. client_inv m' cmd' c' \<and> extends_requests (ct_calls c) cmd cmd'"
  using assms
proof (induction as arbitrary: c m cmd)
  case (Cons a as)
  then obtain c1 where c1: "client_act env a c = Some c1" "client_acts env as c1 = Some c'"
    by (auto simp: bind_eq_Some_conv)
  have n: "ct_calls c1 \<le> 2 ^ 64" using client_acts_calls [OF c1(2)] Cons.prems(3) by simp
  obtain m1 cmd1 where i: "client_inv m1 cmd1 c1" "extends_requests (ct_calls c) cmd cmd1"
    using client_act_inv [OF Cons.prems(2) c1(1) n] by blast
  obtain m' cmd' where "client_inv m' cmd' c'" "extends_requests (ct_calls c1) cmd1 cmd'"
    using Cons.IH [OF c1(2) i(1) Cons.prems(3)] by blast
  with i(2) ct_calls_act [OF c1(1)] show ?case
    by (intro exI [of _ m'] exI [of _ cmd']) (simp add: extends_requests_def)
qed (auto simp: extends_requests_def)

lemma client_reachable_inv:
  assumes "client_acts env as (client_new env ids credentials) = Some c" "ct_calls c \<le> 2 ^ 64"
  obtains m cmd where "client_inv m cmd c"
  using client_acts_inv [OF assms(1) client_new_inv assms(2)] by blast

end
