(* ===== verification/Client_Properties.thy ===== *)
theory Client_Properties
  imports Client_Invariants
begin

section \<open>Properties of the client\<close>

text \<open>
  What callers and the server can rely on: every call is answered once, by its own response; what
  is resent is unchanged; the runner stops when asked, backs off and never gives up, resumes what
  it was doing on a new connection, and asks for what it fell out of step with.
\<close>

subsection \<open>Calls and their answers\<close>

definition answered :: "'c client \<Rightarrow> nat list" where
  "answered c = map fst (cr_answers (cm_runner (ct_machine c)))"

definition calls_waiting :: "'c client \<Rightarrow> nat list" where
  "calls_waiting c = map pend_response (bmap_values (cr_pending (cm_runner (ct_machine c)))) @
     queued_calls (ct_commands c)"

definition frames_sent :: "'c client \<Rightarrow> (nat option \<times> client_frame) list" where
  "frames_sent c = cr_sent (cm_runner (ct_machine c))"

lemma client_inv_accounts:
  assumes "client_inv m cmd c"
  shows "distinct (answered c @ calls_waiting c)" "set (answered c) \<union> set (calls_waiting c) = {..<ct_calls c}"
    "ended (ct_machine c) \<Longrightarrow> calls_waiting c = []"
proof -
  have "mset (answered c @ calls_waiting c) = mset [0..<ct_calls c]"
    using assms by (simp add: client_inv_def books_def answered_def calls_waiting_def ac_simps)
  then show "distinct (answered c @ calls_waiting c)" "set (answered c) \<union> set (calls_waiting c) = {..<ct_calls c}"
    by (metis distinct_upt mset_eq_imp_distinct_iff)
      (metis \<open>mset (answered c @ calls_waiting c) = mset [0..<ct_calls c]\<close> set_append set_mset_mset set_upt atLeast0LessThan)
  show "ended (ct_machine c) \<Longrightarrow> calls_waiting c = []"
    using assms by (simp add: client_inv_def calls_waiting_def bmap_values_def queued_calls_def)
qed

lemma client_inv_sent:
  assumes "client_inv m cmd c" "(Some call, f) \<in> set (frames_sent c)"
  shows "well_formed_request (cmd call)" "\<exists>rid. pending_frame (fst (cmd call)) (snd (cmd call)) rid = Some f"
  using assms by (auto simp: client_inv_def machine_inv_def runner_inv_def calls_recorded_def frames_sent_def)

subsection \<open>An example\<close>

text \<open>A stored credential, a request while there is no connection, a connection that is lost, and another.\<close>

definition example_credential :: device_credential where
  "example_credential = \<lparr>cred_server_id = ServerId ''s'', cred_device_id = DeviceId ''d'',
     cred_token = DeviceToken ''t'', cred_scopes = DeviceScopes_all\<rparr>"
definition example_client_config :: client_config where
  "example_client_config = ClientConfig_stored \<lparr>lim_pre_auth = 64, lim_post_auth = 64\<rparr>
     \<lparr>target_endpoint = ''wss://h/control'', target_tls_identity = Tls_PubliclyTrusted\<rparr> (ServerId ''s'')
     \<lparr>client_name = ''c'', client_version = ''1'', client_platform_of = Platform_Cli, client_capabilities = {}\<rparr>"
definition example_welcome :: server_welcome where
  "example_welcome = \<lparr>wel_protocol_version = 1, wel_server_id = ServerId ''s'',
     wel_connection_id = ConnectionId ''k'', wel_device_id = DeviceId ''d'',
     wel_capabilities = \<lparr>scap_enabled = {}, scap_max_frame_bytes = 64\<rparr>,
     wel_heartbeat_interval_ms = 1000, wel_issued_credential = None\<rparr>"
definition example_response :: response_envelope where
  "example_response = \<lparr>rsp_request_id = RequestId (''request-p-'' @ [char_of (50::nat)]), rsp_outcome = Outcome_Success Resp_Accepted\<rparr>"
definition example_client_env :: "memory_credential_store client_env" where
  "example_client_env = \<lparr>cl_config = example_client_config, cl_load = memory_load, cl_save = memory_save,
     cl_serialize = (\<lambda>_. ([''x''], None)),
     cl_deserialize = (\<lambda>bytes. if bytes = ''w'' then Inr (Server_Welcome example_welcome, 1)
       else Inr (Server_Response example_response, 1))\<rparr>"
definition example_client :: "memory_credential_store client" where
  "example_client = client_new example_client_env \<lparr>idg_prefix = ''p'', idg_counter = 0\<rparr>
     [(ServerId ''s'', example_credential)]"
definition example_actions :: "client_action list" where
  "example_actions = [Do_Call (Call_Request (Req_StopAgent (AgentId ''a''))), Do_Command,
     Do_Input (Input_Connect (Inr \<lparr>sock_answers = (\<lambda>_. None), sock_sends = 0\<rparr>)),
     Do_Input (Input_Socket (Inr (Socket_Binary ''w''))),
     Do_Input (Input_Socket (Inr (Socket_Closed None))), Do_Input Input_Slept,
     Do_Input (Input_Connect (Inr \<lparr>sock_answers = (\<lambda>_. None), sock_sends = 0\<rparr>)),
     Do_Input (Input_Socket (Inr (Socket_Binary ''w'')))]"

lemmas client_eval = client_new_def client_start_def begin_attempt_def ClientRunner_new_def authentication_def
  set_status_def broadcast_def ClientConfig_stored_def example_client_config_def ReconnectPolicy_default_def
  device_authentication_def memory_load_def memory_save_def request_call_def request_with_operation_id_def
  validate_operation_id_def next_operation_id_def send_call_def unbounded_send_def on_runner_def ended_def
  id_next_def checked_add_def show_word_def show_nat_small OperationId_new_def RequestId_new_def string_identifier_new_def
  after_turn_def offline_turn_def handle_offline_command_def insert_pending_def is_mutating_def
  start_handshake_def send_frame_def send_binary_def cbor_encode_def LimitedWriter_new_def limited_write_def
  FrameLimits_codec_def client_hello_frame_def handle_welcome_def cbor_decode_def accept_credential_def
  start_session_def initialize_connection_def set_connected_def send_pending_def next_request_id_def
  connection_lost_def wait_and_advance_def mark_pending_disconnected_def disconnected_def continue_session_def
  List.map_filter_simps bmap_keys_def resume_cursors_def complete_response_def tell_def ProtocolVersion_CURRENT_def ProtocolVersion_V1_def
  example_client_env_def example_client_def example_welcome_def example_credential_def example_response_def Let_def

lemma example_client_run:
  "\<exists>c. client_acts example_client_env example_actions example_client = Some c \<and> ct_calls c = 1 \<and>
     cm_phase (ct_machine c) =
       Phase_Connected (CborCodec 64) \<lparr>sock_answers = (\<lambda>_. None), sock_sends = Suc (Suc 0)\<rparr> \<and>
     (\<exists>oid. {(Some 0, Client_Request \<lparr>env_request_id = RequestId (''request-p-'' @ [char_of (49::nat)]),
              env_operation_id = oid, env_request = Req_StopAgent (AgentId ''a'')\<rparr>),
            (Some 0, Client_Request \<lparr>env_request_id = RequestId (''request-p-'' @ [char_of (50::nat)]),
              env_operation_id = oid, env_request = Req_StopAgent (AgentId ''a'')\<rparr>)} \<subseteq> set (frames_sent c)) \<and>
     answered c = [] \<and>
     (\<exists>c'. client_act example_client_env (Do_Input (Input_Socket (Inr (Socket_Binary ''r'')))) c = Some c' \<and>
        answered c' = [0])"
  by (simp add: client_eval example_actions_def frames_sent_def answered_def)

lemma example_client_shutdown:
  "\<exists>c. client_acts example_client_env
     ([Do_Call (Call_Request Req_ListAgents), Do_Call Call_Shutdown, Do_Call (Call_Request Req_ListAgents)] @
      [Do_Command, Do_Command]) example_client = Some c \<and> ct_calls c = 3 \<and> ended (ct_machine c)"
  by (simp add: client_eval client_fail_pending_def tell_def finish_shutdown_def shutdown_call_def shut_down_def
      drop_runner_def)

text \<open>
  C4: however calls, reconnections and failures interleave, each call that waits is answered at
  most once, and until then it is still pending or queued; when the runner has ended, every call
  has been answered. The runner never panics.\<close>
theorem calls_answered_once:
  assumes "client_acts env as (client_new env ids credentials) = Some c" "ct_calls c \<le> 2 ^ 64"
  shows "distinct (answered c @ calls_waiting c) \<and> set (answered c) \<union> set (calls_waiting c) = {..<ct_calls c} \<and>
    (ended (ct_machine c) \<longrightarrow> calls_waiting c = [] \<and> set (answered c) = {..<ct_calls c}) \<and>
    cm_phase (ct_machine c) \<noteq> Phase_Panicked"
proof -
  obtain m cmd where i: "client_inv m cmd c" using client_reachable_inv [OF assms] .
  then have "cm_phase (ct_machine c) \<noteq> Phase_Panicked" by (auto simp: client_inv_def machine_inv_def)
  with client_inv_accounts [OF i] show ?thesis by auto
qed

lemma calls_answered_once_witness:
  "\<exists>c. client_acts example_client_env
     ([Do_Call (Call_Request Req_ListAgents), Do_Call Call_Shutdown, Do_Call (Call_Request Req_ListAgents)] @
      [Do_Command, Do_Command]) example_client = Some c \<and> set (answered c) = {..<3}"
proof -
  obtain c where c: "client_acts example_client_env
     ([Do_Call (Call_Request Req_ListAgents), Do_Call Call_Shutdown, Do_Call (Call_Request Req_ListAgents)] @
      [Do_Command, Do_Command]) example_client = Some c" "ct_calls c = 3" "ended (ct_machine c)"
    using example_client_shutdown by blast
  have "ct_calls c \<le> 2 ^ 64" by (simp add: c(2))
  from calls_answered_once [OF c(1) [unfolded example_client_def] this] c show ?thesis by auto
qed

text \<open>
  C11: every request the client sends is well-formed for the server, no request identifier is used
  for two of them, and what is sent for a call over several connections differs only in the
  request identifier: the same request under the same operation identifier.\<close>
theorem resent_request_unchanged:
  assumes "client_acts env as (client_new env ids credentials) = Some c" "ct_calls c \<le> 2 ^ 64"
  shows "distinct (List.map_filter (\<lambda>(call, f). frame_request_id f) (frames_sent c)) \<and>
    (\<forall>call f f'. (Some call, f) \<in> set (frames_sent c) \<longrightarrow> (Some call, f') \<in> set (frames_sent c) \<longrightarrow>
      (\<exists>payload oid rid rid'. well_formed_request (payload, oid) \<and>
         pending_frame payload oid rid = Some f \<and> pending_frame payload oid rid' = Some f')) \<and>
    (\<forall>call e. (call, Client_Request e) \<in> set (frames_sent c) \<longrightarrow> RequestEnvelope_validate e = Inr ())"
proof -
  obtain m cmd where i: "client_inv m cmd c" using client_reachable_inv [OF assms] .
  then have r: "runner_inv m cmd (cm_runner (ct_machine c))" by (simp add: client_inv_def machine_inv_def)
  have "RequestEnvelope_validate e = Inr ()" if "(call, Client_Request e) \<in> set (frames_sent c)" for call e
  proof (cases call)
    case None
    with r that show ?thesis
      by (force simp: runner_inv_def calls_recorded_def frames_sent_def)
  next
    case (Some n)
    obtain payload oid where p: "cmd n = (payload, oid)" by fastforce
    with client_inv_sent [OF i] that Some obtain rid
      where "well_formed_request (payload, oid)" "pending_frame payload oid rid = Some (Client_Request e)"
      by fastforce
    then show ?thesis by (cases payload; cases oid) (auto simp: RequestEnvelope_validate_def)
  qed
  moreover have "\<exists>payload oid rid rid'. well_formed_request (payload, oid) \<and>
      pending_frame payload oid rid = Some f \<and> pending_frame payload oid rid' = Some f'"
    if "(Some call, f) \<in> set (frames_sent c)" "(Some call, f') \<in> set (frames_sent c)" for call f f'
    using client_inv_sent [OF i that(1)] client_inv_sent [OF i that(2)] by (metis prod.collapse)
  ultimately show ?thesis
    using r by (auto simp: runner_inv_def fresh_ids_def sent_ids_def frames_sent_def)
qed

lemma resent_request_unchanged_witness:
  "\<exists>c f f'. client_acts example_client_env example_actions example_client = Some c \<and> f \<noteq> f' \<and>
     (Some 0, f) \<in> set (frames_sent c) \<and> (Some 0, f') \<in> set (frames_sent c) \<and>
     (\<exists>payload oid rid rid'. well_formed_request (payload, oid) \<and>
        pending_frame payload oid rid = Some f \<and> pending_frame payload oid rid' = Some f')"
proof -
  obtain c oid where c: "client_acts example_client_env example_actions example_client = Some c"
    "ct_calls c = 1"
    "{(Some 0, Client_Request \<lparr>env_request_id = RequestId (''request-p-'' @ [char_of (49::nat)]),
         env_operation_id = oid, env_request = Req_StopAgent (AgentId ''a'')\<rparr>),
      (Some 0, Client_Request \<lparr>env_request_id = RequestId (''request-p-'' @ [char_of (50::nat)]),
         env_operation_id = oid, env_request = Req_StopAgent (AgentId ''a'')\<rparr>)} \<subseteq> set (frames_sent c)"
    using example_client_run by blast
  let ?f = "\<lambda>n::nat. Client_Request \<lparr>env_request_id = RequestId (''request-p-'' @ [char_of n]),
     env_operation_id = oid, env_request = Req_StopAgent (AgentId ''a'')\<rparr>"
  have "(char_of (49::nat) :: char) \<noteq> char_of (50::nat)"
    by (simp add: char_of_eq_iff)
  moreover have "ct_calls c \<le> 2 ^ 64" by (simp add: c(2))
  ultimately show ?thesis
    using resent_request_unchanged [OF c(1) [unfolded example_client_def]] c(1,3)
    by (intro exI [of _ c] exI [of _ "?f 49"] exI [of _ "?f 50"]) auto
qed

lemma map_filter_inj:
  "distinct (List.map_filter g xs) \<Longrightarrow> x \<in> set xs \<Longrightarrow> y \<in> set xs \<Longrightarrow> g x = Some i \<Longrightarrow> g y = Some i \<Longrightarrow> x = y"
proof (induction xs)
  case (Cons z zs)
  have "i \<in> set (List.map_filter g zs)" if "w \<in> set zs" "g w = Some i" for w
    using that by (force simp: List.map_filter_def)
  with Cons show ?case by (auto simp: List.map_filter_simps split: option.splits)
qed simp

lemma response_answers_its_call:
  assumes "client_inv m cmd c" "cm_phase (ct_machine c) = Phase_Connected codec sock"
    and "cbor_decode (cl_deserialize env) codec bytes = Inr (Server_Response response)"
    and "client_act env (Do_Input (Input_Socket (Inr (Socket_Binary bytes)))) c = Some c'"
  shows "cr_answers (cm_runner (ct_machine c')) = cr_answers (cm_runner (ct_machine c)) \<or>
    (\<exists>call f. (Some call, f) \<in> set (frames_sent c) \<and> frame_request_id f = Some (rsp_request_id response) \<and>
       (\<forall>call' f'. (call', f') \<in> set (frames_sent c) \<and> frame_request_id f' = Some (rsp_request_id response)
          \<longrightarrow> call' = Some call \<and> f' = f) \<and>
       cr_answers (cm_runner (ct_machine c')) = cr_answers (cm_runner (ct_machine c)) @
         [(call, Answer_Response (case rsp_outcome response of
            Outcome_Success x \<Rightarrow> Inr x | Outcome_Error e \<Rightarrow> Inl (CReq_Protocol e)))])"
proof -
  let ?r = "cm_runner (ct_machine c)"
  from assms(1) have r: "linked ?r" "fresh_ids ?r" "calls_recorded cmd ?r"
    by (simp_all add: client_inv_def machine_inv_def runner_inv_def)
  have c': "cm_runner (ct_machine c') = complete_response response ?r"
    using assms(2-4) by (auto simp: continue_session_def after_turn_def ended_def)
  from r(1) show ?thesis
  proof (cases rule: complete_response_cases [where response = response])
    case (unknown e)
    then show ?thesis by (simp add: c' broadcast_def)
  next
    case (known key p x)
    obtain f where f: "pending_frame (pend_payload p) (pend_operation_id p) (rsp_request_id response) = Some f"
      "(Some (pend_response p), f) \<in> set (frames_sent c)"
      using r(1) known(2,3) unfolding linked_def frames_sent_def by blast
    then have "frame_request_id f = Some (rsp_request_id response)"
      using r(3) known(2) well_formed_frame [of "pend_payload p" "pend_operation_id p"]
      unfolding calls_recorded_def by (metis option.inject)
    moreover have "call' = Some (pend_response p) \<and> f' = f"
      if "(call', f') \<in> set (frames_sent c)" "frame_request_id f' = Some (rsp_request_id response)" for call' f'
      using map_filter_inj [of "\<lambda>(call, f). frame_request_id f" "frames_sent c" "(call', f')"
          "(Some (pend_response p), f)" "rsp_request_id response"]
        that f(2) r(2) calculation
      by (simp add: fresh_ids_def sent_ids_def frames_sent_def)
    moreover have "cr_answers (complete_response response ?r) = cr_answers ?r @
         [(pend_response p, Answer_Response (case rsp_outcome response of
            Outcome_Success x \<Rightarrow> Inr x | Outcome_Error e \<Rightarrow> Inl (CReq_Protocol e)))]"
      using known(1,2) by (simp add: complete_response_def Let_def tell_def)
    ultimately show ?thesis using f(2) unfolding c' by blast
  qed
qed



subsection \<open>Shutting down\<close>

lemma after_turn_waiting [simp]:
  "ended M \<Longrightarrow> calls_waiting (after_turn M c) = []"
  "ct_commands (after_turn M c) = (if ended M then [] else ct_commands c)"
  "cm_phase (ct_machine (after_turn M c)) = cm_phase M"
  "ended (ct_machine (after_turn M c)) = ended M"
  "cr_status (cm_runner (ct_machine (after_turn M c))) = cr_status (cm_runner M)"
  by (simp_all add: after_turn_def drop_runner_def on_runner_def Let_def calls_waiting_def queued_calls_def
      bmap_values_def ended_def client_fail_pending_def)

lemma sent_goes_on: "apfst (map_sum id (\<lambda>_. False)) y = (Inr True, s) \<Longrightarrow> False"
  by (cases y; cases "fst y") auto

lemma client_acts_append: "client_acts env (as @ bs) c = Option.bind (client_acts env as c) (client_acts env bs)"
proof (induction as arbitrary: c)
  case (Cons a as)
  then show ?case by (cases "client_act env a c") simp_all
qed simp

text \<open>A command is always taken; unless it stops the runner, the runner goes on.\<close>

lemma command_turn:
  assumes "\<not> ended M"
  shows "\<exists>M'. run_turn env (Input_Command command) M = Some M' \<and>
    (if stops command (cm_runner M) = None then cm_phase M' = Phase_Panicked \<or> \<not> ended M'
     else cm_phase M' = Phase_Returned (Inr ()) \<and> cr_status (cm_runner M') = Status_Stopped None)"
proof (cases "\<exists>codec sock. cm_phase M = Phase_Connected codec sock")
  case True
  then obtain codec sock where p: "cm_phase M = Phase_Connected codec sock" by blast
  obtain x sock' r' where h: "handle_connected_command env codec command (sock, cm_runner M) = (x, sock', r')"
    by (metis prod_cases3)
  show ?thesis
  proof (cases "stops command (cm_runner M)")
    case None
    then have "x \<noteq> Inr True" using h by (auto simp: handle_connected_command_def dest: sent_goes_on)
    then show ?thesis
      using p h None by (cases x rule: sum.exhaust; cases "projl x")
        (auto simp: continue_session_def ended_def connection_lost_def wait_and_advance_def panic_def
          split: if_splits)
  next
    case (Some r)
    then show ?thesis
      using p h by (auto simp: handle_connected_command_def continue_session_def shut_down_def
          finish_shutdown_def set_status_def broadcast_def)
  qed
next
  case False
  then have t: "run_turn env (Input_Command command) M = Some (offline_turn command M)"
    using assms by (auto simp: ended_def split: client_phase.splits)
  show ?thesis
  proof (cases "stops command (cm_runner M)")
    case None
    then show ?thesis using assms t by (simp add: offline_turn_def handle_offline_command_def ended_def)
  next
    case (Some r)
    then show ?thesis
      using t by (simp add: offline_turn_def handle_offline_command_def shut_down_def finish_shutdown_def
          set_status_def broadcast_def)
  qed
qed

lemma shutdown_stops: "stops (Some (Command_Shutdown call)) r \<noteq> None"
  by simp

lemma shutdown_drains:
  assumes "Command_Shutdown call \<in> set (ct_commands c)" "\<not> ended (ct_machine c)" "client_inv m cmd c"
    and "ct_calls c \<le> 2 ^ 64"
  shows "\<exists>k\<le>length (ct_commands c). \<exists>c'. client_acts env (replicate k Do_Command) c = Some c' \<and>
    cm_phase (ct_machine c') = Phase_Returned (Inr ()) \<and>
    cr_status (cm_runner (ct_machine c')) = Status_Stopped None \<and> calls_waiting c' = []"
  using assms
proof (induction "length (ct_commands c)" arbitrary: c m cmd)
  case (Suc n)
  then obtain command rest where q: "ct_commands c = command # rest" by (cases "ct_commands c") auto
  obtain M where M: "run_turn env (Input_Command (Some command)) (ct_machine c) = Some M"
    "if stops (Some command) (cm_runner (ct_machine c)) = None then cm_phase M = Phase_Panicked \<or> \<not> ended M
     else cm_phase M = Phase_Returned (Inr ()) \<and> cr_status (cm_runner M) = Status_Stopped None"
    using command_turn [OF Suc.prems(2)] by blast
  let ?c = "after_turn M (c\<lparr>ct_commands := rest\<rparr>)"
  have act: "client_act env Do_Command c = Some ?c" using q M(1) by simp
  have one: "client_acts env (replicate 1 Do_Command) c = Some ?c" using act by simp
  show ?case
  proof (cases "stops (Some command) (cm_runner (ct_machine c))")
    case (Some r)
    with M(2) have "cm_phase M = Phase_Returned (Inr ())" "cr_status (cm_runner M) = Status_Stopped None"
      by simp_all
    moreover from this have "ended M" by (simp add: ended_def)
    ultimately show ?thesis
      using one q by (intro exI [of _ 1] conjI exI [of _ ?c]) simp_all
  next
    case None
    with Suc.prems(1) q have r: "Command_Shutdown call \<in> set rest" by auto
    obtain m' cmd' where i: "client_inv m' cmd' ?c"
      using client_act_inv [OF Suc.prems(3) act] Suc.prems(4) by auto
    then have ne: "\<not> ended M"
      using None M(2) by (auto simp: client_inv_def machine_inv_def)
    have "\<exists>k\<le>length (ct_commands ?c). \<exists>c'. client_acts env (replicate k Do_Command) ?c = Some c' \<and>
        cm_phase (ct_machine c') = Phase_Returned (Inr ()) \<and>
        cr_status (cm_runner (ct_machine c')) = Status_Stopped None \<and> calls_waiting c' = []"
      using Suc.hyps q r ne i Suc.prems(4) by (intro Suc.hyps(1)) simp_all
    then obtain k c' where "k \<le> length rest" "client_acts env (replicate k Do_Command) ?c = Some c'"
      "cm_phase (ct_machine c') = Phase_Returned (Inr ())"
      "cr_status (cm_runner (ct_machine c')) = Status_Stopped None" "calls_waiting c' = []"
      using ne by auto
    moreover from this have "client_acts env (replicate (Suc k) Do_Command) c = Some c'"
      by (simp only: replicate_Suc client_acts.simps act bind.simps)
    ultimately show ?thesis
      using q by (intro exI [of _ "Suc k"] conjI exI [of _ c']) simp_all
  qed
qed simp



subsection \<open>Reconnecting\<close>

lemma next_delay_power:
  "maximum \<le> DURATION_MAX \<Longrightarrow>
     next_delay (min (d * 2 ^ k) maximum) maximum = min (d * 2 ^ Suc k) maximum"
  by (auto simp: next_delay_def duration_saturating_mul_def min_def ac_simps)

lemma authentication_again:
  "authentication env r = (Inr auth, r') \<Longrightarrow> authentication env (set_status s r') = (Inr auth, set_status s r')"
  by (auto simp: authentication_def set_status_def broadcast_def
      split: option.splits authentication_source.splits sum.splits if_splits)

text \<open>The runner is about to connect, and has what it authenticates with.\<close>

definition connecting :: "'c client_env \<Rightarrow> nat \<Rightarrow> 'c client \<Rightarrow> bool" where
  "connecting env delay c \<longleftrightarrow> cm_delay (ct_machine c) = delay \<and>
     (\<exists>auth. cm_phase (ct_machine c) = Phase_Connecting auth \<and>
        (\<forall>s. authentication env (set_status s (cm_runner (ct_machine c))) =
             (Inr auth, set_status s (cm_runner (ct_machine c)))))"

lemma connecting_begin:
  assumes "authentication env (set_status Status_Connecting r) = (Inr auth, r')"
    and "ct_machine c = begin_attempt env delay r"
  shows "connecting env delay c"
  using assms authentication_again [OF assms(1)] by (simp add: connecting_def begin_attempt_def)

text \<open>An attempt that fails, and the wait after it.\<close>

lemma failed_attempt:
  assumes "connecting env delay c"
  defines "next \<equiv> next_delay delay (maximum_delay (cfg_reconnect (cl_config env)))"
  obtains c' c'' where "client_act env (Do_Input (Input_Connect (Inl e))) c = Some c'"
    "cm_phase (ct_machine c') = Phase_Waiting delay next"
    "client_act env (Do_Input Input_Slept) c' = Some c''" "connecting env next c''"
proof -
  let ?M = "ct_machine c"
  obtain auth where auth: "cm_phase ?M = Phase_Connecting auth" "cm_delay ?M = delay"
    "\<And>s. authentication env (set_status s (cm_runner ?M)) = (Inr auth, set_status s (cm_runner ?M))"
    using assms(1) by (auto simp: connecting_def)
  let ?r = "disconnected (Some (transport_message e)) (cm_runner ?M)"
  let ?c' = "c\<lparr>ct_machine := \<lparr>cm_runner = ?r, cm_phase = Phase_Waiting delay next, cm_delay = delay\<rparr>\<rparr>"
  have "client_act env (Do_Input (Input_Connect (Inl e))) c = Some ?c'"
    using auth(1,2) by (simp add: wait_and_advance_def next_def after_turn_def ended_def)
  moreover have a: "authentication env (set_status Status_Connecting ?r) = (Inr auth, set_status Status_Connecting ?r)"
    using authentication_again [OF auth(3)] by (simp add: disconnected_def)
  then have "client_act env (Do_Input Input_Slept) ?c' = Some (?c'\<lparr>ct_machine := begin_attempt env next ?r\<rparr>)"
    by (simp add: after_turn_def ended_def begin_attempt_def)
  moreover have "connecting env next (?c'\<lparr>ct_machine := begin_attempt env next ?r\<rparr>)"
    by (rule connecting_begin [OF a]) simp
  ultimately show thesis using that [of ?c'] by simp
qed

abbreviation failures :: "transport_error list \<Rightarrow> client_action list" where
  "failures es \<equiv> concat (map (\<lambda>e. [Do_Input (Input_Connect (Inl e)), Do_Input Input_Slept]) es)"

lemma failures_delay:
  assumes "connecting env (min (d * 2 ^ k) (maximum_delay (cfg_reconnect (cl_config env)))) c"
    and "maximum_delay (cfg_reconnect (cl_config env)) \<le> DURATION_MAX"
  shows "\<exists>c'. client_acts env (failures es) c = Some c' \<and>
    connecting env (min (d * 2 ^ (k + length es)) (maximum_delay (cfg_reconnect (cl_config env)))) c'"
  using assms(1)
proof (induction es arbitrary: c k)
  case (Cons e es)
  from failed_attempt [OF Cons.prems, of e] obtain c' c'' where
    c: "client_act env (Do_Input (Input_Connect (Inl e))) c = Some c'"
      "client_act env (Do_Input Input_Slept) c' = Some c''"
      "connecting env (min (d * 2 ^ Suc k) (maximum_delay (cfg_reconnect (cl_config env)))) c''"
    unfolding next_delay_power [OF assms(2)] by metis
  from Cons.IH [OF c(3)] obtain c3 where "client_acts env (failures es) c'' = Some c3"
    "connecting env (min (d * 2 ^ (k + length (e # es))) (maximum_delay (cfg_reconnect (cl_config env)))) c3"
    by auto
  moreover from this have "client_acts env (failures (e # es)) c = Some c3"
    by (simp only: list.map concat.simps append_Cons append_Nil client_acts.simps c bind.simps)
  ultimately show ?case by blast
qed auto



subsection \<open>What a new connection starts with\<close>

lemma try_each_Inr:
  "try_each f (x # xs) s = (Inr (), s') \<longleftrightarrow> (\<exists>s1. f x s = (Inr (), s1) \<and> try_each f xs s1 = (Inr (), s'))"
  by (cases "f x s"; cases "fst (f x s)") auto

lemma send_subscription_frames:
  "send_subscription env codec resume a (sock, r) = (Inr (), sock', r') \<Longrightarrow>
     r' = r\<lparr>cr_sent := cr_sent r @ [(None, Client_Subscribe \<lparr>subreq_agent_id = a,
       subreq_cursor = (if resume then replica_cursor (cr_state r) a else None)\<rparr>)]\<rparr>"
  by (auto simp: send_subscription_def send_frame_def split: sum.splits prod.splits)

lemma subscriptions_frames:
  "try_each (send_subscription env codec True) as (sock, r) = (Inr (), sock', r') \<Longrightarrow>
     r' = r\<lparr>cr_sent := cr_sent r @ map (\<lambda>a. (None, Client_Subscribe \<lparr>subreq_agent_id = a,
       subreq_cursor = replica_cursor (cr_state r) a\<rparr>)) as\<rparr>"
proof (induction as arbitrary: sock r)
  case (Cons a as)
  then obtain sock1 r1 where "send_subscription env codec True a (sock, r) = (Inr (), sock1, r1)"
    "try_each (send_subscription env codec True) as (sock1, r1) = (Inr (), sock', r')"
    by (auto simp: try_each_Inr simp del: try_each.simps)
  from send_subscription_frames [OF this(1)] Cons.IH [OF this(2)] show ?case by simp
qed simp

text \<open>The frame that carries a pending request.\<close>

definition carries :: "pending_request \<Rightarrow> nat option \<times> client_frame \<Rightarrow> bool" where
  "carries p cf \<longleftrightarrow> fst cf = Some (pend_response p) \<and>
     (\<exists>rid. pending_frame (pend_payload p) (pend_operation_id p) rid = Some (snd cf))"

lemma send_pending_frames:
  assumes "send_pending env codec key (sock, r) = (Inr (), sock', r')" "bmap_get (cr_pending r) key = Some p"
  shows "\<exists>cf. cr_sent r' = cr_sent r @ [cf] \<and> carries p cf"
    "key' \<noteq> key \<Longrightarrow> bmap_get (cr_pending r') key' = bmap_get (cr_pending r) key'"
proof -
  obtain x r1 where n: "next_request_id r = (x, r1)" by fastforce
  have r1: "cr_pending r1 = cr_pending r" "cr_sent r1 = cr_sent r"
    using n by (auto simp: next_request_id_def Let_def split: prod.splits)
  obtain rid where x: "x = Inr rid" using assms(1) n by (cases x) (auto simp: send_pending_def)
  obtain f where f: "pending_frame (pend_payload p) (pend_operation_id p) rid = Some f"
    using assms n x r1 by (cases "pending_frame (pend_payload p) (pend_operation_id p) rid") (auto simp: send_pending_def)
  obtain y sock2 r2 where y: "send_frame env codec (Some (pend_response p)) f (sock, r1) = (y, sock2, r2)"
    by (metis prod_cases3)
  have "y = Inr ()" using assms n x r1 f y by (cases y) (auto simp: send_pending_def)
  with y have r2: "r2 = r1\<lparr>cr_sent := cr_sent r1 @ [(Some (pend_response p), f)]\<rparr>"
    by (auto elim: send_frame_cases)
  have "cr_sent r' = cr_sent r2"
    "cr_pending r' = bmap_insert key (p\<lparr>pend_sent_request_id := Some rid\<rparr>) (cr_pending r2)"
    using assms n x r1 f y \<open>y = Inr ()\<close> by (auto simp: send_pending_def)
  with r1 r2 f show "\<exists>cf. cr_sent r' = cr_sent r @ [cf] \<and> carries p cf"
    "key' \<noteq> key \<Longrightarrow> bmap_get (cr_pending r') key' = bmap_get (cr_pending r) key'"
    by (auto simp: carries_def bmap_simps)
qed

lemma pendings_frames:
  assumes "try_each (send_pending env codec) (map fst kps) (sock, r) = (Inr (), sock', r')"
    and "\<forall>(key, p) \<in> set kps. bmap_get (cr_pending r) key = Some p" "distinct (map fst kps)"
  shows "\<exists>cfs. cr_sent r' = cr_sent r @ cfs \<and> list_all2 carries (map snd kps) cfs"
  using assms
proof (induction kps arbitrary: sock r)
  case (Cons kp kps)
  obtain key p where kp: "kp = (key, p)" by fastforce
  obtain sock1 r1 where s: "send_pending env codec key (sock, r) = (Inr (), sock1, r1)"
    "try_each (send_pending env codec) (map fst kps) (sock1, r1) = (Inr (), sock', r')"
    using Cons.prems(1) by (auto simp: kp try_each_Inr simp del: try_each.simps)
  have p: "bmap_get (cr_pending r) key = Some p" using Cons.prems(2) kp by simp
  obtain cf where cf: "cr_sent r1 = cr_sent r @ [cf]" "carries p cf"
    using send_pending_frames(1) [OF s(1) p] by blast
  have "\<forall>(k, q) \<in> set kps. bmap_get (cr_pending r1) k = Some q"
    using Cons.prems(2,3) send_pending_frames(2) [OF s(1) p] by (force simp: kp)
  with Cons.IH [OF s(2)] Cons.prems(3) obtain cfs
    where "cr_sent r' = cr_sent r1 @ cfs" "list_all2 carries (map snd kps) cfs" by auto
  with cf show ?case by (intro exI [of _ "cf # cfs"]) (simp add: kp)
qed simp

text \<open>
  C25: when a welcome is accepted and the connection can be used, the client has sent, in this
  order, a subscription for every agent it is to follow, with the cursor of what it holds, and
  every request that still waits for its answer; nothing was left out or sent twice.\<close>
theorem reconnection_resumes:
  assumes "client_acts env as (client_new env ids credentials) = Some c" "ct_calls c \<le> 2 ^ 64"
    and "cm_phase (ct_machine c) = Phase_Handshake auth sock"
    and "client_act env (Do_Input (Input_Socket (Inr (Socket_Binary bytes)))) c = Some c'"
    and "cm_phase (ct_machine c') = Phase_Connected codec sock'"
  shows "\<exists>requests. frames_sent c' = frames_sent c @
      map (\<lambda>a. (None, Client_Subscribe \<lparr>subreq_agent_id = a,
             subreq_cursor = replica_cursor (cr_state (cm_runner (ct_machine c))) a\<rparr>))
        (sorted_list_of_set (cr_desired (cm_runner (ct_machine c)))) @ requests \<and>
    list_all2 carries (bmap_values (cr_pending (cm_runner (ct_machine c)))) requests"
proof -
  let ?r = "cm_runner (ct_machine c)"
  obtain m cmd where i: "client_inv m cmd c" using client_reachable_inv [OF assms(1,2)] .
  then have inv: "bmap_invar (cr_pending ?r)" by (simp add: client_inv_def machine_inv_def runner_inv_def linked_def)
  obtain x r1 where w: "handle_welcome env auth bytes ?r = (x, r1)" by fastforce
  have M': "ct_machine c' = (let M = handshake_turn env auth sock (Inr (Socket_Binary bytes)) (ct_machine c) in M)"
    "\<not> ended (ct_machine c')"
    using assms(3-5) by (auto simp: after_turn_def ended_def Let_def drop_runner_def on_runner_def split: if_splits)
  then obtain wl k where x: "x = Inr (wl, k)"
    using w assms(5) by (cases x) (auto simp: stop_fatally_def)
  have r1: "core r1 = core ?r" "cr_state r1 = cr_state ?r" "cr_desired r1 = cr_desired ?r"
  proof -
    show "core r1 = core ?r" using core_handle_welcome [of env auth bytes ?r] w by simp
    have "cr_state r' = cr_state r \<and> cr_desired r' = cr_desired r"
      if "accept_credential env a wl r = (y, r')" for a wl y and r r' :: "'a client_runner"
      using that by (auto simp: accept_credential_def split: client_authentication.splits option.splits
          if_splits prod.splits sum.splits)
    then show "cr_state r1 = cr_state ?r" "cr_desired r1 = cr_desired ?r"
      using w x by (auto simp: handle_welcome_def Let_def split: sum.splits server_frame.splits prod.splits if_splits)
  qed
  let ?r2 = "set_connected wl r1"
  obtain y sock3 r3 where ini: "initialize_connection env k (sock, ?r2) = (y, sock3, r3)"
    by (metis prod_cases3)
  have c': "cm_runner (ct_machine c') = r3" "y = Inr ()"
    using M' w x ini assms(5)
    by (cases y; simp add: start_session_def Let_def panic_def split: send_failure.splits)+
  have r2: "cr_state ?r2 = cr_state ?r" "cr_desired ?r2 = cr_desired ?r" "cr_sent ?r2 = cr_sent ?r"
    "cr_pending ?r2 = cr_pending ?r"
    using r1 by (simp_all add: set_connected_def set_status_def broadcast_def core_def)
  obtain sock4 r4 where t: "try_each (send_subscription env k True) (sorted_list_of_set (cr_desired ?r)) (sock, ?r2) =
      (Inr (), sock4, r4)" "try_each (send_pending env k) (bmap_keys (cr_pending r4)) (sock4, r4) = (Inr (), sock3, r3)"
    using ini c'(2) r2 by (auto simp: initialize_connection_def split: prod.splits sum.splits)
  note f = subscriptions_frames [OF t(1)]
  then have p4: "cr_pending r4 = cr_pending ?r" using r2 by simp
  have "\<exists>cfs. cr_sent r3 = cr_sent r4 @ cfs \<and> list_all2 carries (map snd (cr_pending ?r)) cfs"
  proof (rule pendings_frames)
    show "try_each (send_pending env k) (map fst (cr_pending ?r)) (sock4, r4) = (Inr (), sock3, r3)"
      using t(2) p4 by (simp add: bmap_keys_def)
    show d: "distinct (map fst (cr_pending ?r))" using bm.distinct_keys [OF inv] by (simp add: bmap_keys_def)
    show "\<forall>(key, p) \<in> set (cr_pending ?r). bmap_get (cr_pending r4) key = Some p"
      using p4 d by (auto intro: map_of_is_SomeI)
  qed
  then show ?thesis using f r2 by (simp add: frames_sent_def c'(1) bmap_values_def)
qed

definition example_offline :: "client_action list" where
  "example_offline = [Do_Call (Call_Subscribe (AgentId ''a'')), Do_Command,
     Do_Call (Call_Request Req_ListAgents), Do_Command,
     Do_Input (Input_Connect (Inr \<lparr>sock_answers = (\<lambda>_. None), sock_sends = 0\<rparr>))]"

lemma example_offline_run:
  "\<exists>c c'. client_acts example_client_env example_offline example_client = Some c \<and> ct_calls c = 1 \<and>
     cm_phase (ct_machine c) = Phase_Handshake (device_authentication example_credential)
       \<lparr>sock_answers = (\<lambda>_. None), sock_sends = 1\<rparr> \<and>
     client_act example_client_env (Do_Input (Input_Socket (Inr (Socket_Binary ''w'')))) c = Some c' \<and>
     cm_phase (ct_machine c') = Phase_Connected (CborCodec 64) \<lparr>sock_answers = (\<lambda>_. None), sock_sends = 3\<rparr> \<and>
     cr_desired (cm_runner (ct_machine c)) = {AgentId ''a''} \<and>
     map pend_response (bmap_values (cr_pending (cm_runner (ct_machine c)))) = [0]"
  by (simp add: client_eval example_offline_def frames_sent_def send_subscription_def replica_cursor_def
      replica_default_def bmap_values_def)

lemma reconnection_resumes_witness:
  "\<exists>c c' cursor cf. client_acts example_client_env example_offline example_client = Some c \<and>
     client_act example_client_env (Do_Input (Input_Socket (Inr (Socket_Binary ''w'')))) c = Some c' \<and>
     frames_sent c' = frames_sent c @
       [(None, Client_Subscribe \<lparr>subreq_agent_id = AgentId ''a'', subreq_cursor = cursor\<rparr>), cf] \<and>
     fst cf = Some 0"
proof -
  obtain c c' where c: "client_acts example_client_env example_offline example_client = Some c" "ct_calls c = 1"
    "cm_phase (ct_machine c) = Phase_Handshake (device_authentication example_credential)
       \<lparr>sock_answers = (\<lambda>_. None), sock_sends = 1\<rparr>"
    "client_act example_client_env (Do_Input (Input_Socket (Inr (Socket_Binary ''w'')))) c = Some c'"
    "cm_phase (ct_machine c') = Phase_Connected (CborCodec 64) \<lparr>sock_answers = (\<lambda>_. None), sock_sends = 3\<rparr>"
    "cr_desired (cm_runner (ct_machine c)) = {AgentId ''a''}"
    "map pend_response (bmap_values (cr_pending (cm_runner (ct_machine c)))) = [0]"
    using example_offline_run by (elim exE conjE) (rule that)
  obtain p where p: "bmap_values (cr_pending (cm_runner (ct_machine c))) = [p]" "pend_response p = 0"
    using c(7) by (auto simp: map_eq_Cons_conv)
  have "ct_calls c \<le> 2 ^ 64" by (simp add: c(2))
  from reconnection_resumes [OF c(1) [unfolded example_client_def] this c(3-5)] p c(6)
  obtain cf where "frames_sent c' = frames_sent c @ [(None, Client_Subscribe \<lparr>subreq_agent_id = AgentId ''a'',
       subreq_cursor = replica_cursor (cr_state (cm_runner (ct_machine c))) (AgentId ''a'')\<rparr>), cf]" "carries p cf"
    by (auto simp: list_all2_Cons1)
  moreover from this have "fst cf = Some 0" using p(2) by (simp add: carries_def)
  ultimately show ?thesis using c(1,4) by blast
qed

subsection \<open>Falling out of step\<close>

lemma replica_apply_marks:
  assumes "replica_apply st frame = (result, st')" "a \<in> repl_resync_required st'"
    and "frame_agent_id frame = Some a \<or> a \<notin> repl_resync_required st"
  shows "frame_agent_id frame = Some a \<and> ((\<exists>e. result = Inl e) \<or> result = Inr [Effect_ResyncRequired a])"
proof -
  have snapshot: "repl_resync_required (snd (replica_apply_snapshot st ss)) =
      repl_resync_required st - snap_agent_id ` set ss" for st ss
    by (induction st ss rule: replica_apply_snapshot.induct) (auto simp: Let_def split: prod.split)
  have settle: "(\<exists>e. result = Inl e) \<and> b = a"
    if "settle st b effect (rbind (locate_snapshot st b) f) = (result, st')"
      "b = a \<or> a \<notin> repl_resync_required st" for b effect f
  proof -
    have "b \<notin> repl_resync_required st" if "rbind (locate_snapshot st b) f = Inr s" for s
      using that by (auto simp: locate_snapshot_def split: if_splits)
    with that assms(2) show ?thesis by (auto simp: settle_def split: sum.splits)
  qed
  show ?thesis
  proof (cases frame)
    case (Server_Snapshot ss)
    obtain effects st1 where e: "replica_apply_snapshot st ss = (effects, st1)" by fastforce
    with Server_Snapshot assms(1,2) snapshot [of st ss]
    have "a \<in> repl_resync_required st" "a \<notin> snap_agent_id ` set ss" by auto
    with Server_Snapshot assms(3) show ?thesis by (auto split: list.splits)
  next
    case (Server_Delta env)
    then show ?thesis
      using assms settle by (auto simp: replica_apply_delta_def Let_def)
  next
    case (Server_Event env)
    then show ?thesis using assms settle by (auto simp: replica_apply_event_def)
  next
    case (Server_InteractionRequest env)
    then show ?thesis using assms settle by (auto simp: replica_apply_interaction_def)
  qed (use assms in auto)
qed

lemma end_session_phase: "cm_phase (end_session env se delay r) \<noteq> Phase_Connected codec sock"
  by (cases se) (simp_all add: shut_down_def connection_lost_def wait_and_advance_def stop_fatally_def panic_def)

lemma resubscribe_state: "resubscribe env codec a (sock, r) = (x, sock', r') \<Longrightarrow> cr_state r' = cr_state r"
  using resubscribe_only [of env codec a sock r x sock' r'] by (auto simp: sent_only_def)

lemma apply_effects_state: "apply_effects env codec es (sock, r) = (x, sock', r') \<Longrightarrow> cr_state r' = cr_state r"
proof (induction es arbitrary: sock r)
  case (Cons e es)
  have b: "cr_state (broadcast v r) = cr_state r" for v by (simp add: broadcast_def)
  show ?case
  proof (cases e)
    case (Effect_ResyncRequired a)
    obtain y sock1 r1 where y: "resubscribe env codec a (sock, broadcast (CEvent_ResyncRequired a) r) = (y, sock1, r1)"
      by (metis prod_cases3)
    from resubscribe_state [OF y] Cons y b Effect_ResyncRequired show ?thesis by (cases y) auto
  qed (use Cons b in auto)
qed simp

lemma handle_replicated_state:
  assumes "handle_replicated env codec frame (sock, r) = (x, sock', r')" "replica_apply (cr_state r) frame = (result, st)"
  shows "cr_state r' = st"
  using assms
  by (cases result; cases "frame_agent_id frame")
    (auto simp: handle_replicated_def Let_def broadcast_def dest: resubscribe_state apply_effects_state)

text \<open>
  C26: an agent the client falls out of step with is asked for again: when a frame is about an
  agent and leaves it marked, or marks one that was not, the client has sent a subscription
  without a cursor for it, so that the server answers with a snapshot, or has given up the connection.\<close>
theorem resync_is_requested:
  assumes "cm_phase (ct_machine c) = Phase_Connected codec sock"
    and "cbor_decode (cl_deserialize env) codec bytes = Inr frame"
    and "client_act env (Do_Input (Input_Socket (Inr (Socket_Binary bytes)))) c = Some c'"
    and "cm_phase (ct_machine c') = Phase_Connected codec' sock'"
    and "is_resync_required (cr_state (cm_runner (ct_machine c'))) a"
    and "frame_agent_id frame = Some a \<or> \<not> is_resync_required (cr_state (cm_runner (ct_machine c))) a"
  shows "\<exists>fs. frames_sent c' = frames_sent c @ fs \<and>
    (None, Client_Subscribe \<lparr>subreq_agent_id = a, subreq_cursor = None\<rparr>) \<in> set fs"
proof -
  let ?r = "cm_runner (ct_machine c)"
  obtain x sock1 r1 where h: "handle_server_frame env codec frame (sock, ?r) = (x, sock1, r1)"
    by (metis prod_cases3)
  have c': "x = None" "cm_runner (ct_machine c') = r1"
  proof -
    have "ct_machine c' = continue_session env codec (x, sock1, r1) (ct_machine c)"
      using assms(1-4) h by (auto simp: after_turn_def ended_def drop_runner_def on_runner_def Let_def split: if_splits)
    then show "x = None" "cm_runner (ct_machine c') = r1"
      using assms(4) end_session_phase [of env _ "cm_delay (ct_machine c)" r1 codec' sock']
      by (cases x; simp add: continue_session_def)+
  qed
  have marked: "a \<in> repl_resync_required (cr_state r1)"
    "frame_agent_id frame = Some a \<or> a \<notin> repl_resync_required (cr_state ?r)"
    using assms(5,6) c'(2) by (simp_all add: is_resync_required_def)
  have "cr_state (complete_response response ?r) = cr_state ?r" "cr_state (broadcast e ?r) = cr_state ?r"
    for response e
    by (simp_all add: complete_response_def broadcast_def tell_def Let_def split: option.split)
  then have repl: "handle_replicated env codec frame (sock, ?r) = (None, sock1, r1)"
    using h c'(1) marked by (cases frame) auto
  obtain result st where ra: "replica_apply (cr_state ?r) frame = (result, st)" by fastforce
  have st: "cr_state r1 = st"
    using repl ra handle_replicated_state by metis
  then have a: "frame_agent_id frame = Some a" "(\<exists>e. result = Inl e) \<or> result = Inr [Effect_ResyncRequired a]"
    using replica_apply_marks [OF ra] marked by auto
  then obtain s' where s': "resubscribe env codec a (sock, s') = (None, sock1, r1)" "cr_sent s' = cr_sent ?r"
  proof -
    have "resubscribe env codec a (sock, broadcast (CEvent_ReplicationError e) (?r\<lparr>cr_state := st\<rparr>)) = (None, sock1, r1)"
      if "result = Inl e" for e
      using repl ra a(1) that by (simp add: handle_replicated_def Let_def)
    moreover have "resubscribe env codec a (sock, broadcast (CEvent_ResyncRequired a) (?r\<lparr>cr_state := st\<rparr>)) = (None, sock1, r1)"
      if "result = Inr [Effect_ResyncRequired a]"
      using repl ra that by (auto simp: handle_replicated_def split: prod.splits option.splits)
    ultimately show thesis using a(2) that by (fastforce simp: broadcast_def)
  qed
  have "send_subscription env codec False a (sock, s') = (Inr (), sock1, r1)"
    using s'(1) by (auto simp: resubscribe_def split: prod.splits sum.splits)
  from send_subscription_frames [OF this] s'(2) show ?thesis
    by (simp add: frames_sent_def c'(2))
qed

definition example_gap :: server_frame where
  "example_gap = Server_ReplayGap \<lparr>gap_agent_id = AgentId ''a'', gap_current_revision = 3,
     gap_current_event_sequence = 7, gap_reason = Gap_SlowConsumer\<rparr>"

lemma resync_is_requested_witness:
  "\<exists>c' fs. client_act (example_client_env\<lparr>cl_deserialize := (\<lambda>bytes. Inr (example_gap, 1))\<rparr>)
     (Do_Input (Input_Socket (Inr (Socket_Binary ''g''))))
     (example_client\<lparr>ct_machine := (ct_machine example_client)\<lparr>cm_phase := Phase_Connected (CborCodec 64)
        \<lparr>sock_answers = (\<lambda>_. None), sock_sends = 0\<rparr>\<rparr>\<rparr>) = Some c' \<and>
     frames_sent c' = frames_sent example_client @ fs \<and>
     (None, Client_Subscribe \<lparr>subreq_agent_id = AgentId ''a'', subreq_cursor = None\<rparr>) \<in> set fs"
proof -
  let ?env = "example_client_env\<lparr>cl_deserialize := (\<lambda>bytes. Inr (example_gap, 1))\<rparr>"
  let ?c = "example_client\<lparr>ct_machine := (ct_machine example_client)\<lparr>cm_phase := Phase_Connected (CborCodec 64)
        \<lparr>sock_answers = (\<lambda>_. None), sock_sends = 0\<rparr>\<rparr>\<rparr>"
  have "\<exists>c'. client_act ?env (Do_Input (Input_Socket (Inr (Socket_Binary ''g'')))) ?c = Some c' \<and>
      cm_phase (ct_machine c') = Phase_Connected (CborCodec 64) \<lparr>sock_answers = (\<lambda>_. None), sock_sends = 1\<rparr> \<and>
      is_resync_required (cr_state (cm_runner (ct_machine c'))) (AgentId ''a'')"
    by (simp add: client_eval example_gap_def handle_replicated_def resubscribe_def send_subscription_def
        is_resync_required_def)
  then obtain c' where c': "client_act ?env (Do_Input (Input_Socket (Inr (Socket_Binary ''g'')))) ?c = Some c'"
      "cm_phase (ct_machine c') = Phase_Connected (CborCodec 64) \<lparr>sock_answers = (\<lambda>_. None), sock_sends = 1\<rparr>"
      "is_resync_required (cr_state (cm_runner (ct_machine c'))) (AgentId ''a'')"
    by (elim exE conjE) (rule that)
  have d: "cbor_decode (cl_deserialize ?env) (CborCodec 64) ''g'' = Inr example_gap"
    by (simp add: cbor_decode_def)
  have "frame_agent_id example_gap = Some (AgentId ''a'')" by (simp add: example_gap_def)
  then have "\<exists>fs. frames_sent c' = frames_sent ?c @ fs \<and>
      (None, Client_Subscribe \<lparr>subreq_agent_id = AgentId ''a'', subreq_cursor = None\<rparr>) \<in> set fs"
    by (intro resync_is_requested [OF _ d c'(1,2,3)]) simp_all
  then show ?thesis using c'(1) by (auto simp: frames_sent_def)
qed

end
