(* ===== verification/Client_Trust.thy ===== *)
theory Client_Trust
  imports Client_Properties
begin

section \<open>Whom the client talks to\<close>

text \<open>
  What the runner knows of its identity (the credential it uses and the status it shows) and that
  every turn keeps it: connected only to the configured server, as the device of its credential.
\<close>

definition identity :: "'c client_runner \<Rightarrow> device_credential option \<times> connection_status" where
  "identity r = (cr_active_credential r, cr_status r)"

lemma identity_simps [simp]:
  "identity (broadcast e r) = identity r" "identity (tell call x r) = identity r"
  "identity (client_fail_pending f r) = identity r" "identity (mark_pending_disconnected r) = identity r"
  "identity (r\<lparr>cr_state := st\<rparr>) = identity r" "identity (r\<lparr>cr_desired := d\<rparr>) = identity r"
  "identity (r\<lparr>cr_ids := ids\<rparr>) = identity r"
  "identity (complete_response response r) = identity r" "identity (snd (insert_pending p oid call r)) = identity r"
  by (simp_all add: identity_def broadcast_def tell_def client_fail_pending_def mark_pending_disconnected_def
      complete_response_def insert_pending_def Let_def split: option.split)

lemma sent_only_identity: "sent_only r r' \<Longrightarrow> identity r' = identity r"
  by (auto simp: sent_only_def identity_def)

lemma stops_identity: "stops command r = Some r' \<Longrightarrow> identity r' = identity r"
  by (cases "(command, r)" rule: stops.cases) auto

lemma offline_identity: "identity (snd (handle_offline_command command r)) = identity r"
  by (auto simp: handle_offline_command_def stops_identity split: option.split client_command.split)

lemma send_frame_identity: "send_frame env codec call f (sock, r) = (x, sock', r') \<Longrightarrow> identity r' = identity r"
  by (erule send_frame_cases) (auto simp: identity_def)

lemma send_pending_identity:
  assumes "send_pending env codec key (sock, r) = (x, sock', r')"
  shows "identity r' = identity r"
proof -
  obtain y r1 where n: "next_request_id r = (y, r1)" by fastforce
  have r1: "identity r1 = identity r"
    using n by (auto simp: next_request_id_def Let_def split: prod.splits)
  have "identity (r2\<lparr>cr_pending := p, cr_response_index := i\<rparr>) = identity r2" for r2 :: "'a client_runner" and p i
    by (simp add: identity_def)
  then show ?thesis
    using assms n r1 by (auto simp: send_pending_def split: sum.splits option.splits prod.splits
        dest!: send_frame_identity)
qed

lemma try_each_identity:
  assumes "\<And>x s y s'. f x s = (y, s') \<Longrightarrow> identity (snd s') = identity (snd s)"
    and "try_each f xs s = (y, s')"
  shows "identity (snd s') = identity (snd s)"
  using assms(2)
proof (induction xs arbitrary: s)
  case (Cons x xs)
  obtain z s1 where "f x s = (z, s1)" by (metis surj_pair)
  with assms(1) [OF this] Cons show ?case by (cases z) auto
qed simp

lemma initialize_identity:
  assumes "initialize_connection env codec (sock, r) = (x, sock', r')"
  shows "identity r' = identity r"
proof -
  have p: "identity (snd s') = identity (snd s)" if "send_pending env codec key s = (y, s')" for key s y s'
    using send_pending_identity [of env codec key "fst s" "snd s" y "fst s'" "snd s'"] that by simp
  obtain y sock1 r1 where y: "try_each (send_subscription env codec True) (sorted_list_of_set (cr_desired r))
      (sock, r) = (y, sock1, r1)"
    by (metis prod_cases3)
  have r1: "identity r1 = identity r"
    using try_each_subscriptions [OF y] sent_only_identity by blast
  show ?thesis
  proof (cases y)
    case (Inl e)
    with y r1 assms show ?thesis by (auto simp: initialize_connection_def)
  next
    case (Inr u)
    with y assms have "try_each (send_pending env codec) (bmap_keys (cr_pending r1)) (sock1, r1) = (x, sock', r')"
      by (simp add: initialize_connection_def)
    with try_each_identity [of "send_pending env codec", OF p] r1 show ?thesis by fastforce
  qed
qed

lemma connected_command_identity:
  assumes "handle_connected_command env codec command (sock, r) = (x, sock', r')"
  shows "identity r' = identity r"
proof -
  have sent: "\<exists>y. g = (y, sock', r')" if "apfst h g = (x, sock', r')" for g and h :: "send_failure + unit \<Rightarrow> send_failure + bool"
    using that by (cases g) auto
  show ?thesis
  proof (cases "stops command r")
    case (Some r1)
    then show ?thesis using assms stops_identity by (auto simp: handle_connected_command_def)
  next
    case None
    then obtain c where c: "command = Some c" "stops (Some c) r = None" by (cases command) auto
    show ?thesis
    proof (cases c)
      case (Command_Request payload oid call)
      obtain key r1 where i: "insert_pending payload oid call r = (key, r1)" by fastforce
      then have "identity r1 = identity r" using identity_simps(9) [of payload oid call r] by simp
      moreover obtain y where "send_pending env codec key (sock, r1) = (y, sock', r')"
        using assms c Command_Request None i sent by (fastforce simp: handle_connected_command_def)
      ultimately show ?thesis using send_pending_identity by metis
    next
      case (Command_Subscribe a)
      show ?thesis
      proof (cases "a \<in> cr_desired r")
        case False
        then obtain y where "send_subscription env codec True a (sock, r\<lparr>cr_desired := insert a (cr_desired r)\<rparr>) =
            (y, sock', r')"
          using assms c Command_Subscribe None sent by (fastforce simp: handle_connected_command_def)
        with send_subscription_only sent_only_identity show ?thesis by (metis identity_simps(6))
      qed (use assms c Command_Subscribe None in \<open>auto simp: handle_connected_command_def\<close>)
    next
      case (Command_Unsubscribe a)
      show ?thesis
      proof (cases "a \<in> cr_desired r")
        case True
        then obtain y where "send_frame env codec None (Client_Unsubscribe a)
            (sock, r\<lparr>cr_desired := cr_desired r - {a}\<rparr>) = (y, sock', r')"
          using assms c Command_Unsubscribe None sent by (fastforce simp: handle_connected_command_def)
        with send_frame_identity show ?thesis by (metis identity_simps(6))
      qed (use assms c Command_Unsubscribe None in \<open>auto simp: handle_connected_command_def\<close>)
    qed (use c in simp)
  qed
qed

lemma server_frame_identity:
  assumes "handle_server_frame env codec frame (sock, r) = (x, sock', r')"
  shows "identity r' = identity r"
proof -
  have rs: "identity r' = identity r" if "resubscribe env codec a (sock, r) = (x, sock', r')" for a sock r x sock' and r' :: "'a client_runner"
    using resubscribe_only [OF that] sent_only_identity by blast
  have ae: "identity r' = identity r" if "apply_effects env codec es (sock, r) = (x, sock', r')" for es sock r x sock' and r' :: "'a client_runner"
    using that
  proof (induction es arbitrary: sock r)
    case (Cons e es)
    show ?case
    proof (cases e)
      case (Effect_ResyncRequired a)
      obtain y sock1 r1 where y: "resubscribe env codec a (sock, broadcast (CEvent_ResyncRequired a) r) = (y, sock1, r1)"
        by (metis prod_cases3)
      from rs [OF y] Cons y Effect_ResyncRequired show ?thesis by (cases y) auto
    qed (use Cons in auto)
  qed simp
  have "identity r' = identity r" if "handle_replicated env codec frame (sock, r) = (x, sock', r')" for frame
    using that by (cases "replica_apply (cr_state r) frame"; cases "fst (replica_apply (cr_state r) frame)";
      cases "frame_agent_id frame") (auto simp: handle_replicated_def Let_def dest!: rs ae)
  with assms show ?thesis by (cases frame) auto
qed

lemma connection_turn_identity:
  assumes "connection_turn env codec input (sock, r) = (x, sock', r')"
  shows "identity r' = identity r"
  using assms
  by (cases "(env, codec, input, (sock, r))" rule: connection_turn.cases)
    (auto split: prod.splits sum.splits dest: connected_command_identity server_frame_identity)

text \<open>What identity the runner may have and what its phase may rest on.\<close>

definition authenticates :: "client_authentication \<Rightarrow> device_credential option \<Rightarrow> bool" where
  "authenticates auth active \<longleftrightarrow>
     (\<forall>d t. auth = Auth_Device d t \<longrightarrow> (\<exists>cred. active = Some cred \<and> cred_device_id cred = d \<and> cred_token cred = t))"

definition trusted :: "'c client_env \<Rightarrow> device_credential option \<times> connection_status \<Rightarrow> bool" where
  "trusted env i \<longleftrightarrow>
     (\<forall>cred. fst i = Some cred \<longrightarrow> cred_server_id cred = cfg_server_id (cl_config env)) \<and>
     (\<forall>sid d v. snd i = Status_Connected sid d v \<longrightarrow>
        sid = cfg_server_id (cl_config env) \<and> v = ProtocolVersion_CURRENT \<and>
        (\<exists>cred. fst i = Some cred \<and> cred_device_id cred = d))"

definition trusted_machine :: "'c client_env \<Rightarrow> 'c client_machine \<Rightarrow> bool" where
  "trusted_machine env M \<longleftrightarrow> trusted env (identity (cm_runner M)) \<and>
     (case cm_phase M of
        Phase_Connecting auth \<Rightarrow>
          authenticates auth (cr_active_credential (cm_runner M)) \<and> cr_status (cm_runner M) = Status_Connecting
      | Phase_Handshake auth sock \<Rightarrow>
          authenticates auth (cr_active_credential (cm_runner M)) \<and> cr_status (cm_runner M) = Status_Connecting
      | Phase_Connected codec sock \<Rightarrow> \<exists>sid d v. cr_status (cm_runner M) = Status_Connected sid d v
      | _ \<Rightarrow> True)"

lemma identity_status [simp]: "identity (set_status st r) = (cr_active_credential r, st)"
  by (simp add: set_status_def identity_def broadcast_def)

lemma trusted_machine_iff:
  "identity (cm_runner M') = identity (cm_runner M) \<Longrightarrow> cm_phase M' = cm_phase M \<Longrightarrow>
     trusted_machine env M' = trusted_machine env M"
  by (auto simp: trusted_machine_def identity_def split: client_phase.split)

lemma trusted_machine_cong:
  "identity r = identity (cm_runner M) \<Longrightarrow> trusted_machine env (M\<lparr>cm_runner := r\<rparr>) = trusted_machine env M"
  by (rule trusted_machine_iff) simp_all

lemma trusted_status:
  "trusted env (active, st) \<Longrightarrow> \<forall>sid d v. st' \<noteq> Status_Connected sid d v \<Longrightarrow> trusted env (active, st')"
  by (simp add: trusted_def)

lemma trusted_identity: "trusted env (identity r) \<Longrightarrow> trusted env (cr_active_credential r, cr_status r)"
  by (simp add: identity_def)

lemma trusted_left [simp]:
  assumes "trusted env (identity r)"
  shows "trusted_machine env (connection_lost env reason after delay r)"
    "trusted_machine env (stop_fatally e delay r)" "trusted_machine env (shut_down delay r)"
    "trusted_machine env (panic delay r)" "trusted_machine env (end_session env se delay r)"
proof -
  have i: "identity (client_fail_pending f r) = identity r" for f by simp
  then have a: "cr_active_credential (client_fail_pending f r) = cr_active_credential r" for f
    by (simp add: identity_def)
  note t = trusted_status [OF trusted_identity [OF assms]]
  show 1: "trusted_machine env (connection_lost env reason after delay r)"
      "trusted_machine env (stop_fatally e delay r)" "trusted_machine env (shut_down delay r)"
      "trusted_machine env (panic delay r)" for reason after delay e
    using assms by (simp_all add: trusted_machine_def connection_lost_def wait_and_advance_def disconnected_def
        stop_fatally_def stop_with_error_def shut_down_def finish_shutdown_def panic_def a t)
  show "trusted_machine env (end_session env se delay r)"
    using 1 by (cases se) simp_all
qed

lemma trusted_begin_attempt:
  assumes "trusted env (identity r)" "\<And>auth. cfg_authentication (cl_config env) = Source_Pair auth \<Longrightarrow>
    \<exists>p secret device. auth = Auth_Pair p secret device"
  shows "trusted_machine env (begin_attempt env delay r)"
proof -
  obtain x r1 where a: "authentication env (set_status Status_Connecting r) = (x, r1)" by fastforce
  have s: "trusted env (cr_active_credential r, Status_Connecting)"
    using trusted_status [OF trusted_identity [OF assms(1)]] by simp
  have act: "cr_active_credential (set_status Status_Connecting r) = cr_active_credential r"
    "cr_status (set_status Status_Connecting r) = Status_Connecting"
    using identity_status [of Status_Connecting r] by (simp_all add: identity_def)
  have r1: "trusted env (identity r1)" "x = Inr auth \<Longrightarrow> authenticates auth (cr_active_credential r1)"
    "cr_status r1 = Status_Connecting" for auth
    using a s act assms(2)
    by (auto simp: authentication_def identity_def trusted_def authenticates_def device_authentication_def
        split: option.splits authentication_source.splits sum.splits if_splits)
  show ?thesis
  proof (cases x)
    case (Inl e)
    with a have "begin_attempt env delay r = stop_fatally e delay r1"
      by (simp add: begin_attempt_def stop_fatally_def)
    with r1(1) show ?thesis by simp
  next
    case (Inr auth)
    with a r1 show ?thesis by (simp add: begin_attempt_def trusted_machine_def)
  qed
qed

lemma trusted_welcome:
  assumes "handle_welcome env auth bytes r = (x, r')" "trusted env (identity r)"
    and "authenticates auth (cr_active_credential r)" "\<forall>sid d v. cr_status r \<noteq> Status_Connected sid d v"
  shows "trusted env (identity r')"
    "x = Inr (w, k) \<Longrightarrow> trusted env (identity (set_connected w r'))"
proof -
  have acc: "trusted env (identity r1) \<and> cr_status r1 = cr_status r \<and>
      (y = Inr () \<longrightarrow> (\<exists>cred. cr_active_credential r1 = Some cred \<and> cred_device_id cred = wel_device_id wl))"
    if "accept_credential env auth wl r = (y, r1)" for wl y r1
    using that assms(2-4)
    by (auto simp: accept_credential_def identity_def trusted_def authenticates_def
        split: client_authentication.splits option.splits if_splits prod.splits sum.splits)
  show "trusted env (identity r')"
    using assms(1,2) acc
    by (auto simp: handle_welcome_def Let_def split: sum.splits server_frame.splits prod.splits if_splits)
  show "trusted env (identity (set_connected w r'))" if x: "x = Inr (w, k)"
  proof -
    obtain wl where w: "w = wl\<lparr>wel_issued_credential := None\<rparr>" "wel_protocol_version wl = ProtocolVersion_CURRENT"
      "wel_server_id wl = cfg_server_id (cl_config env)" "accept_credential env auth wl r = (Inr (), r')"
      using assms(1) x
      by (auto simp: handle_welcome_def Let_def split: sum.splits server_frame.splits prod.splits if_splits)
    have id: "identity (set_connected w r') = (cr_active_credential r',
        Status_Connected (cfg_server_id (cl_config env)) (wel_device_id wl) ProtocolVersion_CURRENT)"
      using w(1-3) by (simp add: set_connected_def)
    show ?thesis using acc [OF w(4)] unfolding id by (auto simp: trusted_def identity_def)
  qed
qed

lemma trusted_start_handshake:
  assumes "trusted_machine env M" "cm_phase M = Phase_Connecting auth"
  shows "trusted_machine env (start_handshake env auth sock M)"
proof -
  obtain x sock1 r1 where s: "send_frame env (FrameLimits_codec (cfg_frame_limits (cl_config env)) Phase_PreAuth)
      None (client_hello_frame env auth (cm_runner M)) (sock, cm_runner M) = (x, sock1, r1)"
    by (metis prod_cases3)
  from send_frame_identity [OF this] have i: "identity r1 = identity (cm_runner M)" .
  then have t: "trusted env (identity r1)" "cr_active_credential r1 = cr_active_credential (cm_runner M)"
    "cr_status r1 = cr_status (cm_runner M)"
    using assms(1) by (simp_all add: trusted_machine_def identity_def)
  then show ?thesis
    using s assms i by (cases x; cases "projl x")
      (auto simp: start_handshake_def trusted_machine_def [of env "M\<lparr>cm_runner := r1, cm_phase := Phase_Handshake auth sock1\<rparr>"] trusted_machine_def [of env M])
qed

lemma trusted_handshake_turn:
  assumes "trusted_machine env M" "cm_phase M = Phase_Handshake auth sock"
  shows "trusted_machine env (handshake_turn env auth sock event M)"
proof (cases "(env, auth, sock, event, M)" rule: handshake_turn.cases)
  case (3 env' auth' sock' bytes M')
  then have e: "event = Inr (Socket_Binary bytes)" by simp
  obtain x r1 where w: "handle_welcome env auth bytes (cm_runner M) = (x, r1)" by fastforce
  have M: "trusted env (identity (cm_runner M))" "authenticates auth (cr_active_credential (cm_runner M))"
    "\<forall>sid d v. cr_status (cm_runner M) \<noteq> Status_Connected sid d v"
    using assms by (simp_all add: trusted_machine_def)
  note t = trusted_welcome [OF w M]
  show ?thesis
  proof (cases x)
    case (Inl f)
    with w t(1) e show ?thesis by simp
  next
    case (Inr wk)
    obtain wl k where wk: "wk = (wl, k)" by fastforce
    obtain y sock2 r2 where ini: "initialize_connection env k (sock, set_connected wl r1) = (y, sock2, r2)"
      by (metis prod_cases3)
    have i: "identity r2 = identity (set_connected wl r1)" by (rule initialize_identity [OF ini])
    then have t2: "trusted env (identity r2)" using t(2) Inr wk by simp
    have st: "\<exists>sid d v. cr_status r2 = Status_Connected sid d v"
      using i by (simp add: set_connected_def) (simp add: identity_def)
    have "trusted_machine env (start_session env wl k sock r1)"
    proof (cases y)
      case (Inl f)
      then show ?thesis
      proof (cases f)
        case (Failed_Transport e)
        have "trusted env (identity (mark_pending_disconnected (disconnected reason r2)))" for reason
          using trusted_left(1) [OF t2, of reason None]
          by (simp add: trusted_machine_def connection_lost_def wait_and_advance_def)
        with ini Inl Failed_Transport show ?thesis
          by (simp add: start_session_def Let_def trusted_machine_def)
      next
        case Failed_Panic
        with ini Inl t2 show ?thesis by (simp add: start_session_def Let_def)
      qed
    next
      case (Inr u)
      with ini t2 st show ?thesis by (simp add: start_session_def Let_def trusted_machine_def)
    qed
    with w Inr wk e show ?thesis by simp
  qed
qed (use assms in \<open>simp_all add: trusted_machine_def [of env M]\<close>)

lemma trusted_turn:
  assumes "trusted_machine env M" "run_turn env input M = Some M'"
    and "\<And>auth. cfg_authentication (cl_config env) = Source_Pair auth \<Longrightarrow>
      \<exists>p secret device. auth = Auth_Pair p secret device"
  shows "trusted_machine env M'"
proof -
  have i: "trusted env (identity (cm_runner M))" using assms(1) by (simp add: trusted_machine_def)
  have connected: "trusted_machine env (continue_session env codec (connection_turn env codec inp (sock, cm_runner M)) M)"
    if "cm_phase M = Phase_Connected codec sock" for codec sock inp
  proof -
    obtain x sock1 r1 where t: "connection_turn env codec inp (sock, cm_runner M) = (x, sock1, r1)"
      by (metis prod_cases3)
    from connection_turn_identity [OF t] have "identity r1 = identity (cm_runner M)" .
    with assms(1) that i show ?thesis
      by (cases x) (simp_all add: t continue_session_def, simp add: trusted_machine_def identity_def)
  qed
  have offline: "trusted_machine env (offline_turn command M)" for command
  proof -
    obtain stop r1 where h: "handle_offline_command command (cm_runner M) = (stop, r1)" by fastforce
    then have r1: "identity r1 = identity (cm_runner M)" using offline_identity [of command "cm_runner M"] by simp
    show ?thesis
    proof (cases stop)
      case True
      with h r1 i show ?thesis by (simp add: offline_turn_def)
    next
      case False
      with h assms(1) trusted_machine_cong [OF r1] show ?thesis by (simp add: offline_turn_def)
    qed
  qed
  have refused: "trusted_machine env (wait_and_advance env wait delay (disconnected reason (cm_runner M)))" for wait delay reason
    using trusted_status [OF trusted_identity [OF i]]
    by (simp add: trusted_machine_def wait_and_advance_def disconnected_def)
  show ?thesis
    using assms(2)
    by (cases input; cases "cm_phase M")
      (auto simp: connected offline refused trusted_start_handshake [OF assms(1)]
        trusted_handshake_turn [OF assms(1)] trusted_begin_attempt [OF i assms(3)] split: sum.splits
        simp del: connection_turn.simps)
qed

lemma trusted_after_turn: "trusted_machine env M \<Longrightarrow> trusted_machine env (ct_machine (after_turn M c))"
proof -
  have "identity (r\<lparr>cr_answers := as\<rparr>) = identity r" for r :: "'a client_runner" and as
    by (simp add: identity_def)
  then have "trusted_machine env (ct_machine (after_turn M c)) = trusted_machine env M"
    by (intro trusted_machine_iff) (simp_all add: after_turn_def drop_runner_def on_runner_def Let_def)
  then show "trusted_machine env M \<Longrightarrow> trusted_machine env (ct_machine (after_turn M c))" by simp
qed

lemma send_call_machine: "send_call command c = (x, c') \<Longrightarrow> ct_machine c' = ct_machine c"
  by (auto simp: send_call_def unbounded_send_def split: if_splits)

lemma request_with_machine: "request_with_operation_id request oid c = (x, c') \<Longrightarrow> ct_machine c' = ct_machine c"
  by (auto simp: request_with_operation_id_def send_call_machine split: sum.splits)

lemma next_operation_id_machine:
  "next_operation_id c = (x, c') \<Longrightarrow> identity (cm_runner (ct_machine c')) = identity (cm_runner (ct_machine c)) \<and>
     cm_phase (ct_machine c') = cm_phase (ct_machine c)"
  by (auto simp: next_operation_id_def on_runner_def Let_def split: prod.splits)

lemma perform_call_machine:
  assumes "perform_call env call c = (x, c')"
  shows "identity (cm_runner (ct_machine c')) = identity (cm_runner (ct_machine c)) \<and>
    cm_phase (ct_machine c') = cm_phase (ct_machine c)"
proof (cases call)
  case (Call_Request request)
  then obtain y where y: "request_call request c = (y, c')"
    using assms by (cases "request_call request c") auto
  show ?thesis
  proof (cases "is_mutating request")
    case True
    obtain z c1 where z: "next_operation_id c = (z, c1)" by fastforce
    with y True next_operation_id_machine [OF z] show ?thesis
      by (cases z) (auto simp: request_call_def dest!: request_with_machine)
  next
    case False
    with y request_with_machine [of request None c y c'] show ?thesis by (simp add: request_call_def)
  qed
next
  case (Call_RespondToUi a holder response)
  then obtain y where y: "respond_to_ui a holder response c = (y, c')"
    using assms by (cases "respond_to_ui a holder response c") auto
  obtain z c1 where z: "next_operation_id c = (z, c1)" by fastforce
  with y next_operation_id_machine [OF z] show ?thesis
    by (cases z) (auto simp: respond_to_ui_def dest!: send_call_machine)
next
  case (Call_RequestWith request oid)
  then obtain y where "request_with_operation_id request oid c = (y, c')"
    using assms by (cases "request_with_operation_id request oid c") auto
  from request_with_machine [OF this] show ?thesis by simp
next
  case Call_Events
  with assms show ?thesis by (auto simp: handle_events_def on_runner_def identity_def)
next
  case Call_Shutdown
  then obtain y where "send_call Command_Shutdown c = (y, c')"
    using assms by (cases "send_call Command_Shutdown c") (auto simp: shutdown_call_def)
  from send_call_machine [OF this] show ?thesis by simp
qed (use assms in \<open>auto simp: unbounded_send_def split: if_splits\<close>)

lemma trusted_act:
  assumes "trusted_machine env (ct_machine c)" "client_act env a c = Some c'"
    and "\<And>auth. cfg_authentication (cl_config env) = Source_Pair auth \<Longrightarrow>
      \<exists>p secret device. auth = Auth_Pair p secret device"
  shows "trusted_machine env (ct_machine c')"
proof -
  have turn: "trusted_machine env (ct_machine (after_turn M c1))"
    if "run_turn env input (ct_machine c) = Some M" for input M c1
    using trusted_after_turn trusted_turn [OF assms(1) that assms(3)] by blast
  show ?thesis
  proof (cases a)
    case (Do_Call call)
    then obtain x where "perform_call env call c = (x, c')"
      using assms(2) by (cases "perform_call env call c") (auto split: if_splits)
    from perform_call_machine [OF this] assms(1) show ?thesis
      using trusted_machine_iff by blast
  next
    case Do_Command
    with assms(2) turn show ?thesis by (auto split: list.splits if_splits simp del: run_turn.simps)
  next
    case (Do_Input input)
    with assms(2) turn show ?thesis by (auto split: client_input.splits simp del: run_turn.simps)
  qed (use assms in auto)
qed

text \<open>
  C27: a client is connected only to the server it is configured for, in the version it speaks and
  as the device whose credential it holds; a welcome that says otherwise never becomes a
  connection. The hypothesis on the configuration is what its two constructors give.\<close>
theorem client_trusts_its_server:
  assumes "client_acts env as (client_new env ids credentials) = Some c"
    and "\<And>auth. cfg_authentication (cl_config env) = Source_Pair auth \<Longrightarrow>
      \<exists>p secret device. auth = Auth_Pair p secret device"
  shows "(\<forall>sid d v. cr_status (cm_runner (ct_machine c)) = Status_Connected sid d v \<longrightarrow>
      sid = cfg_server_id (cl_config env) \<and> v = ProtocolVersion_CURRENT \<and>
      (\<exists>cred. cr_active_credential (cm_runner (ct_machine c)) = Some cred \<and> cred_device_id cred = d)) \<and>
    (\<forall>codec sock. cm_phase (ct_machine c) = Phase_Connected codec sock \<longrightarrow>
      (\<exists>sid d v. cr_status (cm_runner (ct_machine c)) = Status_Connected sid d v)) \<and>
    (\<forall>cred. cr_active_credential (cm_runner (ct_machine c)) = Some cred \<longrightarrow>
      cred_server_id cred = cfg_server_id (cl_config env))"
proof -
  have "trusted env (identity (ClientRunner_new ids credentials))"
    by (simp add: ClientRunner_new_def identity_def trusted_def)
  then have start: "trusted_machine env (ct_machine (client_new env ids credentials))"
    using trusted_begin_attempt [OF _ assms(2)] by (simp add: client_new_def client_start_def)
  have "trusted_machine env (ct_machine c)"
    if "client_acts env as c0 = Some c" "trusted_machine env (ct_machine c0)" for as c0
    using that
  proof (induction as arbitrary: c0)
    case (Cons a as)
    then obtain c1 where "client_act env a c0 = Some c1" "client_acts env as c1 = Some c"
      by (auto simp: bind_eq_Some_conv)
    with Cons trusted_act [OF _ _ assms(2)] show ?case by blast
  qed simp
  from this [OF assms(1) start] show ?thesis
    by (cases "cm_phase (ct_machine c)") (simp_all add: trusted_machine_def trusted_def identity_def)
qed

lemma client_trusts_its_server_witness:
  "\<exists>c cred. client_acts example_client_env example_actions example_client = Some c \<and>
     cr_active_credential (cm_runner (ct_machine c)) = Some cred \<and>
     cr_status (cm_runner (ct_machine c)) = Status_Connected (ServerId ''s'') (cred_device_id cred) 1"
proof -
  obtain c where c: "client_acts example_client_env example_actions example_client = Some c"
    "cm_phase (ct_machine c) =
       Phase_Connected (CborCodec 64) \<lparr>sock_answers = (\<lambda>_. None), sock_sends = Suc (Suc 0)\<rparr>"
    using example_client_run by blast
  have "cfg_authentication (cl_config example_client_env) = Source_StoredCredential"
    "cfg_server_id (cl_config example_client_env) = ServerId ''s''"
    by (simp_all add: example_client_env_def example_client_config_def ClientConfig_stored_def)
  with client_trusts_its_server [OF c(1) [unfolded example_client_def]] c show ?thesis
    by (auto simp: ProtocolVersion_CURRENT_def ProtocolVersion_V1_def)
qed

end
