(* ===== verification/Text_Parsing.thy ===== *)
theory Text_Parsing
  imports Prelude
begin

section \<open>Text: numbers, slices and addresses\<close>

text \<open>
  What \<open>std\<close> does when the code reads numbers and addresses from text and cuts text at byte
  positions: \<open>from_str_radix\<close> and \<open>parse\<close> of the unsigned integers, \<open>is_char_boundary\<close> and slices
  of \<open>str\<close>, \<open>parse::<IpAddr>\<close> and \<open>is_loopback\<close>, hexadecimal bytes.
\<close>

subsection \<open>Numbers\<close>

definition digit_value :: "nat \<Rightarrow> char \<Rightarrow> nat option" where
  "digit_value radix c =
     (let n = of_char c;
          d = (if 48 \<le> n \<and> n \<le> 57 then n - 48
               else if 97 \<le> n \<and> n \<le> 122 then n - 87
               else if 65 \<le> n \<and> n \<le> 90 then n - 55 else radix)
      in if d < radix then Some d else None)"

text \<open>The digits after those already read, as long as the value stays below \<open>bound\<close>.\<close>

fun parse_digits :: "nat \<Rightarrow> nat \<Rightarrow> nat \<Rightarrow> string \<Rightarrow> nat option" where
  "parse_digits radix bound acc [] = Some acc"
| "parse_digits radix bound acc (c # cs) =
     (case digit_value radix c of
        None \<Rightarrow> None
      | Some d \<Rightarrow>
          if acc * radix + d < bound then parse_digits radix bound (acc * radix + d) cs else None)"

text \<open>A plus sign may precede the digits, a minus sign may not.\<close>

definition from_str_radix :: "nat \<Rightarrow> string \<Rightarrow> 'a::len word option" where
  "from_str_radix radix s =
     (if s = [] \<or> s = ''+'' \<or> s = ''-'' then None
      else map_option of_nat (parse_digits radix (2 ^ LENGTH('a)) 0
             (if hd s = CHR ''+'' then tl s else s)))"

lemma parse_digits_append:
  "parse_digits radix bound acc (xs @ ys) =
     Option.bind (parse_digits radix bound acc xs) (\<lambda>a. parse_digits radix bound a ys)"
  by (induction radix bound acc xs rule: parse_digits.induct) (auto split: option.splits)

lemma digit_value_decimal: "d < 10 \<Longrightarrow> digit_value 10 (char_of (48 + d)) = Some d"
  by (simp add: digit_value_def of_char_of)

lemma parse_digits_show_nat: "n < bound \<Longrightarrow> parse_digits 10 bound 0 (show_nat n) = Some n"
proof (induction n rule: less_induct)
  case (less n)
  show ?case
  proof (cases "n < 10")
    case True
    then show ?thesis using less.prems by (simp add: show_nat_small digit_value_decimal)
  next
    case False
    then have "parse_digits 10 bound 0 (show_nat (n div 10)) = Some (n div 10)"
      using less by simp
    then show ?thesis
      using False less.prems by (simp add: show_nat_big parse_digits_append digit_value_decimal)
  qed
qed

lemma show_nat_digits: "c \<in> set (show_nat n) \<Longrightarrow> \<exists>d::nat. d < 10 \<and> c = char_of (48 + d)"
proof (induction n rule: less_induct)
  case (less n)
  then show ?case
  proof (cases "n < 10")
    case False
    then have "c \<in> set (show_nat (n div 10)) \<or> c = char_of (48 + n mod 10)"
      using less.prems by (simp add: show_nat_big) blast
    moreover have "n mod 10 < 10" "n div 10 < n" using False by auto
    ultimately show ?thesis using less.IH by blast
  qed (use less.prems in \<open>auto simp: show_nat_small\<close>)
qed

lemma digit_not_sign:
  fixes d :: nat
  assumes "d < 10"
  shows "(char_of (48 + d) :: char) \<noteq> CHR ''+''" "(char_of (48 + d) :: char) \<noteq> CHR ''-''"
  using assms by (auto dest!: arg_cong [where f = "of_char :: char \<Rightarrow> nat"] simp: of_char_of)

lemma from_str_radix_show_nat:
  assumes "n < 2 ^ LENGTH('a)"
  shows "from_str_radix 10 (show_nat n) = Some (of_nat n :: 'a::len word)"
proof -
  obtain d cs where s: "show_nat n = d # cs" by (cases "show_nat n") auto
  then obtain k :: nat where "k < 10" "d = char_of (48 + k)" using show_nat_digits [of d n] by auto
  then have "d \<noteq> CHR ''+''" "d \<noteq> CHR ''-''" using digit_not_sign by auto
  then have "from_str_radix 10 (show_nat n) =
      map_option (of_nat :: nat \<Rightarrow> 'a word) (parse_digits 10 (2 ^ LENGTH('a)) 0 (show_nat n))"
    by (auto simp: from_str_radix_def s)
  then show ?thesis by (simp add: parse_digits_show_nat [OF assms])
qed

subsection \<open>Hexadecimal bytes\<close>

definition hex_digit :: "nat \<Rightarrow> char" where
  "hex_digit d = char_of (if d < 10 then 48 + d else 87 + d)"

text \<open>\<open>{byte:02x}\<close>\<close>

definition show_hex2 :: "char \<Rightarrow> string" where
  "show_hex2 b = [hex_digit (of_char b div 16), hex_digit (of_char b mod 16)]"

lemma digit_value_hex: "d < 16 \<Longrightarrow> digit_value 16 (hex_digit d) = Some d"
  by (simp add: digit_value_def hex_digit_def of_char_of)

lemma of_char_less: "(of_char c :: nat) < 256"
  by simp

lemma from_str_radix_hex2: "from_str_radix 16 (show_hex2 b) = Some (of_char b :: u8)"
proof -
  have d: "of_char b div 16 < (16::nat)" "of_char b mod 16 < (16::nat)"
    using of_char_less [of b] by (auto simp: less_mult_imp_div_less)
  have "hex_digit (of_char b div 16) \<noteq> CHR ''+''"
    using d(1) by (auto dest!: arg_cong [where f = "of_char :: char \<Rightarrow> nat"] simp: hex_digit_def of_char_of split: if_splits)
  moreover have "of_char b div 16 * 16 + of_char b mod 16 = (of_char b :: nat)" by simp
  moreover have "of_char b div 16 * 16 + of_char b mod 16 < (256::nat)" using of_char_less [of b] by simp
  ultimately show ?thesis
    using d by (simp add: from_str_radix_def show_hex2_def digit_value_hex of_nat_of_char)
qed

subsection \<open>Positions in text\<close>

text \<open>A byte of the form \<open>10xxxxxx\<close> continues a character.\<close>

definition is_continuation :: "char \<Rightarrow> bool" where
  "is_continuation c \<longleftrightarrow> (let n = (of_char c :: nat) in 128 \<le> n \<and> n < 192)"

definition is_char_boundary :: "string \<Rightarrow> nat \<Rightarrow> bool" where
  "is_char_boundary s i \<longleftrightarrow>
     i = 0 \<or> i = length s \<or> i < length s \<and> \<not> is_continuation (s ! i)"

text \<open>\<open>&s[i..j]\<close>; \<open>None\<close> where it panics.\<close>

definition str_slice :: "string \<Rightarrow> nat \<Rightarrow> nat \<Rightarrow> string option" where
  "str_slice s i j =
     (if i \<le> j \<and> is_char_boundary s i \<and> is_char_boundary s j then Some (take (j - i) (drop i s))
      else None)"

lemma is_char_boundary_le: "is_char_boundary s i \<Longrightarrow> i \<le> length s"
  by (auto simp: is_char_boundary_def)

subsection \<open>Addresses\<close>

datatype ip_addr = Ip_V4 u8 u8 u8 u8 | Ip_V6 "u16 list"

fun is_loopback :: "ip_addr \<Rightarrow> bool" where
  "is_loopback (Ip_V4 a b c d) \<longleftrightarrow> a = 127"
| "is_loopback (Ip_V6 groups) \<longleftrightarrow> groups = [0, 0, 0, 0, 0, 0, 0, 1]"

text \<open>An IPv6 address carries its flow information and scope as well; both are 0 with IPv4.\<close>

datatype socket_addr = SocketAddr (addr_ip: ip_addr) (addr_port: u16) (addr_flow_scope: "u32 \<times> u32")

text \<open>
  The parser of \<open>core::net\<close>. A reader takes the rest of the text and answers what it read and what
  is left; a reader that fails leaves the text as it was.
\<close>

definition read_number :: "nat \<Rightarrow> nat \<Rightarrow> bool \<Rightarrow> nat \<Rightarrow> string \<Rightarrow> (nat \<times> string) option" where
  "read_number radix max_digits allow_zero_prefix bound s =
     (let ds = takeWhile (\<lambda>c. digit_value radix c \<noteq> None) s;
          n = foldl (\<lambda>a c. a * radix + the (digit_value radix c)) 0 ds
      in if ds = [] \<or> max_digits < length ds then None
         else if \<not> allow_zero_prefix \<and> hd ds = CHR ''0'' \<and> 1 < length ds then None
         else if n < bound then Some (n, drop (length ds) s) else None)"

definition read_separator ::
  "char \<Rightarrow> nat \<Rightarrow> (string \<Rightarrow> ('a \<times> string) option) \<Rightarrow> string \<Rightarrow> ('a \<times> string) option" where
  "read_separator sep i reader s =
     (if 0 < i then Option.bind (strip_prefix [sep] s) reader else reader s)"

fun read_octets :: "nat \<Rightarrow> nat \<Rightarrow> string \<Rightarrow> (nat list \<times> string) option" where
  "read_octets 0 i s = Some ([], s)"
| "read_octets (Suc n) i s =
     Option.bind (read_separator CHR ''.'' i (read_number 10 3 False 256) s) (\<lambda>(v, s).
     Option.bind (read_octets n (Suc i) s) (\<lambda>(vs, s). Some (v # vs, s)))"

definition read_ipv4_addr :: "string \<Rightarrow> (nat list \<times> string) option" where
  "read_ipv4_addr = read_octets 4 0"

text \<open>At most \<open>n\<close> groups of an IPv6 address, the last two perhaps written as an IPv4 address.\<close>

fun read_groups :: "nat \<Rightarrow> nat \<Rightarrow> string \<Rightarrow> nat list \<times> bool \<times> string" where
  "read_groups 0 i s = ([], False, s)"
| "read_groups (Suc n) i s =
     (case (if n = 0 then None else read_separator CHR '':'' i read_ipv4_addr s) of
        Some (octets, s) \<Rightarrow>
          ([octets ! 0 * 256 + octets ! 1, octets ! 2 * 256 + octets ! 3], True, s)
      | None \<Rightarrow>
          (case read_separator CHR '':'' i (read_number 16 4 True 65536) s of
             None \<Rightarrow> ([], False, s)
           | Some (g, s) \<Rightarrow> (let (gs, v4, s) = read_groups n (Suc i) s in (g # gs, v4, s))))"

definition read_ipv6_addr :: "string \<Rightarrow> (nat list \<times> string) option" where
  "read_ipv6_addr s =
     (let (head, v4, s) = read_groups 8 0 s
      in if length head = 8 then Some (head, s)
         else if v4 then None
         else Option.bind (strip_prefix ''::'' s) (\<lambda>s.
           let (tail, _, s) = read_groups (7 - length head) 0 s
           in Some (head @ replicate (8 - length head - length tail) 0 @ tail, s)))"

definition parse_ip_addr :: "string \<Rightarrow> ip_addr option" where
  "parse_ip_addr s =
     (case read_ipv4_addr s of
        Some (o4, rest) \<Rightarrow>
          (if rest = [] then Some (Ip_V4 (of_nat (o4 ! 0)) (of_nat (o4 ! 1)) (of_nat (o4 ! 2)) (of_nat (o4 ! 3)))
           else None)
      | None \<Rightarrow>
          (case read_ipv6_addr s of
             Some (groups, rest) \<Rightarrow> (if rest = [] then Some (Ip_V6 (map of_nat groups)) else None)
           | None \<Rightarrow> None))"

subsection \<open>URL-safe Base64\<close>

text \<open>
  What the code relies on of the \<open>base64\<close> crate's \<open>URL_SAFE_NO_PAD\<close> engine: an encoded text has only
  characters of the URL-safe alphabet, at most four for every three bytes, some when there are
  bytes, and decodes to what was encoded.
\<close>

definition url_safe :: "char \<Rightarrow> bool" where
  "url_safe c \<longleftrightarrow> (let n = (of_char c :: nat) in
     48 \<le> n \<and> n \<le> 57 \<or> 65 \<le> n \<and> n \<le> 90 \<or> 97 \<le> n \<and> n \<le> 122 \<or> n = 45 \<or> n = 95)"

locale base64_url =
  fixes encode :: "string \<Rightarrow> string"
    and decode :: "string \<Rightarrow> string + string"
  assumes alphabet: "list_all url_safe (encode bytes)"
    and encoded_length: "length (encode bytes) \<le> (length bytes + 2) div 3 * 4"
    and encode_eq_Nil: "encode bytes = [] \<longleftrightarrow> bytes = []"
    and decode_encode: "decode (encode bytes) = Inr bytes"
begin

lemma encode_inject: "encode b = encode b' \<longleftrightarrow> b = b'"
  by (metis decode_encode sum.inject(2))

lemma no_fragment: "CHR ''#'' \<notin> set (encode bytes)"
  using alphabet [of bytes] by (auto simp: list_all_iff url_safe_def Let_def)

end

text \<open>The encoding of RFC 4648 has these properties.\<close>

definition base64_digit :: "nat \<Rightarrow> char" where
  "base64_digit n = char_of (if n < 26 then 65 + n else if n < 52 then 71 + n
     else if n < 62 then n - 4 else if n = 62 then 45 else 95)"

definition base64_value :: "char \<Rightarrow> nat option" where
  "base64_value c =
     (let n = of_char c
      in if 65 \<le> n \<and> n \<le> 90 then Some (n - 65)
         else if 97 \<le> n \<and> n \<le> 122 then Some (n - 71)
         else if 48 \<le> n \<and> n \<le> 57 then Some (n + 4)
         else if n = 45 then Some 62 else if n = 95 then Some 63 else None)"

fun sextets :: "nat list \<Rightarrow> nat list" where
  "sextets [] = []"
| "sextets [a] = [a div 4, a mod 4 * 16]"
| "sextets [a, b] = [a div 4, a mod 4 * 16 + b div 16, b mod 16 * 4]"
| "sextets (a # b # c # rest) =
     [a div 4, a mod 4 * 16 + b div 16, b mod 16 * 4 + c div 64, c mod 64] @ sextets rest"

fun octets_of :: "nat list \<Rightarrow> nat list option" where
  "octets_of [] = Some []"
| "octets_of [w] = None"
| "octets_of [w, x] = (if x mod 16 = 0 then Some [w * 4 + x div 16] else None)"
| "octets_of [w, x, y] =
     (if y mod 4 = 0 then Some [w * 4 + x div 16, x mod 16 * 16 + y div 4] else None)"
| "octets_of (w # x # y # z # rest) =
     map_option ((@) [w * 4 + x div 16, x mod 16 * 16 + y div 4, y mod 4 * 64 + z]) (octets_of rest)"

fun all_values :: "('a \<Rightarrow> 'b option) \<Rightarrow> 'a list \<Rightarrow> 'b list option" where
  "all_values f [] = Some []"
| "all_values f (x # xs) =
     Option.bind (f x) (\<lambda>y. Option.bind (all_values f xs) (\<lambda>ys. Some (y # ys)))"

definition base64_encode :: "string \<Rightarrow> string" where
  "base64_encode bytes = map base64_digit (sextets (map of_char bytes))"

definition base64_decode :: "string \<Rightarrow> string + string" where
  "base64_decode s =
     (case Option.bind (all_values base64_value s) octets_of of
        None \<Rightarrow> Inl ''invalid base64''
      | Some octets \<Rightarrow> Inr (map char_of octets))"

lemma base64_value_digit: "n < 64 \<Longrightarrow> base64_value (base64_digit n) = Some n"
  by (auto simp: base64_value_def base64_digit_def of_char_of Let_def)

lemma url_safe_base64_digit: "n < 64 \<Longrightarrow> url_safe (base64_digit n)"
  by (auto simp: url_safe_def base64_digit_def of_char_of Let_def)

lemma sextets_less: "\<forall>a \<in> set bytes. a < 256 \<Longrightarrow> n \<in> set (sextets bytes) \<Longrightarrow> n < 64"
proof (induction bytes rule: sextets.induct)
  case (4 a b c rest)
  have "a div 4 < 64" "a mod 4 * 16 + b div 16 < 64" "b mod 16 * 4 + c div 64 < 64" "c mod 64 < 64"
    using "4.prems"(1) by auto
  then show ?case using 4 by auto
qed auto

lemma octets_of_sextets: "\<forall>a \<in> set bytes. a < 256 \<Longrightarrow> octets_of (sextets bytes) = Some bytes"
proof (induction bytes rule: sextets.induct)
  case (4 a b c rest)
  have "a div 4 * 4 + (a mod 4 * 16 + b div 16) div 16 = a"
    "(a mod 4 * 16 + b div 16) mod 16 * 16 + (b mod 16 * 4 + c div 64) div 4 = b"
    "(b mod 16 * 4 + c div 64) mod 4 * 64 + c mod 64 = c"
    using "4.prems" less_mult_imp_div_less [of b 16 16] less_mult_imp_div_less [of c 4 64]
    by simp_all
  then show ?case using 4 by simp
qed auto

lemma all_values_map: "\<forall>x \<in> set xs. f (g x) = Some x \<Longrightarrow> all_values f (map g xs) = Some xs"
  by (induction xs) auto

lemma length_sextets: "length (sextets bytes) \<le> (length bytes + 2) div 3 * 4"
proof (induction bytes rule: sextets.induct)
  case (4 a b c rest)
  have "(length (a # b # c # rest) + 2) div 3 = (length rest + 2) div 3 + 1"
    by simp
  then show ?case using "4.IH" by simp
qed auto

lemma sextets_eq_Nil: "sextets bytes = [] \<longleftrightarrow> bytes = []"
  by (cases bytes rule: sextets.cases) auto

interpretation rfc4648: base64_url base64_encode base64_decode
proof
  fix bytes
  have less: "\<forall>a \<in> set (map of_char bytes :: nat list). a < 256" by simp
  note six = sextets_less [OF less]
  show "list_all url_safe (base64_encode bytes)"
    using six by (auto simp: base64_encode_def list_all_iff intro: url_safe_base64_digit)
  show "length (base64_encode bytes) \<le> (length bytes + 2) div 3 * 4"
    using length_sextets [of "map of_char bytes"] by (simp add: base64_encode_def)
  show "base64_encode bytes = [] \<longleftrightarrow> bytes = []"
    by (simp add: base64_encode_def sextets_eq_Nil)
  have "all_values base64_value (base64_encode bytes) = Some (sextets (map of_char bytes))"
    unfolding base64_encode_def using six by (intro all_values_map) (auto intro: base64_value_digit)
  then show "base64_decode (base64_encode bytes) = Inr bytes"
    by (simp add: base64_decode_def octets_of_sextets [OF less] comp_def)
qed

end
