(* ===== verification/Transport.thy ===== *)
theory Transport
  imports Text_Parsing Client_Config
begin

section \<open>Transport security of the daemon and of its clients\<close>

text \<open>
  \<open>crates/ompd/src/transport.rs\<close>: how the daemon is reached and with which certificate, the
  identity it announces; the part of \<open>server.rs\<close> that starts to serve; and the other side, the
  checks that \<open>crates/omp-control-client/src/native.rs\<close> and \<open>browser.rs\<close> make before and while they
  connect. Files, PEM, SHA-256, TLS and URLs are parameters.
\<close>

subsection \<open>Configuration (transport.rs)\<close>

datatype tls_mode =
    Mode_CertificateFiles string string \<comment> \<open>certificate, private key\<close>
  | Mode_TrustedReverseProxy socket_addr
  | Mode_PinnedSelfSigned string string
  | Mode_DevelopmentPlaintext socket_addr

record transport_config =
  tc_bind_address :: socket_addr
  tc_public_endpoint :: string
  tc_tls_mode :: tls_mode

datatype transport_config_error =
    Tce_SecureEndpointRequired
  | Tce_DevelopmentEndpointMustBePlaintext
  | Tce_ControlPathRequired
  | Tce_ProxyMustBeLocal
  | Tce_PlaintextMustBeLoopback
  | Tce_File string string
  | Tce_NoCertificates string
  | Tce_NoPrivateKey string
  | Tce_Tls string

fun show_transport_config_error :: "transport_config_error \<Rightarrow> string" where
  "show_transport_config_error Tce_SecureEndpointRequired =
     ''non-development public endpoint must use wss://''"
| "show_transport_config_error Tce_DevelopmentEndpointMustBePlaintext =
     ''development plaintext endpoint must use ws://''"
| "show_transport_config_error Tce_ControlPathRequired = ''public endpoint must end with /control''"
| "show_transport_config_error Tce_ProxyMustBeLocal =
     ''trusted reverse proxy listener must bind its loopback endpoint''"
| "show_transport_config_error Tce_PlaintextMustBeLoopback =
     ''development plaintext listener must bind loopback''"
| "show_transport_config_error (Tce_File path e) = ''failed to read '' @ path @ '': '' @ e"
| "show_transport_config_error (Tce_NoCertificates path) = path @ '' contains no certificates''"
| "show_transport_config_error (Tce_NoPrivateKey path) = path @ '' contains no private key''"
| "show_transport_config_error (Tce_Tls e) = ''invalid TLS configuration: '' @ e"

text \<open>The four modes, then the path: the checks in the order of the code.\<close>

fun validate_mode :: "tls_mode \<Rightarrow> socket_addr \<Rightarrow> string \<Rightarrow> transport_config_error + unit" where
  "validate_mode (Mode_TrustedReverseProxy local) bind endpoint =
     (if \<not> is_loopback (addr_ip local) \<or> local \<noteq> bind then Inl Tce_ProxyMustBeLocal
      else if \<not> starts_with endpoint ''wss://'' then Inl Tce_SecureEndpointRequired
      else Inr ())"
| "validate_mode (Mode_DevelopmentPlaintext local) bind endpoint =
     (if \<not> is_loopback (addr_ip local) \<or> local \<noteq> bind then Inl Tce_PlaintextMustBeLoopback
      else if \<not> starts_with endpoint ''ws://'' then Inl Tce_DevelopmentEndpointMustBePlaintext
      else Inr ())"
| "validate_mode _ bind endpoint =
     (if \<not> starts_with endpoint ''wss://'' then Inl Tce_SecureEndpointRequired else Inr ())"

definition TransportConfig_validate :: "transport_config \<Rightarrow> transport_config_error + unit" where
  "TransportConfig_validate tc =
     rbind (validate_mode (tc_tls_mode tc) (tc_bind_address tc) (tc_public_endpoint tc)) (\<lambda>_.
       if \<not> ends_with (tc_public_endpoint tc) ''/control'' then Inl Tce_ControlPathRequired
       else Inr ())"

fun direct_tls_mode :: "tls_mode \<Rightarrow> bool" where
  "direct_tls_mode (Mode_CertificateFiles certificate key) = True"
| "direct_tls_mode (Mode_PinnedSelfSigned certificate key) = True"
| "direct_tls_mode _ = False"

definition uses_direct_tls :: "transport_config \<Rightarrow> bool" where
  "uses_direct_tls tc = direct_tls_mode (tc_tls_mode tc)"

subsection \<open>Certificates (transport.rs)\<close>

text \<open>
  \<open>te_open path\<close> is what opening and reading the file yields, \<open>te_certs\<close> and \<open>te_private_key\<close> what
  the PEM reader finds in it, \<open>te_sha256\<close> the digest of a certificate, \<open>te_single_cert\<close> the TLS 1.3
  configuration built for a chain and its key.
\<close>

record 't transport_env =
  te_open :: "string \<Rightarrow> string + string"
  te_certs :: "string \<Rightarrow> string + string list"
  te_private_key :: "string \<Rightarrow> string + string option"
  te_sha256 :: "string \<Rightarrow> string"
  te_single_cert :: "string list \<Rightarrow> string \<Rightarrow> string + 't"

definition read_certificates ::
  "'t transport_env \<Rightarrow> string \<Rightarrow> transport_config_error + string list" where
  "read_certificates env path =
     rbind (map_err (Tce_File path) (te_open env path)) (\<lambda>file.
     rbind (map_err (Tce_File path) (te_certs env file)) (\<lambda>certificates.
       if certificates = [] then Inl (Tce_NoCertificates path) else Inr certificates))"

definition read_private_key :: "'t transport_env \<Rightarrow> string \<Rightarrow> transport_config_error + string" where
  "read_private_key env path =
     rbind (map_err (Tce_File path) (te_open env path)) (\<lambda>file.
     rbind (map_err (Tce_File path) (te_private_key env file)) (\<lambda>key.
       ok_or key (Tce_NoPrivateKey path)))"

record 't rustls_config =
  rc_server :: 't
  rc_alpn_protocols :: "string list"

definition load_rustls_config ::
  "'t transport_env \<Rightarrow> string \<Rightarrow> string \<Rightarrow> transport_config_error + 't rustls_config" where
  "load_rustls_config env certificate_path private_key_path =
     rbind (read_certificates env certificate_path) (\<lambda>certificates.
     rbind (read_private_key env private_key_path) (\<lambda>private_key.
     rbind (map_err Tce_Tls (te_single_cert env certificates private_key)) (\<lambda>config.
       Inr \<lparr>rc_server = config, rc_alpn_protocols = [''http/1.1'']\<rparr>)))"

definition certificate_fingerprint ::
  "'t transport_env \<Rightarrow> string \<Rightarrow> transport_config_error + string" where
  "certificate_fingerprint env path =
     rbind (read_certificates env path) (\<lambda>certificates.
       Inr (concat (map show_hex2 (te_sha256 env (hd certificates)))))"

definition transport_identity_hint ::
  "'t transport_env \<Rightarrow> transport_config \<Rightarrow> transport_config_error + tls_identity_hint" where
  "transport_identity_hint env tc =
     (case tc_tls_mode tc of
        Mode_CertificateFiles certificate key \<Rightarrow> Inr Tls_PubliclyTrusted
      | Mode_TrustedReverseProxy local \<Rightarrow> Inr Tls_PubliclyTrusted
      | Mode_PinnedSelfSigned certificate key \<Rightarrow>
          rbind (certificate_fingerprint env certificate) (\<lambda>f. Inr (Tls_Sha256Fingerprint f))
      | Mode_DevelopmentPlaintext local \<Rightarrow> Inr Tls_InsecureDevelopment)"

subsection \<open>Serving (server.rs)\<close>

text \<open>
  What \<open>DaemonServer::serve\<close> serves on: the address it bound, with a TLS configuration or without.
  Binding answers with the error of the system, if any.
\<close>

datatype 't serving = Serving_Tls socket_addr "'t rustls_config" | Serving_Plain socket_addr

datatype transport_start_error = Start_Transport transport_config_error | Start_Io string

definition serve_with_listener ::
  "'t transport_env \<Rightarrow> transport_config \<Rightarrow> socket_addr \<Rightarrow> transport_start_error + 't serving" where
  "serve_with_listener env tc listener =
     rbind (map_err Start_Transport (TransportConfig_validate tc)) (\<lambda>_.
       case tc_tls_mode tc of
         Mode_CertificateFiles certificate key \<Rightarrow>
           map_sum Start_Transport (Serving_Tls listener) (load_rustls_config env certificate key)
       | Mode_PinnedSelfSigned certificate key \<Rightarrow>
           map_sum Start_Transport (Serving_Tls listener) (load_rustls_config env certificate key)
       | _ \<Rightarrow> Inr (Serving_Plain listener))"

definition server_serve ::
  "'t transport_env \<Rightarrow> (socket_addr \<Rightarrow> string option) \<Rightarrow> transport_config \<Rightarrow>
     transport_start_error + 't serving" where
  "server_serve env bind tc =
     rbind (map_err Start_Transport (TransportConfig_validate tc)) (\<lambda>_.
       case bind (tc_bind_address tc) of
         Some e \<Rightarrow> Inl (Start_Io e)
       | None \<Rightarrow> serve_with_listener env tc (tc_bind_address tc))"

subsection \<open>The client's side (native.rs, browser.rs)\<close>

record url =
  url_scheme :: string
  url_host :: "string option"

definition to_ascii_lowercase :: "string \<Rightarrow> string" where
  "to_ascii_lowercase = map (\<lambda>c. let n = (of_char c :: nat) in
     if 65 \<le> n \<and> n \<le> 90 then char_of (n + 32) else c)"

definition url_is_loopback :: "url \<Rightarrow> bool" where
  "url_is_loopback u \<longleftrightarrow>
     (case url_host u of
        None \<Rightarrow> False
      | Some host \<Rightarrow> to_ascii_lowercase host = ''localhost'' \<or>
          (case parse_ip_addr host of None \<Rightarrow> False | Some a \<Rightarrow> is_loopback a))"

definition parse_target :: "(string \<Rightarrow> string + url) \<Rightarrow> socket_target \<Rightarrow> transport_error + url" where
  "parse_target url_parse target =
     map_err (\<lambda>e. TransportError (''invalid WebSocket endpoint: '' @ e))
       (url_parse (target_endpoint target))"

definition native_validate_target ::
  "(string \<Rightarrow> string + url) \<Rightarrow> socket_target \<Rightarrow> transport_error + unit" where
  "native_validate_target url_parse target =
     rbind (parse_target url_parse target) (\<lambda>u.
       case target_tls_identity target of
         Tls_InsecureDevelopment \<Rightarrow>
           if url_scheme u \<noteq> ''ws'' \<or> \<not> url_is_loopback u
           then Inl (TransportError ''insecure development connections require a loopback ws:// endpoint'')
           else Inr ()
       | _ \<Rightarrow>
           if url_scheme u \<noteq> ''wss''
           then Inl (TransportError ''trusted and pinned connections require a wss:// endpoint'')
           else Inr ())"

definition browser_validate_target ::
  "(string \<Rightarrow> string + url) \<Rightarrow> socket_target \<Rightarrow> transport_error + unit" where
  "browser_validate_target url_parse target =
     rbind (parse_target url_parse target) (\<lambda>u.
       case target_tls_identity target of
         Tls_PubliclyTrusted \<Rightarrow>
           if url_scheme u \<noteq> ''wss''
           then Inl (TransportError ''browser trusted connections require a wss:// endpoint'')
           else Inr ()
       | Tls_InsecureDevelopment \<Rightarrow>
           if url_scheme u \<noteq> ''ws'' \<or> \<not> url_is_loopback u
           then Inl (TransportError ''browser development connections require a loopback ws:// endpoint'')
           else Inr ()
       | Tls_Sha256Fingerprint f \<Rightarrow>
           Inl (TransportError ''browsers do not expose certificate pinning; use a publicly trusted certificate''))"

text \<open>The bytes of a fingerprint at the given indices; \<open>None\<close> where slicing the text panics.\<close>

fun fingerprint_bytes :: "string \<Rightarrow> nat list \<Rightarrow> (transport_error + string) option" where
  "fingerprint_bytes text [] = Some (Inr [])"
| "fingerprint_bytes text (i # is) =
     Option.bind (str_slice text (i * 2) (i * 2 + 2)) (\<lambda>digits.
       case from_str_radix 16 digits :: u8 option of
         None \<Rightarrow> Some (Inl (TransportError
           ''SHA-256 certificate fingerprint contains non-hexadecimal data''))
       | Some byte \<Rightarrow> map_option (map_sum id ((#) (char_of (unat byte)))) (fingerprint_bytes text is))"

definition decode_fingerprint :: "string \<Rightarrow> (transport_error + string) option" where
  "decode_fingerprint text =
     (if length text \<noteq> 64
      then Some (Inl (TransportError
        ''SHA-256 certificate fingerprint must contain 64 hexadecimal characters''))
      else fingerprint_bytes text [0..<32])"

definition verify_server_cert :: "(string \<Rightarrow> string) \<Rightarrow> string \<Rightarrow> string \<Rightarrow> string + unit" where
  "verify_server_cert sha256 expected certificate =
     (if sha256 certificate \<noteq> expected then Inl ''ApplicationVerificationFailure'' else Inr ())"

text \<open>
  How a native client connects: by the library's default connector, or by one that accepts the
  certificate with the given digest only.
\<close>

datatype connector = Connector_Default string | Connector_Pinned string string

definition native_connector ::
  "(string \<Rightarrow> string + url) \<Rightarrow> socket_target \<Rightarrow> (transport_error + connector) option" where
  "native_connector url_parse target =
     (case native_validate_target url_parse target of
        Inl e \<Rightarrow> Some (Inl e)
      | Inr _ \<Rightarrow>
          (case target_tls_identity target of
             Tls_Sha256Fingerprint f \<Rightarrow>
               map_option (map_sum id (Connector_Pinned (target_endpoint target))) (decode_fingerprint f)
           | _ \<Rightarrow> Some (Inr (Connector_Default (target_endpoint target)))))"

text \<open>
  Receiving: pings are answered, other frames of the protocol skipped, text refused. The messages
  that arrive are a list whose end is the end of the stream; what a send answers is up to the
  socket.
\<close>

datatype ws_message =
    Ws_Binary string
  | Ws_Text string
  | Ws_Ping string
  | Ws_Pong string
  | Ws_Frame
  | Ws_Close "string option"

fun native_receive ::
  "(string + ws_message) list \<Rightarrow> client_socket \<Rightarrow>
     (transport_error + socket_event) \<times> (string + ws_message) list \<times> client_socket" where
  "native_receive [] sock = (Inr (Socket_Closed None), [], sock)"
| "native_receive (Inl e # ms) sock = (Inl (TransportError e), ms, sock)"
| "native_receive (Inr (Ws_Binary bytes) # ms) sock = (Inr (Socket_Binary bytes), ms, sock)"
| "native_receive (Inr (Ws_Ping payload) # ms) sock =
     (case send_binary payload sock of
        (Inl e, sock) \<Rightarrow> (Inl e, ms, sock)
      | (Inr _, sock) \<Rightarrow> native_receive ms sock)"
| "native_receive (Inr (Ws_Close reason) # ms) sock = (Inr (Socket_Closed reason), ms, sock)"
| "native_receive (Inr (Ws_Text text) # ms) sock =
     (Inl (TransportError ''server sent text on the binary control protocol''), ms, sock)"
| "native_receive (Inr (Ws_Pong payload) # ms) sock = native_receive ms sock"
| "native_receive (Inr Ws_Frame # ms) sock = native_receive ms sock"

subsection \<open>Lemmas\<close>

lemma hex_digit_is_ascii: "d < 16 \<Longrightarrow> \<not> is_continuation (hex_digit d)"
  by (simp add: is_continuation_def hex_digit_def of_char_of)

lemma show_hex2_is_ascii: "c \<in> set (show_hex2 b) \<Longrightarrow> \<not> is_continuation c"
  using hex_digit_is_ascii [of "of_char b div 16"] hex_digit_is_ascii [of "of_char b mod 16"]
  by (auto simp: show_hex2_def less_mult_imp_div_less)

lemma length_hex: "length (concat (map show_hex2 bytes)) = 2 * length bytes"
  by (induction bytes) (simp_all add: show_hex2_def)

lemma hex_take: "take 2 (drop (i * 2) (concat (map show_hex2 bytes))) = show_hex2 (bytes ! i)"
  if "i < length bytes"
  using that
proof (induction bytes arbitrary: i)
  case (Cons b bytes)
  then show ?case by (cases i) (simp_all add: show_hex2_def)
qed simp

lemma hex_slice:
  assumes "i < length bytes"
  shows "str_slice (concat (map show_hex2 bytes)) (i * 2) (i * 2 + 2) = Some (show_hex2 (bytes ! i))"
proof -
  let ?s = "concat (map show_hex2 bytes)"
  have "is_char_boundary ?s k" if "k \<le> length ?s" for k
  proof (cases "k < length ?s")
    case True
    then have "?s ! k \<in> set ?s" by (rule nth_mem)
    then have "\<not> is_continuation (?s ! k)" using show_hex2_is_ascii by auto
    then show ?thesis using True by (simp add: is_char_boundary_def)
  qed (use that in \<open>simp add: is_char_boundary_def\<close>)
  then show ?thesis using assms by (simp add: str_slice_def length_hex hex_take)
qed

lemma char_of_byte: "char_of (unat (of_char b :: u8)) = b"
proof -
  have "unat (of_nat (of_char b) :: u8) = of_char b"
    by (simp add: unsigned_of_nat take_bit_nat_def del: of_nat_of_char)
  then show ?thesis by (simp add: of_nat_of_char)
qed

lemma fingerprint_bytes_hex:
  "\<forall>i \<in> set is. i < length bytes \<Longrightarrow>
     fingerprint_bytes (concat (map show_hex2 bytes)) is = Some (Inr (map ((!) bytes) is))"
  by (induction "is") (simp_all add: hex_slice [unfolded add_2_eq_Suc'] from_str_radix_hex2 char_of_byte)

lemma decode_fingerprint_hex:
  assumes "length bytes = 32"
  shows "decode_fingerprint (concat (map show_hex2 bytes)) = Some (Inr bytes)"
  using assms map_nth [of bytes] by (simp add: decode_fingerprint_def length_hex fingerprint_bytes_hex)

subsection \<open>Properties\<close>

lemma map_sum_Inr_iff [simp]: "map_sum f g r = Inr y \<longleftrightarrow> (\<exists>x. r = Inr x \<and> y = g x)"
  by (cases r) auto

lemma server_serve_cases:
  assumes "server_serve env bind tc = Inr s"
  obtains "TransportConfig_validate tc = Inr ()" "serve_with_listener env tc (tc_bind_address tc) = Inr s"
  using assms by (auto simp: server_serve_def split: option.splits)


text \<open>An environment in which every file holds one certificate, or key, that is its own name.\<close>

definition example_transport_env :: "unit transport_env" where
  "example_transport_env =
     \<lparr>te_open = Inr, te_certs = (\<lambda>file. Inr [file]), te_private_key = (\<lambda>file. Inr (Some file)),
      te_sha256 = (\<lambda>c. replicate 32 (hd c)), te_single_cert = (\<lambda>chain key. Inr ())\<rparr>"

definition example_transport :: "tls_mode \<Rightarrow> string \<Rightarrow> transport_config" where
  "example_transport mode endpoint =
     \<lparr>tc_bind_address = SocketAddr (Ip_V4 127 0 0 1) 8443 (0, 0), tc_public_endpoint = endpoint,
      tc_tls_mode = mode\<rparr>"

lemmas transport_simps = example_transport_env_def example_transport_def server_serve_def serve_with_listener_def
  TransportConfig_validate_def starts_with_def ends_with_def strip_suffix_def load_rustls_config_def
  read_certificates_def read_private_key_def certificate_fingerprint_def transport_identity_hint_def


text \<open>
  C34: a pinned client accepts exactly the daemon's certificate. When a daemon serves with a pinned
  self-signed certificate and its identity is read from the same files, a native client that is
  given that identity connects with a verifier that accepts a certificate precisely when its
  digest is that of the first certificate the daemon serves with; the fingerprint it was sent as
  text decodes to that digest. A SHA-256 digest has 32 bytes; the endpoint has the scheme \<open>wss\<close>.
\<close>

theorem pinned_certificate:
  assumes serve: "server_serve env bind tc = Inr (Serving_Tls a config)"
    and mode: "tc_tls_mode tc = Mode_PinnedSelfSigned certificate key"
    and hint: "transport_identity_hint env tc = Inr hint"
    and sha256: "\<forall>c. length (te_sha256 env c) = 32"
    and url: "url_parse (tc_public_endpoint tc) = Inr u" "url_scheme u = ''wss''"
  shows "\<exists>chain private_key expected. read_certificates env certificate = Inr chain \<and>
    te_single_cert env chain private_key = Inr (rc_server config) \<and>
    native_connector url_parse
      \<lparr>target_endpoint = tc_public_endpoint tc, target_tls_identity = hint\<rparr> =
      Some (Inr (Connector_Pinned (tc_public_endpoint tc) expected)) \<and>
    (\<forall>c. verify_server_cert (te_sha256 env) expected c = Inr () \<longleftrightarrow>
       te_sha256 env c = te_sha256 env (hd chain))"
proof -
  obtain chain where chain: "read_certificates env certificate = Inr chain"
    and h: "hint = Tls_Sha256Fingerprint (concat (map show_hex2 (te_sha256 env (hd chain))))"
    using hint mode by (auto simp: transport_identity_hint_def certificate_fingerprint_def)
  obtain private_key where "te_single_cert env chain private_key = Inr (rc_server config)"
    using serve mode chain
    by (auto elim!: server_serve_cases simp: serve_with_listener_def load_rustls_config_def)
  moreover have "decode_fingerprint (concat (map show_hex2 (te_sha256 env (hd chain)))) =
      Some (Inr (te_sha256 env (hd chain)))"
    using sha256 by (simp add: decode_fingerprint_hex)
  then have "native_connector url_parse
      \<lparr>target_endpoint = tc_public_endpoint tc, target_tls_identity = hint\<rparr> =
      Some (Inr (Connector_Pinned (tc_public_endpoint tc) (te_sha256 env (hd chain))))"
    using url by (simp add: h native_connector_def native_validate_target_def parse_target_def)
  ultimately show ?thesis
    using chain by (auto simp: verify_server_cert_def intro!: exI)
qed

lemma pinned_certificate_witness:
  "\<exists>expected. native_connector (\<lambda>e. Inr \<lparr>url_scheme = ''wss'', url_host = None\<rparr>)
      \<lparr>target_endpoint = ''wss://h/control'', target_tls_identity =
         Tls_Sha256Fingerprint (concat (map show_hex2 (replicate 32 CHR ''c'')))\<rparr> =
      Some (Inr (Connector_Pinned ''wss://h/control'' expected)) \<and>
    verify_server_cert (te_sha256 example_transport_env) expected ''cert'' = Inr () \<and>
    verify_server_cert (te_sha256 example_transport_env) expected ''other'' \<noteq> Inr ()"
  using pinned_certificate [of example_transport_env "\<lambda>_. None"
      "example_transport (Mode_PinnedSelfSigned ''cert'' ''key'') ''wss://h/control''"
      "SocketAddr (Ip_V4 127 0 0 1) 8443 (0, 0)" "\<lparr>rc_server = (), rc_alpn_protocols = [''http/1.1'']\<rparr>"
      "''cert''" "''key''"
      "Tls_Sha256Fingerprint (concat (map show_hex2 (replicate 32 CHR ''c'')))"
      "\<lambda>e. Inr \<lparr>url_scheme = ''wss'', url_host = None\<rparr>" "\<lparr>url_scheme = ''wss'', url_host = None\<rparr>"]
  by (auto simp: transport_simps)

text \<open>
  A fingerprint of the right length that is not hexadecimal text can make the client panic: the
  code cuts the text at even byte positions, which a longer character may span.
\<close>

lemma fingerprint_panics:
  "decode_fingerprint (CHR ''a'' # char_of (195::nat) # char_of (169::nat) # replicate 61 CHR ''a'') = None"
  by (simp add: decode_fingerprint_def upt_rec str_slice_def is_char_boundary_def is_continuation_def
      of_char_of)

end
