(* ===== verification/Daemon_Pairing.thy ===== *)
theory Daemon_Pairing
  imports Transport Store_Properties
begin

section \<open>Pairing a device through the daemon's administration socket\<close>

text \<open>
  \<open>crates/ompd/src/pairing.rs\<close>, \<open>admin.rs\<close> and \<open>main.rs\<close>: the links a pairing is handed out as, the
  exchange of \<open>ompd pair\<close> with the running daemon over its Unix socket, and the arguments of the
  command line. Accepting connections, file permissions and the select loop of \<open>serve\<close> are I/O.
\<close>

subsection \<open>Command line (main.rs)\<close>

datatype tls_mode_arg =
    Arg_Certificate | Arg_TrustedReverseProxy | Arg_PinnedSelfSigned | Arg_DevelopmentPlaintext

record serve_args =
  sa_database :: string
  sa_admin_socket :: string
  sa_omp :: string
  sa_bind :: socket_addr
  sa_public_endpoint :: string
  sa_tls_mode :: tls_mode_arg
  sa_tls_certificate :: "string option"
  sa_tls_private_key :: "string option"

definition certificate_files :: "serve_args \<Rightarrow> string + string \<times> string" where
  "certificate_files args =
     rbind (ok_or (sa_tls_certificate args) ''--tls-certificate is required for direct TLS modes'') (\<lambda>c.
     rbind (ok_or (sa_tls_private_key args) ''--tls-private-key is required for direct TLS modes'') (\<lambda>k.
       Inr (c, k)))"

definition reject_certificate_files :: "serve_args \<Rightarrow> string + unit" where
  "reject_certificate_files args =
     (if sa_tls_certificate args \<noteq> None \<or> sa_tls_private_key args \<noteq> None
      then Inl ''--tls-certificate and --tls-private-key apply only to direct TLS modes''
      else Inr ())"

definition build_tls_mode :: "serve_args \<Rightarrow> string + tls_mode" where
  "build_tls_mode args =
     (case sa_tls_mode args of
        Arg_Certificate \<Rightarrow> rbind (certificate_files args) (\<lambda>(c, k). Inr (Mode_CertificateFiles c k))
      | Arg_PinnedSelfSigned \<Rightarrow> rbind (certificate_files args) (\<lambda>(c, k). Inr (Mode_PinnedSelfSigned c k))
      | Arg_TrustedReverseProxy \<Rightarrow>
          rbind (reject_certificate_files args) (\<lambda>_. Inr (Mode_TrustedReverseProxy (sa_bind args)))
      | Arg_DevelopmentPlaintext \<Rightarrow>
          rbind (reject_certificate_files args) (\<lambda>_. Inr (Mode_DevelopmentPlaintext (sa_bind args))))"

text \<open>The transport that \<open>serve\<close> goes on with, or the message it ends with.\<close>

definition serve_transport :: "serve_args \<Rightarrow> string + transport_config" where
  "serve_transport args =
     rbind (build_tls_mode args) (\<lambda>mode.
       let tc = \<lparr>tc_bind_address = sa_bind args, tc_public_endpoint = sa_public_endpoint args,
                 tc_tls_mode = mode\<rparr>
       in rbind (map_err show_transport_config_error (TransportConfig_validate tc)) (\<lambda>_. Inr tc))"

definition checked_mul :: "'a::len word \<Rightarrow> 'a word \<Rightarrow> 'a word option" where
  "checked_mul x y = (if unat x * unat y < 2 ^ LENGTH('a) then Some (x * y) else None)"

definition parse_duration_ms :: "string \<Rightarrow> string + u64" where
  "parse_duration_ms text =
     rbind (case strip_suffix ''ms'' text of
        Some number \<Rightarrow> Inr (number, 1)
      | None \<Rightarrow> (case strip_suffix ''s'' text of
        Some number \<Rightarrow> Inr (number, 1000)
      | None \<Rightarrow> (case strip_suffix ''m'' text of
        Some number \<Rightarrow> Inr (number, 60000)
      | None \<Rightarrow> (case strip_suffix ''h'' text of
        Some number \<Rightarrow> Inr (number, 3600000)
      | None \<Rightarrow> Inl ''duration must end in ms, s, m, or h (for example 10m)''))))
     (\<lambda>(number, multiplier).
     rbind (ok_or (from_str_radix 10 number) ''duration must contain a positive integer'') (\<lambda>n.
     rbind (ok_or (checked_mul n multiplier) ''duration is too large'') (\<lambda>milliseconds.
       if milliseconds = 0 then Inl ''duration must be greater than zero'' else Inr milliseconds)))"

subsection \<open>Pairing links (pairing.rs)\<close>

definition PAIRING_BUNDLE_VERSION :: u16 where
  "PAIRING_BUNDLE_VERSION = 1"

definition PAIRING_BUNDLE_LIMIT :: u32 where
  "PAIRING_BUNDLE_LIMIT = 64 * 1024"

record pairing_output =
  po_bundle :: pairing_bundle
  po_native_link :: string
  po_browser_link :: string
  po_terminal_qr :: string

datatype pairing_output_error =
    Po_Store store_error
  | Po_Transport transport_config_error
  | Po_Codec cbor_codec_error
  | Po_Qr string
  | Po_InvalidEndpoint

definition pairing_codec :: cbor_codec where
  "pairing_codec = CborCodec PAIRING_BUNDLE_LIMIT"

definition browser_pair_url :: "string \<Rightarrow> pairing_output_error + string" where
  "browser_pair_url endpoint =
     rbind (ok_or (strip_suffix ''/control'' endpoint) Po_InvalidEndpoint) (\<lambda>origin.
       case strip_prefix ''wss://'' origin of
         Some host \<Rightarrow> Inr (''https://'' @ host @ ''/pair'')
       | None \<Rightarrow>
           (case strip_prefix ''ws://'' origin of
              Some host \<Rightarrow> Inr (''http://'' @ host @ ''/pair'')
            | None \<Rightarrow> Inl Po_InvalidEndpoint))"

text \<open>
  The parameters: \<open>pe_serialize\<close> of a bundle, Base64, the QR code of a text as the terminal shows
  it, and the environments of the transport and of the store.
\<close>

record 't pairing_env =
  pe_transport :: "'t transport_env"
  pe_store :: store_env
  pe_serialize :: "pairing_bundle \<Rightarrow> string list \<times> string option"
  pe_base64 :: "string \<Rightarrow> string"
  pe_qr :: "string \<Rightarrow> string + string"

text \<open>What is made of a grant.\<close>

definition pairing_output_of ::
  "'t pairing_env \<Rightarrow> transport_config \<Rightarrow> server_id \<Rightarrow> pairing_grant \<Rightarrow>
     pairing_output_error + pairing_output" where
  "pairing_output_of env tc server grant =
     rbind (map_err Po_Transport (transport_identity_hint (pe_transport env) tc)) (\<lambda>hint.
     let bundle = \<lparr>bundle_format_version = PAIRING_BUNDLE_VERSION, bundle_server_id = server,
                   bundle_endpoint = tc_public_endpoint tc,
                   bundle_pairing_id = grant_pairing_id grant, bundle_secret = grant_secret grant,
                   bundle_expires_at_ms = grant_expires_at_ms grant, bundle_tls_identity = hint\<rparr>
     in rbind (map_err Po_Codec (cbor_encode (pe_serialize env) pairing_codec bundle)) (\<lambda>bytes.
     let payload = pe_base64 env bytes;
         native_link = ''omp-remote://pair#'' @ payload
     in rbind (browser_pair_url (tc_public_endpoint tc)) (\<lambda>url.
     rbind (map_err Po_Qr (pe_qr env native_link)) (\<lambda>terminal_qr.
       Inr \<lparr>po_bundle = bundle, po_native_link = native_link,
            po_browser_link = url @ ''#'' @ payload, po_terminal_qr = terminal_qr\<rparr>))))"

definition create_pairing_output ::
  "'t pairing_env \<Rightarrow> string + string \<Rightarrow> string \<Rightarrow> transport_config \<Rightarrow> string \<Rightarrow> device_scopes \<Rightarrow>
     u64 \<Rightarrow> u64 \<Rightarrow> store \<Rightarrow> (pairing_output_error + pairing_output) \<times> store" where
  "create_pairing_output env random uuid tc name scopes now_ms ttl_ms st =
     (case TransportConfig_validate tc of
        Inl e \<Rightarrow> (Inl (Po_Transport e), st)
      | Inr _ \<Rightarrow>
          (case create_pairing (pe_store env) random uuid name scopes now_ms ttl_ms st of
             (Inl e, st) \<Rightarrow> (Inl (Po_Store e), st)
           | (Inr grant, st) \<Rightarrow> (pairing_output_of env tc (st_server_id st) grant, st)))"

subsection \<open>The administration socket (admin.rs)\<close>

definition ADMIN_FRAME_LIMIT :: u32 where
  "ADMIN_FRAME_LIMIT = 64 * 1024"

datatype admin_request = Admin_Pair string u64 device_scopes

datatype admin_response =
    Admin_Paired string string string u64 \<comment> \<open>native link, browser link, QR code, expiry\<close>
  | Admin_Error string

record pairing_links =
  links_native_link :: string
  links_browser_link :: string
  links_terminal_qr :: string
  links_expires_at_ms :: u64

definition human_output :: "pairing_links \<Rightarrow> string" where
  "human_output links =
     links_terminal_qr links @ [CHR 0x0A] @ ''Native app: '' @ links_native_link links @ [CHR 0x0A]
       @ ''Browser: '' @ links_browser_link links @ [CHR 0x0A]
       @ ''Expires at: '' @ show_word (links_expires_at_ms links) @ '' ms UTC'' @ [CHR 0x0A]"

datatype admin_error =
    Adm_Connect string string
  | Adm_Io string
  | Adm_Codec cbor_codec_error
  | Adm_FrameTooLarge
  | Adm_Rejected string

text \<open>
  A connected Unix socket: the bytes that will arrive before its end, the bytes written, and what
  the \<open>n\<close>th write answers: \<open>None\<close> when everything was taken, otherwise how much was and the error.
\<close>

record unix_stream =
  us_incoming :: string
  us_outgoing :: string
  us_answers :: "nat \<Rightarrow> (nat \<times> string) option"
  us_writes :: nat

definition stream_write :: "string \<Rightarrow> unix_stream \<Rightarrow> (admin_error + unit) \<times> unix_stream" where
  "stream_write bytes s =
     (let s' = s\<lparr>us_writes := us_writes s + 1\<rparr>
      in case us_answers s (us_writes s) of
           None \<Rightarrow> (Inr (), s'\<lparr>us_outgoing := us_outgoing s @ bytes\<rparr>)
         | Some (n, e) \<Rightarrow> (Inl (Adm_Io e), s'\<lparr>us_outgoing := us_outgoing s @ take n bytes\<rparr>))"

definition read_exact :: "nat \<Rightarrow> unix_stream \<Rightarrow> (admin_error + string) \<times> unix_stream" where
  "read_exact n s =
     (if length (us_incoming s) < n then (Inl (Adm_Io ''early eof''), s\<lparr>us_incoming := []\<rparr>)
      else (Inr (take n (us_incoming s)), s\<lparr>us_incoming := drop n (us_incoming s)\<rparr>))"

definition u32_bytes :: "u32 \<Rightarrow> string" where
  "u32_bytes n = map (\<lambda>i. char_of (unat n div 256 ^ i mod 256)) [3, 2, 1, 0]"

definition u32_of_bytes :: "string \<Rightarrow> u32" where
  "u32_of_bytes bytes = of_nat (foldl (\<lambda>n b. n * 256 + of_char b) 0 bytes)"

definition admin_codec :: cbor_codec where
  "admin_codec = CborCodec ADMIN_FRAME_LIMIT"

definition stream_then ::
  "(unix_stream \<Rightarrow> (admin_error + 'a) \<times> unix_stream) \<Rightarrow>
   ('a \<Rightarrow> unix_stream \<Rightarrow> (admin_error + 'b) \<times> unix_stream) \<Rightarrow>
   unix_stream \<Rightarrow> (admin_error + 'b) \<times> unix_stream" where
  "stream_then m f s = (case m s of (Inl e, s) \<Rightarrow> (Inl e, s) | (Inr x, s) \<Rightarrow> f x s)"

text \<open>A flush of the socket is a write of nothing.\<close>

definition admin_write_frame ::
  "('a \<Rightarrow> string list \<times> string option) \<Rightarrow> 'a \<Rightarrow> unix_stream \<Rightarrow> (admin_error + unit) \<times> unix_stream"
where
  "admin_write_frame ser v s =
     (case cbor_encode ser admin_codec v of
        Inl e \<Rightarrow> (Inl (Adm_Codec e), s)
      | Inr bytes \<Rightarrow>
          (if 2 ^ 32 \<le> length bytes then (Inl Adm_FrameTooLarge, s)
           else stream_then (stream_write (u32_bytes (of_nat (length bytes)))) (\<lambda>_.
                stream_then (stream_write bytes) (\<lambda>_. stream_write [])) s))"

definition admin_read_frame ::
  "(string \<Rightarrow> string + ('a \<times> nat)) \<Rightarrow> unix_stream \<Rightarrow> (admin_error + 'a) \<times> unix_stream" where
  "admin_read_frame de =
     stream_then (read_exact 4) (\<lambda>header s.
       if ADMIN_FRAME_LIMIT < u32_of_bytes header then (Inl Adm_FrameTooLarge, s)
       else stream_then (read_exact (unat (u32_of_bytes header))) (\<lambda>bytes s.
         (map_err Adm_Codec (cbor_decode de admin_codec bytes), s)) s)"

text \<open>
  A connection of the socket on the daemon's side, with what it does to the store, and the
  command's side. \<open>sqlite\<close> and \<open>pem\<close> are the texts of the libraries' errors.
\<close>

fun show_pairing_output_error :: "(sqlite_error \<Rightarrow> string) \<Rightarrow> pairing_output_error \<Rightarrow> string" where
  "show_pairing_output_error sqlite (Po_Store e) = show_store_error sqlite e"
| "show_pairing_output_error sqlite (Po_Transport e) = show_transport_config_error e"
| "show_pairing_output_error sqlite (Po_Codec e) = show_cbor_error e"
| "show_pairing_output_error sqlite (Po_Qr e) = ''failed to render pairing QR code: '' @ e"
| "show_pairing_output_error sqlite Po_InvalidEndpoint = ''invalid control endpoint for pairing''"

record admin_codecs =
  ac_ser_request :: "admin_request \<Rightarrow> string list \<times> string option"
  ac_de_request :: "string \<Rightarrow> string + (admin_request \<times> nat)"
  ac_ser_response :: "admin_response \<Rightarrow> string list \<times> string option"
  ac_de_response :: "string \<Rightarrow> string + (admin_response \<times> nat)"

definition admin_response_of ::
  "(sqlite_error \<Rightarrow> string) \<Rightarrow> pairing_output_error + pairing_output \<Rightarrow> admin_response" where
  "admin_response_of sqlite result =
     (case result of
        Inr output \<Rightarrow> Admin_Paired (po_native_link output) (po_browser_link output)
          (po_terminal_qr output) (bundle_expires_at_ms (po_bundle output))
      | Inl e \<Rightarrow> Admin_Error (show_pairing_output_error sqlite e))"

definition handle_admin_connection ::
  "'t pairing_env \<Rightarrow> admin_codecs \<Rightarrow> (sqlite_error \<Rightarrow> string) \<Rightarrow> string + string \<Rightarrow> string \<Rightarrow> u64 \<Rightarrow>
     transport_config \<Rightarrow> unix_stream \<times> store \<Rightarrow> (admin_error + unit) \<times> unix_stream \<times> store" where
  "handle_admin_connection env codecs sqlite random uuid now_ms tc = (\<lambda>(stream, st).
     case admin_read_frame (ac_de_request codecs) stream of
       (Inl e, stream) \<Rightarrow> (Inl e, stream, st)
     | (Inr (Admin_Pair name expires_ms scopes), stream) \<Rightarrow>
         (let (result, st) = create_pairing_output env random uuid tc name scopes now_ms expires_ms st;
              (r, stream) = admin_write_frame (ac_ser_response codecs) (admin_response_of sqlite result) stream
          in (r, stream, st)))"

definition request_pairing ::
  "admin_codecs \<Rightarrow> string \<Rightarrow> string + unix_stream \<Rightarrow> string \<Rightarrow> u64 \<Rightarrow> device_scopes \<Rightarrow>
     (admin_error + pairing_links) \<times> unix_stream option" where
  "request_pairing codecs path connected name expires_ms scopes =
     (case connected of
        Inl e \<Rightarrow> (Inl (Adm_Connect path e), None)
      | Inr stream \<Rightarrow> apsnd Some
          (stream_then (admin_write_frame (ac_ser_request codecs) (Admin_Pair name expires_ms scopes)) (\<lambda>_.
           stream_then (admin_read_frame (ac_de_response codecs)) (\<lambda>response s.
             case response of
               Admin_Paired native browser qr expires \<Rightarrow>
                 (Inr \<lparr>links_native_link = native, links_browser_link = browser,
                       links_terminal_qr = qr, links_expires_at_ms = expires\<rparr>, s)
             | Admin_Error message \<Rightarrow> (Inl (Adm_Rejected message), s))) stream))"

subsection \<open>Lemmas: framing\<close>

lemma u32_of_bytes_u32_bytes: "u32_of_bytes (u32_bytes n) = n"
proof -
  let ?n = "unat n"
  let ?a = "?n div 256" let ?b = "?a div 256" let ?c = "?b div 256"
  have "?n < 2 ^ 32" using unsigned_less [of n] by simp
  then have "?c < 256" by (simp add: less_mult_imp_div_less)
  moreover have "?n div 256 ^ 2 = ?b" "?n div 256 ^ 3 = ?c"
    by (simp_all add: div_mult2_eq [symmetric])
  moreover have "((?c * 256 + ?b mod 256) * 256 + ?a mod 256) * 256 + ?n mod 256 = ?n"
    by (simp only: div_mult_mod_eq)
  ultimately have "((?n div 256 ^ 3 mod 256 * 256 + ?n div 256 ^ 2 mod 256) * 256 +
      ?n div 256 ^ 1 mod 256) * 256 + ?n div 256 ^ 0 mod 256 = ?n"
    by (simp only: mod_less power_one_right power_0 div_by_1)
  then show ?thesis
    by (simp add: u32_of_bytes_def u32_bytes_def of_char_of del: power_numeral power_one_right power_0)
qed

lemma length_u32_bytes [simp]: "length (u32_bytes n) = 4"
  by (simp add: u32_bytes_def)

text \<open>What a frame is on the socket, and reading it from the front of what arrives.\<close>

definition admin_frame :: "string \<Rightarrow> string" where
  "admin_frame bytes = u32_bytes (of_nat (length bytes)) @ bytes"

lemma admin_write_frame_Inr:
  assumes "admin_write_frame ser v s = (Inr (), s')"
  obtains bytes where "cbor_encode ser admin_codec v = Inr bytes"
    "us_outgoing s' = us_outgoing s @ admin_frame bytes" "us_incoming s' = us_incoming s"
  using assms
  by (auto simp: admin_write_frame_def stream_then_def stream_write_def admin_frame_def Let_def
      split: sum.splits if_splits option.splits prod.splits)

lemma unat_admin_limit: "unat ADMIN_FRAME_LIMIT = 65536"
  by (simp add: ADMIN_FRAME_LIMIT_def)

lemma admin_read_frame_written:
  assumes "cbor_encode ser admin_codec v = Inr bytes" "cbor_reads_back ser de v"
    and "us_incoming s = admin_frame bytes"
  shows "admin_read_frame de s = (Inr v, s\<lparr>us_incoming := []\<rparr>)"
proof -
  have "length bytes \<le> 65536"
    using cbor_encode_Inr(3) [OF assms(1)] by (simp add: admin_codec_def unat_admin_limit)
  then have n: "unat (of_nat (length bytes) :: u32) = length bytes"
    by (simp add: unsigned_of_nat take_bit_nat_def)
  then have "\<not> ADMIN_FRAME_LIMIT < of_nat (length bytes)"
    using \<open>length bytes \<le> 65536\<close> by (simp add: word_less_nat_alt unat_admin_limit)
  then show ?thesis
    using n cbor_roundtrip [OF assms(2,1)]
    by (simp add: admin_read_frame_def stream_then_def read_exact_def assms(3) admin_frame_def
        u32_of_bytes_u32_bytes)
qed

subsection \<open>Lemmas: links\<close>

definition graphic :: "char \<Rightarrow> bool" where
  "graphic c \<longleftrightarrow> (let n = (of_char c :: nat) in 32 < n \<and> n < 127)"

lemma white_space_ends:
  assumes "w \<in> set white_space"
  shows "\<not> graphic (hd w)" "\<not> graphic (last w)"
proof -
  have "list_all (\<lambda>w. \<not> graphic (hd w) \<and> \<not> graphic (last w)) white_space"
    by (simp add: white_space_def graphic_def upt_rec of_char_of)
  then show "\<not> graphic (hd w)" "\<not> graphic (last w)" using assms by (auto simp: list_all_iff)
qed

lemma trim_graphic:
  assumes "s \<noteq> []" "graphic (hd s)" "graphic (last s)"
  shows "trim s = s"
proof -
  have "\<not> starts_with s w" "\<not> ends_with s w" if w: "w \<in> set white_space" for w
    using white_space_ends [OF w] white_space_nonempty [OF w] assms
    by (auto simp: starts_with_def ends_with_def strip_prefix_Some_iff strip_suffix_Some_iff)
  then have "List.find (starts_with s) white_space = None" "List.find (ends_with s) white_space = None"
    by (auto simp: find_None_iff)
  then show ?thesis by (simp add: trim_def trim_start.simps trim_end.simps)
qed

lemma link_payload_fragment: "CHR ''#'' \<notin> set payload \<Longrightarrow> link_payload (origin @ CHR ''#'' # payload) = payload"
  by (simp add: link_payload_def takeWhile_append)

context base64_url
begin

text \<open>Whatever precedes the number sign, a link decodes to the bundle it was made of.\<close>

lemma link_decodes:
  assumes enc: "cbor_encode ser pairing_codec bundle = Inr bytes" "cbor_reads_back ser de bundle"
    and "bytes \<noteq> []" "origin \<noteq> []" "graphic (hd origin)"
  shows "decode_pairing_link decode de (origin @ CHR ''#'' # encode bytes) = Inr bundle"
proof -
  have ne: "encode bytes \<noteq> []" using assms(3) by (simp add: encode_eq_Nil)
  then have "url_safe (last (encode bytes))"
    using alphabet [of bytes] by (simp add: list_all_iff)
  then have "graphic (last (encode bytes))" by (auto simp: url_safe_def graphic_def Let_def)
  then have trim: "trim (origin @ CHR ''#'' # encode bytes) = origin @ CHR ''#'' # encode bytes"
    using assms(4,5) ne by (intro trim_graphic) (cases origin, simp_all)
  have "length bytes \<le> 65536"
    using cbor_encode_Inr(3) [OF enc(1)] by (simp add: pairing_codec_def PAIRING_BUNDLE_LIMIT_def)
  then have "(length bytes + 2) div 3 * 4 \<le> MAX_PAIRING_PAYLOAD_TEXT_BYTES"
    by (simp add: MAX_PAIRING_PAYLOAD_TEXT_BYTES_def MAX_PAIRING_PAYLOAD_BYTES_def div_le_mono)
  then have "\<not> MAX_PAIRING_PAYLOAD_TEXT_BYTES < length (encode bytes)"
    using encoded_length [of bytes] by simp
  moreover have "cbor_decode de (CborCodec MAX_PAIRING_PAYLOAD_BYTES) bytes = Inr bundle"
    using cbor_roundtrip [OF enc(2,1)]
    by (simp add: pairing_codec_def PAIRING_BUNDLE_LIMIT_def MAX_PAIRING_PAYLOAD_BYTES_def)
  ultimately show ?thesis
    using ne by (simp add: decode_pairing_link_def trim link_payload_fragment no_fragment decode_encode)
qed

end

lemma browser_pair_url_scheme: "browser_pair_url endpoint = Inr url \<Longrightarrow> url \<noteq> [] \<and> hd url = CHR ''h''"
  by (auto simp: browser_pair_url_def split: option.splits)

subsection \<open>Lemmas: a fresh pairing is usable\<close>

text \<open>The row of a pairing that has just been granted.\<close>

definition granted_row ::
  "store_env \<Rightarrow> pairing_grant \<Rightarrow> string \<Rightarrow> device_scopes \<Rightarrow> u64 \<Rightarrow> pairing_row" where
  "granted_row env grant name scopes now =
     \<lparr>prow_pairing_id = pairing_id_str (grant_pairing_id grant), prow_requested_name = name,
      prow_scopes = scopes, prow_secret_hash = env_hash env (expose_pairing_secret (grant_secret grant)),
      prow_created_at_ms = now, prow_expires_at_ms = grant_expires_at_ms grant,
      prow_consumed_at_ms = None\<rparr>"

lemma create_pairing_Inr:
  assumes "create_pairing env random uuid name scopes now ttl st = (Inr grant, st')"
  obtains t where "grant_pairing_id grant = PairingId uuid"
    "unat (grant_expires_at_ms grant) = unat now + unat ttl"
    "unat (grant_expires_at_ms grant) < 2 ^ 63"
    "tbl_insert prow_pairing_id (granted_row env grant name scopes now) (db_pairings (st_db st)) = Some t"
    "st' = st\<lparr>st_db := (st_db st)\<lparr>db_pairings := t\<rparr>\<rparr>"
  using assms
  by (auto simp: create_pairing_def encode_pairing_def sql_u64_def Let_def arith_model granted_row_def
      split: option.splits sum.splits if_splits)

lemma decode_granted_row:
  assumes "grant_pairing_id grant = PairingId uuid" "uuid \<noteq> []"
    and "unat now < 2 ^ 63" "unat (grant_expires_at_ms grant) < 2 ^ 63"
  shows "decode_pairing (granted_row env grant name scopes now) =
    Inr (\<lparr>pair_pairing_id = PairingId uuid, pair_requested_name = name, pair_scopes = scopes,
         pair_created_at_ms = now, pair_expires_at_ms = grant_expires_at_ms grant,
         pair_consumed_at_ms = None\<rparr>, env_hash env (expose_pairing_secret (grant_secret grant)))"
  using assms
  by (simp add: decode_pairing_def granted_row_def wire_u64_def sint_nonneg_iff PairingId_new_def
      string_identifier_new_def corrupt_def)

text \<open>A pairing that has just been granted can be exchanged for a credential of any new device.\<close>

lemma granted_pairing_exchanges:
  assumes create: "create_pairing env random uuid name scopes created ttl st = (Inr grant, st1)"
    and "store_wf st" "uuid \<noteq> []" "now < grant_expires_at_ms grant"
    and fresh: "dev_row st (DeviceId uuid') = None"
  shows "\<exists>cred st2. exchange_pairing env (Inr bytes) uuid' (grant_pairing_id grant) (grant_secret grant)
      descriptor now st1 = (Inr cred, st2) \<and>
    cred_server_id cred = st_server_id st \<and> cred_scopes cred = scopes \<and>
    cred_device_id cred = DeviceId uuid'"
proof -
  let ?row = "granted_row env grant name scopes created"
  obtain t where g: "grant_pairing_id grant = PairingId uuid"
    "unat (grant_expires_at_ms grant) = unat created + unat ttl"
    "unat (grant_expires_at_ms grant) < 2 ^ 63"
    and t: "tbl_insert prow_pairing_id ?row (db_pairings (st_db st)) = Some t"
    and st1: "st1 = st\<lparr>st_db := (st_db st)\<lparr>db_pairings := t\<rparr>\<rparr>"
    using create by (rule create_pairing_Inr)
  have now: "unat now < 2 ^ 63" using assms(4) g(3) by (simp add: word_less_nat_alt)
  have key: "prow_pairing_id ?row = uuid" by (simp add: granted_row_def g(1))
  have sel: "tbl_select prow_pairing_id uuid t = Some ?row"
    using pairing_tbl.insert_select [OF t] key by simp
  have wf: "tbl_wf prow_pairing_id t"
    using pairing_tbl.insert_wf [OF _ t] assms(2) by (simp add: store_wf_def db_wf_def)
  have "fst (tbl_update prow_pairing_id uuid (\<lambda>r. prow_consumed_at_ms r = None)
      (\<lambda>r. r\<lparr>prow_consumed_at_ms := Some now\<rparr>) t) = 1"
    using sel by (simp add: pairing_tbl.update_count [OF wf] granted_row_def)
  then obtain t' where t': "tbl_update prow_pairing_id uuid (\<lambda>r. prow_consumed_at_ms r = None)
      (\<lambda>r. r\<lparr>prow_consumed_at_ms := Some now\<rparr>) t = (1, t')"
    by (metis prod.collapse)
  have "decode_pairing ?row = Inr (\<lparr>pair_pairing_id = PairingId uuid, pair_requested_name = name,
       pair_scopes = scopes, pair_created_at_ms = created,
       pair_expires_at_ms = grant_expires_at_ms grant, pair_consumed_at_ms = None\<rparr>,
     env_hash env (expose_pairing_secret (grant_secret grant)))"
    using g assms(3) by (intro decode_granted_row) simp_all
  then have "use_pairing env (PairingId uuid) (grant_secret grant) now ((st_db st)\<lparr>db_pairings := t\<rparr>) =
      Inr (\<lparr>pair_pairing_id = PairingId uuid, pair_requested_name = name, pair_scopes = scopes,
         pair_created_at_ms = created, pair_expires_at_ms = grant_expires_at_ms grant,
         pair_consumed_at_ms = None\<rparr>, (st_db st)\<lparr>db_pairings := t'\<rparr>)"
    using assms(4) now by (simp add: use_pairing_def sel t' sql_u64_def not_le)
  moreover have "tbl_select drow_device_id uuid' (db_devices (st_db st)) = None"
    using fresh by (simp add: dev_row_def)
  ultimately show ?thesis
    using now by (simp add: exchange_pairing_def st1 g(1) sql_u64_def tbl_insert_def Let_def)
qed

lemma create_pairing_server: "create_pairing env random uuid name scopes now ttl st = (r, st') \<Longrightarrow>
    st_server_id st' = st_server_id st"
  by (auto dest: create_cases)

lemma pairing_output_of_Inr:
  assumes "pairing_output_of env tc server grant = Inr out"
  obtains bytes origin where
    "transport_identity_hint (pe_transport env) tc = Inr (bundle_tls_identity (po_bundle out))"
    "cbor_encode (pe_serialize env) pairing_codec (po_bundle out) = Inr bytes"
    "po_native_link out = ''omp-remote://pair'' @ CHR ''#'' # pe_base64 env bytes"
    "browser_pair_url (tc_public_endpoint tc) = Inr origin"
    "po_browser_link out = origin @ CHR ''#'' # pe_base64 env bytes"
    "bundle_format_version (po_bundle out) = PAIRING_BUNDLE_VERSION"
    "bundle_server_id (po_bundle out) = server" "bundle_endpoint (po_bundle out) = tc_public_endpoint tc"
    "bundle_pairing_id (po_bundle out) = grant_pairing_id grant"
    "bundle_secret (po_bundle out) = grant_secret grant"
    "bundle_expires_at_ms (po_bundle out) = grant_expires_at_ms grant"
  using assms by (auto simp: pairing_output_of_def Let_def)

lemma apsnd_Some_iff: "apsnd Some p = (r, Some s) \<longleftrightarrow> p = (r, s)"
  by (cases p) auto

text \<open>
  The conversation of the command with the daemon: what each reads is what the other wrote.
\<close>

lemma admin_conversation:
  assumes codecs: "cbor_reads_back (ac_ser_request codecs) (ac_de_request codecs) (Admin_Pair name ttl scopes)"
    "\<forall>r. cbor_reads_back (ac_ser_response codecs) (ac_de_response codecs) r"
    and cli: "request_pairing codecs path (Inr cs) name ttl scopes = (Inr links, Some cs')"
    and daemon: "handle_admin_connection env codecs sqlite random uuid now tc (ds, st) = (Inr (), ds', st')"
    and wired: "us_incoming ds = us_outgoing cs'" "us_incoming cs = us_outgoing ds'"
      "us_outgoing cs = []" "us_outgoing ds = []"
  obtains out where "create_pairing_output env random uuid tc name scopes now ttl st = (Inr out, st')"
    "links = \<lparr>links_native_link = po_native_link out, links_browser_link = po_browser_link out,
       links_terminal_qr = po_terminal_qr out,
       links_expires_at_ms = bundle_expires_at_ms (po_bundle out)\<rparr>"
proof -
  let ?request = "Admin_Pair name ttl scopes"
  obtain cs1 where w: "admin_write_frame (ac_ser_request codecs) ?request cs = (Inr (), cs1)"
    and r: "stream_then (admin_read_frame (ac_de_response codecs)) (\<lambda>response s.
             case response of
               Admin_Paired native browser qr expires \<Rightarrow>
                 (Inr \<lparr>links_native_link = native, links_browser_link = browser,
                       links_terminal_qr = qr, links_expires_at_ms = expires\<rparr>, s)
             | Admin_Error message \<Rightarrow> (Inl (Adm_Rejected message), s)) cs1 = (Inr links, cs')"
    using cli by (auto simp: request_pairing_def stream_then_def [of "admin_write_frame _ _"] apsnd_Some_iff
        split: prod.splits sum.splits)
  obtain qbytes where q: "cbor_encode (ac_ser_request codecs) admin_codec ?request = Inr qbytes"
    "us_outgoing cs1 = admin_frame qbytes" "us_incoming cs1 = us_incoming cs"
    using w wired(3) by (auto elim: admin_write_frame_Inr)
  obtain response where resp: "admin_read_frame (ac_de_response codecs) cs1 = (Inr response, cs')"
    and links: "(case response of Admin_Paired native browser qr expires \<Rightarrow>
        Inr \<lparr>links_native_link = native, links_browser_link = browser, links_terminal_qr = qr,
             links_expires_at_ms = expires\<rparr>
      | Admin_Error message \<Rightarrow> Inl (Adm_Rejected message)) = Inr links"
    using r by (auto simp: stream_then_def split: prod.splits sum.splits admin_response.splits)
  have "us_outgoing cs' = us_outgoing cs1"
    using resp by (auto simp: admin_read_frame_def stream_then_def read_exact_def
        split: prod.splits sum.splits if_splits)
  then have read: "admin_read_frame (ac_de_request codecs) ds = (Inr ?request, ds\<lparr>us_incoming := []\<rparr>)"
    using q wired(1) codecs(1) by (intro admin_read_frame_written) simp_all
  obtain result where c: "create_pairing_output env random uuid tc name scopes now ttl st = (result, st')"
    and wr: "admin_write_frame (ac_ser_response codecs) (admin_response_of sqlite result)
      (ds\<lparr>us_incoming := []\<rparr>) = (Inr (), ds')"
    using daemon by (auto simp: handle_admin_connection_def read Let_def split: prod.splits)
  obtain rbytes where rb: "cbor_encode (ac_ser_response codecs) admin_codec (admin_response_of sqlite result) = Inr rbytes"
    "us_outgoing ds' = admin_frame rbytes"
    using wr wired(4) by (auto elim: admin_write_frame_Inr)
  have "admin_read_frame (ac_de_response codecs) cs1 =
      (Inr (admin_response_of sqlite result), cs1\<lparr>us_incoming := []\<rparr>)"
    by (rule admin_read_frame_written [OF rb(1) codecs(2) [rule_format]]) (simp add: q(3) wired(2) rb(2))
  then have "response = admin_response_of sqlite result" using resp by simp
  then show thesis
    using links c by (cases result) (auto simp: admin_response_of_def intro: that)
qed

subsection \<open>Properties\<close>

text \<open>
  C16: pairing works end to end. When \<open>ompd pair\<close> prints its links after talking to the daemon over
  the socket, both links decode, in the client, to one bundle: it names this server and its
  public endpoint, carries the identity of its transport and expires when the links say, after
  exactly the time asked for. The client turns the bundle into a configuration for that
  endpoint and identity, and until it expires the daemon's store exchanges the bundle's secret
  for a credential of this server with exactly the scopes asked for, whichever new device asks.
  The serialisers read back what they wrote and never write nothing; Base64 is URL-safe Base64;
  the store's tables are well-formed, which every store that was opened is.
\<close>

theorem pairing_end_to_end:
  assumes base64: "base64_url (pe_base64 env) decode64"
    and bundles: "\<forall>b. cbor_reads_back (pe_serialize env) de b \<and> concat (fst (pe_serialize env b)) \<noteq> []"
    and codecs: "cbor_reads_back (ac_ser_request codecs) (ac_de_request codecs) (Admin_Pair name ttl scopes)"
      "\<forall>r. cbor_reads_back (ac_ser_response codecs) (ac_de_response codecs) r"
    and cli: "request_pairing codecs path (Inr cs) name ttl scopes = (Inr links, Some cs')"
    and daemon: "handle_admin_connection env codecs sqlite random uuid now tc (ds, st) = (Inr (), ds', st')"
    and wired: "us_incoming ds = us_outgoing cs'" "us_incoming cs = us_outgoing ds'"
      "us_outgoing cs = []" "us_outgoing ds = []"
    and store: "store_wf st" "uuid \<noteq> []"
  shows "\<exists>bundle config.
    decode_pairing_link decode64 de (links_native_link links) = Inr bundle \<and>
    decode_pairing_link decode64 de (links_browser_link links) = Inr bundle \<and>
    bundle_server_id bundle = st_server_id st \<and> bundle_endpoint bundle = tc_public_endpoint tc \<and>
    transport_identity_hint (pe_transport env) tc = Inr (bundle_tls_identity bundle) \<and>
    bundle_expires_at_ms bundle = links_expires_at_ms links \<and>
    unat (links_expires_at_ms links) = unat now + unat ttl \<and>
    ClientConfig_pairing limits bundle client device = Inr config \<and>
    cfg_server_id config = st_server_id st \<and>
    cfg_target config = \<lparr>target_endpoint = tc_public_endpoint tc,
                         target_tls_identity = bundle_tls_identity bundle\<rparr> \<and>
    (\<forall>now' uuid' bytes descriptor.
       now' < links_expires_at_ms links \<longrightarrow> dev_row st (DeviceId uuid') = None \<longrightarrow>
       (\<exists>cred st2. exchange_pairing (pe_store env) (Inr bytes) uuid' (bundle_pairing_id bundle)
            (bundle_secret bundle) descriptor now' st' = (Inr cred, st2) \<and>
          cred_server_id cred = st_server_id st \<and> cred_scopes cred = scopes \<and>
          cred_device_id cred = DeviceId uuid'))"
proof -
  obtain out where out: "create_pairing_output env random uuid tc name scopes now ttl st = (Inr out, st')"
    and links: "links = \<lparr>links_native_link = po_native_link out, links_browser_link = po_browser_link out,
       links_terminal_qr = po_terminal_qr out,
       links_expires_at_ms = bundle_expires_at_ms (po_bundle out)\<rparr>"
    using codecs cli daemon wired by (rule admin_conversation)
  obtain grant where grant: "create_pairing (pe_store env) random uuid name scopes now ttl st = (Inr grant, st')"
    and po: "pairing_output_of env tc (st_server_id st') grant = Inr out"
    using out by (auto simp: create_pairing_output_def split: sum.splits prod.splits)
  obtain bytes origin where b: "transport_identity_hint (pe_transport env) tc = Inr (bundle_tls_identity (po_bundle out))"
    "cbor_encode (pe_serialize env) pairing_codec (po_bundle out) = Inr bytes"
    "po_native_link out = ''omp-remote://pair'' @ CHR ''#'' # pe_base64 env bytes"
    "browser_pair_url (tc_public_endpoint tc) = Inr origin"
    "po_browser_link out = origin @ CHR ''#'' # pe_base64 env bytes"
    "bundle_format_version (po_bundle out) = PAIRING_BUNDLE_VERSION"
    "bundle_server_id (po_bundle out) = st_server_id st'"
    "bundle_endpoint (po_bundle out) = tc_public_endpoint tc"
    "bundle_pairing_id (po_bundle out) = grant_pairing_id grant"
    "bundle_secret (po_bundle out) = grant_secret grant"
    "bundle_expires_at_ms (po_bundle out) = grant_expires_at_ms grant"
    using po by (rule pairing_output_of_Inr)
  have "cbor_reads_back (pe_serialize env) de (po_bundle out)" "bytes \<noteq> []"
    using bundles cbor_encode_Inr(1) [OF b(2)] by simp_all
  note decodes = base64_url.link_decodes [OF base64 b(2) this]
  have "decode_pairing_link decode64 de (links_native_link links) = Inr (po_bundle out)"
    using decodes [of "''omp-remote://pair''"] by (simp add: links b(3) graphic_def)
  moreover have "decode_pairing_link decode64 de (links_browser_link links) = Inr (po_bundle out)"
    using decodes [of origin] browser_pair_url_scheme [OF b(4)] by (simp add: links b(5) graphic_def)
  moreover have "st_server_id st' = st_server_id st" using grant by (rule create_pairing_server)
  moreover obtain t where "unat (grant_expires_at_ms grant) = unat now + unat ttl"
    using grant by (rule create_pairing_Inr)
  moreover note granted_pairing_exchanges [OF grant store]
  ultimately show ?thesis
    using b by (auto simp: links ClientConfig_pairing_def PAIRING_BUNDLE_VERSION_def
        PAIRING_FORMAT_VERSION_def intro!: exI [of _ "po_bundle out"])
qed

text \<open>A serialiser for one value, as a single byte.\<close>

definition write_one :: "'a \<Rightarrow> 'a \<Rightarrow> string list \<times> string option" where
  "write_one v x = ([''x''], if x = v then None else Some ''unsupported'')"

definition read_one :: "'a \<Rightarrow> string \<Rightarrow> string + ('a \<times> nat)" where
  "read_one v bytes = (if bytes = [] then Inl ''end of input'' else Inr (v, 1))"

lemma one_reads_back: "cbor_reads_back (write_one v) (read_one v) x"
  by (simp add: cbor_reads_back_def write_one_def read_one_def)

definition example_bundle :: pairing_bundle where
  "example_bundle =
     \<lparr>bundle_format_version = 1, bundle_server_id = ServerId ''s'', bundle_endpoint = ''wss://h/control'',
      bundle_pairing_id = PairingId ''p'', bundle_secret = PairingSecret ''r'', bundle_expires_at_ms = 3,
      bundle_tls_identity = Tls_PubliclyTrusted\<rparr>"

definition example_pairing_env :: "unit pairing_env" where
  "example_pairing_env =
     \<lparr>pe_transport = example_transport_env,
      pe_store = \<lparr>env_hash = id, env_base64 = id, env_ser_request = (\<lambda>_. ([], None)),
        env_ser_outcome = (\<lambda>_. ([], None)), env_de_outcome = (\<lambda>_. Inl ''none'')\<rparr>,
      pe_serialize = write_one example_bundle, pe_base64 = base64_encode, pe_qr = (\<lambda>_. Inr ''qr'')\<rparr>"

definition example_links :: pairing_links where
  "example_links = \<lparr>links_native_link = ''omp-remote://pair#eA'',
     links_browser_link = ''https://h/pair#eA'', links_terminal_qr = ''qr'', links_expires_at_ms = 3\<rparr>"

definition example_codecs :: admin_codecs where
  "example_codecs =
     \<lparr>ac_ser_request = write_one (Admin_Pair ''phone'' 2 DeviceScopes_all),
      ac_de_request = read_one (Admin_Pair ''phone'' 2 DeviceScopes_all),
      ac_ser_response = write_one (Admin_Paired ''omp-remote://pair#eA'' ''https://h/pair#eA'' ''qr'' 3),
      ac_de_response = read_one (Admin_Paired ''omp-remote://pair#eA'' ''https://h/pair#eA'' ''qr'' 3)\<rparr>"

definition example_stream :: "string \<Rightarrow> string \<Rightarrow> nat \<Rightarrow> unix_stream" where
  "example_stream incoming outgoing writes =
     \<lparr>us_incoming = incoming, us_outgoing = outgoing, us_answers = (\<lambda>_. None), us_writes = writes\<rparr>"

definition example_frame :: string where
  "example_frame = admin_frame ''x''"

lemmas example_pairing_simps = example_pairing_env_def example_codecs_def example_stream_def
  example_links_def cbor_encode_result write_one_def

lemma example_admin_write:
  "admin_write_frame (write_one v) v (example_stream i [] 0) = (Inr (), example_stream i example_frame 3)"
  by (simp add: admin_write_frame_def stream_then_def stream_write_def example_pairing_simps
      example_frame_def admin_frame_def admin_codec_def ADMIN_FRAME_LIMIT_def Let_def)

lemma example_admin_read:
  "admin_read_frame (read_one v) (example_stream example_frame out n) = (Inr v, example_stream [] out n)"
  using admin_read_frame_written [of "write_one v" v "''x''" "read_one v" "example_stream example_frame out n"]
  by (simp add: example_pairing_simps example_frame_def one_reads_back admin_codec_def
      ADMIN_FRAME_LIMIT_def)

lemma example_base64: "base64_encode ''x'' = ''eA''"
  by (simp add: base64_encode_def base64_digit_def char_of_def bit_0)

definition example_paired_store :: "store \<times> store" where
  "example_paired_store =
     (let st = \<lparr>st_db = empty_database, st_server_id = ServerId ''s''\<rparr>
      in (st, snd (create_pairing (pe_store example_pairing_env) (Inr ''r'') ''p'' ''phone''
            DeviceScopes_all 1 2 st)))"

lemma example_output:
  "create_pairing_output example_pairing_env (Inr ''r'') ''p''
     (example_transport (Mode_CertificateFiles ''c'' ''k'') ''wss://h/control'') ''phone'' DeviceScopes_all 1 2
     (fst example_paired_store) =
   (Inr \<lparr>po_bundle = example_bundle, po_native_link = ''omp-remote://pair#eA'',
         po_browser_link = ''https://h/pair#eA'', po_terminal_qr = ''qr''\<rparr>, snd example_paired_store)"
  by (simp add: create_pairing_output_def example_paired_store_def create_pairing_def encode_pairing_def
      sql_u64_def checked_add_def tbl_insert_def tbl_select_def empty_database_def Let_def
      pairing_output_of_def example_pairing_simps transport_simps example_bundle_def PAIRING_BUNDLE_VERSION_def
      pairing_codec_def PAIRING_BUNDLE_LIMIT_def browser_pair_url_def example_base64)

lemma pairing_end_to_end_witness:
  "\<exists>cred st2. decode_pairing_link base64_decode (read_one example_bundle) ''omp-remote://pair#eA'' =
       Inr example_bundle \<and>
     exchange_pairing (pe_store example_pairing_env) (Inr ''t'') ''d'' (PairingId ''p'') (PairingSecret ''r'')
       \<lparr>desc_name = ''phone'', desc_platform = Platform_Mobile\<rparr> 2 (snd example_paired_store) =
       (Inr cred, st2) \<and> cred_scopes cred = DeviceScopes_all"
proof -
  let ?tc = "example_transport (Mode_CertificateFiles ''c'' ''k'') ''wss://h/control''"
  have cli: "request_pairing example_codecs ''sock'' (Inr (example_stream example_frame [] 0)) ''phone'' 2
      DeviceScopes_all = (Inr example_links, Some (example_stream [] example_frame 3))"
    by (simp add: request_pairing_def stream_then_def example_codecs_def example_admin_write
        example_admin_read example_links_def)
  have daemon: "handle_admin_connection example_pairing_env example_codecs (\<lambda>_. ''error'') (Inr ''r'') ''p'' 1 ?tc
      (example_stream example_frame [] 0, fst example_paired_store) =
      (Inr (), example_stream [] example_frame 3, snd example_paired_store)"
    using example_admin_write [of "Admin_Paired ''omp-remote://pair#eA'' ''https://h/pair#eA'' ''qr'' 3" "[]"]
    by (simp add: handle_admin_connection_def example_codecs_def example_admin_read example_output
        admin_response_of_def example_bundle_def Let_def)
  have wf: "store_wf (fst example_paired_store)"
    by (simp add: example_paired_store_def store_wf_def db_wf_def empty_database_def tbl_wf_def Let_def)
  have fresh: "dev_row (fst example_paired_store) (DeviceId ''d'') = None"
    by (simp add: example_paired_store_def dev_row_def empty_database_def tbl_select_def Let_def)
  have b64: "base64_url (pe_base64 example_pairing_env) base64_decode"
    using rfc4648.base64_url_axioms by (simp add: example_pairing_env_def)
  have cbor: "\<forall>b. cbor_reads_back (pe_serialize example_pairing_env) (read_one example_bundle) b \<and>
      concat (fst (pe_serialize example_pairing_env b)) \<noteq> []"
    "cbor_reads_back (ac_ser_request example_codecs) (ac_de_request example_codecs) (Admin_Pair ''phone'' 2 DeviceScopes_all)"
    "\<forall>r. cbor_reads_back (ac_ser_response example_codecs) (ac_de_response example_codecs) r"
    by (simp_all add: example_pairing_env_def example_codecs_def one_reads_back) (simp add: write_one_def)
  obtain link where b: "decode_pairing_link base64_decode (read_one example_bundle)
      (links_native_link example_links) = Inr link"
    and x: "\<forall>now' uuid' bytes descriptor.
       now' < links_expires_at_ms example_links \<longrightarrow> dev_row (fst example_paired_store) (DeviceId uuid') = None \<longrightarrow>
       (\<exists>cred st2. exchange_pairing (pe_store example_pairing_env) (Inr bytes) uuid' (bundle_pairing_id link)
            (bundle_secret link) descriptor now' (snd example_paired_store) = (Inr cred, st2) \<and>
          cred_server_id cred = st_server_id (fst example_paired_store) \<and>
          cred_scopes cred = DeviceScopes_all \<and> cred_device_id cred = DeviceId uuid')"
    using pairing_end_to_end [OF b64 cbor cli daemon _ _ _ _ wf]
    by (simp add: example_stream_def) blast
  have "cbor_encode (write_one example_bundle) pairing_codec example_bundle = Inr ''x''"
    by (simp add: cbor_encode_result write_one_def pairing_codec_def PAIRING_BUNDLE_LIMIT_def)
  from rfc4648.link_decodes [OF this one_reads_back, of "''omp-remote://pair''"] b have "link = example_bundle"
    by (simp add: example_base64 graphic_def example_links_def)
  moreover have "(2::u64) < links_expires_at_ms example_links" by (simp add: example_links_def)
  moreover from this x fresh obtain cred st2 where
    "exchange_pairing (pe_store example_pairing_env) (Inr ''t'') ''d'' (bundle_pairing_id link)
       (bundle_secret link) \<lparr>desc_name = ''phone'', desc_platform = Platform_Mobile\<rparr> 2
       (snd example_paired_store) = (Inr cred, st2)" "cred_scopes cred = DeviceScopes_all"
    by blast
  ultimately show ?thesis using b by (simp add: example_bundle_def example_links_def)
qed

text \<open>
  An endpoint without a host passes the checks of the transport, but no pairing can be handed out
  for it: every attempt stores a pairing and then fails.
\<close>

lemma endpoint_without_host:
  assumes "tc_public_endpoint tc = ''wss://control''" "tc_tls_mode tc = Mode_CertificateFiles c k"
  shows "TransportConfig_validate tc = Inr ()" "browser_pair_url (tc_public_endpoint tc) = Inl Po_InvalidEndpoint"
  by (simp_all add: assms TransportConfig_validate_def browser_pair_url_def starts_with_def
      ends_with_def strip_suffix_def)

definition duration_units :: "(string \<times> nat) list" where
  "duration_units = [(''ms'', 1), (''s'', 1000), (''m'', 60000), (''h'', 3600000)]"

lemma checked_mul_of_nat:
  assumes "m < 2 ^ LENGTH('a)" "n < 2 ^ LENGTH('a)"
  shows "checked_mul (of_nat m :: 'a::len word) (of_nat n) =
    (if m * n < 2 ^ LENGTH('a) then Some (of_nat (m * n)) else None)"
  using assms by (simp add: checked_mul_def unsigned_of_nat take_bit_nat_def)

lemma show_nat_no_letter: "show_nat n = r @ [c] \<Longrightarrow> \<exists>d < 10. c = char_of (48 + (d::nat))"
  using show_nat_digits [of c n] by auto

text \<open>
  Durations: a decimal number with its unit means the number of milliseconds it says; one that
  does not fit 64 bits and the empty duration are refused, each with its message.
\<close>

theorem duration_roundtrip:
  assumes "(u, k) \<in> set duration_units" "n < 2 ^ 64"
  shows "parse_duration_ms (show_nat n @ u) =
    (if 2 ^ 64 \<le> n * k then Inl ''duration is too large''
     else if n = 0 then Inl ''duration must be greater than zero'' else Inr (of_nat (n * k)))"
proof -
  have letter: "show_nat n \<noteq> r @ [c]" if "c \<in> {CHR ''m'', CHR ''s''}" for r c
    using that show_nat_no_letter [of n r c]
    by (auto dest!: arg_cong [where f = "of_char :: char \<Rightarrow> nat"] simp: of_char_of)
  have none: "strip_suffix ''ms'' (show_nat n @ ''s'') = None"
    using letter by (auto simp: strip_suffix_Some_iff simp flip: not_Some_eq)
  have diff: "strip_suffix p (show_nat n @ q) = None" if "last p \<noteq> last q" "p \<noteq> []" "q \<noteq> []" for p q
    using that by (auto simp: strip_suffix_Some_iff simp flip: not_Some_eq dest!: arg_cong [where f = last])
  have same: "strip_suffix p (show_nat n @ p) = Some (show_nat n)" for p
    by (simp add: strip_suffix_Some_iff)
  have number: "from_str_radix 10 (show_nat n) = Some (of_nat n :: u64)"
    using assms(2) by (simp add: from_str_radix_show_nat)
  have "k < 2 ^ 64" "0 < k" using assms(1) by (auto simp: duration_units_def)
  then have product: "checked_mul (of_nat n :: u64) (of_nat k) =
      (if n * k < 2 ^ 64 then Some (of_nat (n * k)) else None)"
    using assms(2) checked_mul_of_nat [of n k, where 'a = 64] by simp
  have zero: "(of_nat (n * k) :: u64) = 0 \<longleftrightarrow> n = 0" if "n * k < 2 ^ 64"
  proof -
    have "unat (of_nat (n * k) :: u64) = n * k"
      using that by (simp add: unsigned_of_nat take_bit_nat_def del: of_nat_mult)
    then show ?thesis using \<open>0 < k\<close> by (metis mult_is_0 not_less_zero unat_0 unat_eq_zero)
  qed
  have "parse_duration_ms (show_nat n @ u) =
      rbind (ok_or (checked_mul (of_nat n) (of_nat k)) ''duration is too large'') (\<lambda>milliseconds.
        if milliseconds = 0 then Inl ''duration must be greater than zero'' else Inr milliseconds)"
    using assms(1) by (auto simp: duration_units_def parse_duration_ms_def number none same diff)
  then show ?thesis using zero by (simp add: product not_less)
qed

end
