(* ===== verification/App_Model.thy ===== *)
theory App_Model
  imports Text_Parsing Client
begin

section \<open>The application: its model\<close>

text \<open>
  \<open>crates/omp-app/src/model.rs\<close>: what the application shows, and how an event of the client
  changes it. Texts are their UTF-8 bytes; \<open>show_json\<close> is the text of a JSON value.
\<close>

definition MAX_TRANSCRIPT_ENTRIES :: nat where
  "MAX_TRANSCRIPT_ENTRIES = 1000"

definition MAX_PARTIAL_TEXT_BYTES :: nat where
  "MAX_PARTIAL_TEXT_BYTES = 1024 * 1024"

datatype interaction_lease_state =
    LeaseState_Acquiring | LeaseState_Owned | LeaseState_Unavailable string

record pending_interaction =
  pi_envelope :: ui_interaction_envelope
  pi_lease :: interaction_lease_state

datatype transcript_kind =
    Transcript_User | Transcript_Assistant | Transcript_Thinking | Transcript_Tool | Transcript_System

record transcript_entry =
  entry_sequence :: event_sequence
  entry_kind :: transcript_kind
  entry_text :: string

record transcript =
  tr_entries :: "transcript_entry list"
  tr_partial_assistant :: string
  tr_partial_thinking :: string

definition Transcript_default :: transcript where
  "Transcript_default = \<lparr>tr_entries = [], tr_partial_assistant = [], tr_partial_thinking = []\<rparr>"

record app_model =
  app_connection :: connection_status
  app_own_device_id :: "device_id option"
  app_agents :: "(agent_id, agent_snapshot) bmap"
  app_selected_agent :: "agent_id option"
  app_transcripts :: "(agent_id, transcript) bmap"
  app_interactions :: "(agent_id, pending_interaction) bmap"
  app_devices :: "device_summary list"
  app_error :: "string option"

definition AppModel_default :: app_model where
  "AppModel_default =
     \<lparr>app_connection = Status_Disconnected None, app_own_device_id = None, app_agents = [],
      app_selected_agent = None, app_transcripts = [], app_interactions = [], app_devices = [],
      app_error = None\<rparr>"

subsection \<open>Text\<close>

text \<open>The last position of a character at or before the given one.\<close>

fun floor_char_boundary :: "string \<Rightarrow> nat \<Rightarrow> nat" where
  "floor_char_boundary s 0 = 0"
| "floor_char_boundary s (Suc i) =
     (if is_char_boundary s (Suc i) then Suc i else floor_char_boundary s i)"

definition append_bounded :: "string \<Rightarrow> string \<Rightarrow> string" where
  "append_bounded target delta =
     (let remaining = MAX_PARTIAL_TEXT_BYTES - length target
      in if remaining = 0 then target
         else target @ take (floor_char_boundary delta (min remaining (length delta))) delta)"

fun join_lines :: "string list \<Rightarrow> string" where
  "join_lines [] = []"
| "join_lines [line] = line"
| "join_lines (line # lines) = line @ [CHR 0x0A] @ join_lines lines"

fun block_text :: "user_content_block \<Rightarrow> string option" where
  "block_text (UserContentBlock_Text text) = Some (tx_text text)"
| "block_text (UserContentBlock_Image img) = None"

fun render_message_content :: "message_content \<Rightarrow> string" where
  "render_message_content (MessageContent_Text text) = text"
| "render_message_content (MessageContent_Blocks blocks) = join_lines (List.map_filter block_text blocks)"

definition assistant_text :: "assistant_content \<Rightarrow> string option" where
  "assistant_text content =
     (case content of
        AssistantContent_Text text signature \<Rightarrow> Some text
      | AssistantContent_Thinking thinking signature item \<Rightarrow> Some thinking
      | _ \<Rightarrow> None)"

definition render_agent_message :: "agent_message \<Rightarrow> string" where
  "render_agent_message message =
     (case message of
        AgentMessage_User content synthetic steering attribution payload timestamp \<Rightarrow>
          render_message_content content
      | AgentMessage_Developer content attribution payload timestamp \<Rightarrow> render_message_content content
      | AgentMessage_Assistant body \<Rightarrow> join_lines (List.map_filter assistant_text (amb_content body))
      | AgentMessage_BashExecution command out exit cancelled truncated meta timestamp excluded \<Rightarrow>
          ''$ '' @ command @ [CHR 0x0A] @ out
      | AgentMessage_PythonExecution python out exit cancelled truncated meta timestamp excluded \<Rightarrow>
          python @ [CHR 0x0A] @ out
      | _ \<Rightarrow> [])"

subsection \<open>Transcripts\<close>

definition transcript_push :: "event_sequence \<Rightarrow> transcript_kind \<Rightarrow> string \<Rightarrow> transcript \<Rightarrow> transcript" where
  "transcript_push q kind text t =
     t\<lparr>tr_entries :=
         (if length (tr_entries t) = MAX_TRANSCRIPT_ENTRIES then tl (tr_entries t) else tr_entries t) @
           [\<lparr>entry_sequence = q, entry_kind = kind, entry_text = text\<rparr>]\<rparr>"

fun show_notice_level :: "notice_level \<Rightarrow> string" where
  "show_notice_level Notice_Info = ''Info''"
| "show_notice_level Notice_Warning = ''Warning''"
| "show_notice_level Notice_Error = ''Error''"

text \<open>The dash before a tool's intent is U+2014.\<close>

definition em_dash :: string where
  "em_dash = map char_of [226, 128, 148 :: nat]"

definition end_assistant_message :: "event_sequence \<Rightarrow> agent_message \<Rightarrow> transcript \<Rightarrow> transcript" where
  "end_assistant_message q message t =
     (let t = (if tr_partial_thinking t = [] then t
               else transcript_push q Transcript_Thinking (tr_partial_thinking t)
                      (t\<lparr>tr_partial_thinking := []\<rparr>));
          (text, t) = (if tr_partial_assistant t = [] then (render_agent_message message, t)
                       else (tr_partial_assistant t, t\<lparr>tr_partial_assistant := []\<rparr>))
      in if text = [] then t else transcript_push q Transcript_Assistant text t)"

definition transcript_session_event ::
  "(json \<Rightarrow> string) \<Rightarrow> event_sequence \<Rightarrow> session_event \<Rightarrow> transcript \<Rightarrow> transcript" where
  "transcript_session_event show_json q event t =
     (case event of
        Event_MessageStart message \<Rightarrow>
          (case message of
             AgentMessage_User content synthetic steering attribution payload timestamp \<Rightarrow>
               transcript_push q Transcript_User (render_agent_message message) t
           | _ \<Rightarrow> t)
      | Event_MessageUpdate message update \<Rightarrow>
          (case update of
             AssistantEvent_TextDelta index delta partial \<Rightarrow>
               t\<lparr>tr_partial_assistant := append_bounded (tr_partial_assistant t) delta\<rparr>
           | AssistantEvent_ThinkingDelta index delta partial \<Rightarrow>
               t\<lparr>tr_partial_thinking := append_bounded (tr_partial_thinking t) delta\<rparr>
           | _ \<Rightarrow> t)
      | Event_MessageEnd message \<Rightarrow>
          (case message of
             AgentMessage_Assistant body \<Rightarrow> end_assistant_message q message t
           | _ \<Rightarrow> t)
      | Event_ToolExecutionStart call tool args intent \<Rightarrow>
          transcript_push q Transcript_Tool
            (tool @ (case intent of None \<Rightarrow> [] | Some i \<Rightarrow> '' '' @ em_dash @ '' '' @ i) @ [CHR 0x0A]
              @ show_json args) t
      | Event_ToolExecutionEnd call tool result is_error \<Rightarrow>
          transcript_push q Transcript_Tool
            ((if is_error = Some True then ''Tool failed'' else ''Tool finished'') @ '': '' @ tool
              @ [CHR 0x0A] @ show_json result) t
      | Event_Notice level message source \<Rightarrow>
          transcript_push q Transcript_System (show_notice_level level @ '': '' @ message) t
      | _ \<Rightarrow> t)"

definition transcript_apply ::
  "(json \<Rightarrow> string) \<Rightarrow> event_sequence \<Rightarrow> server_message \<Rightarrow> transcript \<Rightarrow> transcript" where
  "transcript_apply show_json q message t =
     (case message of
        ServerMessage_SessionEvent event \<Rightarrow> transcript_session_event show_json q event t
      | ServerMessage_SideChannel frame \<Rightarrow>
          (case frame of
             SideChannel_CommandOutput text \<Rightarrow> transcript_push q Transcript_System text t
           | _ \<Rightarrow> t)
      | _ \<Rightarrow> t)"

subsection \<open>The model\<close>

definition get_or_insert :: "'a \<Rightarrow> 'a option \<Rightarrow> 'a option" where
  "get_or_insert x selected = Some (case selected of None \<Rightarrow> x | Some y \<Rightarrow> y)"

definition put_agent :: "agent_id \<Rightarrow> agent_snapshot \<Rightarrow> app_model \<Rightarrow> app_model" where
  "put_agent a s m =
     m\<lparr>app_agents := bmap_insert a s (app_agents m),
       app_selected_agent := get_or_insert a (app_selected_agent m)\<rparr>"

definition apply_agent_event :: "(json \<Rightarrow> string) \<Rightarrow> event_envelope \<Rightarrow> app_model \<Rightarrow> app_model" where
  "apply_agent_event show_json env m =
     (let a = eenv_agent_id env;
          t = (case bmap_get (app_transcripts m) a of None \<Rightarrow> Transcript_default | Some t \<Rightarrow> t)
      in m\<lparr>app_transcripts := bmap_insert a
             (transcript_apply show_json (eenv_event_sequence env) (eenv_event env) t)
             (app_transcripts m)\<rparr>)"

fun apply_client_event ::
  "(json \<Rightarrow> string) \<Rightarrow> client_event \<Rightarrow> replicated_state \<Rightarrow> app_model \<Rightarrow> app_model" where
  "apply_client_event show_json (CEvent_ConnectionChanged status) st m =
     (let m = (case status of
                 Status_Connected server device version \<Rightarrow> m\<lparr>app_own_device_id := Some device\<rparr>
               | _ \<Rightarrow> m)
      in m\<lparr>app_connection := status\<rparr>)"
| "apply_client_event show_json (CEvent_StateChanged a) st m =
     (case replica_agent st a of None \<Rightarrow> m | Some s \<Rightarrow> put_agent a s m)"
| "apply_client_event show_json (CEvent_AgentEvent event) st m = apply_agent_event show_json event m"
| "apply_client_event show_json (CEvent_InteractionRequest i) st m =
     m\<lparr>app_interactions := bmap_insert (uii_agent_id i)
         \<lparr>pi_envelope = i, pi_lease = LeaseState_Acquiring\<rparr> (app_interactions m)\<rparr>"
| "apply_client_event show_json (CEvent_ResyncRequired a) st m =
     m\<lparr>app_error := Some (agent_id_str a @ '' requires a fresh state snapshot'')\<rparr>"
| "apply_client_event show_json (CEvent_ProtocolError e) st m = m\<lparr>app_error := Some (perr_message e)\<rparr>"
| "apply_client_event show_json (CEvent_ReplicationError e) st m =
     m\<lparr>app_error := Some (show_replication_error e)\<rparr>"

definition replace_devices :: "device_summary list \<Rightarrow> app_model \<Rightarrow> app_model" where
  "replace_devices devices m = m\<lparr>app_devices := devices\<rparr>"

fun replace_agents :: "agent_snapshot list \<Rightarrow> app_model \<Rightarrow> app_model" where
  "replace_agents [] m = m"
| "replace_agents (s # ss) m = replace_agents ss (put_agent (snap_agent_id s) s m)"

definition set_interaction_lease :: "agent_id \<Rightarrow> interaction_lease_state \<Rightarrow> app_model \<Rightarrow> app_model" where
  "set_interaction_lease a state m =
     (case bmap_get (app_interactions m) a of
        None \<Rightarrow> m
      | Some p \<Rightarrow> m\<lparr>app_interactions := bmap_insert a (p\<lparr>pi_lease := state\<rparr>) (app_interactions m)\<rparr>)"

definition dismiss_interaction :: "agent_id \<Rightarrow> app_model \<Rightarrow> app_model" where
  "dismiss_interaction a m = m\<lparr>app_interactions := bmap_remove a (app_interactions m)\<rparr>"

end
