(* ===== verification/App.thy ===== *)
theory App
  imports App_Model
begin

section \<open>The application\<close>

text \<open>
  \<open>crates/omp-app/src/actions.rs\<close>, \<open>profiles.rs\<close>, \<open>qr.rs\<close>, \<open>platform.rs\<close> and what \<open>view.rs\<close> does:
  the actions a user takes become calls of the client's handle, run as asynchronous tasks, and
  what they yield changes the model. The markup is not modelled; the guards under which a button
  can be pressed are.
\<close>

subsection \<open>Activities\<close>

text \<open>
  An asynchronous function: it has finished, or it awaits the response of a call or the end of the
  client, or it makes a call that answers at once.
\<close>

datatype (plugins only: code) 'a activity =
    Finished 'a
  | Awaiting client_call "client_request_error + control_response \<Rightarrow> 'a activity"
  | Awaiting_Shutdown "client_request_error + unit \<Rightarrow> 'a activity"
  | Telling client_call "client_request_error + unit \<Rightarrow> 'a activity"

primrec activity_map :: "('a \<Rightarrow> 'b) \<Rightarrow> 'a activity \<Rightarrow> 'b activity" where
  "activity_map f (Finished x) = Finished (f x)"
| "activity_map f (Awaiting call k) = Awaiting call (\<lambda>r. activity_map f (k r))"
| "activity_map f (Awaiting_Shutdown k) = Awaiting_Shutdown (\<lambda>r. activity_map f (k r))"
| "activity_map f (Telling call k) = Telling call (\<lambda>r. activity_map f (k r))"

primrec activity_bind :: "'a activity \<Rightarrow> ('a \<Rightarrow> 'b activity) \<Rightarrow> 'b activity" where
  "activity_bind (Finished x) f = f x"
| "activity_bind (Awaiting call k) f = Awaiting call (\<lambda>r. activity_bind (k r) f)"
| "activity_bind (Awaiting_Shutdown k) f = Awaiting_Shutdown (\<lambda>r. activity_bind (k r) f)"
| "activity_bind (Telling call k) f = Telling call (\<lambda>r. activity_bind (k r) f)"

text \<open>
  Running an activity until it awaits: the calls it makes are logged; \<open>told n\<close> is what a call that
  does not wait answers when it is the \<open>n\<close>th.
\<close>

primrec advance ::
  "(nat \<Rightarrow> client_request_error + unit) \<Rightarrow> 'a activity \<Rightarrow> client_call list \<Rightarrow>
     'a activity \<times> client_call list" where
  "advance told (Finished x) = Pair (Finished x)"
| "advance told (Awaiting call k) = (\<lambda>calls. (Awaiting call k, calls @ [call]))"
| "advance told (Awaiting_Shutdown k) = (\<lambda>calls. (Awaiting_Shutdown k, calls @ [Call_Shutdown]))"
| "advance told (Telling call k) = (\<lambda>calls. advance told (k (told (length calls))) (calls @ [call]))"

subsection \<open>Actions (actions.rs)\<close>

datatype action_error =
    Action_Client client_request_error
  | Action_UnexpectedResponse control_response

fun show_action_error :: "(control_response \<Rightarrow> string) \<Rightarrow> action_error \<Rightarrow> string" where
  "show_action_error debug (Action_Client e) = show_client_request_error e"
| "show_action_error debug (Action_UnexpectedResponse r) = ''unexpected control response: '' @ debug r"

record app_actions =
  act_client :: nat \<comment> \<open>the client whose handle it is\<close>
  act_holder :: lease_holder_id

type_synonym 'a action = "(action_error + 'a) activity"

definition expect_accepted :: "control_response \<Rightarrow> action_error + unit" where
  "expect_accepted r = (case r of Resp_Accepted \<Rightarrow> Inr () | _ \<Rightarrow> Inl (Action_UnexpectedResponse r))"

text \<open>A call whose response is checked, and the error of the call or of the check returned.\<close>

definition ask :: "client_call \<Rightarrow> (control_response \<Rightarrow> action_error + 'a) \<Rightarrow> 'a action" where
  "ask call check = Awaiting call (\<lambda>r. Finished (rbind (map_err Action_Client r) check))"

definition action_then :: "'a action \<Rightarrow> ('a \<Rightarrow> 'b action) \<Rightarrow> 'b action" where
  "action_then m f = activity_bind m (\<lambda>r. case r of Inl e \<Rightarrow> Finished (Inl e) | Inr x \<Rightarrow> f x)"

definition act_subscribe :: "agent_id \<Rightarrow> unit action" where
  "act_subscribe a = Telling (Call_Subscribe a) (\<lambda>r. Finished (map_err Action_Client r))"

definition act_unsubscribe :: "agent_id \<Rightarrow> unit action" where
  "act_unsubscribe a = Telling (Call_Unsubscribe a) (\<lambda>r. Finished (map_err Action_Client r))"

definition act_list_agents :: "agent_snapshot list action" where
  "act_list_agents = ask (Call_Request Req_ListAgents) (\<lambda>r.
     case r of Resp_Agents agents \<Rightarrow> Inr agents | _ \<Rightarrow> Inl (Action_UnexpectedResponse r))"

definition act_launch :: "agent_id \<Rightarrow> unit action" where
  "act_launch a = action_then (ask (Call_Request (Req_LaunchAgent a)) expect_accepted) (\<lambda>_. act_subscribe a)"

definition act_stop :: "agent_id \<Rightarrow> unit action" where
  "act_stop a = ask (Call_Request (Req_StopAgent a)) expect_accepted"

definition act_prompt :: "agent_id \<Rightarrow> string \<Rightarrow> run_id action" where
  "act_prompt a message =
     ask (Call_Request (Req_Prompt a message [] (Some StreamingBehavior_FollowUp))) (\<lambda>r.
       case r of Resp_PromptAccepted run \<Rightarrow> Inr run | _ \<Rightarrow> Inl (Action_UnexpectedResponse r))"

definition act_steer :: "agent_id \<Rightarrow> string \<Rightarrow> unit action" where
  "act_steer a message = ask (Call_Request (Req_Steer a message [])) expect_accepted"

definition act_follow_up :: "agent_id \<Rightarrow> string \<Rightarrow> unit action" where
  "act_follow_up a message = ask (Call_Request (Req_FollowUp a message [])) expect_accepted"

definition act_abort :: "agent_id \<Rightarrow> unit action" where
  "act_abort a = ask (Call_Request (Req_Abort a)) expect_accepted"

definition act_switch_session :: "agent_id \<Rightarrow> string \<Rightarrow> unit action" where
  "act_switch_session a path = ask (Call_Request (Req_SwitchSession a path)) expect_accepted"

definition UI_LEASE_MS :: u64 where
  "UI_LEASE_MS = 120000"

definition act_acquire_lease :: "lease_holder_id \<Rightarrow> agent_id \<Rightarrow> interaction_lease action" where
  "act_acquire_lease holder a =
     ask (Call_Request (Req_AcquireInteractionLease a holder UI_LEASE_MS)) (\<lambda>r.
       case r of Resp_InteractionLease lease \<Rightarrow> Inr lease | _ \<Rightarrow> Inl (Action_UnexpectedResponse r))"

definition act_respond_to_interaction ::
  "lease_holder_id \<Rightarrow> agent_id \<Rightarrow> extension_ui_response_frame \<Rightarrow> unit action" where
  "act_respond_to_interaction holder a response =
     action_then (ask (Call_RespondToUi a holder response) expect_accepted) (\<lambda>_.
       ask (Call_Request (Req_ReleaseInteractionLease a holder)) (\<lambda>r.
         case r of Resp_InteractionReleased \<Rightarrow> Inr () | _ \<Rightarrow> Inl (Action_UnexpectedResponse r)))"

definition act_list_devices :: "device_summary list action" where
  "act_list_devices = ask (Call_Request Req_ListDevices) (\<lambda>r.
     case r of Resp_Devices devices \<Rightarrow> Inr devices | _ \<Rightarrow> Inl (Action_UnexpectedResponse r))"

definition act_revoke_device :: "device_id \<Rightarrow> device_id action" where
  "act_revoke_device d = ask (Call_Request (Req_RevokeDevice d)) (\<lambda>r.
     case r of Resp_DeviceRevoked d \<Rightarrow> Inr d | _ \<Rightarrow> Inl (Action_UnexpectedResponse r))"

definition act_shutdown :: "unit action" where
  "act_shutdown = Awaiting_Shutdown (\<lambda>r. Finished (map_err Action_Client r))"

subsection \<open>Saved servers (profiles.rs)\<close>

record saved_server_profile =
  prof_name :: string
  prof_server_id :: server_id
  prof_endpoint :: string
  prof_tls_identity :: tls_identity_hint

datatype profile_store_error = ProfileStoreError (profile_error_message: string)

definition profile_from_pairing :: "pairing_bundle \<Rightarrow> string \<Rightarrow> saved_server_profile" where
  "profile_from_pairing b name =
     \<lparr>prof_name = name, prof_server_id = bundle_server_id b, prof_endpoint = bundle_endpoint b,
      prof_tls_identity = bundle_tls_identity b\<rparr>"

definition profile_client_config ::
  "frame_limits \<Rightarrow> client_descriptor \<Rightarrow> saved_server_profile \<Rightarrow> client_config" where
  "profile_client_config limits client p =
     ClientConfig_stored limits \<lparr>target_endpoint = prof_endpoint p, target_tls_identity = prof_tls_identity p\<rparr>
       (prof_server_id p) client"

text \<open>\<open>encoded\<close> is what reading the stored text yields, \<open>written\<close> the error of writing it, if any.\<close>

definition load_profiles ::
  "(string \<Rightarrow> saved_server_profile list option) \<Rightarrow> profile_store_error + string option \<Rightarrow>
     profile_store_error + saved_server_profile list" where
  "load_profiles de encoded =
     rbind encoded (\<lambda>text. case text of
       None \<Rightarrow> Inr []
     | Some t \<Rightarrow> ok_or (de t) (ProfileStoreError ''saved server profiles are invalid''))"

fun replace_first :: "('a \<Rightarrow> bool) \<Rightarrow> 'a \<Rightarrow> 'a list \<Rightarrow> 'a list option" where
  "replace_first p y [] = None"
| "replace_first p y (x # xs) = (if p x then Some (y # xs) else map_option ((#) x) (replace_first p y xs))"

definition put_profile ::
  "saved_server_profile \<Rightarrow> saved_server_profile list \<Rightarrow> saved_server_profile list" where
  "put_profile profile profiles =
     sort_key prof_name
       (case replace_first (\<lambda>p. prof_server_id p = prof_server_id profile) profile profiles of
          Some replaced \<Rightarrow> replaced
        | None \<Rightarrow> profiles @ [profile])"

text \<open>What is returned and, when the writing was tried, the text it was tried with.\<close>

definition save_profile ::
  "(saved_server_profile list \<Rightarrow> string option) \<Rightarrow> (string \<Rightarrow> saved_server_profile list option) \<Rightarrow>
     profile_store_error + string option \<Rightarrow> profile_store_error option \<Rightarrow> saved_server_profile \<Rightarrow>
     (profile_store_error + saved_server_profile list) \<times> string option" where
  "save_profile ser de encoded written profile =
     (case load_profiles de encoded of
        Inl e \<Rightarrow> (Inl e, None)
      | Inr profiles \<Rightarrow>
          (let profiles = put_profile profile profiles
           in case ser profiles of
                None \<Rightarrow> (Inl (ProfileStoreError ''cannot encode server profiles''), None)
              | Some text \<Rightarrow>
                  ((case written of Some e \<Rightarrow> Inl e | None \<Rightarrow> Inr profiles), Some text)))"

subsection \<open>Starting a client, codes and links (platform.rs, qr.rs)\<close>

datatype start_client_error = Start_Build client_build_error | Start_Events client_request_error

fun show_start_client_error :: "start_client_error \<Rightarrow> string" where
  "show_start_client_error (Start_Build e) = show_client_build_error e"
| "show_start_client_error (Start_Events e) = show_client_request_error e"

text \<open>\<open>version\<close> is the package's version, \<open>platform\<close> the platform it was built for.\<close>

definition app_client_descriptor :: "string \<Rightarrow> client_platform \<Rightarrow> client_descriptor" where
  "app_client_descriptor version platform =
     \<lparr>client_name = ''OMP Remote'', client_version = version, client_platform_of = platform,
      client_capabilities = {}\<rparr>"

text \<open>
  The holder under which the new client's interaction leases are taken. Building the runner can
  fail for lack of random bytes; its stream of events is always there at first.
\<close>

definition start_client ::
  "(string \<Rightarrow> string) \<Rightarrow> string + string \<Rightarrow> string \<Rightarrow> start_client_error + lease_holder_id" where
  "start_client base64 random uuid =
     rbind (map_err Start_Build (IdGenerator_new base64 random)) (\<lambda>ids.
       Inr (LeaseHolderId (''ui-'' @ uuid)))"

definition contains_char :: "char \<Rightarrow> string \<Rightarrow> bool" where
  "contains_char c s \<longleftrightarrow> c \<in> set s"

definition initial_pairing_link :: "string list \<Rightarrow> string option" where
  "initial_pairing_link args =
     List.find (\<lambda>a. starts_with a ''omp-remote://pair#'' \<or>
        starts_with a ''https://'' \<and> contains_char CHR ''#'' a) (drop 1 args)"

datatype qr_intake_error = Qr_InvalidImage | Qr_PairingCodeNotFound

fun show_qr_intake_error :: "qr_intake_error \<Rightarrow> string" where
  "show_qr_intake_error Qr_InvalidImage = ''selected file is not a supported image''"
| "show_qr_intake_error Qr_PairingCodeNotFound = ''image does not contain an OMP Remote pairing code''"

text \<open>\<open>grids\<close> decodes an image and what is in each of its codes, where that could be read.\<close>

definition decode_pairing_qr ::
  "(string \<Rightarrow> string option list option) \<Rightarrow> (string \<Rightarrow> pairing_link_error + pairing_bundle) \<Rightarrow> string \<Rightarrow>
     qr_intake_error + string" where
  "decode_pairing_qr grids decode_link bytes =
     (case grids bytes of
        None \<Rightarrow> Inl Qr_InvalidImage
      | Some contents \<Rightarrow>
          ok_or (List.find (\<lambda>payload. case decode_link payload of Inl e \<Rightarrow> False | Inr b \<Rightarrow> True) (List.map_filter id contents))
            Qr_PairingCodeNotFound)"

subsection \<open>Labels (view.rs)\<close>

text \<open>U+2014 again, before the reason of a failure.\<close>

fun lifecycle_label :: "agent_lifecycle \<Rightarrow> string" where
  "lifecycle_label (Lifecycle_Failed_because reason) = ''Failed '' @ em_dash @ '' '' @ reason"
| "lifecycle_label Lifecycle_Starting = ''Starting''"
| "lifecycle_label Lifecycle_Idle = ''Idle''"
| "lifecycle_label Lifecycle_Running = ''Running''"
| "lifecycle_label Lifecycle_Stopping = ''Stopping''"
| "lifecycle_label Lifecycle_Stopped = ''Stopped''"
| "lifecycle_label Lifecycle_Interrupted = ''Interrupted''"

fun lifecycle_dot :: "agent_lifecycle \<Rightarrow> string" where
  "lifecycle_dot Lifecycle_Running = ''dot running''"
| "lifecycle_dot Lifecycle_Starting = ''dot working''"
| "lifecycle_dot Lifecycle_Stopping = ''dot working''"
| "lifecycle_dot (Lifecycle_Failed_because reason) = ''dot failed''"
| "lifecycle_dot Lifecycle_Interrupted = ''dot failed''"
| "lifecycle_dot _ = ''dot idle''"

fun connection_label :: "connection_status \<Rightarrow> string" where
  "connection_label (Status_Connected server device version) = ''Connected''"
| "connection_label Status_Connecting = ''Connecting''"
| "connection_label (Status_Disconnected reason) = ''Reconnecting''"
| "connection_label (Status_Stopped reason) = ''Stopped''"

fun connection_class :: "connection_status \<Rightarrow> string" where
  "connection_class (Status_Connected server device version) = ''connection-state online''"
| "connection_class Status_Connecting = ''connection-state pending''"
| "connection_class (Status_Disconnected reason) = ''connection-state pending''"
| "connection_class (Status_Stopped reason) = ''connection-state offline''"

fun transcript_class :: "transcript_kind \<Rightarrow> string" where
  "transcript_class Transcript_User = ''message user''"
| "transcript_class Transcript_Assistant = ''message assistant''"
| "transcript_class Transcript_Thinking = ''message thinking''"
| "transcript_class Transcript_Tool = ''message tool''"
| "transcript_class Transcript_System = ''message system''"

fun transcript_label :: "transcript_kind \<Rightarrow> string" where
  "transcript_label Transcript_User = ''YOU''"
| "transcript_label Transcript_Assistant = ''ASSISTANT''"
| "transcript_label Transcript_Thinking = ''THINKING''"
| "transcript_label Transcript_Tool = ''TOOL ACTIVITY''"
| "transcript_label Transcript_System = ''SYSTEM''"

definition format_timestamp :: "u64 option \<Rightarrow> string" where
  "format_timestamp t = (case t of None \<Rightarrow> ''never'' | Some n \<Rightarrow> show_word n)"

subsection \<open>Dialogs (view.rs)\<close>

fun request_id_of :: "extension_ui_request_frame \<Rightarrow> string" where
  "request_id_of (ExtensionUiRequestFrame i request) = i"

fun request_of :: "extension_ui_request_frame \<Rightarrow> extension_ui_request" where
  "request_of (ExtensionUiRequestFrame i request) = request"

definition interaction_key :: "pending_interaction \<Rightarrow> string" where
  "interaction_key p =
     agent_id_str (uii_agent_id (pi_envelope p)) @ '':'' @ request_id_of (uii_request (pi_envelope p))"

definition interaction_requires_response :: "extension_ui_request_frame \<Rightarrow> bool" where
  "interaction_requires_response frame =
     (case request_of frame of
        UiRequest_Select title options timeout \<Rightarrow> True
      | UiRequest_Confirm title message timeout \<Rightarrow> True
      | UiRequest_Input title placeholder timeout \<Rightarrow> True
      | UiRequest_Editor title prefill prompt \<Rightarrow> True
      | _ \<Rightarrow> False)"

text \<open>The dialog that is shown, and the responses its enabled buttons send.\<close>

definition shown_dialog :: "app_model \<Rightarrow> pending_interaction option" where
  "shown_dialog m = (case bmap_values (app_interactions m) of [] \<Rightarrow> None | p # ps \<Rightarrow> Some p)"

definition dialog_offers :: "pending_interaction \<Rightarrow> extension_ui_response \<Rightarrow> bool" where
  "dialog_offers p response =
     (pi_lease p = LeaseState_Owned \<and>
      (case request_of (uii_request (pi_envelope p)) of
         UiRequest_Select title options timeout \<Rightarrow>
           (case response of
              UiResponse_Value option \<Rightarrow> option \<in> set options
            | UiResponse_Confirmed b \<Rightarrow> False
            | UiResponse_Cancelled timed_out \<Rightarrow> timed_out = Some False)
       | UiRequest_Confirm title message timeout \<Rightarrow>
           (case response of
              UiResponse_Value text \<Rightarrow> False
            | UiResponse_Confirmed b \<Rightarrow> True
            | UiResponse_Cancelled timed_out \<Rightarrow> timed_out = Some False)
       | UiRequest_Input title placeholder timeout \<Rightarrow>
           (case response of
              UiResponse_Value text \<Rightarrow> True
            | UiResponse_Confirmed b \<Rightarrow> False
            | UiResponse_Cancelled timed_out \<Rightarrow> timed_out = Some False)
       | UiRequest_Editor title prefill prompt \<Rightarrow>
           (case response of
              UiResponse_Value text \<Rightarrow> True
            | UiResponse_Confirmed b \<Rightarrow> False
            | UiResponse_Cancelled timed_out \<Rightarrow> timed_out = Some False)
       | _ \<Rightarrow> False))"

subsection \<open>The application's state and tasks (view.rs)\<close>

text \<open>
  A task is the event loop of a client, idle (\<open>None\<close>) when it waits for the next event, or what a
  component has spawned. The framework drops what a component has spawned with the component,
  except what was spawned for ever. A task that has finished and is no loop is over.
\<close>

type_synonym app_view = "app_model \<times> app_actions option"

record app_task =
  task_client :: nat
  task_holder :: lease_holder_id
  task_loop :: bool
  task_forever :: bool
  task_activity :: "(app_view \<Rightarrow> app_view) activity option"

record app =
  ap_view :: app_view
  ap_profiles :: "saved_server_profile list"
  ap_clients :: nat
  ap_tasks :: "app_task list"
  ap_calls :: "(nat \<times> client_call) list"

record app_env =
  ae_show_json :: "json \<Rightarrow> string"
  ae_debug :: "control_response \<Rightarrow> string"
  ae_told :: "nat \<Rightarrow> nat \<Rightarrow> client_request_error + unit" \<comment> \<open>client, number of its call\<close>
  ae_start :: "nat \<Rightarrow> start_client_error + lease_holder_id"
  ae_limits :: frame_limits
  ae_descriptor :: client_descriptor
  ae_decode_link :: "string \<Rightarrow> pairing_link_error + pairing_bundle"
  ae_ser_profiles :: "saved_server_profile list \<Rightarrow> string option"
  ae_de_profiles :: "string \<Rightarrow> saved_server_profile list option"

abbreviation ap_model :: "app \<Rightarrow> app_model" where
  "ap_model app \<equiv> fst (ap_view app)"

abbreviation ap_actions :: "app \<Rightarrow> app_actions option" where
  "ap_actions app \<equiv> snd (ap_view app)"

definition on_model :: "(app_model \<Rightarrow> app_model) \<Rightarrow> app \<Rightarrow> app" where
  "on_model f app = app\<lparr>ap_view := apfst f (ap_view app)\<rparr>"

definition set_error :: "string \<Rightarrow> app_model \<Rightarrow> app_model" where
  "set_error text m = m\<lparr>app_error := Some text\<rparr>"

definition clear_error :: "app_model \<Rightarrow> app_model" where
  "clear_error m = m\<lparr>app_error := None\<rparr>"

definition app_start :: "app_env \<Rightarrow> profile_store_error + string option \<Rightarrow> app" where
  "app_start env encoded =
     \<lparr>ap_view = (AppModel_default, None),
      ap_profiles = (case load_profiles (ae_de_profiles env) encoded of Inl e \<Rightarrow> [] | Inr ps \<Rightarrow> ps),
      ap_clients = 0, ap_tasks = [], ap_calls = []\<rparr>"

text \<open>
  What a task does with its result: the model is changed by the value, or shows the error.
\<close>

definition reporting ::
  "app_env \<Rightarrow> ('a \<Rightarrow> app_model \<Rightarrow> app_model) \<Rightarrow> 'a action \<Rightarrow> (app_view \<Rightarrow> app_view) activity" where
  "reporting env f = activity_map (\<lambda>r.
     apfst (case r of Inl e \<Rightarrow> set_error (show_action_error (ae_debug env) e) | Inr x \<Rightarrow> f x))"

text \<open>The calls that client \<open>n\<close> has been given.\<close>

definition calls_of :: "nat \<Rightarrow> app \<Rightarrow> client_call list" where
  "calls_of n app = map snd (filter (\<lambda>(m, call). m = n) (ap_calls app))"

text \<open>
  A task goes on until it awaits. When it has finished its effect takes place, and a loop waits
  for the next event.
\<close>

definition run_task :: "app_env \<Rightarrow> nat \<Rightarrow> (app_view \<Rightarrow> app_view) activity \<Rightarrow> app \<Rightarrow> app" where
  "run_task env i activity app =
     (let t = ap_tasks app ! i;
          n = task_client t;
          (activity, calls) = advance (ae_told env n) activity (calls_of n app);
          app = app\<lparr>ap_calls := ap_calls app @ map (Pair n) (drop (length (calls_of n app)) calls)\<rparr>
      in case activity of
           Finished f \<Rightarrow>
             app\<lparr>ap_tasks := (ap_tasks app)[i := t\<lparr>task_activity := None\<rparr>], ap_view := f (ap_view app)\<rparr>
         | _ \<Rightarrow> app\<lparr>ap_tasks := (ap_tasks app)[i := t\<lparr>task_activity := Some activity\<rparr>]\<rparr>)"

definition spawn_task :: "app_env \<Rightarrow> bool \<Rightarrow> (app_view \<Rightarrow> app_view) activity \<Rightarrow> app_actions \<Rightarrow> app \<Rightarrow> app" where
  "spawn_task env forever activity actions app =
     run_task env (length (ap_tasks app)) activity
       (app\<lparr>ap_tasks := ap_tasks app @
          [\<lparr>task_client = act_client actions, task_holder = act_holder actions, task_loop = False,
            task_forever = forever, task_activity = None\<rparr>]\<rparr>)"

subsection \<open>Connecting and the event loop (view.rs)\<close>

definition app_connect :: "app_env \<Rightarrow> app \<Rightarrow> app" where
  "app_connect env app =
     (let n = ap_clients app; app = app\<lparr>ap_clients := n + 1\<rparr>
      in case ae_start env n of
           Inl e \<Rightarrow> on_model (set_error (show_start_client_error e)) app
         | Inr holder \<Rightarrow>
             app\<lparr>ap_view := ((ap_model app)\<lparr>app_connection := Status_Connecting\<rparr>,
                    Some \<lparr>act_client = n, act_holder = holder\<rparr>),
                 ap_tasks := ap_tasks app @
                   [\<lparr>task_client = n, task_holder = holder, task_loop = True, task_forever = True,
                     task_activity = None\<rparr>]\<rparr>)"

fun subscribe_each :: "agent_snapshot list \<Rightarrow> 'a activity \<Rightarrow> 'a activity" where
  "subscribe_each [] k = k"
| "subscribe_each (s # ss) k = Telling (Call_Subscribe (snap_agent_id s)) (\<lambda>_. subscribe_each ss k)"

definition list_and_subscribe :: "app_env \<Rightarrow> (app_view \<Rightarrow> app_view) activity" where
  "list_and_subscribe env = activity_bind act_list_agents (\<lambda>r.
     case r of
       Inl e \<Rightarrow> Finished (apfst (set_error (show_action_error (ae_debug env) e)))
     | Inr agents \<Rightarrow> subscribe_each agents (Finished (apfst (replace_agents agents))))"

definition claim_interaction ::
  "app_env \<Rightarrow> lease_holder_id \<Rightarrow> agent_id \<Rightarrow> (app_view \<Rightarrow> app_view) activity" where
  "claim_interaction env holder a = activity_map (\<lambda>r.
     apfst (set_interaction_lease a (case r of
       Inl e \<Rightarrow> LeaseState_Unavailable (show_action_error (ae_debug env) e)
     | Inr lease \<Rightarrow> LeaseState_Owned))) (act_acquire_lease holder a)"

text \<open>What the loop awaits after an event, if anything.\<close>

definition event_follow_up ::
  "app_env \<Rightarrow> lease_holder_id \<Rightarrow> client_event \<Rightarrow> (app_view \<Rightarrow> app_view) activity option" where
  "event_follow_up env holder event =
     (case event of
        CEvent_ConnectionChanged status \<Rightarrow>
          (case status of
             Status_Connected server device version \<Rightarrow> Some (list_and_subscribe env)
           | _ \<Rightarrow> None)
      | CEvent_InteractionRequest i \<Rightarrow>
          (if interaction_requires_response (uii_request i)
           then Some (claim_interaction env holder (uii_agent_id i)) else None)
      | _ \<Rightarrow> None)"

definition handle_client_event ::
  "app_env \<Rightarrow> nat \<Rightarrow> client_event \<Rightarrow> replicated_state \<Rightarrow> app \<Rightarrow> app" where
  "handle_client_event env i event st app =
     (let app = on_model (apply_client_event (ae_show_json env) event st) app
      in case event_follow_up env (task_holder (ap_tasks app ! i)) event of
           None \<Rightarrow> app
         | Some activity \<Rightarrow> run_task env i activity app)"

subsection \<open>What the user does (view.rs)\<close>

datatype message_action = Message_Prompt | Message_Steer | Message_FollowUp

definition run_unit_action :: "app_env \<Rightarrow> (app_actions \<Rightarrow> unit action) \<Rightarrow> app \<Rightarrow> app" where
  "run_unit_action env action app =
     (case ap_actions app of
        None \<Rightarrow> app
      | Some actions \<Rightarrow> spawn_task env False (reporting env (\<lambda>_ m. m) (action actions)) actions app)"

definition submit_message ::
  "app_env \<Rightarrow> message_action \<Rightarrow> string \<Rightarrow> agent_id \<Rightarrow> app \<Rightarrow> app" where
  "submit_message env action text a app =
     (let message = trim text
      in if message = [] then app
         else run_unit_action env (\<lambda>_. case action of
             Message_Prompt \<Rightarrow> activity_map (map_sum id (\<lambda>_. ())) (act_prompt a message)
           | Message_Steer \<Rightarrow> act_steer a message
           | Message_FollowUp \<Rightarrow> act_follow_up a message) app)"

definition respond_interaction ::
  "app_env \<Rightarrow> agent_id \<Rightarrow> string \<Rightarrow> extension_ui_response \<Rightarrow> app \<Rightarrow> app" where
  "respond_interaction env a i response app =
     (case ap_actions app of
        None \<Rightarrow> app
      | Some actions \<Rightarrow>
          spawn_task env False
            (reporting env (\<lambda>_. dismiss_interaction a)
              (act_respond_to_interaction (act_holder actions) a (ExtensionUiResponseFrame i response)))
            actions app)"

definition launch_agent :: "app_env \<Rightarrow> string \<Rightarrow> app \<Rightarrow> app" where
  "launch_agent env text app =
     (case AgentId_new (trim text) of
        Inl e \<Rightarrow> on_model (set_error ''Agent ID cannot be empty.'') app
      | Inr a \<Rightarrow>
          (case ap_actions app of
             None \<Rightarrow> app
           | Some actions \<Rightarrow>
               run_unit_action env (\<lambda>_. act_launch a) (on_model (\<lambda>m. m\<lparr>app_selected_agent := Some a\<rparr>) app)))"

definition show_devices :: "app_env \<Rightarrow> app \<Rightarrow> app" where
  "show_devices env app =
     (case ap_actions app of
        None \<Rightarrow> app
      | Some actions \<Rightarrow> spawn_task env False (reporting env replace_devices act_list_devices) actions app)"

definition revoke_device_button :: "app_env \<Rightarrow> device_id \<Rightarrow> app \<Rightarrow> app" where
  "revoke_device_button env d app =
     (case ap_actions app of
        None \<Rightarrow> app
      | Some actions \<Rightarrow>
          spawn_task env False
            (reporting env replace_devices (action_then (act_revoke_device d) (\<lambda>_. act_list_devices)))
            actions app)"

text \<open>Whether the button that revokes a device is enabled.\<close>

definition can_revoke :: "app_model \<Rightarrow> device_id \<Rightarrow> bool" where
  "can_revoke m d =
     (\<exists>x \<in> set (app_devices m). ds_device_id x = d \<and> app_own_device_id m \<noteq> Some d \<and>
        ds_revoked_at_ms x = None)"

definition disconnect :: "app_env \<Rightarrow> app \<Rightarrow> app" where
  "disconnect env app =
     (case ap_actions app of
        None \<Rightarrow> app\<lparr>ap_view := (AppModel_default, None)\<rparr>
      | Some actions \<Rightarrow>
          spawn_task env True (activity_map (\<lambda>_ _. (AppModel_default, None)) act_shutdown) actions app)"

text \<open>
  Pairing: the link is decoded and checked, the profile saved, and the client started even if the
  profile could not be saved. \<open>encoded\<close> and \<open>written\<close> are what the stored profiles answer.
\<close>

definition pair_and_connect ::
  "app_env \<Rightarrow> string \<Rightarrow> string \<Rightarrow> u64 \<Rightarrow> profile_store_error + string option \<Rightarrow>
     profile_store_error option \<Rightarrow> app \<Rightarrow> app" where
  "pair_and_connect env link device now_ms encoded written app =
     (let app = on_model clear_error app
      in case ae_decode_link env link of
           Inl e \<Rightarrow> on_model (set_error (show_pairing_link_error e)) app
         | Inr b \<Rightarrow>
             (if bundle_expires_at_ms b \<le> now_ms
              then on_model (set_error
                ''This pairing link has expired. Create a new one with `ompd pair`.'') app
              else case ClientConfig_pairing (ae_limits env) b (ae_descriptor env) (trim device) of
                     Inl e \<Rightarrow> on_model (set_error (show_client_config_error e)) app
                   | Inr config \<Rightarrow>
                       app_connect env
                         (case fst (save_profile (ae_ser_profiles env) (ae_de_profiles env) encoded written
                                 (profile_from_pairing b ''OMP server'')) of
                            Inl e \<Rightarrow> on_model (set_error (profile_error_message e)) app
                          | Inr saved \<Rightarrow> app\<lparr>ap_profiles := saved\<rparr>)))"

datatype (plugins only: code) ui_event =
    Ui_Pair string string u64 "profile_store_error + string option" "profile_store_error option"
  | Ui_ConnectSaved saved_server_profile
  | Ui_Select agent_id
  | Ui_DismissError
  | Ui_Launch string
  | Ui_Stop
  | Ui_Abort
  | Ui_SwitchSession string
  | Ui_Submit message_action string
  | Ui_Respond extension_ui_response
  | Ui_DismissDialog
  | Ui_ShowDevices
  | Ui_Revoke device_id
  | Ui_Disconnect

text \<open>
  What a control does; \<open>None\<close> when it is not shown or not enabled. The connection screen is shown
  while there is no client, the workspace while there is one, an agent's controls while it is
  selected.
\<close>

definition on_selected :: "(agent_id \<Rightarrow> app \<Rightarrow> app) \<Rightarrow> app \<Rightarrow> app option" where
  "on_selected f app =
     (if ap_actions app = None then None
      else map_option (\<lambda>a. f a app) (app_selected_agent (ap_model app)))"

fun handle_ui :: "app_env \<Rightarrow> ui_event \<Rightarrow> app \<Rightarrow> app option" where
  "handle_ui env (Ui_Pair link device now_ms encoded written) app =
     (if ap_actions app \<noteq> None \<or> trim link = [] then None
      else Some (pair_and_connect env link device now_ms encoded written app))"
| "handle_ui env (Ui_ConnectSaved profile) app =
     (if ap_actions app \<noteq> None \<or> profile \<notin> set (ap_profiles app) then None
      else Some (app_connect env (on_model clear_error app)))"
| "handle_ui env (Ui_Select a) app =
     (if ap_actions app = None \<or> bmap_get (app_agents (ap_model app)) a = None then None
      else Some (on_model (\<lambda>m. m\<lparr>app_selected_agent := Some a\<rparr>) app))"
| "handle_ui env Ui_DismissError app =
     (if ap_actions app = None then None else Some (on_model clear_error app))"
| "handle_ui env (Ui_Launch text) app =
     (if ap_actions app = None then None else Some (launch_agent env text app))"
| "handle_ui env Ui_Stop app = on_selected (\<lambda>a. run_unit_action env (\<lambda>_. act_stop a)) app"
| "handle_ui env Ui_Abort app = on_selected (\<lambda>a. run_unit_action env (\<lambda>_. act_abort a)) app"
| "handle_ui env (Ui_SwitchSession path) app =
     (if trim path = [] then None
      else on_selected (\<lambda>a. run_unit_action env (\<lambda>_. act_switch_session a (trim path))) app)"
| "handle_ui env (Ui_Submit action text) app =
     (if trim text = [] then None else on_selected (submit_message env action text) app)"
| "handle_ui env (Ui_Respond response) app =
     (if ap_actions app = None then None
      else case shown_dialog (ap_model app) of
             None \<Rightarrow> None
           | Some p \<Rightarrow>
               (if dialog_offers p response
                then Some (respond_interaction env (uii_agent_id (pi_envelope p))
                       (request_id_of (uii_request (pi_envelope p))) response app)
                else None))"
| "handle_ui env Ui_DismissDialog app =
     (if ap_actions app = None then None
      else case shown_dialog (ap_model app) of
             None \<Rightarrow> None
           | Some p \<Rightarrow>
               (if interaction_requires_response (uii_request (pi_envelope p)) then None
                else Some (on_model (dismiss_interaction (uii_agent_id (pi_envelope p))) app)))"
| "handle_ui env Ui_ShowDevices app =
     (if ap_actions app = None then None else Some (show_devices env app))"
| "handle_ui env (Ui_Revoke d) app =
     (if ap_actions app = None \<or> \<not> can_revoke (ap_model app) d then None
      else Some (revoke_device_button env d app))"
| "handle_ui env Ui_Disconnect app = (if ap_actions app = None then None else Some (disconnect env app))"

subsection \<open>The application\<close>

datatype (plugins only: code) app_input =
    App_Ui ui_event
  | App_Event nat client_event replicated_state
  | App_EventsEnd nat
  | App_Answer nat "client_request_error + control_response"
  | App_ShutDown nat "client_request_error + unit"
  | App_Drop nat

definition task_waits :: "app \<Rightarrow> nat \<Rightarrow> bool" where
  "task_waits app i =
     (i < length (ap_tasks app) \<and> task_loop (ap_tasks app ! i) \<and> task_activity (ap_tasks app ! i) = None)"

text \<open>One input; \<open>None\<close> when it is not awaited.\<close>

fun app_turn :: "app_env \<Rightarrow> app_input \<Rightarrow> app \<Rightarrow> app option" where
  "app_turn env (App_Ui event) app = handle_ui env event app"
| "app_turn env (App_Event i event st) app =
     (if task_waits app i then Some (handle_client_event env i event st app) else None)"
| "app_turn env (App_EventsEnd i) app =
     (if task_waits app i
      then Some (app\<lparr>ap_tasks := (ap_tasks app)[i := (ap_tasks app ! i)\<lparr>task_loop := False\<rparr>]\<rparr>)
      else None)"
| "app_turn env (App_Answer i result) app =
     (if length (ap_tasks app) \<le> i then None
      else case task_activity (ap_tasks app ! i) of
             Some (Awaiting call k) \<Rightarrow> Some (run_task env i (k result) app)
           | _ \<Rightarrow> None)"
| "app_turn env (App_ShutDown i result) app =
     (if length (ap_tasks app) \<le> i then None
      else case task_activity (ap_tasks app ! i) of
             Some (Awaiting_Shutdown k) \<Rightarrow> Some (run_task env i (k result) app)
           | _ \<Rightarrow> None)"
| "app_turn env (App_Drop i) app =
     (if length (ap_tasks app) \<le> i \<or> task_forever (ap_tasks app ! i) then None
      else Some (app\<lparr>ap_tasks := (ap_tasks app)[i := (ap_tasks app ! i)\<lparr>task_activity := None\<rparr>]\<rparr>))"

end
