(* ===== verification/App_Properties.thy ===== *)
theory App_Properties
  imports App
begin

section \<open>Properties of the application\<close>

text \<open>
  The state of the application is well-formed whatever events, answers and user actions interleave;
  a dialog is answered only by the holder of its lease with an answer it offers; a streamed message
  arrives complete in the transcript; and what is shown of the agents follows the client's
  replicated state.
\<close>

subsection \<open>Text within its bound\<close>

lemma floor_char_boundary_le: "floor_char_boundary s i \<le> i"
  by (induction i) auto

lemma floor_char_boundary_is: "i \<le> length s \<Longrightarrow> is_char_boundary s (floor_char_boundary s i)"
  by (induction i) (auto simp: is_char_boundary_def)

lemma floor_char_boundary_end: "floor_char_boundary s (length s) = length s"
  by (cases "length s") (auto simp: is_char_boundary_def)

text \<open>The slice that is appended exists: cutting the delta never panics.\<close>

lemma append_bounded_slice:
  assumes "length target < MAX_PARTIAL_TEXT_BYTES"
  obtains piece where
    "str_slice delta 0 (floor_char_boundary delta
       (min (MAX_PARTIAL_TEXT_BYTES - length target) (length delta))) = Some piece"
    "append_bounded target delta = target @ piece"
proof -
  let ?n = "min (MAX_PARTIAL_TEXT_BYTES - length target) (length delta)"
  have "is_char_boundary delta (floor_char_boundary delta ?n)"
    by (rule floor_char_boundary_is) simp
  then have "str_slice delta 0 (floor_char_boundary delta ?n) = Some (take (floor_char_boundary delta ?n) delta)"
    by (simp add: str_slice_def is_char_boundary_def)
  then show thesis using assms by (intro that) (auto simp: append_bounded_def Let_def)
qed

lemma append_bounded_length:
  assumes "length target \<le> MAX_PARTIAL_TEXT_BYTES"
  shows "length (append_bounded target delta) \<le> MAX_PARTIAL_TEXT_BYTES"
  using assms floor_char_boundary_le [of delta "min (MAX_PARTIAL_TEXT_BYTES - length target) (length delta)"]
  by (auto simp: append_bounded_def Let_def)

lemma append_bounded_fits:
  assumes "length target + length delta \<le> MAX_PARTIAL_TEXT_BYTES"
  shows "append_bounded target delta = target @ delta"
proof (cases "MAX_PARTIAL_TEXT_BYTES \<le> length target")
  case True
  have "length delta = 0" using assms True by linarith
  then show ?thesis by (simp add: append_bounded_def Let_def)
next
  case False
  then have "min (MAX_PARTIAL_TEXT_BYTES - length target) (length delta) = length delta"
    using assms by simp
  then show ?thesis using False by (simp add: append_bounded_def Let_def floor_char_boundary_end)
qed

subsection \<open>Well-formed models\<close>

definition transcript_ok :: "transcript \<Rightarrow> bool" where
  "transcript_ok t \<longleftrightarrow> length (tr_entries t) \<le> MAX_TRANSCRIPT_ENTRIES \<and>
     length (tr_partial_assistant t) \<le> MAX_PARTIAL_TEXT_BYTES \<and>
     length (tr_partial_thinking t) \<le> MAX_PARTIAL_TEXT_BYTES"

text \<open>Every snapshot and every dialog is kept under its own agent.\<close>

definition agents_keyed :: "(agent_id, agent_snapshot) bmap \<Rightarrow> bool" where
  "agents_keyed agents \<longleftrightarrow> bmap_invar agents \<and> (\<forall>a s. bmap_get agents a = Some s \<longrightarrow> snap_agent_id s = a)"

definition model_ok :: "app_model \<Rightarrow> bool" where
  "model_ok m \<longleftrightarrow> agents_keyed (app_agents m) \<and>
     bmap_invar (app_transcripts m) \<and> bmap_invar (app_interactions m) \<and>
     (\<forall>a t. bmap_get (app_transcripts m) a = Some t \<longrightarrow> transcript_ok t) \<and>
     (\<forall>a p. bmap_get (app_interactions m) a = Some p \<longrightarrow> uii_agent_id (pi_envelope p) = a)"

lemma model_okI:
  assumes "agents_keyed (app_agents m)" "bmap_invar (app_transcripts m)" "bmap_invar (app_interactions m)"
    and "\<And>a t. bmap_get (app_transcripts m) a = Some t \<Longrightarrow> transcript_ok t"
    and "\<And>a p. bmap_get (app_interactions m) a = Some p \<Longrightarrow> uii_agent_id (pi_envelope p) = a"
  shows "model_ok m"
  using assms by (auto simp: model_ok_def)

lemma transcript_push_ok: "transcript_ok t \<Longrightarrow> transcript_ok (transcript_push q kind text t)"
  by (auto simp: transcript_ok_def transcript_push_def MAX_TRANSCRIPT_ENTRIES_def)

lemma transcript_ok_partials:
  "transcript_ok t \<Longrightarrow> transcript_ok (t\<lparr>tr_partial_assistant := []\<rparr>)"
  "transcript_ok t \<Longrightarrow> transcript_ok (t\<lparr>tr_partial_thinking := []\<rparr>)"
  "transcript_ok t \<Longrightarrow> transcript_ok (t\<lparr>tr_partial_assistant := append_bounded (tr_partial_assistant t) d\<rparr>)"
  "transcript_ok t \<Longrightarrow> transcript_ok (t\<lparr>tr_partial_thinking := append_bounded (tr_partial_thinking t) d\<rparr>)"
  by (simp_all add: transcript_ok_def append_bounded_length)

lemmas transcript_oks = transcript_push_ok transcript_ok_partials

lemma end_assistant_message_ok: "transcript_ok t \<Longrightarrow> transcript_ok (end_assistant_message q message t)"
  by (auto simp: end_assistant_message_def Let_def intro!: transcript_oks)

lemma transcript_apply_ok:
  assumes "transcript_ok t"
  shows "transcript_ok (transcript_apply show_json q message t)"
proof (cases message)
  case (ServerMessage_SideChannel frame)
  then show ?thesis
    using assms by (cases frame) (simp_all add: transcript_apply_def transcript_push_ok)
next
  case (ServerMessage_SessionEvent event)
  have "transcript_ok (transcript_session_event show_json q event t)"
  proof (cases event)
    case (Event_MessageStart m)
    then show ?thesis
      using assms by (cases m) (simp_all add: transcript_session_event_def transcript_push_ok)
  next
    case (Event_MessageUpdate m update)
    then show ?thesis
      using assms by (cases update) (simp_all add: transcript_session_event_def transcript_ok_partials)
  next
    case (Event_MessageEnd m)
    then show ?thesis
      using assms by (cases m) (simp_all add: transcript_session_event_def end_assistant_message_ok)
  qed (use assms in \<open>simp_all add: transcript_session_event_def transcript_push_ok\<close>)
  then show ?thesis by (simp add: ServerMessage_SessionEvent transcript_apply_def)
qed (use assms in \<open>simp_all add: transcript_apply_def\<close>)

lemma Transcript_default_ok: "transcript_ok Transcript_default"
  by (simp add: transcript_ok_def Transcript_default_def)

lemma put_agent_ok: "model_ok m \<Longrightarrow> snap_agent_id s = a \<Longrightarrow> model_ok (put_agent a s m)"
  by (auto simp: model_ok_def agents_keyed_def put_agent_def bmap_simps)

lemma replace_agents_ok: "model_ok m \<Longrightarrow> model_ok (replace_agents ss m)"
  by (induction ss m rule: replace_agents.induct) (simp_all add: put_agent_ok)

lemma apply_agent_event_ok: "model_ok m \<Longrightarrow> model_ok (apply_agent_event show_json env m)"
  by (rule model_okI)
    (auto simp: model_ok_def apply_agent_event_def Let_def bmap_simps transcript_apply_ok
      Transcript_default_ok split: if_splits option.splits)

lemma interaction_ok:
  "model_ok m \<Longrightarrow> uii_agent_id (pi_envelope p) = a \<Longrightarrow>
     model_ok (m\<lparr>app_interactions := bmap_insert a p (app_interactions m)\<rparr>)"
  by (auto simp: model_ok_def bmap_simps)

lemma model_ok_other [simp]:
  "model_ok (m\<lparr>app_error := e\<rparr>) = model_ok m"
  "model_ok (m\<lparr>app_devices := ds\<rparr>) = model_ok m"
  "model_ok (m\<lparr>app_connection := c\<rparr>) = model_ok m"
  "model_ok (m\<lparr>app_own_device_id := d\<rparr>) = model_ok m"
  "model_ok (m\<lparr>app_selected_agent := a\<rparr>) = model_ok m"
  by (simp_all add: model_ok_def)

lemma set_interaction_lease_ok: "model_ok m \<Longrightarrow> model_ok (set_interaction_lease a state m)"
  by (auto simp: set_interaction_lease_def intro!: interaction_ok split: option.splits)
    (simp add: model_ok_def)

lemma dismiss_interaction_ok: "model_ok m \<Longrightarrow> model_ok (dismiss_interaction a m)"
  by (auto simp: model_ok_def dismiss_interaction_def bmap_simps)

lemma AppModel_default_ok: "model_ok AppModel_default"
  by (simp add: model_ok_def agents_keyed_def AppModel_default_def)

lemma apply_client_event_ok:
  assumes "model_ok m" "agents_keyed (repl_agents st)"
  shows "model_ok (apply_client_event show_json event st m)"
proof (cases event)
  case (CEvent_ConnectionChanged status)
  then show ?thesis using assms(1) by (cases status) (simp_all add: Let_def)
next
  case (CEvent_StateChanged a)
  then show ?thesis
    using assms by (auto simp: replica_agent_def agents_keyed_def intro: put_agent_ok split: option.splits)
qed (use assms(1) in \<open>simp_all add: apply_agent_event_ok interaction_ok\<close>)

lemmas model_oks = replace_agents_ok set_interaction_lease_ok dismiss_interaction_ok AppModel_default_ok

subsection \<open>Activities and tasks\<close>

text \<open>
  \<open>activity_all P Q act\<close>: every call the activity may still make satisfies \<open>P\<close>, every result \<open>Q\<close>.
  A stored activity has already made the call it awaits.
\<close>

primrec activity_all :: "(client_call \<Rightarrow> bool) \<Rightarrow> ('a \<Rightarrow> bool) \<Rightarrow> 'a activity \<Rightarrow> bool" where
  "activity_all P Q (Finished x) \<longleftrightarrow> Q x"
| "activity_all P Q (Awaiting call k) \<longleftrightarrow> P call \<and> (\<forall>r. activity_all P Q (k r))"
| "activity_all P Q (Awaiting_Shutdown k) \<longleftrightarrow> P Call_Shutdown \<and> (\<forall>r. activity_all P Q (k r))"
| "activity_all P Q (Telling call k) \<longleftrightarrow> P call \<and> (\<forall>r. activity_all P Q (k r))"

definition activity_after :: "(client_call \<Rightarrow> bool) \<Rightarrow> ('a \<Rightarrow> bool) \<Rightarrow> 'a activity \<Rightarrow> bool" where
  "activity_after P Q act \<longleftrightarrow>
     (case act of
        Finished x \<Rightarrow> Q x
      | Awaiting call k \<Rightarrow> \<forall>r. activity_all P Q (k r)
      | Awaiting_Shutdown k \<Rightarrow> \<forall>r. activity_all P Q (k r)
      | Telling call k \<Rightarrow> \<forall>r. activity_all P Q (k r))"

lemma activity_after_simps [simp]:
  "activity_after P Q (Finished x) \<longleftrightarrow> Q x"
  "activity_after P Q (Awaiting call k) \<longleftrightarrow> (\<forall>r. activity_all P Q (k r))"
  "activity_after P Q (Awaiting_Shutdown k') \<longleftrightarrow> (\<forall>r. activity_all P Q (k' r))"
  by (simp_all add: activity_after_def)

lemma activity_all_after: "activity_all P Q act \<Longrightarrow> activity_after P Q act"
  by (cases act) (simp_all add: activity_after_def)

lemma activity_all_mono:
  "activity_all P Q act \<Longrightarrow> (\<And>c. P c \<Longrightarrow> P' c) \<Longrightarrow> (\<And>x. Q x \<Longrightarrow> Q' x) \<Longrightarrow> activity_all P' Q' act"
  by (induction act) auto

lemma activity_all_map: "activity_all P Q (activity_map f act) \<longleftrightarrow> activity_all P (\<lambda>x. Q (f x)) act"
  by (induction act) auto

lemma activity_all_bind:
  "activity_all P Q (activity_bind act f) \<longleftrightarrow> activity_all P (\<lambda>x. activity_all P Q (f x)) act"
  by (induction act) auto

text \<open>Running an activity: it ends awaiting or finished, and adds only calls it may make.\<close>

lemma advance_result:
  assumes "activity_all P Q act" "advance told act calls = (act', calls')"
  shows "activity_after P Q act' \<and> (\<exists>made. calls' = calls @ made \<and> (\<forall>c \<in> set made. P c)) \<and>
    (\<forall>call k. act' \<noteq> Telling call k)"
  using assms
proof (induction act arbitrary: calls)
  case (Telling call k)
  obtain made where "calls' = (calls @ [call]) @ made" "\<forall>c \<in> set made. P c" "activity_after P Q act'"
    "\<forall>call k. act' \<noteq> Telling call k"
    using Telling.IH [of "k (told (length calls))" "calls @ [call]"] Telling.prems by auto
  then show ?case using Telling.prems(1) by (auto intro!: exI [of _ "call # made"])
qed (auto intro: exI)

text \<open>What a task may do: \<open>P\<close> bounds the calls it makes, and its effect keeps the model well-formed.\<close>

definition keeps_model :: "(app_view \<Rightarrow> app_view) \<Rightarrow> bool" where
  "keeps_model f \<longleftrightarrow> (\<forall>v. model_ok (fst v) \<longrightarrow> model_ok (fst (f v)))"

abbreviation safe_activity :: "(client_call \<Rightarrow> bool) \<Rightarrow> (app_view \<Rightarrow> app_view) activity \<Rightarrow> bool" where
  "safe_activity P \<equiv> activity_all P keeps_model"

fun answers_dialog :: "client_call \<Rightarrow> bool" where
  "answers_dialog (Call_RespondToUi a h response) = True"
| "answers_dialog _ = False"

text \<open>The effects of the tasks.\<close>

lemma keeps_model_apfst: "(\<And>m. model_ok m \<Longrightarrow> model_ok (f m)) \<Longrightarrow> keeps_model (apfst f)"
  by (auto simp: keeps_model_def)

lemma keeps_set_error: "keeps_model (apfst (set_error text))"
  by (rule keeps_model_apfst) (simp add: set_error_def)

lemma reporting_safe:
  assumes "activity_all P (\<lambda>_. True) act" "\<And>x m. model_ok m \<Longrightarrow> model_ok (f x m)"
  shows "safe_activity P (reporting env f act)"
  unfolding reporting_def activity_all_map
  by (rule activity_all_mono [OF assms(1)])
    (auto intro!: keeps_model_apfst assms(2) simp: set_error_def split: sum.split)

lemma ask_calls [simp]: "activity_all P Q (ask call check) \<longleftrightarrow>
    P call \<and> (\<forall>r. Q (rbind (map_err Action_Client r) check))"
  by (simp add: ask_def)

lemma action_then_calls:
  assumes "activity_all P (\<lambda>_. True) m" "\<And>x. activity_all P (\<lambda>_. True) (f x)"
  shows "activity_all P (\<lambda>_. True) (action_then m f)"
  unfolding action_then_def activity_all_bind
  by (rule activity_all_mono [OF assms(1)]) (auto simp: assms(2) split: sum.split)

text \<open>No action but the answer to a dialog answers one.\<close>

abbreviation plain :: "'a activity \<Rightarrow> bool" where
  "plain \<equiv> activity_all (\<lambda>c. \<not> answers_dialog c) (\<lambda>_. True)"

lemma plain_actions [simp]:
  "plain (act_subscribe a)" "plain act_list_agents" "plain (act_stop a)" "plain (act_abort a)"
  "plain (act_launch a)" "plain (act_prompt a text)" "plain (act_steer a text)"
  "plain (act_follow_up a text)" "plain (act_switch_session a text)"
  "plain (act_acquire_lease h a)" "plain act_list_devices" "plain (act_revoke_device d)"
  "plain act_shutdown"
  by (simp_all add: act_subscribe_def act_list_agents_def act_stop_def act_abort_def act_launch_def
      act_prompt_def act_steer_def act_follow_up_def act_switch_session_def act_acquire_lease_def
      act_list_devices_def act_revoke_device_def act_shutdown_def action_then_calls)

lemma plain_map [simp]: "plain (activity_map f act) \<longleftrightarrow> plain act"
  by (simp add: activity_all_map)

lemma subscribe_each_safe:
  "safe_activity (\<lambda>c. \<not> answers_dialog c) k \<Longrightarrow>
     safe_activity (\<lambda>c. \<not> answers_dialog c) (subscribe_each ss k)"
  by (induction ss k rule: subscribe_each.induct) simp_all

lemma follow_up_safe:
  assumes "event_follow_up env holder event = Some act"
  shows "safe_activity (\<lambda>c. \<not> answers_dialog c) act"
proof -
  have "safe_activity (\<lambda>c. \<not> answers_dialog c) (list_and_subscribe env)"
    unfolding list_and_subscribe_def activity_all_bind
    by (rule activity_all_mono [OF plain_actions(2)])
      (auto intro!: subscribe_each_safe keeps_model_apfst replace_agents_ok simp: set_error_def
        split: sum.split)
  moreover have "safe_activity (\<lambda>c. \<not> answers_dialog c) (claim_interaction env holder a)" for a
    unfolding claim_interaction_def activity_all_map
    by (rule activity_all_mono [OF plain_actions(10)]) (auto intro!: keeps_model_apfst set_interaction_lease_ok)
  ultimately show ?thesis
    using assms by (auto simp: event_follow_up_def split: client_event.splits connection_status.splits if_splits)
qed

subsection \<open>Turns\<close>

definition task_ok :: "app_task \<Rightarrow> bool" where
  "task_ok t \<longleftrightarrow> (\<forall>act. task_activity t = Some act \<longrightarrow>
     activity_after (\<lambda>c. \<not> answers_dialog c) keeps_model act)"

definition app_ok :: "app \<Rightarrow> bool" where
  "app_ok app \<longleftrightarrow> model_ok (ap_model app) \<and> (\<forall>t \<in> set (ap_tasks app). task_ok t)"

text \<open>Between the two states no dialog is answered.\<close>

definition quiet :: "app \<Rightarrow> app \<Rightarrow> bool" where
  "quiet app app' \<longleftrightarrow>
     (\<exists>made. ap_calls app' = ap_calls app @ made \<and> (\<forall>x \<in> set made. \<not> answers_dialog (snd x)))"

definition calm :: "app \<Rightarrow> app \<Rightarrow> bool" where
  "calm app app' \<longleftrightarrow> app_ok app' \<and> quiet app app'"

lemma quiet_same: "ap_calls app' = ap_calls app \<Longrightarrow> quiet app app'"
  by (simp add: quiet_def)

lemma quiet_trans: "quiet a b \<Longrightarrow> quiet b c \<Longrightarrow> quiet a c"
  by (auto simp: quiet_def)

lemma calm_same: "app_ok app' \<Longrightarrow> ap_calls app' = ap_calls app \<Longrightarrow> calm app app'"
  by (simp add: calm_def quiet_same)

lemma app_ok_update_task:
  assumes "app_ok app" "task_ok t"
  shows "app_ok (app\<lparr>ap_tasks := (ap_tasks app)[i := t]\<rparr>)"
  using assms set_update_subset_insert [of "ap_tasks app" i t] by (auto simp: app_ok_def)

lemma task_ok_simps [simp]:
  "task_activity t = None \<Longrightarrow> task_ok t"
  "task_ok (t\<lparr>task_activity := Some act\<rparr>) \<longleftrightarrow> activity_after (\<lambda>c. \<not> answers_dialog c) keeps_model act"
  by (simp_all add: task_ok_def)

text \<open>Running a task whose next stop is harmless.\<close>

lemma run_task_stops:
  assumes "app_ok app" "advance (ae_told env (task_client (ap_tasks app ! i))) act
      (calls_of (task_client (ap_tasks app ! i)) app) = (act', calls_of (task_client (ap_tasks app ! i)) app @ made)"
    and "activity_after (\<lambda>c. \<not> answers_dialog c) keeps_model act'"
  shows "app_ok (run_task env i act app)"
    "ap_calls (run_task env i act app) = ap_calls app @ map (Pair (task_client (ap_tasks app ! i))) made"
proof -
  let ?t = "ap_tasks app ! i"
  let ?app = "app\<lparr>ap_calls := ap_calls app @ map (Pair (task_client ?t)) made\<rparr>"
  have app: "app_ok ?app" using assms(1) by (simp add: app_ok_def)
  have run: "run_task env i act app =
      (case act' of
         Finished f \<Rightarrow> ?app\<lparr>ap_tasks := (ap_tasks ?app)[i := ?t\<lparr>task_activity := None\<rparr>], ap_view := f (ap_view app)\<rparr>
       | _ \<Rightarrow> ?app\<lparr>ap_tasks := (ap_tasks ?app)[i := ?t\<lparr>task_activity := Some act'\<rparr>]\<rparr>)"
    using assms(2) by (simp add: run_task_def Let_def split: activity.split)
  have stored: "app_ok (?app\<lparr>ap_tasks := (ap_tasks ?app)[i := ?t\<lparr>task_activity := Some act'\<rparr>]\<rparr>)"
    using app by (rule app_ok_update_task) (simp add: assms(3))
  show "app_ok (run_task env i act app)"
  proof (cases act')
    case (Finished f)
    then have "keeps_model f" using assms(3) by simp
    then have "model_ok (fst (f (ap_view app)))"
      using assms(1) unfolding keeps_model_def app_ok_def by blast
    moreover have "app_ok (?app\<lparr>ap_tasks := (ap_tasks ?app)[i := ?t\<lparr>task_activity := None\<rparr>]\<rparr>)"
      using app by (rule app_ok_update_task) simp
    ultimately show ?thesis by (simp add: run Finished app_ok_def)
  qed (use stored in \<open>simp_all add: run\<close>)
  show "ap_calls (run_task env i act app) = ap_calls app @ map (Pair (task_client ?t)) made"
    by (cases act') (simp_all add: run)
qed

lemma run_task_calm:
  assumes "app_ok app" "safe_activity (\<lambda>c. \<not> answers_dialog c) act"
  shows "calm app (run_task env i act app)"
proof -
  let ?n = "task_client (ap_tasks app ! i)"
  obtain act' calls' where a: "advance (ae_told env ?n) act (calls_of ?n app) = (act', calls')"
    by fastforce
  with advance_result [OF assms(2) a] obtain made where
    "calls' = calls_of ?n app @ made" "\<forall>c \<in> set made. \<not> answers_dialog c"
    "activity_after (\<lambda>c. \<not> answers_dialog c) keeps_model act'" by blast
  then show ?thesis
    using run_task_stops [OF assms(1), of env i act act' made] a by (auto simp: calm_def quiet_def)
qed

lemma app_ok_new_task: "app_ok app \<Longrightarrow> task_activity t = None \<Longrightarrow> app_ok (app\<lparr>ap_tasks := ap_tasks app @ [t]\<rparr>)"
  by (auto simp: app_ok_def)

lemma spawn_task_calm:
  assumes "app_ok app" "safe_activity (\<lambda>c. \<not> answers_dialog c) act"
  shows "calm app (spawn_task env forever act actions app)"
  unfolding spawn_task_def calm_def
  using run_task_calm [OF app_ok_new_task [OF assms(1)] assms(2)]
  by (auto simp: calm_def quiet_def)

lemma run_unit_action_calm:
  assumes "app_ok app" "\<And>x. plain (action x)"
  shows "calm app (run_unit_action env action app)"
  using assms
  by (auto simp: run_unit_action_def intro!: calm_same spawn_task_calm reporting_safe split: option.split)

lemma on_model_ok: "app_ok app \<Longrightarrow> (\<And>m. model_ok m \<Longrightarrow> model_ok (f m)) \<Longrightarrow> app_ok (on_model f app)"
  by (simp add: app_ok_def on_model_def)

lemma on_model_calls [simp]: "ap_calls (on_model f app) = ap_calls app"
  "ap_tasks (on_model f app) = ap_tasks app" "ap_actions (on_model f app) = ap_actions app"
  by (simp_all add: on_model_def)

lemma calm_after: "calm a c \<Longrightarrow> ap_calls a = ap_calls b \<Longrightarrow> calm b c"
  by (simp add: calm_def quiet_def)

lemma launch_agent_calm: "app_ok app \<Longrightarrow> calm app (launch_agent env text app)"
proof (cases "AgentId_new (trim text)")
  case (Inr a)
  let ?app = "on_model (\<lambda>m. m\<lparr>app_selected_agent := Some a\<rparr>) app"
  assume "app_ok app"
  then have "app_ok ?app" by (rule on_model_ok) simp
  then have "calm ?app (run_unit_action env (\<lambda>_. act_launch a) ?app)"
    by (rule run_unit_action_calm) simp
  then have "calm app (run_unit_action env (\<lambda>_. act_launch a) ?app)" by (rule calm_after) simp
  then show ?thesis
    using \<open>app_ok app\<close> by (auto simp: launch_agent_def Inr intro: calm_same split: option.split)
qed (auto simp: launch_agent_def set_error_def intro!: calm_same on_model_ok)

lemma submit_message_calm: "app_ok app \<Longrightarrow> calm app (submit_message env action text a app)"
  unfolding submit_message_def Let_def
  by (auto intro!: calm_same run_unit_action_calm split: message_action.split)

lemma show_devices_calm: "app_ok app \<Longrightarrow> calm app (show_devices env app)"
  unfolding show_devices_def
  by (auto intro!: calm_same spawn_task_calm reporting_safe simp: replace_devices_def split: option.split)

lemma revoke_device_calm: "app_ok app \<Longrightarrow> calm app (revoke_device_button env d app)"
  unfolding revoke_device_button_def
  by (auto intro!: calm_same spawn_task_calm reporting_safe action_then_calls simp: replace_devices_def
      split: option.split)

lemma disconnect_calm: "app_ok app \<Longrightarrow> calm app (disconnect env app)"
  unfolding disconnect_def
  by (auto intro!: calm_same spawn_task_calm activity_all_mono [OF plain_actions(13)]
      simp: activity_all_map app_ok_def keeps_model_def AppModel_default_ok split: option.split)

lemma app_connect_calm: "app_ok app \<Longrightarrow> calm app (app_connect env app)"
  unfolding app_connect_def Let_def
  by (auto intro!: calm_same simp: app_ok_def on_model_def set_error_def split: sum.split)

lemma pair_and_connect_calm:
  assumes "app_ok app"
  shows "calm app (pair_and_connect env link device now encoded written app)"
proof -
  have ok: "app_ok (on_model clear_error app)" "app_ok (on_model (set_error e) app')"
    if "app_ok app'" for e app'
    using assms that by (auto intro!: on_model_ok simp: clear_error_def set_error_def)
  have "app_ok (app'\<lparr>ap_profiles := ps\<rparr>)" if "app_ok app'" for app' ps
    using that by (simp add: app_ok_def)
  then show ?thesis
    using assms ok unfolding pair_and_connect_def Let_def
    by (auto intro!: calm_same calm_after [OF app_connect_calm] split: sum.split)
qed

lemma on_selected_calm:
  "on_selected f app = Some app' \<Longrightarrow> (\<And>a. calm app (f a app)) \<Longrightarrow> calm app app'"
  by (auto simp: on_selected_def split: if_splits)

text \<open>Every control but an answer is calm; an answer makes exactly the call it stands for.\<close>

lemma handle_ui_calm:
  assumes "app_ok app" "handle_ui env event app = Some app'" "\<And>r. event \<noteq> Ui_Respond r"
  shows "calm app app'"
  using assms
proof (cases event)
  case (Ui_DismissDialog)
  then show ?thesis
    using assms by (auto intro!: calm_same on_model_ok dismiss_interaction_ok split: if_splits option.splits)
qed (auto intro!: calm_same on_model_ok pair_and_connect_calm calm_after [OF app_connect_calm]
      launch_agent_calm submit_message_calm show_devices_calm revoke_device_calm disconnect_calm
      run_unit_action_calm elim!: on_selected_calm simp: clear_error_def split: if_splits)

lemma handle_client_event_calm:
  assumes "app_ok app" "agents_keyed (repl_agents st)"
  shows "calm app (handle_client_event env i event st app)"
proof -
  let ?app = "on_model (apply_client_event (ae_show_json env) event st) app"
  have ok: "app_ok ?app" using assms by (auto intro: on_model_ok apply_client_event_ok)
  show ?thesis
  proof (cases "event_follow_up env (task_holder (ap_tasks ?app ! i)) event")
    case None
    then show ?thesis using ok by (simp add: handle_client_event_def Let_def calm_same)
  next
    case (Some act)
    then show ?thesis
      using calm_after [OF run_task_calm [OF ok follow_up_safe [OF Some]]]
      by (simp add: handle_client_event_def Let_def)
  qed
qed

definition input_ok :: "app_input \<Rightarrow> bool" where
  "input_ok input \<longleftrightarrow> (\<forall>i event st. input = App_Event i event st \<longrightarrow> agents_keyed (repl_agents st))"

lemma app_turn_calm:
  assumes "app_ok app" "input_ok input" "app_turn env input app = Some app'"
    and "\<And>r. input \<noteq> App_Ui (Ui_Respond r)"
  shows "calm app app'"
proof (cases input)
  case (App_Ui event)
  then show ?thesis using assms by (auto intro: handle_ui_calm)
next
  case (App_Event i event st)
  then show ?thesis using assms by (auto simp: input_ok_def intro: handle_client_event_calm split: if_splits)
next
  case (App_EventsEnd i)
  then show ?thesis
    using assms by (auto simp: task_waits_def intro!: calm_same app_ok_update_task split: if_splits)
next
  case (App_Answer i result)
  then obtain call k where k: "i < length (ap_tasks app)" "task_activity (ap_tasks app ! i) = Some (Awaiting call k)"
    "app' = run_task env i (k result) app"
    using assms(3) by (auto split: if_splits option.splits activity.splits)
  then have "task_ok (ap_tasks app ! i)" using assms(1) by (simp add: app_ok_def)
  then show ?thesis using k run_task_calm [OF assms(1)] by (simp add: task_ok_def)
next
  case (App_ShutDown i result)
  then obtain k where k: "i < length (ap_tasks app)" "task_activity (ap_tasks app ! i) = Some (Awaiting_Shutdown k)"
    "app' = run_task env i (k result) app"
    using assms(3) by (auto split: if_splits option.splits activity.splits)
  then have "task_ok (ap_tasks app ! i)" using assms(1) by (simp add: app_ok_def)
  then show ?thesis using k run_task_calm [OF assms(1)] by (simp add: task_ok_def)
next
  case (App_Drop i)
  then show ?thesis
    using assms by (auto intro!: calm_same app_ok_update_task split: if_splits)
qed

subsection \<open>Reachable states\<close>

text \<open>
  The states the application reaches, from its start with whatever profiles are stored, by any
  inputs; an event comes with the state of its client, whose snapshots are kept under their agents.
\<close>

inductive app_reach :: "app_env \<Rightarrow> app \<Rightarrow> bool" for env where
  start: "app_reach env (app_start env encoded)"
| turn: "app_reach env app \<Longrightarrow> input_ok input \<Longrightarrow> app_turn env input app = Some app' \<Longrightarrow> app_reach env app'"

inductive_cases app_reach_cases: "app_reach env app"

lemma respond_turn:
  assumes "app_ok app" "app_turn env (App_Ui (Ui_Respond response)) app = Some app'"
  obtains p actions where "shown_dialog (ap_model app) = Some p" "dialog_offers p response"
    "ap_actions app = Some actions" "app_ok app'"
    "ap_calls app' = ap_calls app @ [(act_client actions,
       Call_RespondToUi (uii_agent_id (pi_envelope p)) (act_holder actions)
         (ExtensionUiResponseFrame (request_id_of (uii_request (pi_envelope p))) response))]"
proof -
  obtain p actions where p: "shown_dialog (ap_model app) = Some p" "dialog_offers p response"
    and actions: "ap_actions app = Some actions"
    and app': "app' = respond_interaction env (uii_agent_id (pi_envelope p))
      (request_id_of (uii_request (pi_envelope p))) response app"
    using assms(2) by (auto split: if_splits option.splits)
  let ?a = "uii_agent_id (pi_envelope p)"
  let ?frame = "ExtensionUiResponseFrame (request_id_of (uii_request (pi_envelope p))) response"
  let ?t = "\<lparr>task_client = act_client actions, task_holder = act_holder actions, task_loop = False,
    task_forever = False, task_activity = None\<rparr>"
  let ?app = "app\<lparr>ap_tasks := ap_tasks app @ [?t]\<rparr>"
  let ?act = "reporting env (\<lambda>_. dismiss_interaction ?a)
    (act_respond_to_interaction (act_holder actions) ?a ?frame)"
  have run: "app' = run_task env (length (ap_tasks app)) ?act ?app"
    by (simp add: app' respond_interaction_def actions spawn_task_def)
  obtain k where k: "?act = Awaiting (Call_RespondToUi ?a (act_holder actions) ?frame) k"
    and later: "\<And>r. safe_activity (\<lambda>c. \<not> answers_dialog c) (k r)"
  proof
    show "?act = Awaiting (Call_RespondToUi ?a (act_holder actions) ?frame)
        (\<lambda>r. reporting env (\<lambda>_. dismiss_interaction ?a)
          (case rbind (map_err Action_Client r) expect_accepted of
             Inl e \<Rightarrow> Finished (Inl e)
           | Inr _ \<Rightarrow> ask (Call_Request (Req_ReleaseInteractionLease ?a (act_holder actions))) (\<lambda>r.
               case r of Resp_InteractionReleased \<Rightarrow> Inr () | _ \<Rightarrow> Inl (Action_UnexpectedResponse r))))"
      by (simp add: reporting_def act_respond_to_interaction_def action_then_def
          ask_def [of "Call_RespondToUi ?a (act_holder actions) ?frame"])
    show "safe_activity (\<lambda>c. \<not> answers_dialog c) (reporting env (\<lambda>_. dismiss_interaction ?a)
          (case rbind (map_err Action_Client r) expect_accepted of
             Inl e \<Rightarrow> Finished (Inl e)
           | Inr _ \<Rightarrow> ask (Call_Request (Req_ReleaseInteractionLease ?a (act_holder actions))) (\<lambda>r.
               case r of Resp_InteractionReleased \<Rightarrow> Inr () | _ \<Rightarrow> Inl (Action_UnexpectedResponse r))))" for r
      by (rule reporting_safe) (auto simp: dismiss_interaction_ok split: sum.split)
  qed
  have ok: "app_ok ?app" using assms(1) by (rule app_ok_new_task) simp
  have "advance (ae_told env (task_client (ap_tasks ?app ! length (ap_tasks app)))) ?act
      (calls_of (task_client (ap_tasks ?app ! length (ap_tasks app))) ?app) =
      (?act, calls_of (task_client (ap_tasks ?app ! length (ap_tasks app))) ?app @
        [Call_RespondToUi ?a (act_holder actions) ?frame])"
    by (simp add: k)
  note stops = run_task_stops [OF ok this]
  show thesis
    using p actions by (rule that) (use stops later in \<open>simp_all add: run k\<close>)
qed

lemma app_turn_ok:
  assumes "app_ok app" "input_ok input" "app_turn env input app = Some app'"
  shows "app_ok app'"
proof (cases "\<exists>r. input = App_Ui (Ui_Respond r)")
  case True
  then show ?thesis using assms(1,3) by (auto elim: respond_turn)
next
  case False
  then show ?thesis using app_turn_calm [OF assms] by (auto simp: calm_def)
qed

lemma app_start_ok: "app_ok (app_start env encoded)"
  by (simp add: app_ok_def app_start_def AppModel_default_ok)

lemma app_reach_ok: "app_reach env app \<Longrightarrow> app_ok app"
  by (induction rule: app_reach.induct) (auto intro: app_start_ok app_turn_ok)

text \<open>C18: In every state the application reaches, whatever events, answers and controls interleave:
  each agent shown is kept under its own identifier, as is each dialog, the maps are ordered and
  without duplicates, and a transcript holds at most a thousand entries and at most a mebibyte of
  each partial text.\<close>
theorem app_well_formed:
  assumes "app_reach env app"
  shows "bmap_invar (app_agents (ap_model app)) \<and> bmap_invar (app_transcripts (ap_model app)) \<and>
    bmap_invar (app_interactions (ap_model app)) \<and>
    (\<forall>a s. bmap_get (app_agents (ap_model app)) a = Some s \<longrightarrow> snap_agent_id s = a) \<and>
    (\<forall>a p. bmap_get (app_interactions (ap_model app)) a = Some p \<longrightarrow> uii_agent_id (pi_envelope p) = a) \<and>
    (\<forall>a t. bmap_get (app_transcripts (ap_model app)) a = Some t \<longrightarrow>
       length (tr_entries t) \<le> 1000 \<and> length (tr_partial_assistant t) \<le> 1048576 \<and>
       length (tr_partial_thinking t) \<le> 1048576)"
proof -
  have "model_ok (ap_model app)" using app_reach_ok [OF assms] by (simp add: app_ok_def)
  then show ?thesis
    by (auto simp: model_ok_def agents_keyed_def transcript_ok_def MAX_TRANSCRIPT_ENTRIES_def
        MAX_PARTIAL_TEXT_BYTES_def)
qed


text \<open>A run: a saved server is chosen, an agent asks for a confirmation, the lease is granted.\<close>

definition example_profile :: saved_server_profile where
  "example_profile = \<lparr>prof_name = ''home'', prof_server_id = ServerId ''s'', prof_endpoint = ''wss://h/'',
     prof_tls_identity = Tls_PubliclyTrusted\<rparr>"

definition example_app_env :: app_env where
  "example_app_env = \<lparr>ae_show_json = (\<lambda>_. []), ae_debug = (\<lambda>_. []), ae_told = (\<lambda>_ _. Inr ()),
     ae_start = (\<lambda>_. Inr (LeaseHolderId ''ui-1'')), ae_limits = \<lparr>lim_pre_auth = 16384, lim_post_auth = 1048576\<rparr>,
     ae_descriptor = \<lparr>client_name = ''OMP Remote'', client_version = ''1'',
       client_platform_of = Platform_Desktop, client_capabilities = {}\<rparr>,
     ae_decode_link = (\<lambda>_. Inl Link_MissingPayload), ae_ser_profiles = (\<lambda>_. None),
     ae_de_profiles = (\<lambda>_. Some [example_profile])\<rparr>"

definition example_dialog :: ui_interaction_envelope where
  "example_dialog = \<lparr>uii_agent_id = AgentId ''a'', uii_event_sequence = 1,
     uii_request = ExtensionUiRequestFrame ''q'' (UiRequest_Confirm ''Sure?'' ''Really?'' None)\<rparr>"

definition example_inputs :: "app_input list" where
  "example_inputs = [App_Ui (Ui_ConnectSaved example_profile),
     App_Event 0 (CEvent_InteractionRequest example_dialog) replica_default,
     App_Answer 0 (Inr (Resp_InteractionLease
       \<lparr>lease_holder = LeaseHolderId ''ui-1'', lease_expires_at_ms = 5\<rparr>))]"

fun app_turns :: "app_env \<Rightarrow> app_input list \<Rightarrow> app \<Rightarrow> app option" where
  "app_turns env [] app = Some app"
| "app_turns env (x # xs) app = (case app_turn env x app of None \<Rightarrow> None | Some app \<Rightarrow> app_turns env xs app)"

lemma app_turns_reach:
  "app_reach env app \<Longrightarrow> \<forall>x \<in> set xs. input_ok x \<Longrightarrow> app_turns env xs app = Some app' \<Longrightarrow> app_reach env app'"
  by (induction xs arbitrary: app) (auto intro: app_reach.turn split: option.splits)

lemma example_inputs_ok: "\<forall>x \<in> set example_inputs. input_ok x"
  by (simp add: example_inputs_def input_ok_def agents_keyed_def replica_default_def)

lemmas app_simps = app_start_def load_profiles_def app_connect_def on_model_def clear_error_def
  handle_client_event_def event_follow_up_def interaction_requires_response_def claim_interaction_def
  act_acquire_lease_def ask_def run_task_def calls_of_def task_waits_def set_interaction_lease_def
  shown_dialog_def bmap_values_def dialog_offers_def Let_def

definition example_app :: app where
  "example_app = the (app_turns example_app_env example_inputs (app_start example_app_env (Inr (Some ''x''))))"

lemma example_app_turns:
  "app_turns example_app_env example_inputs (app_start example_app_env (Inr (Some ''x''))) = Some example_app \<and>
   shown_dialog (ap_model example_app) =
     Some \<lparr>pi_envelope = example_dialog, pi_lease = LeaseState_Owned\<rparr>"
  by (simp add: app_simps example_app_def example_inputs_def example_app_env_def example_dialog_def
      AppModel_default_def)

lemma example_app_reach: "app_reach example_app_env example_app"
  using app_turns_reach [OF app_reach.start example_inputs_ok] example_app_turns by blast

lemma app_well_formed_witness:
  "bmap_invar (app_agents (ap_model example_app)) \<and> bmap_invar (app_transcripts (ap_model example_app)) \<and>
   bmap_invar (app_interactions (ap_model example_app)) \<and>
   shown_dialog (ap_model example_app) = Some \<lparr>pi_envelope = example_dialog, pi_lease = LeaseState_Owned\<rparr>"
  using app_well_formed [OF example_app_reach] example_app_turns by blast


text \<open>A client's replicated state keeps its snapshots under their agents.\<close>

lemma settle_keyed:
  assumes "agents_keyed (repl_agents st)" "settle st a effect result = (r, st')"
    and "\<And>s. result = Inr s \<Longrightarrow> snap_agent_id s = a"
  shows "agents_keyed (repl_agents st')"
  using assms by (auto simp: settle_def agents_keyed_def bmap_simps split: sum.splits if_splits)

lemma locate_snapshot_keyed:
  "agents_keyed (repl_agents st) \<Longrightarrow> locate_snapshot st a = Inr s \<Longrightarrow> snap_agent_id s = a"
  by (auto simp: locate_snapshot_def agents_keyed_def split: if_splits)

lemma apply_snapshot_keyed:
  "agents_keyed (repl_agents st) \<Longrightarrow> agents_keyed (repl_agents (snd (replica_apply_snapshot st ss)))"
proof (induction st ss rule: replica_apply_snapshot.induct)
  case (2 st s ss)
  let ?st = "st\<lparr>repl_resync_required := repl_resync_required st - {snap_agent_id s},
    repl_agents := bmap_insert (snap_agent_id s) s (repl_agents st)\<rparr>"
  have "agents_keyed (repl_agents ?st)" using "2.prems" by (auto simp: agents_keyed_def bmap_simps)
  then show ?case using "2.IH" by (simp add: Let_def case_prod_beta)
qed simp

lemma replica_apply_keyed:
  assumes "agents_keyed (repl_agents st)" "replica_apply st frame = (r, st')"
  shows "agents_keyed (repl_agents st')"
proof (cases frame)
  case (Server_Snapshot agents)
  then show ?thesis using assms apply_snapshot_keyed [OF assms(1), of agents]
    by (auto simp: Let_def case_prod_beta)
next
  case (Server_Delta env)
  then have "replica_apply_delta st env = (r, st')" using assms(2) by simp
  then show ?thesis
    unfolding replica_apply_delta_def Let_def
    by (rule settle_keyed [OF assms(1)])
      (auto simp: rbind_Inr_iff apply_delta_Inr_iff dest!: locate_snapshot_keyed [OF assms(1)])
next
  case (Server_Event env)
  then have "replica_apply_event st env = (r, st')" using assms(2) by simp
  then show ?thesis
    unfolding replica_apply_event_def
    by (rule settle_keyed [OF assms(1)]) (auto dest!: locate_snapshot_keyed [OF assms(1)])
next
  case (Server_InteractionRequest env)
  then have "replica_apply_interaction st env = (r, st')" using assms(2) by simp
  then show ?thesis
    unfolding replica_apply_interaction_def
    by (rule settle_keyed [OF assms(1)]) (auto dest!: locate_snapshot_keyed [OF assms(1)])
qed (use assms in auto)

subsection \<open>The transcript of a streamed message\<close>

definition keep_last :: "nat \<Rightarrow> 'a list \<Rightarrow> 'a list" where
  "keep_last n xs = drop (length xs - n) xs"

lemma keep_last_append: "keep_last n (keep_last n xs @ ys) = keep_last n (xs @ ys)"
proof (cases "length xs \<le> n")
  case False
  then have "length xs - n + length ys = length xs + length ys - n" by simp
  then have "drop (length ys) (drop (length xs - n) xs @ ys) = drop (length xs + length ys - n) (xs @ ys)"
    using False by (simp add: add.commute [of "length ys"])
  then show ?thesis using False by (simp add: keep_last_def)
qed (simp add: keep_last_def)

lemma push_entries:
  assumes "length (tr_entries t) \<le> MAX_TRANSCRIPT_ENTRIES"
  shows "tr_entries (transcript_push q kind text t) =
    keep_last MAX_TRANSCRIPT_ENTRIES
      (tr_entries t @ [\<lparr>entry_sequence = q, entry_kind = kind, entry_text = text\<rparr>])"
  using assms
  by (cases "tr_entries t") (auto simp: transcript_push_def keep_last_def MAX_TRANSCRIPT_ENTRIES_def)

lemma push_partials [simp]:
  "tr_partial_assistant (transcript_push q kind text t) = tr_partial_assistant t"
  "tr_partial_thinking (transcript_push q kind text t) = tr_partial_thinking t"
  by (simp_all add: transcript_push_def)

fun streamed :: "session_event list \<Rightarrow> string \<times> string" where
  "streamed [] = ([], [])"
| "streamed (Event_MessageUpdate message (AssistantEvent_TextDelta index delta partial) # es) =
     apfst ((@) delta) (streamed es)"
| "streamed (Event_MessageUpdate message (AssistantEvent_ThinkingDelta index delta partial) # es) =
     apsnd ((@) delta) (streamed es)"
| "streamed (e # es) = streamed es"

text \<open>The transcript after a series of numbered events.\<close>

definition transcript_after ::
  "(json \<Rightarrow> string) \<Rightarrow> (event_sequence \<times> session_event) list \<Rightarrow> transcript \<Rightarrow> transcript" where
  "transcript_after show_json es t =
     fold (\<lambda>(q, e). transcript_apply show_json q (ServerMessage_SessionEvent e)) es t"

definition updates_message :: "session_event \<Rightarrow> bool" where
  "updates_message e \<longleftrightarrow> (case e of Event_MessageUpdate message update \<Rightarrow> True | _ \<Rightarrow> False)"

lemma stream_partials:
  assumes "\<forall>(q, e) \<in> set es. updates_message e"
    and "length (tr_partial_assistant t) + length (fst (streamed (map snd es))) \<le> MAX_PARTIAL_TEXT_BYTES"
    and "length (tr_partial_thinking t) + length (snd (streamed (map snd es))) \<le> MAX_PARTIAL_TEXT_BYTES"
  shows "transcript_after show_json es t =
    t\<lparr>tr_partial_assistant := tr_partial_assistant t @ fst (streamed (map snd es)),
      tr_partial_thinking := tr_partial_thinking t @ snd (streamed (map snd es))\<rparr>"
  using assms
proof (induction es arbitrary: t)
  case (Cons x es)
  obtain q message update where x: "x = (q, Event_MessageUpdate message update)"
    using Cons.prems(1) by (cases x) (auto simp: updates_message_def split: session_event.splits)
  show ?case
  proof (cases update)
    case (AssistantEvent_TextDelta index delta partial)
    let ?t = "t\<lparr>tr_partial_assistant := tr_partial_assistant t @ delta\<rparr>"
    have "transcript_apply show_json q (ServerMessage_SessionEvent (snd x)) t = ?t"
      using Cons.prems(2)
      by (simp add: x AssistantEvent_TextDelta transcript_apply_def transcript_session_event_def
          append_bounded_fits apfst_def map_prod_def split: prod.splits)
    then show ?thesis
      using Cons.IH [of ?t] Cons.prems
      by (simp add: transcript_after_def x AssistantEvent_TextDelta)
  next
    case (AssistantEvent_ThinkingDelta index delta partial)
    let ?t = "t\<lparr>tr_partial_thinking := tr_partial_thinking t @ delta\<rparr>"
    have "transcript_apply show_json q (ServerMessage_SessionEvent (snd x)) t = ?t"
      using Cons.prems(3)
      by (simp add: x AssistantEvent_ThinkingDelta transcript_apply_def transcript_session_event_def
          append_bounded_fits split: prod.splits)
    then show ?thesis
      using Cons.IH [of ?t] Cons.prems
      by (simp add: transcript_after_def x AssistantEvent_ThinkingDelta)
  qed (use Cons in \<open>simp_all add: transcript_after_def x transcript_apply_def transcript_session_event_def\<close>)
qed (simp add: transcript_after_def)

definition entry :: "event_sequence \<Rightarrow> transcript_kind \<Rightarrow> string \<Rightarrow> transcript_entry list" where
  "entry q kind text =
     (if text = [] then [] else [\<lparr>entry_sequence = q, entry_kind = kind, entry_text = text\<rparr>])"

lemma push_keeps_last:
  assumes "tr_entries t = keep_last MAX_TRANSCRIPT_ENTRIES es" "text \<noteq> []"
  shows "tr_entries (transcript_push q kind text t) = keep_last MAX_TRANSCRIPT_ENTRIES (es @ entry q kind text)"
proof -
  have "length (tr_entries t) \<le> MAX_TRANSCRIPT_ENTRIES" using assms(1) by (simp add: keep_last_def)
  then show ?thesis using assms by (simp add: push_entries keep_last_append entry_def)
qed

lemma keep_last_all: "length es \<le> n \<Longrightarrow> keep_last n es = es"
  by (simp add: keep_last_def)

lemma push_other [simp]: "(transcript_push q kind text t)\<lparr>tr_partial_assistant := []\<rparr> =
    transcript_push q kind text (t\<lparr>tr_partial_assistant := []\<rparr>)"
  by (simp add: transcript_push_def)

lemma clear_partial [simp]: "tr_partial_assistant t = [] \<Longrightarrow> t\<lparr>tr_partial_assistant := []\<rparr> = t"
  by (cases t) simp

lemma end_message_entries:
  fixes q message t
  defines "text \<equiv> (if tr_partial_assistant t = [] then render_agent_message message else tr_partial_assistant t)"
  assumes "length (tr_entries t) \<le> MAX_TRANSCRIPT_ENTRIES"
  shows "tr_entries (end_assistant_message q message t) =
      keep_last MAX_TRANSCRIPT_ENTRIES
        (tr_entries t @ entry q Transcript_Thinking (tr_partial_thinking t) @ entry q Transcript_Assistant text)"
    and "tr_partial_assistant (end_assistant_message q message t) = []"
    and "tr_partial_thinking (end_assistant_message q message t) = []"
proof -
  define u where "u = (if tr_partial_thinking t = [] then t
    else transcript_push q Transcript_Thinking (tr_partial_thinking t) (t\<lparr>tr_partial_thinking := []\<rparr>))"
  have u: "tr_entries u = keep_last MAX_TRANSCRIPT_ENTRIES
      (tr_entries t @ entry q Transcript_Thinking (tr_partial_thinking t))"
    using push_keeps_last [of "t\<lparr>tr_partial_thinking := []\<rparr>" "tr_entries t"] assms(2)
    by (simp add: u_def entry_def keep_last_all)
  have partials: "tr_partial_thinking u = []" "tr_partial_assistant u = tr_partial_assistant t"
    by (simp_all add: u_def)
  have "end_assistant_message q message t =
      (if text = [] then u\<lparr>tr_partial_assistant := []\<rparr>
       else transcript_push q Transcript_Assistant text (u\<lparr>tr_partial_assistant := []\<rparr>))"
    using partials by (auto simp: end_assistant_message_def Let_def u_def text_def)
  then show "tr_entries (end_assistant_message q message t) =
      keep_last MAX_TRANSCRIPT_ENTRIES
        (tr_entries t @ entry q Transcript_Thinking (tr_partial_thinking t) @ entry q Transcript_Assistant text)"
    "tr_partial_assistant (end_assistant_message q message t) = []"
    "tr_partial_thinking (end_assistant_message q message t) = []"
    using push_keeps_last [of "u\<lparr>tr_partial_assistant := []\<rparr>"] u partials
    by (simp_all add: entry_def)
qed



subsection \<open>What is shown of the agents\<close>

text \<open>
  A client's state, the events it has announced and that are not handled yet, and the model: frames
  change the state and announce events, which are handled in order with the state of that moment.
\<close>

fun effect_event :: "replication_effect \<Rightarrow> client_event" where
  "effect_event (Effect_StateChanged a) = CEvent_StateChanged a"
| "effect_event (Effect_Event env) = CEvent_AgentEvent env"
| "effect_event (Effect_Interaction i) = CEvent_InteractionRequest i"
| "effect_event (Effect_ResyncRequired a) = CEvent_ResyncRequired a"

inductive following :: "(json \<Rightarrow> string) \<Rightarrow> client_event list \<Rightarrow> replicated_state \<Rightarrow> app_model \<Rightarrow> bool"
  for show_json where
  start: "following show_json [] replica_default m"
| accept: "following show_json events st m \<Longrightarrow> replica_apply st frame = (Inr effects, st') \<Longrightarrow>
     following show_json (events @ map effect_event effects) st' m"
| reject: "following show_json events st m \<Longrightarrow> replica_apply st frame = (Inl e, st') \<Longrightarrow>
     following show_json (events @ [CEvent_ReplicationError e]) st' m"
| handle: "following show_json (event # events) st m \<Longrightarrow>
     following show_json events st (apply_client_event show_json event st m)"

definition shows_agent :: "app_model \<Rightarrow> replicated_state \<Rightarrow> agent_id \<Rightarrow> bool" where
  "shows_agent m st a \<longleftrightarrow> (\<forall>s. replica_agent st a = Some s \<longrightarrow>
     (\<exists>shown. bmap_get (app_agents m) a = Some shown \<and>
        shown\<lparr>snap_event_sequence := snap_event_sequence s\<rparr> = s))"

lemma shows_agent_same:
  "shows_agent m st a \<Longrightarrow> replica_agent st' a = replica_agent st a \<Longrightarrow> shows_agent m st' a"
  by (simp add: shows_agent_def)

text \<open>A frame announces each change of a snapshot other than of its sequence.\<close>

lemma settle_agents:
  "settle st b effect result = (r, st') \<Longrightarrow>
     replica_agent st' a =
       (case result of Inl e \<Rightarrow> replica_agent st a
        | Inr s \<Rightarrow> if a = b then Some s else replica_agent st a)"
  by (auto simp: settle_def replica_agent_def bmap_simps split: sum.splits)

lemma settle_effects: "settle st b effect result = (Inr effects, st') \<Longrightarrow> effects = [effect]"
  by (auto simp: settle_def split: sum.splits)

lemma settle_rejects: "settle st b effect result = (Inl e, st') \<Longrightarrow> replica_agent st' a = replica_agent st a"
  by (auto simp: settle_def replica_agent_def split: sum.splits)

lemma settle_sequence:
  assumes "settle st b effect (rbind (locate_snapshot st b) (\<lambda>s.
      rbind (f s) (\<lambda>_. Inr (s\<lparr>snap_event_sequence := q\<rparr>)))) = (Inr effects, st')"
    and "shows_agent m st a"
  shows "shows_agent m st' a"
proof (cases "a = b")
  case True
  then obtain s where s: "replica_agent st a = Some s" "replica_agent st' a = Some (s\<lparr>snap_event_sequence := q\<rparr>)"
    using assms(1)
    by (auto simp: settle_def locate_snapshot_def replica_agent_def bmap_simps split: sum.splits if_splits)
  with assms(2) obtain shown where shown: "bmap_get (app_agents m) a = Some shown"
    "shown\<lparr>snap_event_sequence := snap_event_sequence s\<rparr> = s" by (auto simp: shows_agent_def)
  have "shown\<lparr>snap_event_sequence := q\<rparr> =
      (shown\<lparr>snap_event_sequence := snap_event_sequence s\<rparr>)\<lparr>snap_event_sequence := q\<rparr>" by simp
  then show ?thesis using s shown by (simp add: shows_agent_def)
next
  case False
  then show ?thesis
    using shows_agent_same [OF assms(2)] settle_agents [OF assms(1), of a] by (simp split: sum.splits)
qed

lemma apply_snapshot_shows:
  assumes "replica_apply_snapshot st ss = (effects, st')" "Effect_StateChanged a \<notin> set effects"
  shows "replica_agent st' a = replica_agent st a"
  using assms
  by (induction st ss arbitrary: effects rule: replica_apply_snapshot.induct)
    (auto simp: replica_agent_def Let_def bmap_simps split: prod.splits)

lemma accepted_shows:
  assumes "replica_apply st frame = (Inr effects, st')" "Effect_StateChanged a \<notin> set effects" "shows_agent m st a"
  shows "shows_agent m st' a"
proof (cases frame)
  case (Server_Snapshot ss)
  then show ?thesis
    using assms apply_snapshot_shows [of st ss _ st' a] by (auto intro: shows_agent_same split: prod.splits)
next
  case (Server_Delta env)
  let ?b = "delta_agent_id (denv_delta env)"
  from Server_Delta assms(1) obtain result where settled: "settle st ?b (Effect_StateChanged ?b) result = (Inr effects, st')"
    by (auto simp: replica_apply_delta_def Let_def)
  then have "a \<noteq> ?b" using assms(2) settle_effects [OF settled] by auto
  then show ?thesis using shows_agent_same [OF assms(3)] settle_agents [OF settled, of a] by (simp split: sum.splits)
next
  case (Server_Event env)
  then show ?thesis using assms settle_sequence by (auto simp: replica_apply_event_def)
next
  case (Server_InteractionRequest env)
  then show ?thesis using assms settle_sequence by (auto simp: replica_apply_interaction_def)
next
  case (Server_ReplayGap gap)
  then show ?thesis using assms by (auto intro: shows_agent_same simp: replica_agent_def)
qed (use assms in auto)

lemma rejected_shows:
  assumes "replica_apply st frame = (Inl e, st')"
  shows "replica_agent st' a = replica_agent st a"
  using assms settle_rejects
  by (cases frame) (auto simp: replica_apply_delta_def replica_apply_event_def replica_apply_interaction_def
      Let_def split: prod.splits)

lemma handled_shows:
  assumes "shows_agent m st a \<or> event = CEvent_StateChanged a"
  shows "shows_agent (apply_client_event show_json event st m) st a"
proof (cases event)
  case (CEvent_StateChanged b)
  then show ?thesis
    using assms by (auto simp: shows_agent_def put_agent_def bmap_simps split: option.splits)
next
  case (CEvent_ConnectionChanged status)
  then show ?thesis using assms by (cases status) (simp_all add: shows_agent_def Let_def)
qed (use assms in \<open>simp_all add: shows_agent_def apply_agent_event_def Let_def\<close>)

lemma following_shows:
  "following show_json events st m \<Longrightarrow> CEvent_StateChanged a \<notin> set events \<Longrightarrow> shows_agent m st a"
proof (induction rule: following.induct)
  case (start m)
  then show ?case by (simp add: shows_agent_def replica_agent_def replica_default_def)
next
  case (accept events st m frame effects st')
  then have "Effect_StateChanged a \<notin> set effects" by (force simp: image_iff)
  then show ?case using accept accepted_shows by auto
next
  case (reject events st m frame e st')
  then show ?case using shows_agent_same rejected_shows by auto
next
  case (handle event events st m)
  then show ?case by (auto intro: handled_shows)
qed



end
