(* ===== verification/Rpc_Wire.thy ===== *)
theory Rpc_Wire
  imports Rpc_Decoder
begin

section \<open>Hand-written representations of RPC data\<close>

text \<open>
  \<open>crates/omp-rpc/src/\<close>\<open>{types,message,ui,response}.rs\<close>: the \<open>Serialize\<close> and \<open>Deserialize\<close> implementations
  that the source writes itself. They go through private structs whose own representation is
  derived; such a struct is modelled by its fields, \<open>None\<close> for a field that is absent. An untagged
  enum takes the first of its variants whose fields are all there.
\<close>

subsection \<open>The protocol version (types.rs)\<close>

definition protocol_v2_to_u8 :: "protocol_v2 \<Rightarrow> 8 word" where
  "protocol_v2_to_u8 v = 2"

text \<open>The error names the value that was unexpected and what was expected.\<close>

definition protocol_v2_of_u8 :: "8 word \<Rightarrow> string + protocol_v2" where
  "protocol_v2_of_u8 n =
     (if n = 2 then Inr ProtocolV2
      else Inl (''invalid value: integer `'' @ show_word n @ ''`, expected OMP RPC protocol version 2''))"

lemma protocol_v2_reads_back: "protocol_v2_of_u8 n = Inr v \<longleftrightarrow> n = protocol_v2_to_u8 v"
  by (cases v) (simp add: protocol_v2_of_u8_def protocol_v2_to_u8_def)

subsection \<open>Contents (message.rs)\<close>

datatype content_type = ContentType_Text | ContentType_Image

record text_content_wire =
  tcw_kind :: content_type
  tcw_text :: string
  tcw_text_signature :: "string option"

record image_content_wire =
  icw_kind :: content_type
  icw_data :: string
  icw_mime_type :: string
  icw_detail :: "image_detail option"

definition text_to_wire :: "text_content \<Rightarrow> text_content_wire" where
  "text_to_wire t = \<lparr>tcw_kind = ContentType_Text, tcw_text = tx_text t,
     tcw_text_signature = tx_text_signature t\<rparr>"

definition text_of_wire :: "text_content_wire \<Rightarrow> string + text_content" where
  "text_of_wire w =
     (if tcw_kind w \<noteq> ContentType_Text then Inl ''text content must have type text''
      else Inr \<lparr>tx_text = tcw_text w, tx_text_signature = tcw_text_signature w\<rparr>)"

definition image_to_wire :: "image_content \<Rightarrow> image_content_wire" where
  "image_to_wire i = \<lparr>icw_kind = ContentType_Image, icw_data = img_data i,
     icw_mime_type = img_mime_type i, icw_detail = img_detail i\<rparr>"

definition image_of_wire :: "image_content_wire \<Rightarrow> string + image_content" where
  "image_of_wire w =
     (if icw_kind w \<noteq> ContentType_Image then Inl ''image content must have type image''
      else Inr \<lparr>img_data = icw_data w, img_mime_type = icw_mime_type w, img_detail = icw_detail w\<rparr>)"

lemma text_reads_back: "text_of_wire w = Inr t \<longleftrightarrow> w = text_to_wire t"
  by (cases w; cases t) (auto simp: text_of_wire_def text_to_wire_def)

lemma image_reads_back: "image_of_wire w = Inr i \<longleftrightarrow> w = image_to_wire i"
  by (cases w; cases i) (auto simp: image_of_wire_def image_to_wire_def)

subsection \<open>Answers to dialogs (ui.rs)\<close>

record ui_response_fields =
  urf_value :: "string option"
  urf_confirmed :: "bool option"
  urf_cancelled :: "bool option"
  urf_timed_out :: "bool option"

datatype ui_response_wire =
    UiWire_Value string
  | UiWire_Confirmed bool
  | UiWire_Cancelled bool "bool option"

definition ui_response_wire_of :: "ui_response_fields \<Rightarrow> ui_response_wire option" where
  "ui_response_wire_of f =
     (case urf_value f of
        Some text \<Rightarrow> Some (UiWire_Value text)
      | None \<Rightarrow>
          (case urf_confirmed f of
             Some b \<Rightarrow> Some (UiWire_Confirmed b)
           | None \<Rightarrow> map_option (\<lambda>c. UiWire_Cancelled c (urf_timed_out f)) (urf_cancelled f)))"

fun ui_response_to_fields :: "extension_ui_response \<Rightarrow> ui_response_fields" where
  "ui_response_to_fields (UiResponse_Value text) =
     \<lparr>urf_value = Some text, urf_confirmed = None, urf_cancelled = None, urf_timed_out = None\<rparr>"
| "ui_response_to_fields (UiResponse_Confirmed b) =
     \<lparr>urf_value = None, urf_confirmed = Some b, urf_cancelled = None, urf_timed_out = None\<rparr>"
| "ui_response_to_fields (UiResponse_Cancelled timed_out) =
     \<lparr>urf_value = None, urf_confirmed = None, urf_cancelled = Some True, urf_timed_out = timed_out\<rparr>"

definition ui_response_of_fields :: "ui_response_fields \<Rightarrow> string + extension_ui_response" where
  "ui_response_of_fields f =
     (case ui_response_wire_of f of
        None \<Rightarrow> Inl ''data did not match any variant of untagged enum ExtensionUiResponseWire''
      | Some (UiWire_Value text) \<Rightarrow> Inr (UiResponse_Value text)
      | Some (UiWire_Confirmed b) \<Rightarrow> Inr (UiResponse_Confirmed b)
      | Some (UiWire_Cancelled cancelled timed_out) \<Rightarrow>
          (if cancelled then Inr (UiResponse_Cancelled timed_out)
           else Inl ''extension UI cancellation must set cancelled to true''))"

lemma ui_response_reads_back: "ui_response_of_fields (ui_response_to_fields r) = Inr r"
  by (cases r) (simp_all add: ui_response_of_fields_def ui_response_wire_of_def)

text \<open>An object never reads as a cancellation unless it is one and offers no other answer.\<close>

lemma ui_response_cancelled_iff:
  "ui_response_of_fields f = Inr (UiResponse_Cancelled timed_out) \<longleftrightarrow>
     f = ui_response_to_fields (UiResponse_Cancelled timed_out)"
  by (cases f) (auto simp: ui_response_of_fields_def ui_response_wire_of_def split: option.splits if_splits)

subsection \<open>Responses (response.rs)\<close>

fun success_command :: "success_response \<Rightarrow> string" where
  "success_command (Success_NegotiateProtocol v) = ''negotiate_protocol''"
| "success_command (Success_Prompt invoked) = ''prompt''"
| "success_command Success_Steer = ''steer''"
| "success_command Success_FollowUp = ''follow_up''"
| "success_command Success_Abort = ''abort''"
| "success_command Success_AbortAndPrompt = ''abort_and_prompt''"
| "success_command (Success_NewSession cancelled) = ''new_session''"
| "success_command (Success_GetState s) = ''get_state''"
| "success_command (Success_GetAvailableCommands cs) = ''get_available_commands''"
| "success_command (Success_SetTodos ts) = ''set_todos''"
| "success_command (Success_SetHostTools ts) = ''set_host_tools''"
| "success_command (Success_SetHostUriSchemes ss) = ''set_host_uri_schemes''"
| "success_command (Success_SetSubagentSubscription level) = ''set_subagent_subscription''"
| "success_command (Success_GetSubagents ss) = ''get_subagents''"
| "success_command (Success_GetSubagentMessages ms) = ''get_subagent_messages''"
| "success_command (Success_SetModel m) = ''set_model''"
| "success_command (Success_CycleModel m) = ''cycle_model''"
| "success_command (Success_GetAvailableModels ms) = ''get_available_models''"
| "success_command Success_SetThinkingLevel = ''set_thinking_level''"
| "success_command (Success_CycleThinkingLevel l) = ''cycle_thinking_level''"
| "success_command Success_SetSteeringMode = ''set_steering_mode''"
| "success_command Success_SetFollowUpMode = ''set_follow_up_mode''"
| "success_command Success_SetInterruptMode = ''set_interrupt_mode''"
| "success_command (Success_Compact r) = ''compact''"
| "success_command Success_SetAutoCompaction = ''set_auto_compaction''"
| "success_command Success_SetAutoRetry = ''set_auto_retry''"
| "success_command Success_AbortRetry = ''abort_retry''"
| "success_command (Success_Bash r) = ''bash''"
| "success_command Success_AbortBash = ''abort_bash''"
| "success_command (Success_GetSessionStats s) = ''get_session_stats''"
| "success_command (Success_ExportHtml path) = ''export_html''"
| "success_command (Success_SwitchSession cancelled) = ''switch_session''"
| "success_command (Success_Branch r) = ''branch''"
| "success_command (Success_GetBranchMessages ms) = ''get_branch_messages''"
| "success_command (Success_GetLastAssistantText text) = ''get_last_assistant_text''"
| "success_command Success_SetSessionName = ''set_session_name''"
| "success_command (Success_Handoff r) = ''handoff''"
| "success_command (Success_GetMessages ms) = ''get_messages''"
| "success_command (Success_GetMessagesPage p) = ''get_messages_page''"
| "success_command (Success_GetLoginProviders ps) = ''get_login_providers''"
| "success_command (Success_Login provider) = ''login''"

text \<open>
  What an object without data reads as: the commands that carry none, or may.
\<close>

definition bare_results :: "success_response list" where
  "bare_results =
     [Success_Prompt None, Success_Steer, Success_FollowUp, Success_Abort, Success_AbortAndPrompt,
      Success_CycleModel None, Success_SetThinkingLevel, Success_CycleThinkingLevel None,
      Success_SetSteeringMode, Success_SetFollowUpMode, Success_SetInterruptMode,
      Success_SetAutoCompaction, Success_SetAutoRetry, Success_AbortRetry, Success_AbortBash,
      Success_SetSessionName, Success_Handoff None]"

definition bare_result :: "string \<Rightarrow> success_response option" where
  "bare_result command = List.find (\<lambda>r. success_command r = command) bare_results"

text \<open>\<open>rsf_result\<close> is what the fields of the flattened result read as, if they do.\<close>

record response_fields =
  rsf_id :: "rpc_request_id option"
  rsf_command :: "string option"
  rsf_success :: "bool option"
  rsf_error :: "string option"
  rsf_code :: "string option"
  rsf_result :: "success_response option"

datatype (plugins only: code) response_wire =
    Wire_Error "rpc_request_id option" string bool string "string option"
  | Wire_Success "rpc_request_id option" bool success_response

definition response_wire_of :: "response_fields \<Rightarrow> response_wire option" where
  "response_wire_of f =
     (case (rsf_command f, rsf_success f, rsf_error f) of
        (Some command, Some success, Some error) \<Rightarrow>
          Some (Wire_Error (rsf_id f) command success error (rsf_code f))
      | _ \<Rightarrow>
          (case (rsf_success f, rsf_result f) of
             (Some success, Some result) \<Rightarrow> Some (Wire_Success (rsf_id f) success result)
           | _ \<Rightarrow> None))"

fun response_to_fields :: "rpc_response \<Rightarrow> response_fields" where
  "response_to_fields (RpcResponse_Success i result) =
     \<lparr>rsf_id = i, rsf_command = Some (success_command result), rsf_success = Some True,
      rsf_error = None, rsf_code = None, rsf_result = Some result\<rparr>"
| "response_to_fields (RpcResponse_Error i command error code) =
     \<lparr>rsf_id = i, rsf_command = Some command, rsf_success = Some False,
      rsf_error = Some error, rsf_code = code, rsf_result = bare_result command\<rparr>"

definition response_of_fields :: "response_fields \<Rightarrow> string + rpc_response" where
  "response_of_fields f =
     (case response_wire_of f of
        None \<Rightarrow> Inl ''data did not match any variant of untagged enum ResponseWire''
      | Some (Wire_Success i success result) \<Rightarrow>
          (if success then Inr (RpcResponse_Success i result)
           else Inl ''successful RPC response must set success to true'')
      | Some (Wire_Error i command success error code) \<Rightarrow>
          (if \<not> success then Inr (RpcResponse_Error i command error code)
           else Inl ''failed RPC response must set success to false''))"

lemma response_reads_back: "response_of_fields (response_to_fields r) = Inr r"
  by (cases r) (simp_all add: response_of_fields_def response_wire_of_def)

lemma response_error_iff:
  "response_of_fields f = Inr (RpcResponse_Error i command error code) \<longleftrightarrow>
     rsf_id f = i \<and> rsf_command f = Some command \<and> rsf_success f = Some False \<and>
     rsf_error f = Some error \<and> rsf_code f = code"
  by (auto simp: response_of_fields_def response_wire_of_def split: option.splits if_splits)

lemma response_success_iff:
  "response_of_fields f = Inr (RpcResponse_Success i result) \<longleftrightarrow>
     rsf_id f = i \<and> rsf_success f = Some True \<and> rsf_result f = Some result \<and>
     (rsf_command f = None \<or> rsf_error f = None)"
  by (auto simp: response_of_fields_def response_wire_of_def split: option.splits if_splits)


end
